(* ===== verification/Prelude.thy ===== *)
theory Prelude
  imports Main "HOL-Library.Word"
begin

text \<open>
  What every component shares: the machine types, the configuration a build of the library is
  compiled for, Rust results with panics, checked and wrapping arithmetic, byte lists read and
  overwritten at an offset, and the little-endian byte representation of words.  The lemmas on
  \<open>slice_at\<close>, \<open>overwrite\<close> and \<open>le_bytes\<close> carry the memory proofs of the other theories.
\<close>

unbundle bit_operations_syntax

named_theorems wasi_const "the numeric value of a named WASI constant"
named_theorems layout_simps "size, alignment and byte functions of a guest type"
named_theorems handler_simps "how a hostcall's result is finished"

section \<open>Machine types\<close>

type_synonym u8 = "8 word"
type_synonym u16 = "16 word"
type_synonym u32 = "32 word"
type_synonym u64 = "64 word"
type_synonym i64 = "64 word"
type_synonym usize = nat
type_synonym bytes = "u8 list"

text \<open>
  What depends on the build and not on the source text: the byte order and the pointer width of
  the host, whether overflow checks are compiled in (debug builds panic where release builds wrap),
  whether the \<^verbatim>\<open>log::trace!\<close> arguments are evaluated, and the byte found in the padding the
  compiler itself inserts into a \<^verbatim>\<open>repr(C)\<close> struct (its value is unspecified in Rust).
\<close>

record target =
  big_endian :: bool
  usize_bits :: nat
  overflow_checks :: bool
  trace_enabled :: bool
  pad_byte :: u8

text \<open>A host the crate supports has pointers of at least 32 bits.\<close>

definition supported :: "target \<Rightarrow> bool" where
  "supported tgt \<longleftrightarrow> 32 \<le> usize_bits tgt"

section \<open>Results\<close>

text \<open>
  \<^verbatim>\<open>Result<T, __wasi_errno_t>\<close> of the source, with a third outcome for a panic (an
  \<^verbatim>\<open>unwrap\<close> of \<^verbatim>\<open>None\<close>, an index out of range, an arithmetic overflow of a debug build).
\<close>

datatype 'a res = Ok 'a | Err u16 | Panic

fun and_then :: "'a res \<Rightarrow> ('a \<Rightarrow> 'b res) \<Rightarrow> 'b res" where
  "and_then (Ok x) f = f x"
| "and_then (Err e) f = Err e"
| "and_then Panic f = Panic"

fun map_ok :: "('a \<Rightarrow> 'b) \<Rightarrow> 'a res \<Rightarrow> 'b res" where
  "map_ok f (Ok x) = Ok (f x)"
| "map_ok f (Err e) = Err e"
| "map_ok f Panic = Panic"

fun ok_or :: "'a option \<Rightarrow> u16 \<Rightarrow> 'a res" where
  "ok_or (Some x) e = Ok x"
| "ok_or None e = Err e"

fun unwrap :: "'a option \<Rightarrow> 'a res" where
  "unwrap (Some x) = Ok x"
| "unwrap None = Panic"

text \<open>\<^verbatim>\<open>iter().map(f).collect::<Result<Vec<_>, _>>()\<close>: stops at the first failure.\<close>

fun collect_res :: "('a \<Rightarrow> 'b res) \<Rightarrow> 'a list \<Rightarrow> 'b list res" where
  "collect_res f [] = Ok []"
| "collect_res f (x # xs) = and_then (f x) (\<lambda>y. map_ok ((#) y) (collect_res f xs))"

lemma and_then_Ok_iff: "and_then r f = Ok y \<longleftrightarrow> (\<exists>x. r = Ok x \<and> f x = Ok y)"
  by (cases r) auto

lemma map_ok_Ok_iff: "map_ok f r = Ok y \<longleftrightarrow> (\<exists>x. r = Ok x \<and> y = f x)"
  by (cases r) auto

lemma map_ok_Panic_iff [simp]: "map_ok f r = Panic \<longleftrightarrow> r = Panic"
  by (cases r) auto

lemma map_ok_Err_iff [simp]: "map_ok f r = Err e \<longleftrightarrow> r = Err e"
  by (cases r) auto

lemma and_then_Panic_iff:
  "and_then r f = Panic \<longleftrightarrow> r = Panic \<or> (\<exists>x. r = Ok x \<and> f x = Panic)"
  by (cases r) auto

lemma ok_or_Ok_iff [simp]: "ok_or m e = Ok x \<longleftrightarrow> m = Some x"
  by (cases m) auto

lemma ok_or_not_Panic [simp]: "ok_or m e \<noteq> Panic"
  by (cases m) auto

lemma collect_res_Ok_iff:
  "collect_res f xs = Ok ys \<longleftrightarrow> list_all2 (\<lambda>x y. f x = Ok y) xs ys"
proof (induction xs arbitrary: ys)
  case Nil
  then show ?case by auto
next
  case (Cons x xs)
  then show ?case
    by (cases ys) (auto simp: and_then_Ok_iff map_ok_Ok_iff)
qed

lemma collect_res_not_Panic:
  "(\<And>x. x \<in> set xs \<Longrightarrow> f x \<noteq> Panic) \<Longrightarrow> collect_res f xs \<noteq> Panic"
  by (induction xs) (auto simp: and_then_Panic_iff)

lemma collect_res_length: "collect_res f xs = Ok ys \<Longrightarrow> length ys = length xs"
  by (auto simp: collect_res_Ok_iff dest: list_all2_lengthD)

section \<open>Checked and wrapping arithmetic\<close>

definition checked_add :: "'a::len word \<Rightarrow> 'a word \<Rightarrow> 'a word option" where
  "checked_add a b = (if unat a + unat b < 2 ^ LENGTH('a) then Some (a + b) else None)"

definition checked_mul :: "'a::len word \<Rightarrow> 'a word \<Rightarrow> 'a word option" where
  "checked_mul a b = (if unat a * unat b < 2 ^ LENGTH('a) then Some (a * b) else None)"

text \<open>The plain \<^verbatim>\<open>+\<close> of the source on unsigned integers.\<close>

definition plain_add :: "target \<Rightarrow> 'a::len word \<Rightarrow> 'a word \<Rightarrow> 'a word res" where
  "plain_add tgt a b =
     (if unat a + unat b < 2 ^ LENGTH('a) \<or> \<not> overflow_checks tgt then Ok (a + b) else Panic)"

definition usize_checked_add :: "target \<Rightarrow> usize \<Rightarrow> usize \<Rightarrow> usize option" where
  "usize_checked_add tgt a b = (if a + b < 2 ^ usize_bits tgt then Some (a + b) else None)"

definition usize_checked_mul :: "target \<Rightarrow> usize \<Rightarrow> usize \<Rightarrow> usize option" where
  "usize_checked_mul tgt a b = (if a * b < 2 ^ usize_bits tgt then Some (a * b) else None)"

definition u32_try_from :: "usize \<Rightarrow> u32 option" where
  "u32_try_from n = (if n < 2 ^ 32 then Some (of_nat n) else None)"

definition usize_try_from :: "target \<Rightarrow> u32 \<Rightarrow> usize option" where
  "usize_try_from tgt x = (if unat x < 2 ^ usize_bits tgt then Some (unat x) else None)"

lemma checked_add_SomeD:
  fixes a b :: "'a::len word"
  shows "checked_add a b = Some c \<Longrightarrow> unat c = unat a + unat b"
  by (auto simp: checked_add_def unat_word_ariths split: if_splits)

lemma checked_mul_SomeD:
  fixes a b :: "'a::len word"
  shows "checked_mul a b = Some c \<Longrightarrow> unat c = unat a * unat b"
  by (auto simp: checked_mul_def unat_word_ariths split: if_splits)

lemma unat_bound: "unat (x :: 'a::len word) < 2 ^ LENGTH('a)"
  by (rule unsigned_less)

lemma u32_try_from_unat [simp]: "u32_try_from (unat (x :: u32)) = Some x"
  using unat_bound [of x] by (simp add: u32_try_from_def)

lemma unat_lt_usize: "supported tgt \<Longrightarrow> unat (x :: u32) < 2 ^ usize_bits tgt"
proof -
  assume "supported tgt"
  then have "(2::nat) ^ 32 \<le> 2 ^ usize_bits tgt"
    unfolding supported_def by (rule power_increasing) simp
  moreover have "unat x < 2 ^ 32" using unat_bound [of x] by simp
  ultimately show ?thesis by linarith
qed

lemma usize_try_from_supported [simp]:
  "supported tgt \<Longrightarrow> usize_try_from tgt x = Some (unat x)"
  by (simp add: usize_try_from_def unat_lt_usize)

section \<open>Byte lists at an offset\<close>

definition slice_at :: "'a list \<Rightarrow> nat \<Rightarrow> nat \<Rightarrow> 'a list" where
  "slice_at m a n = take n (drop a m)"

definition overwrite :: "'a list \<Rightarrow> nat \<Rightarrow> 'a list \<Rightarrow> 'a list" where
  "overwrite m a xs = take a m @ xs @ drop (a + length xs) m"

lemma length_slice_at [simp]: "a + n \<le> length m \<Longrightarrow> length (slice_at m a n) = n"
  by (simp add: slice_at_def)

lemma length_overwrite [simp]: "a + length xs \<le> length m \<Longrightarrow> length (overwrite m a xs) = length m"
  by (simp add: overwrite_def)

lemma nth_slice_at: "i < n \<Longrightarrow> a + n \<le> length m \<Longrightarrow> slice_at m a n ! i = m ! (a + i)"
  by (simp add: slice_at_def)

lemma nth_overwrite:
  assumes "a + length xs \<le> length m" "i < length m"
  shows "overwrite m a xs ! i = (if a \<le> i \<and> i < a + length xs then xs ! (i - a) else m ! i)"
proof -
  consider "i < a" | "a \<le> i" "i < a + length xs" | "a + length xs \<le> i" by linarith
  then show ?thesis
    using assms by cases (auto simp: overwrite_def nth_append)
qed

lemma slice_overwrite_same [simp]:
  "a + length xs \<le> length m \<Longrightarrow> slice_at (overwrite m a xs) a (length xs) = xs"
  by (simp add: slice_at_def overwrite_def)

lemma slice_overwrite_same' [simp]:
  "a + length xs \<le> length m \<Longrightarrow> n = length xs \<Longrightarrow> slice_at (overwrite m a xs) a n = xs"
  by simp

lemma slice_overwrite_disjoint:
  assumes "a + length xs \<le> length m" "b + n \<le> length m" "b + n \<le> a \<or> a + length xs \<le> b"
  shows "slice_at (overwrite m a xs) b n = slice_at m b n"
  using assms by (intro nth_equalityI) (auto simp: nth_slice_at nth_overwrite)

lemma slice_overwrite_inside:
  assumes "a + length xs \<le> length m" "k + n \<le> length xs"
  shows "slice_at (overwrite m a xs) (a + k) n = slice_at xs k n"
  using assms by (intro nth_equalityI) (auto simp: nth_slice_at nth_overwrite)

lemma overwrite_Nil [simp]: "overwrite m a [] = m"
  by (simp add: overwrite_def)

lemma slice_at_0 [simp]: "slice_at m a 0 = []"
  by (simp add: slice_at_def)

lemma slice_at_append:
  "a + n + k \<le> length m \<Longrightarrow> slice_at m a (n + k) = slice_at m a n @ slice_at m (a + n) k"
  by (simp add: slice_at_def take_add add.commute [of n a])

lemma slice_at_all [simp]: "slice_at m 0 (length m) = m"
  by (simp add: slice_at_def)

lemma overwrite_append:
  assumes "a + length xs + length ys \<le> length m"
  shows "overwrite m a (xs @ ys) = overwrite (overwrite m a xs) (a + length xs) ys"
  using assms by (intro nth_equalityI) (auto simp: nth_overwrite nth_append)

section \<open>Words as little-endian bytes\<close>

fun le_bytes :: "nat \<Rightarrow> 'a::len word \<Rightarrow> bytes" where
  "le_bytes 0 x = []"
| "le_bytes (Suc n) x = ucast x # le_bytes n (drop_bit 8 x)"

fun of_le :: "bytes \<Rightarrow> 'a::len word" where
  "of_le [] = 0"
| "of_le (b # bs) = ucast b OR push_bit 8 (of_le bs)"

text \<open>Unfolds a fixed width, for evaluation.\<close>

lemma le_bytes_numeral:
  "le_bytes (numeral k) x = ucast x # le_bytes (pred_numeral k) (drop_bit 8 x)"
  by (simp add: numeral_eq_Suc)

lemma length_le_bytes [simp]: "length (le_bytes n x) = n"
  by (induction n arbitrary: x) auto

lemma of_le_le_bytes_bits:
  fixes x :: "'a::len word"
  shows "(of_le (le_bytes n x) :: 'a word) = take_bit (8 * n) x"
proof (induction n arbitrary: x)
  case 0
  then show ?case by simp
next
  case (Suc n)
  show ?case
  proof (rule bit_word_eqI)
    fix i assume i: "i < LENGTH('a)"
    show "bit (of_le (le_bytes (Suc n) x) :: 'a word) i \<longleftrightarrow> bit (take_bit (8 * Suc n) x) i"
      using i by (cases "i < 8")
        (auto simp: Suc.IH bit_simps not_less)
  qed
qed

lemma of_le_le_bytes [simp]:
  fixes x :: "'a::len word"
  assumes "LENGTH('a) \<le> 8 * n"
  shows "(of_le (le_bytes n x) :: 'a word) = x"
  using assms by (simp add: of_le_le_bytes_bits take_bit_word_eq_self)

lemma drop_bit_of_le:
  fixes bs :: bytes
  assumes "8 * Suc (length bs) \<le> LENGTH('a)"
  shows "drop_bit 8 (of_le (b # bs) :: 'a::len word) = of_le bs"
proof (rule bit_word_eqI)
  have of_le_bound: "\<not> bit (of_le bs :: 'a word) i" if "8 * length bs \<le> i" for i
    using that
  proof (induction bs arbitrary: i)
    case Nil
    then show ?case by simp
  next
    case (Cons c cs)
    then show ?case by (auto simp: bit_simps dest: bit_imp_le_length)
  qed
  fix i assume "i < LENGTH('a)"
  then show "bit (drop_bit 8 (of_le (b # bs) :: 'a word)) i \<longleftrightarrow> bit (of_le bs :: 'a word) i"
    using assms of_le_bound by (auto simp: bit_simps not_less dest: bit_imp_le_length)
qed

lemma le_bytes_of_le [simp]:
  assumes "8 * n \<le> LENGTH('a)" "length bs = n"
  shows "le_bytes n (of_le bs :: 'a::len word) = bs"
  using assms
proof (induction bs arbitrary: n)
  case Nil
  then show ?case by simp
next
  case (Cons b bs)
  obtain k where n: "n = Suc k" "length bs = k" using Cons.prems by auto
  have "(ucast (of_le (b # bs) :: 'a word) :: u8) = b"
    using Cons.prems n by (intro bit_word_eqI) (auto simp: bit_simps)
  moreover have "drop_bit 8 (of_le (b # bs) :: 'a word) = of_le bs"
    using Cons.prems n by (intro drop_bit_of_le) simp
  ultimately show ?case using Cons.IH [of k] Cons.prems n by (simp del: of_le.simps)
qed

end
