(* ===== verification/Wasi_Types.thy ===== *)
theory Wasi_Types
  imports Prelude
begin

text \<open>
  The WASI types and constants of \<^verbatim>\<open>src/host.rs\<close> (the host's representation) and the structs of
  \<^verbatim>\<open>src/wasm32.rs\<close> (the guest's representation, suffix \<open>32\<close>).  The scalar types and the named
  constants are the same in both files.  A leading double underscore of a source name is dropped.
  A host pointer into guest memory is the offset of its target from the start of the memory.
\<close>

section \<open>Scalar types and constants\<close>

type_synonym wasi_advice_t = u8
type_synonym wasi_clockid_t = u32
type_synonym wasi_device_t = u64
type_synonym wasi_dircookie_t = u64
type_synonym wasi_errno_t = u16
type_synonym wasi_eventrwflags_t = u16
type_synonym wasi_eventtype_t = u8
type_synonym wasi_exitcode_t = u32
type_synonym wasi_fd_t = u32
type_synonym wasi_fdflags_t = u16
type_synonym wasi_filedelta_t = i64
type_synonym wasi_filesize_t = u64
type_synonym wasi_filetype_t = u8
type_synonym wasi_fstflags_t = u16
type_synonym wasi_inode_t = u64
type_synonym wasi_linkcount_t = u32
type_synonym wasi_lookupflags_t = u32
type_synonym wasi_oflags_t = u16
type_synonym wasi_riflags_t = u16
type_synonym wasi_rights_t = u64
type_synonym wasi_roflags_t = u16
type_synonym wasi_sdflags_t = u8
type_synonym wasi_siflags_t = u16
type_synonym wasi_signal_t = u8
type_synonym wasi_subclockflags_t = u16
type_synonym wasi_timestamp_t = u64
type_synonym wasi_userdata_t = u64
type_synonym wasi_whence_t = u8
type_synonym wasi_preopentype_t = u8

text \<open>Values of \<^verbatim>\<open>__wasi_advice_t\<close>.\<close>

definition WASI_ADVICE_NORMAL :: wasi_advice_t where [wasi_const]: "WASI_ADVICE_NORMAL = 0"
definition WASI_ADVICE_SEQUENTIAL :: wasi_advice_t where [wasi_const]: "WASI_ADVICE_SEQUENTIAL = 1"
definition WASI_ADVICE_RANDOM :: wasi_advice_t where [wasi_const]: "WASI_ADVICE_RANDOM = 2"
definition WASI_ADVICE_WILLNEED :: wasi_advice_t where [wasi_const]: "WASI_ADVICE_WILLNEED = 3"
definition WASI_ADVICE_DONTNEED :: wasi_advice_t where [wasi_const]: "WASI_ADVICE_DONTNEED = 4"
definition WASI_ADVICE_NOREUSE :: wasi_advice_t where [wasi_const]: "WASI_ADVICE_NOREUSE = 5"

text \<open>Values of \<^verbatim>\<open>__wasi_clockid_t\<close>.\<close>

definition WASI_CLOCK_REALTIME :: wasi_clockid_t where [wasi_const]: "WASI_CLOCK_REALTIME = 0"
definition WASI_CLOCK_MONOTONIC :: wasi_clockid_t where [wasi_const]: "WASI_CLOCK_MONOTONIC = 1"
definition WASI_CLOCK_PROCESS_CPUTIME_ID :: wasi_clockid_t where [wasi_const]:
  "WASI_CLOCK_PROCESS_CPUTIME_ID = 2"
definition WASI_CLOCK_THREAD_CPUTIME_ID :: wasi_clockid_t where [wasi_const]:
  "WASI_CLOCK_THREAD_CPUTIME_ID = 3"

text \<open>Values of \<^verbatim>\<open>__wasi_dircookie_t\<close>.\<close>

definition WASI_DIRCOOKIE_START :: wasi_dircookie_t where [wasi_const]: "WASI_DIRCOOKIE_START = 0"

text \<open>Values of \<^verbatim>\<open>__wasi_errno_t\<close>.\<close>

definition WASI_ESUCCESS :: wasi_errno_t where [wasi_const]: "WASI_ESUCCESS = 0"
definition WASI_E2BIG :: wasi_errno_t where [wasi_const]: "WASI_E2BIG = 1"
definition WASI_EACCES :: wasi_errno_t where [wasi_const]: "WASI_EACCES = 2"
definition WASI_EADDRINUSE :: wasi_errno_t where [wasi_const]: "WASI_EADDRINUSE = 3"
definition WASI_EADDRNOTAVAIL :: wasi_errno_t where [wasi_const]: "WASI_EADDRNOTAVAIL = 4"
definition WASI_EAFNOSUPPORT :: wasi_errno_t where [wasi_const]: "WASI_EAFNOSUPPORT = 5"
definition WASI_EAGAIN :: wasi_errno_t where [wasi_const]: "WASI_EAGAIN = 6"
definition WASI_EALREADY :: wasi_errno_t where [wasi_const]: "WASI_EALREADY = 7"
definition WASI_EBADF :: wasi_errno_t where [wasi_const]: "WASI_EBADF = 8"
definition WASI_EBADMSG :: wasi_errno_t where [wasi_const]: "WASI_EBADMSG = 9"
definition WASI_EBUSY :: wasi_errno_t where [wasi_const]: "WASI_EBUSY = 10"
definition WASI_ECANCELED :: wasi_errno_t where [wasi_const]: "WASI_ECANCELED = 11"
definition WASI_ECHILD :: wasi_errno_t where [wasi_const]: "WASI_ECHILD = 12"
definition WASI_ECONNABORTED :: wasi_errno_t where [wasi_const]: "WASI_ECONNABORTED = 13"
definition WASI_ECONNREFUSED :: wasi_errno_t where [wasi_const]: "WASI_ECONNREFUSED = 14"
definition WASI_ECONNRESET :: wasi_errno_t where [wasi_const]: "WASI_ECONNRESET = 15"
definition WASI_EDEADLK :: wasi_errno_t where [wasi_const]: "WASI_EDEADLK = 16"
definition WASI_EDESTADDRREQ :: wasi_errno_t where [wasi_const]: "WASI_EDESTADDRREQ = 17"
definition WASI_EDOM :: wasi_errno_t where [wasi_const]: "WASI_EDOM = 18"
definition WASI_EDQUOT :: wasi_errno_t where [wasi_const]: "WASI_EDQUOT = 19"
definition WASI_EEXIST :: wasi_errno_t where [wasi_const]: "WASI_EEXIST = 20"
definition WASI_EFAULT :: wasi_errno_t where [wasi_const]: "WASI_EFAULT = 21"
definition WASI_EFBIG :: wasi_errno_t where [wasi_const]: "WASI_EFBIG = 22"
definition WASI_EHOSTUNREACH :: wasi_errno_t where [wasi_const]: "WASI_EHOSTUNREACH = 23"
definition WASI_EIDRM :: wasi_errno_t where [wasi_const]: "WASI_EIDRM = 24"
definition WASI_EILSEQ :: wasi_errno_t where [wasi_const]: "WASI_EILSEQ = 25"
definition WASI_EINPROGRESS :: wasi_errno_t where [wasi_const]: "WASI_EINPROGRESS = 26"
definition WASI_EINTR :: wasi_errno_t where [wasi_const]: "WASI_EINTR = 27"
definition WASI_EINVAL :: wasi_errno_t where [wasi_const]: "WASI_EINVAL = 28"
definition WASI_EIO :: wasi_errno_t where [wasi_const]: "WASI_EIO = 29"
definition WASI_EISCONN :: wasi_errno_t where [wasi_const]: "WASI_EISCONN = 30"
definition WASI_EISDIR :: wasi_errno_t where [wasi_const]: "WASI_EISDIR = 31"
definition WASI_ELOOP :: wasi_errno_t where [wasi_const]: "WASI_ELOOP = 32"
definition WASI_EMFILE :: wasi_errno_t where [wasi_const]: "WASI_EMFILE = 33"
definition WASI_EMLINK :: wasi_errno_t where [wasi_const]: "WASI_EMLINK = 34"
definition WASI_EMSGSIZE :: wasi_errno_t where [wasi_const]: "WASI_EMSGSIZE = 35"
definition WASI_EMULTIHOP :: wasi_errno_t where [wasi_const]: "WASI_EMULTIHOP = 36"
definition WASI_ENAMETOOLONG :: wasi_errno_t where [wasi_const]: "WASI_ENAMETOOLONG = 37"
definition WASI_ENETDOWN :: wasi_errno_t where [wasi_const]: "WASI_ENETDOWN = 38"
definition WASI_ENETRESET :: wasi_errno_t where [wasi_const]: "WASI_ENETRESET = 39"
definition WASI_ENETUNREACH :: wasi_errno_t where [wasi_const]: "WASI_ENETUNREACH = 40"
definition WASI_ENFILE :: wasi_errno_t where [wasi_const]: "WASI_ENFILE = 41"
definition WASI_ENOBUFS :: wasi_errno_t where [wasi_const]: "WASI_ENOBUFS = 42"
definition WASI_ENODEV :: wasi_errno_t where [wasi_const]: "WASI_ENODEV = 43"
definition WASI_ENOENT :: wasi_errno_t where [wasi_const]: "WASI_ENOENT = 44"
definition WASI_ENOEXEC :: wasi_errno_t where [wasi_const]: "WASI_ENOEXEC = 45"
definition WASI_ENOLCK :: wasi_errno_t where [wasi_const]: "WASI_ENOLCK = 46"
definition WASI_ENOLINK :: wasi_errno_t where [wasi_const]: "WASI_ENOLINK = 47"
definition WASI_ENOMEM :: wasi_errno_t where [wasi_const]: "WASI_ENOMEM = 48"
definition WASI_ENOMSG :: wasi_errno_t where [wasi_const]: "WASI_ENOMSG = 49"
definition WASI_ENOPROTOOPT :: wasi_errno_t where [wasi_const]: "WASI_ENOPROTOOPT = 50"
definition WASI_ENOSPC :: wasi_errno_t where [wasi_const]: "WASI_ENOSPC = 51"
definition WASI_ENOSYS :: wasi_errno_t where [wasi_const]: "WASI_ENOSYS = 52"
definition WASI_ENOTCONN :: wasi_errno_t where [wasi_const]: "WASI_ENOTCONN = 53"
definition WASI_ENOTDIR :: wasi_errno_t where [wasi_const]: "WASI_ENOTDIR = 54"
definition WASI_ENOTEMPTY :: wasi_errno_t where [wasi_const]: "WASI_ENOTEMPTY = 55"
definition WASI_ENOTRECOVERABLE :: wasi_errno_t where [wasi_const]: "WASI_ENOTRECOVERABLE = 56"
definition WASI_ENOTSOCK :: wasi_errno_t where [wasi_const]: "WASI_ENOTSOCK = 57"
definition WASI_ENOTSUP :: wasi_errno_t where [wasi_const]: "WASI_ENOTSUP = 58"
definition WASI_ENOTTY :: wasi_errno_t where [wasi_const]: "WASI_ENOTTY = 59"
definition WASI_ENXIO :: wasi_errno_t where [wasi_const]: "WASI_ENXIO = 60"
definition WASI_EOVERFLOW :: wasi_errno_t where [wasi_const]: "WASI_EOVERFLOW = 61"
definition WASI_EOWNERDEAD :: wasi_errno_t where [wasi_const]: "WASI_EOWNERDEAD = 62"
definition WASI_EPERM :: wasi_errno_t where [wasi_const]: "WASI_EPERM = 63"
definition WASI_EPIPE :: wasi_errno_t where [wasi_const]: "WASI_EPIPE = 64"
definition WASI_EPROTO :: wasi_errno_t where [wasi_const]: "WASI_EPROTO = 65"
definition WASI_EPROTONOSUPPORT :: wasi_errno_t where [wasi_const]: "WASI_EPROTONOSUPPORT = 66"
definition WASI_EPROTOTYPE :: wasi_errno_t where [wasi_const]: "WASI_EPROTOTYPE = 67"
definition WASI_ERANGE :: wasi_errno_t where [wasi_const]: "WASI_ERANGE = 68"
definition WASI_EROFS :: wasi_errno_t where [wasi_const]: "WASI_EROFS = 69"
definition WASI_ESPIPE :: wasi_errno_t where [wasi_const]: "WASI_ESPIPE = 70"
definition WASI_ESRCH :: wasi_errno_t where [wasi_const]: "WASI_ESRCH = 71"
definition WASI_ESTALE :: wasi_errno_t where [wasi_const]: "WASI_ESTALE = 72"
definition WASI_ETIMEDOUT :: wasi_errno_t where [wasi_const]: "WASI_ETIMEDOUT = 73"
definition WASI_ETXTBSY :: wasi_errno_t where [wasi_const]: "WASI_ETXTBSY = 74"
definition WASI_EXDEV :: wasi_errno_t where [wasi_const]: "WASI_EXDEV = 75"
definition WASI_ENOTCAPABLE :: wasi_errno_t where [wasi_const]: "WASI_ENOTCAPABLE = 76"

text \<open>Values of \<^verbatim>\<open>__wasi_eventrwflags_t\<close>.\<close>

definition WASI_EVENT_FD_READWRITE_HANGUP :: wasi_eventrwflags_t where [wasi_const]:
  "WASI_EVENT_FD_READWRITE_HANGUP = 1"

text \<open>Values of \<^verbatim>\<open>__wasi_eventtype_t\<close>.\<close>

definition WASI_EVENTTYPE_CLOCK :: wasi_eventtype_t where [wasi_const]: "WASI_EVENTTYPE_CLOCK = 0"
definition WASI_EVENTTYPE_FD_READ :: wasi_eventtype_t where [wasi_const]:
  "WASI_EVENTTYPE_FD_READ = 1"
definition WASI_EVENTTYPE_FD_WRITE :: wasi_eventtype_t where [wasi_const]:
  "WASI_EVENTTYPE_FD_WRITE = 2"

text \<open>Values of \<^verbatim>\<open>__wasi_fdflags_t\<close>.\<close>

definition WASI_FDFLAG_APPEND :: wasi_fdflags_t where [wasi_const]: "WASI_FDFLAG_APPEND = 1"
definition WASI_FDFLAG_DSYNC :: wasi_fdflags_t where [wasi_const]: "WASI_FDFLAG_DSYNC = 2"
definition WASI_FDFLAG_NONBLOCK :: wasi_fdflags_t where [wasi_const]: "WASI_FDFLAG_NONBLOCK = 4"
definition WASI_FDFLAG_RSYNC :: wasi_fdflags_t where [wasi_const]: "WASI_FDFLAG_RSYNC = 8"
definition WASI_FDFLAG_SYNC :: wasi_fdflags_t where [wasi_const]: "WASI_FDFLAG_SYNC = 16"

text \<open>Values of \<^verbatim>\<open>__wasi_filetype_t\<close>.\<close>

definition WASI_FILETYPE_UNKNOWN :: wasi_filetype_t where [wasi_const]: "WASI_FILETYPE_UNKNOWN = 0"
definition WASI_FILETYPE_BLOCK_DEVICE :: wasi_filetype_t where [wasi_const]:
  "WASI_FILETYPE_BLOCK_DEVICE = 1"
definition WASI_FILETYPE_CHARACTER_DEVICE :: wasi_filetype_t where [wasi_const]:
  "WASI_FILETYPE_CHARACTER_DEVICE = 2"
definition WASI_FILETYPE_DIRECTORY :: wasi_filetype_t where [wasi_const]:
  "WASI_FILETYPE_DIRECTORY = 3"
definition WASI_FILETYPE_REGULAR_FILE :: wasi_filetype_t where [wasi_const]:
  "WASI_FILETYPE_REGULAR_FILE = 4"
definition WASI_FILETYPE_SOCKET_DGRAM :: wasi_filetype_t where [wasi_const]:
  "WASI_FILETYPE_SOCKET_DGRAM = 5"
definition WASI_FILETYPE_SOCKET_STREAM :: wasi_filetype_t where [wasi_const]:
  "WASI_FILETYPE_SOCKET_STREAM = 6"
definition WASI_FILETYPE_SYMBOLIC_LINK :: wasi_filetype_t where [wasi_const]:
  "WASI_FILETYPE_SYMBOLIC_LINK = 7"

text \<open>Values of \<^verbatim>\<open>__wasi_fstflags_t\<close>.\<close>

definition WASI_FILESTAT_SET_ATIM :: wasi_fstflags_t where [wasi_const]:
  "WASI_FILESTAT_SET_ATIM = 1"
definition WASI_FILESTAT_SET_ATIM_NOW :: wasi_fstflags_t where [wasi_const]:
  "WASI_FILESTAT_SET_ATIM_NOW = 2"
definition WASI_FILESTAT_SET_MTIM :: wasi_fstflags_t where [wasi_const]:
  "WASI_FILESTAT_SET_MTIM = 4"
definition WASI_FILESTAT_SET_MTIM_NOW :: wasi_fstflags_t where [wasi_const]:
  "WASI_FILESTAT_SET_MTIM_NOW = 8"

text \<open>Values of \<^verbatim>\<open>__wasi_lookupflags_t\<close>.\<close>

definition WASI_LOOKUP_SYMLINK_FOLLOW :: wasi_lookupflags_t where [wasi_const]:
  "WASI_LOOKUP_SYMLINK_FOLLOW = 1"

text \<open>Values of \<^verbatim>\<open>__wasi_oflags_t\<close>.\<close>

definition WASI_O_CREAT :: wasi_oflags_t where [wasi_const]: "WASI_O_CREAT = 1"
definition WASI_O_DIRECTORY :: wasi_oflags_t where [wasi_const]: "WASI_O_DIRECTORY = 2"
definition WASI_O_EXCL :: wasi_oflags_t where [wasi_const]: "WASI_O_EXCL = 4"
definition WASI_O_TRUNC :: wasi_oflags_t where [wasi_const]: "WASI_O_TRUNC = 8"

text \<open>Values of \<^verbatim>\<open>__wasi_rights_t\<close>.\<close>

definition WASI_RIGHT_FD_DATASYNC :: wasi_rights_t where [wasi_const]: "WASI_RIGHT_FD_DATASYNC = 1"
definition WASI_RIGHT_FD_READ :: wasi_rights_t where [wasi_const]: "WASI_RIGHT_FD_READ = 2"
definition WASI_RIGHT_FD_SEEK :: wasi_rights_t where [wasi_const]: "WASI_RIGHT_FD_SEEK = 4"
definition WASI_RIGHT_FD_FDSTAT_SET_FLAGS :: wasi_rights_t where [wasi_const]:
  "WASI_RIGHT_FD_FDSTAT_SET_FLAGS = 8"
definition WASI_RIGHT_FD_SYNC :: wasi_rights_t where [wasi_const]: "WASI_RIGHT_FD_SYNC = 16"
definition WASI_RIGHT_FD_TELL :: wasi_rights_t where [wasi_const]: "WASI_RIGHT_FD_TELL = 32"
definition WASI_RIGHT_FD_WRITE :: wasi_rights_t where [wasi_const]: "WASI_RIGHT_FD_WRITE = 64"
definition WASI_RIGHT_FD_ADVISE :: wasi_rights_t where [wasi_const]: "WASI_RIGHT_FD_ADVISE = 128"
definition WASI_RIGHT_FD_ALLOCATE :: wasi_rights_t where [wasi_const]:
  "WASI_RIGHT_FD_ALLOCATE = 256"
definition WASI_RIGHT_PATH_CREATE_DIRECTORY :: wasi_rights_t where [wasi_const]:
  "WASI_RIGHT_PATH_CREATE_DIRECTORY = 512"
definition WASI_RIGHT_PATH_CREATE_FILE :: wasi_rights_t where [wasi_const]:
  "WASI_RIGHT_PATH_CREATE_FILE = 1024"
definition WASI_RIGHT_PATH_LINK_SOURCE :: wasi_rights_t where [wasi_const]:
  "WASI_RIGHT_PATH_LINK_SOURCE = 2048"
definition WASI_RIGHT_PATH_LINK_TARGET :: wasi_rights_t where [wasi_const]:
  "WASI_RIGHT_PATH_LINK_TARGET = 4096"
definition WASI_RIGHT_PATH_OPEN :: wasi_rights_t where [wasi_const]: "WASI_RIGHT_PATH_OPEN = 8192"
definition WASI_RIGHT_FD_READDIR :: wasi_rights_t where [wasi_const]:
  "WASI_RIGHT_FD_READDIR = 16384"
definition WASI_RIGHT_PATH_READLINK :: wasi_rights_t where [wasi_const]:
  "WASI_RIGHT_PATH_READLINK = 32768"
definition WASI_RIGHT_PATH_RENAME_SOURCE :: wasi_rights_t where [wasi_const]:
  "WASI_RIGHT_PATH_RENAME_SOURCE = 65536"
definition WASI_RIGHT_PATH_RENAME_TARGET :: wasi_rights_t where [wasi_const]:
  "WASI_RIGHT_PATH_RENAME_TARGET = 131072"
definition WASI_RIGHT_PATH_FILESTAT_GET :: wasi_rights_t where [wasi_const]:
  "WASI_RIGHT_PATH_FILESTAT_GET = 262144"
definition WASI_RIGHT_PATH_FILESTAT_SET_SIZE :: wasi_rights_t where [wasi_const]:
  "WASI_RIGHT_PATH_FILESTAT_SET_SIZE = 524288"
definition WASI_RIGHT_PATH_FILESTAT_SET_TIMES :: wasi_rights_t where [wasi_const]:
  "WASI_RIGHT_PATH_FILESTAT_SET_TIMES = 1048576"
definition WASI_RIGHT_FD_FILESTAT_GET :: wasi_rights_t where [wasi_const]:
  "WASI_RIGHT_FD_FILESTAT_GET = 2097152"
definition WASI_RIGHT_FD_FILESTAT_SET_SIZE :: wasi_rights_t where [wasi_const]:
  "WASI_RIGHT_FD_FILESTAT_SET_SIZE = 4194304"
definition WASI_RIGHT_FD_FILESTAT_SET_TIMES :: wasi_rights_t where [wasi_const]:
  "WASI_RIGHT_FD_FILESTAT_SET_TIMES = 8388608"
definition WASI_RIGHT_PATH_SYMLINK :: wasi_rights_t where [wasi_const]:
  "WASI_RIGHT_PATH_SYMLINK = 16777216"
definition WASI_RIGHT_PATH_REMOVE_DIRECTORY :: wasi_rights_t where [wasi_const]:
  "WASI_RIGHT_PATH_REMOVE_DIRECTORY = 33554432"
definition WASI_RIGHT_PATH_UNLINK_FILE :: wasi_rights_t where [wasi_const]:
  "WASI_RIGHT_PATH_UNLINK_FILE = 67108864"
definition WASI_RIGHT_POLL_FD_READWRITE :: wasi_rights_t where [wasi_const]:
  "WASI_RIGHT_POLL_FD_READWRITE = 134217728"
definition WASI_RIGHT_SOCK_SHUTDOWN :: wasi_rights_t where [wasi_const]:
  "WASI_RIGHT_SOCK_SHUTDOWN = 268435456"

definition RIGHTS_ALL :: wasi_rights_t where
  "RIGHTS_ALL =
     WASI_RIGHT_FD_DATASYNC OR WASI_RIGHT_FD_READ OR WASI_RIGHT_FD_SEEK
      OR WASI_RIGHT_FD_FDSTAT_SET_FLAGS OR WASI_RIGHT_FD_SYNC OR WASI_RIGHT_FD_TELL
      OR WASI_RIGHT_FD_WRITE OR WASI_RIGHT_FD_ADVISE OR WASI_RIGHT_FD_ALLOCATE
      OR WASI_RIGHT_PATH_CREATE_DIRECTORY OR WASI_RIGHT_PATH_CREATE_FILE
      OR WASI_RIGHT_PATH_LINK_SOURCE OR WASI_RIGHT_PATH_LINK_TARGET
      OR WASI_RIGHT_PATH_OPEN OR WASI_RIGHT_FD_READDIR OR WASI_RIGHT_PATH_READLINK
      OR WASI_RIGHT_PATH_RENAME_SOURCE OR WASI_RIGHT_PATH_RENAME_TARGET
      OR WASI_RIGHT_PATH_FILESTAT_GET OR WASI_RIGHT_PATH_FILESTAT_SET_SIZE
      OR WASI_RIGHT_PATH_FILESTAT_SET_TIMES OR WASI_RIGHT_FD_FILESTAT_GET
      OR WASI_RIGHT_FD_FILESTAT_SET_SIZE OR WASI_RIGHT_FD_FILESTAT_SET_TIMES
      OR WASI_RIGHT_PATH_SYMLINK OR WASI_RIGHT_PATH_UNLINK_FILE
      OR WASI_RIGHT_PATH_REMOVE_DIRECTORY OR WASI_RIGHT_POLL_FD_READWRITE
      OR WASI_RIGHT_SOCK_SHUTDOWN"

definition RIGHTS_BLOCK_DEVICE_BASE :: wasi_rights_t where
  "RIGHTS_BLOCK_DEVICE_BASE =
      RIGHTS_ALL"

definition RIGHTS_BLOCK_DEVICE_INHERITING :: wasi_rights_t where
  "RIGHTS_BLOCK_DEVICE_INHERITING =
      RIGHTS_ALL"

definition RIGHTS_CHARACTER_DEVICE_BASE :: wasi_rights_t where
  "RIGHTS_CHARACTER_DEVICE_BASE =
      RIGHTS_ALL"

definition RIGHTS_CHARACTER_DEVICE_INHERITING :: wasi_rights_t where
  "RIGHTS_CHARACTER_DEVICE_INHERITING =
      RIGHTS_ALL"

definition RIGHTS_DIRECTORY_BASE :: wasi_rights_t where
  "RIGHTS_DIRECTORY_BASE =
      WASI_RIGHT_FD_FDSTAT_SET_FLAGS OR WASI_RIGHT_FD_SYNC OR WASI_RIGHT_FD_ADVISE
      OR WASI_RIGHT_PATH_CREATE_DIRECTORY OR WASI_RIGHT_PATH_CREATE_FILE
      OR WASI_RIGHT_PATH_LINK_SOURCE OR WASI_RIGHT_PATH_LINK_TARGET
      OR WASI_RIGHT_PATH_OPEN OR WASI_RIGHT_FD_READDIR OR WASI_RIGHT_PATH_READLINK
      OR WASI_RIGHT_PATH_RENAME_SOURCE OR WASI_RIGHT_PATH_RENAME_TARGET
      OR WASI_RIGHT_PATH_FILESTAT_GET OR WASI_RIGHT_PATH_FILESTAT_SET_SIZE
      OR WASI_RIGHT_PATH_FILESTAT_SET_TIMES OR WASI_RIGHT_FD_FILESTAT_GET
      OR WASI_RIGHT_FD_FILESTAT_SET_TIMES OR WASI_RIGHT_PATH_SYMLINK
      OR WASI_RIGHT_PATH_UNLINK_FILE OR WASI_RIGHT_PATH_REMOVE_DIRECTORY
      OR WASI_RIGHT_POLL_FD_READWRITE"

definition RIGHTS_REGULAR_FILE_BASE :: wasi_rights_t where
  "RIGHTS_REGULAR_FILE_BASE =
      WASI_RIGHT_FD_DATASYNC OR WASI_RIGHT_FD_READ OR WASI_RIGHT_FD_SEEK
      OR WASI_RIGHT_FD_FDSTAT_SET_FLAGS OR WASI_RIGHT_FD_SYNC OR WASI_RIGHT_FD_TELL
      OR WASI_RIGHT_FD_WRITE OR WASI_RIGHT_FD_ADVISE OR WASI_RIGHT_FD_ALLOCATE
      OR WASI_RIGHT_FD_FILESTAT_GET OR WASI_RIGHT_FD_FILESTAT_SET_SIZE
      OR WASI_RIGHT_FD_FILESTAT_SET_TIMES OR WASI_RIGHT_POLL_FD_READWRITE"

definition RIGHTS_DIRECTORY_INHERITING :: wasi_rights_t where
  "RIGHTS_DIRECTORY_INHERITING =
      RIGHTS_DIRECTORY_BASE OR RIGHTS_REGULAR_FILE_BASE"

definition RIGHTS_REGULAR_FILE_INHERITING :: wasi_rights_t where [wasi_const]:
  "RIGHTS_REGULAR_FILE_INHERITING = 0"

definition RIGHTS_SHARED_MEMORY_BASE :: wasi_rights_t where
  "RIGHTS_SHARED_MEMORY_BASE =
      WASI_RIGHT_FD_READ OR WASI_RIGHT_FD_WRITE OR WASI_RIGHT_FD_FILESTAT_GET
      OR WASI_RIGHT_FD_FILESTAT_SET_SIZE"

definition RIGHTS_SHARED_MEMORY_INHERITING :: wasi_rights_t where [wasi_const]:
  "RIGHTS_SHARED_MEMORY_INHERITING = 0"

definition RIGHTS_SOCKET_BASE :: wasi_rights_t where
  "RIGHTS_SOCKET_BASE =
      WASI_RIGHT_FD_READ OR WASI_RIGHT_FD_FDSTAT_SET_FLAGS OR WASI_RIGHT_FD_WRITE
      OR WASI_RIGHT_FD_FILESTAT_GET OR WASI_RIGHT_POLL_FD_READWRITE
      OR WASI_RIGHT_SOCK_SHUTDOWN"

definition RIGHTS_SOCKET_INHERITING :: wasi_rights_t where
  "RIGHTS_SOCKET_INHERITING =
      RIGHTS_ALL"

definition RIGHTS_TTY_BASE :: wasi_rights_t where
  "RIGHTS_TTY_BASE =
      WASI_RIGHT_FD_READ OR WASI_RIGHT_FD_FDSTAT_SET_FLAGS OR WASI_RIGHT_FD_WRITE
      OR WASI_RIGHT_FD_FILESTAT_GET OR WASI_RIGHT_POLL_FD_READWRITE"

definition RIGHTS_TTY_INHERITING :: wasi_rights_t where [wasi_const]: "RIGHTS_TTY_INHERITING = 0"

text \<open>Values of \<^verbatim>\<open>__wasi_subclockflags_t\<close>.\<close>

definition WASI_SUBSCRIPTION_CLOCK_ABSTIME :: wasi_subclockflags_t where [wasi_const]:
  "WASI_SUBSCRIPTION_CLOCK_ABSTIME = 1"

text \<open>Values of \<^verbatim>\<open>__wasi_whence_t\<close>.\<close>

definition WASI_WHENCE_CUR :: wasi_whence_t where [wasi_const]: "WASI_WHENCE_CUR = 0"
definition WASI_WHENCE_END :: wasi_whence_t where [wasi_const]: "WASI_WHENCE_END = 1"
definition WASI_WHENCE_SET :: wasi_whence_t where [wasi_const]: "WASI_WHENCE_SET = 2"

text \<open>Values of \<^verbatim>\<open>__wasi_preopentype_t\<close>.\<close>

definition WASI_PREOPENTYPE_DIR :: wasi_preopentype_t where [wasi_const]: "WASI_PREOPENTYPE_DIR = 0"

section \<open>Structs of the host\<close>

text \<open>
  \<^verbatim>\<open>__wasi_prestat_t\<close>: its union has the single member \<^verbatim>\<open>dir\<close>, whose only field is
  \<^verbatim>\<open>pr_name_len\<close>.
\<close>

record prestat =
  pr_type :: wasi_preopentype_t
  pr_name_len :: usize

record fdstat =
  fs_filetype :: wasi_filetype_t
  fs_flags :: wasi_fdflags_t
  fs_rights_base :: wasi_rights_t
  fs_rights_inheriting :: wasi_rights_t

record filestat =
  st_dev :: wasi_device_t
  st_ino :: wasi_inode_t
  st_filetype :: wasi_filetype_t
  st_nlink :: wasi_linkcount_t
  st_size :: wasi_filesize_t
  st_atim :: wasi_timestamp_t
  st_mtim :: wasi_timestamp_t
  st_ctim :: wasi_timestamp_t

text \<open>\<^verbatim>\<open>__wasi_ciovec_t\<close> and \<^verbatim>\<open>__wasi_iovec_t\<close>: a buffer of guest memory.\<close>

record iovec =
  iov_buf :: nat
  iov_buf_len :: usize

record event =
  ev_userdata :: wasi_userdata_t
  ev_error :: wasi_errno_t
  ev_type :: wasi_eventtype_t
  ev_nbytes :: wasi_filesize_t
  ev_flags :: wasi_eventrwflags_t

record subscription_clock =
  sc_identifier :: wasi_userdata_t
  sc_clock_id :: wasi_clockid_t
  sc_timeout :: wasi_timestamp_t
  sc_precision :: wasi_timestamp_t
  sc_flags :: wasi_subclockflags_t

text \<open>
  The union \<^verbatim>\<open>__wasi_subscription_u\<close> with the member that was written last; the code writes the
  member that belongs to \<^verbatim>\<open>type_\<close> and reads no other.
\<close>

datatype subscription_u = U_clock subscription_clock | U_fd_readwrite wasi_fd_t

record subscription =
  su_userdata :: wasi_userdata_t
  su_type :: wasi_eventtype_t
  su_u :: subscription_u

section \<open>Structs of the guest\<close>

text \<open>
  The fields in the order of the \<^verbatim>\<open>repr(C)\<close> declaration, the explicit padding fields of bindgen
  included (\<open>pad\<close>, as bytes).  A union that is read with more than one member is its raw bytes.
\<close>

record dirent32 =
  d_next32 :: wasi_dircookie_t
  d_ino32 :: wasi_inode_t
  d_namlen32 :: u32
  d_type32 :: wasi_filetype_t
  d_pad32 :: bytes

record event32 =
  ev_userdata32 :: wasi_userdata_t
  ev_error32 :: wasi_errno_t
  ev_type32 :: wasi_eventtype_t
  ev_pad32 :: u32
  ev_nbytes32 :: wasi_filesize_t
  ev_flags32 :: wasi_eventrwflags_t
  ev_rw_pad32 :: "u16 list"

record prestat32 =
  pr_type32 :: wasi_preopentype_t
  pr_name_len32 :: u32

record fdstat32 =
  fs_filetype32 :: wasi_filetype_t
  fs_flags32 :: wasi_fdflags_t
  fs_pad32 :: u32
  fs_rights_base32 :: wasi_rights_t
  fs_rights_inheriting32 :: wasi_rights_t

record filestat32 =
  st_dev32 :: wasi_device_t
  st_ino32 :: wasi_inode_t
  st_filetype32 :: wasi_filetype_t
  st_nlink32 :: wasi_linkcount_t
  st_size32 :: wasi_filesize_t
  st_atim32 :: wasi_timestamp_t
  st_mtim32 :: wasi_timestamp_t
  st_ctim32 :: wasi_timestamp_t

record iovec32 =
  buf32 :: u32
  buf_len32 :: u32

record subscription32 =
  su_userdata32 :: wasi_userdata_t
  su_type32 :: wasi_eventtype_t
  su_pad32 :: u32
  su_u32 :: bytes

section \<open>Names of error numbers\<close>

text \<open>
  \<^verbatim>\<open>wasm32::strerror\<close> and \<^verbatim>\<open>wasm32::whence_to_str\<close>: both panic on a value without a name.
  They are called only in the arguments of \<^verbatim>\<open>trace!\<close>.
\<close>

definition errno_names :: "(wasi_errno_t \<times> string) list" where
  "errno_names = [
    (WASI_ESUCCESS, ''__WASI_ESUCCESS''),
    (WASI_E2BIG, ''__WASI_E2BIG''),
    (WASI_EACCES, ''__WASI_EACCES''),
    (WASI_EADDRINUSE, ''__WASI_EADDRINUSE''),
    (WASI_EADDRNOTAVAIL, ''__WASI_EADDRNOTAVAIL''),
    (WASI_EAFNOSUPPORT, ''__WASI_EAFNOSUPPORT''),
    (WASI_EAGAIN, ''__WASI_EAGAIN''),
    (WASI_EALREADY, ''__WASI_EALREADY''),
    (WASI_EBADF, ''__WASI_EBADF''),
    (WASI_EBADMSG, ''__WASI_EBADMSG''),
    (WASI_EBUSY, ''__WASI_EBUSY''),
    (WASI_ECANCELED, ''__WASI_ECANCELED''),
    (WASI_ECHILD, ''__WASI_ECHILD''),
    (WASI_ECONNABORTED, ''__WASI_ECONNABORTED''),
    (WASI_ECONNREFUSED, ''__WASI_ECONNREFUSED''),
    (WASI_ECONNRESET, ''__WASI_ECONNRESET''),
    (WASI_EDEADLK, ''__WASI_EDEADLK''),
    (WASI_EDESTADDRREQ, ''__WASI_EDESTADDRREQ''),
    (WASI_EDOM, ''__WASI_EDOM''),
    (WASI_EDQUOT, ''__WASI_EDQUOT''),
    (WASI_EEXIST, ''__WASI_EEXIST''),
    (WASI_EFAULT, ''__WASI_EFAULT''),
    (WASI_EFBIG, ''__WASI_EFBIG''),
    (WASI_EHOSTUNREACH, ''__WASI_EHOSTUNREACH''),
    (WASI_EIDRM, ''__WASI_EIDRM''),
    (WASI_EILSEQ, ''__WASI_EILSEQ''),
    (WASI_EINPROGRESS, ''__WASI_EINPROGRESS''),
    (WASI_EINTR, ''__WASI_EINTR''),
    (WASI_EINVAL, ''__WASI_EINVAL''),
    (WASI_EIO, ''__WASI_EIO''),
    (WASI_EISCONN, ''__WASI_EISCONN''),
    (WASI_EISDIR, ''__WASI_EISDIR''),
    (WASI_ELOOP, ''__WASI_ELOOP''),
    (WASI_EMFILE, ''__WASI_EMFILE''),
    (WASI_EMLINK, ''__WASI_EMLINK''),
    (WASI_EMSGSIZE, ''__WASI_EMSGSIZE''),
    (WASI_EMULTIHOP, ''__WASI_EMULTIHOP''),
    (WASI_ENAMETOOLONG, ''__WASI_ENAMETOOLONG''),
    (WASI_ENETDOWN, ''__WASI_ENETDOWN''),
    (WASI_ENETRESET, ''__WASI_ENETRESET''),
    (WASI_ENETUNREACH, ''__WASI_ENETUNREACH''),
    (WASI_ENFILE, ''__WASI_ENFILE''),
    (WASI_ENOBUFS, ''__WASI_ENOBUFS''),
    (WASI_ENODEV, ''__WASI_ENODEV''),
    (WASI_ENOENT, ''__WASI_ENOENT''),
    (WASI_ENOEXEC, ''__WASI_ENOEXEC''),
    (WASI_ENOLCK, ''__WASI_ENOLCK''),
    (WASI_ENOLINK, ''__WASI_ENOLINK''),
    (WASI_ENOMEM, ''__WASI_ENOMEM''),
    (WASI_ENOMSG, ''__WASI_ENOMSG''),
    (WASI_ENOPROTOOPT, ''__WASI_ENOPROTOOPT''),
    (WASI_ENOSPC, ''__WASI_ENOSPC''),
    (WASI_ENOSYS, ''__WASI_ENOSYS''),
    (WASI_ENOTCONN, ''__WASI_ENOTCONN''),
    (WASI_ENOTDIR, ''__WASI_ENOTDIR''),
    (WASI_ENOTEMPTY, ''__WASI_ENOTEMPTY''),
    (WASI_ENOTRECOVERABLE, ''__WASI_ENOTRECOVERABLE''),
    (WASI_ENOTSOCK, ''__WASI_ENOTSOCK''),
    (WASI_ENOTSUP, ''__WASI_ENOTSUP''),
    (WASI_ENOTTY, ''__WASI_ENOTTY''),
    (WASI_ENXIO, ''__WASI_ENXIO''),
    (WASI_EOVERFLOW, ''__WASI_EOVERFLOW''),
    (WASI_EOWNERDEAD, ''__WASI_EOWNERDEAD''),
    (WASI_EPERM, ''__WASI_EPERM''),
    (WASI_EPIPE, ''__WASI_EPIPE''),
    (WASI_EPROTO, ''__WASI_EPROTO''),
    (WASI_EPROTONOSUPPORT, ''__WASI_EPROTONOSUPPORT''),
    (WASI_EPROTOTYPE, ''__WASI_EPROTOTYPE''),
    (WASI_ERANGE, ''__WASI_ERANGE''),
    (WASI_EROFS, ''__WASI_EROFS''),
    (WASI_ESPIPE, ''__WASI_ESPIPE''),
    (WASI_ESRCH, ''__WASI_ESRCH''),
    (WASI_ESTALE, ''__WASI_ESTALE''),
    (WASI_ETIMEDOUT, ''__WASI_ETIMEDOUT''),
    (WASI_ETXTBSY, ''__WASI_ETXTBSY''),
    (WASI_EXDEV, ''__WASI_EXDEV''),
    (WASI_ENOTCAPABLE, ''__WASI_ENOTCAPABLE'')]"

definition strerror :: "wasi_errno_t \<Rightarrow> string res" where
  "strerror errno = (case map_of errno_names errno of Some s \<Rightarrow> Ok s | None \<Rightarrow> Panic)"

definition whence_to_str :: "wasi_whence_t \<Rightarrow> string res" where
  "whence_to_str whence =
     (if whence = WASI_WHENCE_CUR then Ok ''__WASI_WHENCE_CUR''
      else if whence = WASI_WHENCE_END then Ok ''__WASI_WHENCE_END''
      else if whence = WASI_WHENCE_SET then Ok ''__WASI_WHENCE_SET''
      else Panic)"

lemma errno_names_range: "fst ` set errno_names = {e. unat e \<le> 76}"
proof -
  have "map fst errno_names = map of_nat [0..<77]"
    by (simp add: errno_names_def wasi_const upt_rec)
  then have "fst ` set errno_names = of_nat ` {0..<77}"
    by (metis list.set_map set_upt)
  also have "\<dots> = {e :: u16. unat e \<le> 76}"
  proof (intro equalityI subsetI)
    fix e :: u16 assume "e \<in> {e. unat e \<le> 76}"
    then show "e \<in> of_nat ` {0..<77}"
      by (intro image_eqI [where x = "unat e"]) auto
  qed (auto simp: unat_of_nat)
  finally show ?thesis .
qed

lemma strerror_Panic_iff: "strerror e = Panic \<longleftrightarrow> 76 < unat e"
proof -
  have "map_of errno_names e = None \<longleftrightarrow> \<not> unat e \<le> 76"
    using errno_names_range by (auto simp: map_of_eq_None_iff)
  then show ?thesis by (auto simp: strerror_def split: option.splits)
qed

lemma strerror_not_Err: "strerror e \<noteq> Err x"
  by (simp add: strerror_def split: option.splits)

section \<open>The rights constants\<close>

lemma rights_values:
  "RIGHTS_ALL = 536870911"
  "RIGHTS_DIRECTORY_BASE = 264240792"
  "RIGHTS_REGULAR_FILE_BASE = 148898303"
  "RIGHTS_DIRECTORY_INHERITING = 268435455"
  "RIGHTS_SOCKET_BASE = 404750410"
  "RIGHTS_TTY_BASE = 136314954"
  by (simp_all add: RIGHTS_ALL_def RIGHTS_DIRECTORY_BASE_def RIGHTS_REGULAR_FILE_BASE_def
      RIGHTS_DIRECTORY_INHERITING_def RIGHTS_SOCKET_BASE_def RIGHTS_TTY_BASE_def wasi_const)

end
