(* ===== verification/Host_Os.thy ===== *)
theory Host_Os
  imports Wasi_Types
begin

text \<open>
  What the library calls and does not contain: the operating system through the standard library,
  the crate \<^verbatim>\<open>nix\<close> and \<^verbatim>\<open>libc\<close>.  It is a parameter of the model.  The state of everything outside
  the process is a value of a type \<open>'w\<close>; a call takes it and returns its result with the next
  state.  A record \<open>'w os\<close> holds one function for each call the source makes; nothing is assumed
  of them here.  Platform constants are the fields of a record \<open>libc\<close>.
\<close>

section \<open>Errors of the platform\<close>

text \<open>\<^verbatim>\<open>nix::errno::Errno\<close>: the variants the source names; \<open>OtherErrno\<close> is any other one.\<close>

datatype (plugins only: size) nix_errno =
    EPERM | ENOENT | ESRCH | EINTR | EIO | ENXIO
  | E2BIG | ENOEXEC | EBADF | ECHILD | EAGAIN | ENOMEM
  | EACCES | EFAULT | EBUSY | EEXIST | EXDEV | ENODEV
  | ENOTDIR | EISDIR | EINVAL | ENFILE | EMFILE | ENOTTY
  | ETXTBSY | EFBIG | ENOSPC | ESPIPE | EROFS | EMLINK
  | EPIPE | EDOM | ERANGE | EDEADLK | ENAMETOOLONG | ENOLCK
  | ENOSYS | ENOTEMPTY | ELOOP | ENOMSG | EIDRM | ENOLINK
  | EPROTO | EMULTIHOP | EBADMSG | EOVERFLOW | EILSEQ | ENOTSOCK
  | EDESTADDRREQ | EMSGSIZE | EPROTOTYPE | ENOPROTOOPT | EPROTONOSUPPORT | EAFNOSUPPORT
  | EADDRINUSE | EADDRNOTAVAIL | ENETDOWN | ENETUNREACH | ENETRESET | ECONNABORTED
  | ECONNRESET | ENOBUFS | EISCONN | ENOTCONN | ETIMEDOUT | ECONNREFUSED
  | EHOSTUNREACH | EALREADY | EINPROGRESS | ESTALE | EDQUOT | ECANCELED
  | EOWNERDEAD | ENOTRECOVERABLE
  | OtherErrno

text \<open>
  A \<^verbatim>\<open>std::io::Error\<close> is what its \<^verbatim>\<open>raw_os_error\<close> returns, a \<^verbatim>\<open>nix::Error\<close> what its
  \<^verbatim>\<open>as_errno\<close> returns.
\<close>

type_synonym io_error = "int option"
type_synonym nix_error = "nix_errno option"
type_synonym ('w, 'e, 'a) call = "'w \<Rightarrow> ('e + 'a) \<times> 'w"

section \<open>Platform constants\<close>

record libc =
  linux :: bool
  O_ALL :: u32
  O_RDONLY :: u32
  O_WRONLY :: u32
  O_RDWR :: u32
  O_ACCMODE :: u32
  O_CREAT :: u32
  O_EXCL :: u32
  O_TRUNC :: u32
  O_APPEND :: u32
  O_NONBLOCK :: u32
  O_DSYNC :: u32
  O_SYNC :: u32
  O_RSYNC :: u32
  O_DIRECTORY :: u32
  O_NOFOLLOW :: u32

record libc_stat = libc +
  S_ALL :: u32
  S_IFIFO :: u32
  S_IFCHR :: u32
  S_IFDIR :: u32
  S_IFBLK :: u32
  S_IFREG :: u32
  S_IFLNK :: u32
  S_IFSOCK :: u32
  AT_SYMLINK_FOLLOW :: int
  AT_SYMLINK_NOFOLLOW :: int
  AT_REMOVEDIR :: int
  UTIME_NOW :: int
  UTIME_OMIT :: int
  PATH_MAX :: nat

record libc_misc = libc_stat +
  POSIX_FADV_NORMAL :: int
  POSIX_FADV_RANDOM :: int
  POSIX_FADV_SEQUENTIAL :: int
  POSIX_FADV_DONTNEED :: int
  POSIX_FADV_NOREUSE :: int
  CLOCK_REALTIME :: int
  CLOCK_MONOTONIC :: int
  CLOCK_PROCESS_CPUTIME_ID :: int
  CLOCK_THREAD_CPUTIME_ID :: int
  POLLIN :: u16
  POLLOUT :: u16
  POLLERR :: u16
  POLLHUP :: u16
  POLLNVAL :: u16

text \<open>The values Linux documents for the constants whose bits the theorems depend on.\<close>

definition linux_libc :: "'z libc_stat_scheme \<Rightarrow> bool" where
  "linux_libc lc \<longleftrightarrow> linux lc \<and>
     O_RDONLY lc = 0 \<and> O_WRONLY lc = 1 \<and> O_RDWR lc = 2 \<and> O_ACCMODE lc = 3 \<and>
     O_CREAT lc = 64 \<and> O_EXCL lc = 128 \<and> O_TRUNC lc = 512 \<and> O_APPEND lc = 1024 \<and>
     O_NONBLOCK lc = 2048 \<and> O_DSYNC lc = 4096 \<and> O_SYNC lc = 1052672 \<and> O_RSYNC lc = 1052672 \<and>
     O_DIRECTORY lc = 65536 \<and> O_NOFOLLOW lc = 131072 \<and>
     S_ALL lc = 61440 \<and> S_IFIFO lc = 4096 \<and> S_IFCHR lc = 8192 \<and> S_IFDIR lc = 16384 \<and>
     S_IFBLK lc = 24576 \<and> S_IFREG lc = 32768 \<and> S_IFLNK lc = 40960 \<and> S_IFSOCK lc = 49152"

text \<open>Operations of a \<^verbatim>\<open>bitflags\<close> type.\<close>

definition contains :: "'a::len word \<Rightarrow> 'a word \<Rightarrow> bool" where
  "contains a b \<longleftrightarrow> a AND b = b"

definition intersects :: "'a::len word \<Rightarrow> 'a word \<Rightarrow> bool" where
  "intersects a b \<longleftrightarrow> a AND b \<noteq> 0"

section \<open>Data exchanged with the platform\<close>

type_synonym raw_fd = int

text \<open>\<^verbatim>\<open>std::fs::FileType\<close> through its predicates, and the rest of \<^verbatim>\<open>Metadata\<close> that is read.\<close>

datatype host_filetype =
  Ft_block_device | Ft_char_device | Ft_dir | Ft_file | Ft_socket | Ft_fifo | Ft_symlink | Ft_other

record metadata =
  md_file_type :: host_filetype
  md_len :: u64

datatype sock_type = Datagram | Stream | OtherSock

text \<open>
  \<^verbatim>\<open>nix::sys::stat::FileStat\<close>; the widths of \<^verbatim>\<open>st_dev\<close> and \<^verbatim>\<open>st_ino\<close> depend on the platform.
\<close>

record nix_filestat =
  nst_dev :: int
  nst_ino :: int
  nst_mode :: u32
  nst_nlink :: u64
  nst_size :: i64
  nst_atime :: i64
  nst_mtime :: i64
  nst_ctime :: i64

text \<open>\<^verbatim>\<open>libc::dirent\<close>, its name up to the terminating NUL.\<close>

record host_dirent =
  hd_ino :: u64
  hd_off :: i64
  hd_type :: u8
  hd_name :: bytes

record timespec =
  tv_sec :: i64
  tv_nsec :: i64

datatype nix_whence = SeekSet | SeekCur | SeekEnd

section \<open>The calls\<close>

record 'w std_os =
  sys_from_i32 :: "int \<Rightarrow> nix_errno"
  sys_open :: "bytes \<Rightarrow> ('w, io_error, raw_fd) call"
  sys_close :: "raw_fd \<Rightarrow> 'w \<Rightarrow> 'w"
  sys_try_clone :: "raw_fd \<Rightarrow> ('w, io_error, raw_fd) call"
  sys_metadata :: "raw_fd \<Rightarrow> ('w, io_error, metadata) call"
  sys_sync_data :: "raw_fd \<Rightarrow> ('w, io_error, unit) call"
  sys_sync_all :: "raw_fd \<Rightarrow> ('w, io_error, unit) call"
  sys_set_len :: "raw_fd \<Rightarrow> u64 \<Rightarrow> ('w, io_error, unit) call"
  sys_read_at :: "raw_fd \<Rightarrow> nat \<Rightarrow> u64 \<Rightarrow> ('w, io_error, bytes) call"
  sys_write_at :: "raw_fd \<Rightarrow> bytes \<Rightarrow> u64 \<Rightarrow> ('w, io_error, usize) call"
  sys_read_vectored :: "raw_fd \<Rightarrow> nat list \<Rightarrow> ('w, io_error, bytes) call"
  sys_stdin_read_vectored :: "nat list \<Rightarrow> ('w, io_error, bytes) call"
  sys_write_vectored :: "raw_fd \<Rightarrow> bytes list \<Rightarrow> ('w, io_error, usize) call"
  sys_stdout_write_vectored :: "bytes list \<Rightarrow> ('w, io_error, usize) call"
  sys_stderr_write_vectored :: "bytes list \<Rightarrow> ('w, io_error, usize) call"
  sys_env_vars :: "'w \<Rightarrow> (bytes \<times> bytes) list"
  sys_now_nanos :: "'w \<Rightarrow> nat option"

record 'w nix_os = "'w std_os" +
  sys_fcntl_getfl :: "raw_fd \<Rightarrow> ('w, nix_error, u32) call"
  sys_fcntl_setfl :: "raw_fd \<Rightarrow> u32 \<Rightarrow> ('w, nix_error, unit) call"
  sys_isatty :: "raw_fd \<Rightarrow> ('w, nix_error, bool) call"
  sys_getsockopt_type :: "raw_fd \<Rightarrow> ('w, nix_error, sock_type) call"
  sys_openat :: "raw_fd \<Rightarrow> bytes \<Rightarrow> u32 \<Rightarrow> u32 \<Rightarrow> ('w, nix_error, raw_fd) call"
  sys_readlinkat :: "raw_fd \<Rightarrow> bytes \<Rightarrow> nat \<Rightarrow> ('w, nix_error, bytes) call"
  sys_fstatat :: "raw_fd \<Rightarrow> bytes \<Rightarrow> int \<Rightarrow> ('w, nix_error, nix_filestat) call"
  sys_fstat :: "raw_fd \<Rightarrow> ('w, nix_error, nix_filestat) call"
  sys_dup2 :: "raw_fd \<Rightarrow> raw_fd \<Rightarrow> ('w, nix_error, raw_fd) call"
  sys_lseek :: "raw_fd \<Rightarrow> i64 \<Rightarrow> nix_whence \<Rightarrow> ('w, nix_error, i64) call"
  sys_ftruncate :: "raw_fd \<Rightarrow> i64 \<Rightarrow> ('w, nix_error, unit) call"
  sys_poll :: "(raw_fd \<times> u16) list \<Rightarrow> int \<Rightarrow> ('w, nix_error, nat \<times> u16 option list) call"
  sys_fionread :: "raw_fd \<Rightarrow> ('w, nix_error, int) call"

text \<open>
  A \<^verbatim>\<open>libc\<close> call returns its \<^verbatim>\<open>c_int\<close> (with what it stored through its pointer arguments);
  \<^verbatim>\<open>Errno::last()\<close> reads the error number of the thread afterwards.  \<^verbatim>\<open>TimeSpec::nanoseconds\<close> of
  \<^verbatim>\<open>nix\<close> panics (\<open>None\<close>) on values it calls out of bounds.
\<close>

record 'w os = "'w nix_os" +
  sys_errno_last :: "'w \<Rightarrow> nix_errno"
  nix_timespec_nanoseconds :: "i64 \<Rightarrow> timespec option"
  sys_mkdirat :: "raw_fd \<Rightarrow> bytes \<Rightarrow> nat \<Rightarrow> 'w \<Rightarrow> int \<times> 'w"
  sys_linkat :: "raw_fd \<Rightarrow> bytes \<Rightarrow> raw_fd \<Rightarrow> bytes \<Rightarrow> int \<Rightarrow> 'w \<Rightarrow> int \<times> 'w"
  sys_renameat :: "raw_fd \<Rightarrow> bytes \<Rightarrow> raw_fd \<Rightarrow> bytes \<Rightarrow> 'w \<Rightarrow> int \<times> 'w"
  sys_symlinkat :: "bytes \<Rightarrow> raw_fd \<Rightarrow> bytes \<Rightarrow> 'w \<Rightarrow> int \<times> 'w"
  sys_unlinkat :: "raw_fd \<Rightarrow> bytes \<Rightarrow> int \<Rightarrow> 'w \<Rightarrow> int \<times> 'w"
  sys_libc_readlinkat :: "raw_fd \<Rightarrow> bytes \<Rightarrow> nat \<Rightarrow> 'w \<Rightarrow> (int \<times> bytes) \<times> 'w"
  sys_futimens :: "raw_fd \<Rightarrow> timespec \<Rightarrow> timespec \<Rightarrow> 'w \<Rightarrow> int \<times> 'w"
  sys_utimensat :: "raw_fd \<Rightarrow> bytes \<Rightarrow> timespec \<Rightarrow> timespec \<Rightarrow> int \<Rightarrow> 'w \<Rightarrow> int \<times> 'w"
  sys_posix_fadvise :: "raw_fd \<Rightarrow> i64 \<Rightarrow> i64 \<Rightarrow> int \<Rightarrow> 'w \<Rightarrow> int \<times> 'w"
  sys_fdopendir :: "raw_fd \<Rightarrow> 'w \<Rightarrow> int option \<times> 'w"
  sys_seekdir :: "int \<Rightarrow> i64 \<Rightarrow> 'w \<Rightarrow> 'w"
  sys_readdir_r :: "int \<Rightarrow> 'w \<Rightarrow> (int \<times> host_dirent option) \<times> 'w"
  sys_clock_getres :: "int \<Rightarrow> 'w \<Rightarrow> (int \<times> timespec) \<times> 'w"
  sys_clock_gettime :: "int \<Rightarrow> 'w \<Rightarrow> (int \<times> timespec) \<times> 'w"
  sys_fill_bytes :: "nat \<Rightarrow> 'w \<Rightarrow> bytes \<times> 'w"
  sys_yield :: "'w \<Rightarrow> 'w"

section \<open>Effects\<close>

text \<open>
  A step of the library that may call the platform, and the sequencing of two such steps, the
  second of which runs only if the first one returned a value (the operator \<^verbatim>\<open>?\<close>).
\<close>

type_synonym ('w, 'a) io = "'w \<Rightarrow> 'a res \<times> 'w"

definition io_bind :: "('w, 'a) io \<Rightarrow> ('a \<Rightarrow> ('w, 'b) io) \<Rightarrow> ('w, 'b) io" where
  "io_bind m f = (\<lambda>w. case m w of
     (Ok x, w') \<Rightarrow> f x w' | (Err e, w') \<Rightarrow> (Err e, w') | (Panic, w') \<Rightarrow> (Panic, w'))"

definition io_res :: "'a res \<Rightarrow> ('w, 'a) io" where
  "io_res r = (\<lambda>w. (r, w))"

text \<open>A function of the world read without changing it, and a call that cannot fail.\<close>

definition io_get :: "('w \<Rightarrow> 'a) \<Rightarrow> ('w, 'a) io" where
  "io_get f = (\<lambda>w. (Ok (f w), w))"

definition io_call :: "('w \<Rightarrow> 'a \<times> 'w) \<Rightarrow> ('w, 'a) io" where
  "io_call c = (\<lambda>w. case c w of (x, w') \<Rightarrow> (Ok x, w'))"

text \<open>
  A value whose destructor closes a descriptor: the descriptor is closed when its scope is left,
  whatever the outcome.
\<close>

definition with_file :: "('w, 'z) std_os_scheme \<Rightarrow> raw_fd \<Rightarrow> ('w, 'a) io \<Rightarrow> ('w, 'a) io" where
  "with_file os f m = (\<lambda>w. case m w of (r, w') \<Rightarrow> (r, sys_close os f w'))"

definition io_map :: "('a \<Rightarrow> 'b) \<Rightarrow> ('w, 'a) io \<Rightarrow> ('w, 'b) io" where
  "io_map f m = (\<lambda>w. case m w of (r, w') \<Rightarrow> (map_ok f r, w'))"

text \<open>
  What is run when a step returns early or panics: the destructors of the values moved into it.
\<close>

definition io_on_fail :: "('w, 'a) io \<Rightarrow> ('w \<Rightarrow> 'w) \<Rightarrow> ('w, 'a) io" where
  "io_on_fail m cleanup = (\<lambda>w. case m w of
     (Ok x, w') \<Rightarrow> (Ok x, w') | (Err e, w') \<Rightarrow> (Err e, cleanup w') | (Panic, w') \<Rightarrow> (Panic, cleanup w'))"

lemma io_bind_simps [simp]:
  "m w = (Ok x, w') \<Longrightarrow> io_bind m f w = f x w'"
  "m w = (Err e, w') \<Longrightarrow> io_bind m f w = (Err e, w')"
  "m w = (Panic, w') \<Longrightarrow> io_bind m f w = (Panic, w')"
  by (simp_all add: io_bind_def)

lemma io_bind_Ok_iff:
  "io_bind m f w = (Ok y, w') \<longleftrightarrow> (\<exists>x w1. m w = (Ok x, w1) \<and> f x w1 = (Ok y, w'))"
  by (auto simp: io_bind_def split: prod.splits res.splits)

lemma io_res_apply [simp]: "io_res r w = (r, w)"
  by (simp add: io_res_def)

lemma io_bind_res [simp]:
  "io_bind (io_res (Ok x)) f = f x"
  "io_bind (io_res (Err e)) f = io_res (Err e)"
  "io_bind (io_res Panic) f = io_res Panic"
  by (simp_all add: io_bind_def io_res_def)

lemma io_map_Ok_iff:
  "io_map f m w = (Ok y, w') \<longleftrightarrow> (\<exists>x. m w = (Ok x, w') \<and> y = f x)"
  by (auto simp: io_map_def map_ok_Ok_iff split: prod.splits)

lemma io_on_fail_Ok_iff [simp]:
  "io_on_fail m c w = (Ok y, w') \<longleftrightarrow> m w = (Ok y, w')"
  by (auto simp: io_on_fail_def split: prod.splits res.splits)

text \<open>The result of a sequence without its effects.\<close>

lemma fst_io_bind_Panic:
  "fst (io_bind m f w) = Panic \<longleftrightarrow>
     fst (m w) = Panic \<or> (\<exists>x. fst (m w) = Ok x \<and> fst (f x (snd (m w))) = Panic)"
  by (auto simp: io_bind_def split: prod.splits res.splits)

lemma fst_io_map [simp]: "fst (io_map f m w) = map_ok f (fst (m w))"
  by (auto simp: io_map_def split: prod.splits)

lemma fst_io_on_fail [simp]: "fst (io_on_fail m c w) = fst (m w)"
  by (auto simp: io_on_fail_def split: prod.splits res.splits)

lemma fst_with_file [simp]: "fst (with_file os f m w) = fst (m w)"
  by (auto simp: with_file_def split: prod.splits)

lemma with_file_Ok_iff:
  "with_file os f m w = (r, w') \<longleftrightarrow> (\<exists>w1. m w = (r, w1) \<and> w' = sys_close os f w1)"
  by (auto simp: with_file_def split: prod.splits)

text \<open>An outcome holds of every result a step can have; it distributes over the sequencing.\<close>

definition io_post :: "('w, 'a) io \<Rightarrow> ('a res \<Rightarrow> 'w \<Rightarrow> bool) \<Rightarrow> 'w \<Rightarrow> bool" where
  "io_post m Q w = (case m w of (r, w') \<Rightarrow> Q r w')"

lemma io_post_bind:
  "io_post (io_bind m f) Q w \<longleftrightarrow>
     io_post m (\<lambda>r w'. case r of Ok x \<Rightarrow> io_post (f x) Q w' | Err e \<Rightarrow> Q (Err e) w' | Panic \<Rightarrow> Q Panic w') w"
  by (simp add: io_post_def io_bind_def split: prod.split res.split)

end
