(* ===== verification/Guest_Memory.thy ===== *)
theory Guest_Memory
  imports Wasi_Types
begin

text \<open>
  The guest's linear memory and \<^verbatim>\<open>src/memory.rs\<close>: translating guest pointers, reading and writing
  guest types through them, and converting between the guest's and the host's representation.
  A generic parameter \<open>T\<close> of the source is a \<open>layout\<close>: its size and alignment and how a value is
  stored.  The locale \<open>pod\<close> states what the memory functions need of a layout; the lemmas on
  \<open>dec_pointee\<close> and \<open>enc_pointee\<close> are proved in it once and instantiated for every guest type.
\<close>

type_synonym memory = bytes

section \<open>Layouts\<close>

record 'a layout =
  size_of :: usize
  align_of :: usize
  to_mem :: "target \<Rightarrow> 'a \<Rightarrow> bytes"
  of_mem :: "target \<Rightarrow> bytes \<Rightarrow> 'a"

text \<open>The bytes of a word in the host's order, and back.\<close>

definition ne_bytes :: "target \<Rightarrow> nat \<Rightarrow> 'a::len word \<Rightarrow> bytes" where
  "ne_bytes tgt n x = (if big_endian tgt then rev (le_bytes n x) else le_bytes n x)"

definition of_ne :: "target \<Rightarrow> bytes \<Rightarrow> 'a::len word" where
  "of_ne tgt bs = (if big_endian tgt then of_le (rev bs) else of_le bs)"

definition swap_bytes :: "'a::len word \<Rightarrow> 'a word" where
  "swap_bytes x = of_le (rev (le_bytes (LENGTH('a) div 8) x))"

lemma length_ne_bytes [simp]: "length (ne_bytes tgt n x) = n"
  by (simp add: ne_bytes_def)

lemma of_ne_ne_bytes [simp]:
  fixes x :: "'a::len word"
  shows "LENGTH('a) \<le> 8 * n \<Longrightarrow> of_ne tgt (ne_bytes tgt n x) = x"
  by (simp add: of_ne_def ne_bytes_def)

lemma ne_bytes_of_ne [simp]:
  "8 * n \<le> LENGTH('a) \<Longrightarrow> length bs = n \<Longrightarrow> ne_bytes tgt n (of_ne tgt bs :: 'a::len word) = bs"
  by (simp add: of_ne_def ne_bytes_def)

lemma swap_swap [simp]:
  fixes x :: "'a::len word"
  shows "8 dvd LENGTH('a) \<Longrightarrow> swap_bytes (swap_bytes x) = x"
  by (simp add: swap_bytes_def)

text \<open>
  \<^verbatim>\<open>from_le\<close> and \<^verbatim>\<open>to_le\<close>: the identity on a little-endian host, a byte swap on a big-endian one.
\<close>

definition from_le :: "target \<Rightarrow> 'a::len word \<Rightarrow> 'a word" where
  "from_le tgt x = (if big_endian tgt then swap_bytes x else x)"

definition to_le :: "target \<Rightarrow> 'a::len word \<Rightarrow> 'a word" where
  "to_le tgt x = (if big_endian tgt then swap_bytes x else x)"

lemma from_le_little [simp]: "\<not> big_endian tgt \<Longrightarrow> from_le tgt x = x"
  by (simp add: from_le_def)

lemma to_le_little [simp]: "\<not> big_endian tgt \<Longrightarrow> to_le tgt x = x"
  by (simp add: to_le_def)

lemma from_le_to_le [simp]:
  fixes x :: "'a::len word"
  shows "8 dvd LENGTH('a) \<Longrightarrow> from_le tgt (to_le tgt x) = x"
  by (simp add: from_le_def to_le_def)

lemma ne_bytes_to_le:
  fixes x :: "'a::len word"
  shows "LENGTH('a) = 8 * n \<Longrightarrow> ne_bytes tgt n (to_le tgt x) = le_bytes n x"
  by (simp add: ne_bytes_def to_le_def swap_bytes_def)

text \<open>The scalar layouts; alignments as the layout tests of \<^verbatim>\<open>wasm32.rs\<close> assert them.\<close>

definition L_u8 :: "u8 layout" where [layout_simps]:
  "L_u8 = \<lparr>size_of = 1, align_of = 1, to_mem = (\<lambda>tgt. ne_bytes tgt 1), of_mem = of_ne\<rparr>"

definition L_u16 :: "u16 layout" where [layout_simps]:
  "L_u16 = \<lparr>size_of = 2, align_of = 2, to_mem = (\<lambda>tgt. ne_bytes tgt 2), of_mem = of_ne\<rparr>"

definition L_u32 :: "u32 layout" where [layout_simps]:
  "L_u32 = \<lparr>size_of = 4, align_of = 4, to_mem = (\<lambda>tgt. ne_bytes tgt 4), of_mem = of_ne\<rparr>"

definition L_u64 :: "u64 layout" where [layout_simps]:
  "L_u64 = \<lparr>size_of = 8, align_of = 8, to_mem = (\<lambda>tgt. ne_bytes tgt 8), of_mem = of_ne\<rparr>"

section \<open>Guest pointers\<close>

text \<open>
  \<^verbatim>\<open>memory.get(a..b)\<close>.  The pointer the source computes from it is the offset \<open>a\<close>.
\<close>

definition get_range :: "memory \<Rightarrow> nat \<Rightarrow> nat \<Rightarrow> nat option" where
  "get_range mem a b = (if a \<le> b \<and> b \<le> length mem then Some a else None)"

definition dec_ptr :: "target \<Rightarrow> memory \<Rightarrow> u32 \<Rightarrow> usize \<Rightarrow> nat res" where
  "dec_ptr tgt mem ptr len =
     and_then (ok_or (usize_checked_add tgt (unat ptr) len) WASI_EFAULT) (\<lambda>checked_len.
       ok_or (get_range mem (unat ptr) checked_len) WASI_EFAULT)"

definition dec_ptr_mut :: "target \<Rightarrow> memory \<Rightarrow> u32 \<Rightarrow> usize \<Rightarrow> nat res" where
  "dec_ptr_mut tgt mem ptr len =
     and_then (ok_or (usize_checked_add tgt (unat ptr) len) WASI_EFAULT) (\<lambda>checked_len.
       ok_or (get_range mem (unat ptr) checked_len) WASI_EFAULT)"

definition dec_ptr_to :: "'a layout \<Rightarrow> target \<Rightarrow> memory \<Rightarrow> u32 \<Rightarrow> nat res" where
  "dec_ptr_to L tgt mem ptr =
     (if unat ptr mod align_of L \<noteq> 0 then Err WASI_EINVAL
      else dec_ptr tgt mem ptr (size_of L))"

definition dec_ptr_to_mut :: "'a layout \<Rightarrow> target \<Rightarrow> memory \<Rightarrow> u32 \<Rightarrow> nat res" where
  "dec_ptr_to_mut L tgt mem ptr =
     (if unat ptr mod align_of L \<noteq> 0 then Err WASI_EINVAL
      else dec_ptr_mut tgt mem ptr (size_of L))"

definition dec_pointee :: "'a layout \<Rightarrow> target \<Rightarrow> memory \<Rightarrow> u32 \<Rightarrow> 'a res" where
  "dec_pointee L tgt mem ptr =
     map_ok (\<lambda>p. of_mem L tgt (slice_at mem p (size_of L))) (dec_ptr_to L tgt mem ptr)"

text \<open>A function that writes guest memory returns the new memory; on an error it is unchanged.\<close>

definition enc_pointee :: "'a layout \<Rightarrow> target \<Rightarrow> memory \<Rightarrow> u32 \<Rightarrow> 'a \<Rightarrow> memory res" where
  "enc_pointee L tgt mem ptr t =
     map_ok (\<lambda>p. overwrite mem p (to_mem L tgt t)) (dec_ptr_to_mut L tgt mem ptr)"

definition dec_usize :: "target \<Rightarrow> u32 \<Rightarrow> usize res" where
  "dec_usize tgt sz = unwrap (usize_try_from tgt (from_le tgt sz))"

definition enc_usize :: "usize \<Rightarrow> u32 res" where
  "enc_usize sz = unwrap (u32_try_from sz)"

definition enc_usize_byref :: "target \<Rightarrow> memory \<Rightarrow> u32 \<Rightarrow> usize \<Rightarrow> memory res" where
  "enc_usize_byref tgt mem usize_ptr host_usize =
     and_then (enc_usize host_usize) (enc_pointee L_u32 tgt mem usize_ptr)"

definition dec_u32 :: "target \<Rightarrow> u32 \<Rightarrow> u32" where
  "dec_u32 tgt x = from_le tgt x"

definition enc_u32 :: "target \<Rightarrow> u32 \<Rightarrow> u32" where
  "enc_u32 tgt x = to_le tgt x"

section \<open>Slices\<close>

definition check_slice_of :: "'a layout \<Rightarrow> target \<Rightarrow> u32 \<Rightarrow> u32 \<Rightarrow> (usize \<times> usize) res" where
  "check_slice_of L tgt ptr len =
     (if unat ptr mod align_of L \<noteq> 0 then Err WASI_EINVAL
      else and_then (dec_usize tgt len) (\<lambda>len.
        case usize_checked_mul tgt (size_of L) len of
          Some len_bytes \<Rightarrow> Ok (len, len_bytes)
        | None \<Rightarrow> Err WASI_EOVERFLOW))"

text \<open>The elements of a slice of \<open>n\<close> values at offset \<open>p\<close>.\<close>

definition slice_elems :: "'a layout \<Rightarrow> target \<Rightarrow> memory \<Rightarrow> nat \<Rightarrow> nat \<Rightarrow> 'a list" where
  "slice_elems L tgt mem p n =
     map (\<lambda>i. of_mem L tgt (slice_at mem (p + i * size_of L) (size_of L))) [0..<n]"

definition dec_slice_of :: "'a layout \<Rightarrow> target \<Rightarrow> memory \<Rightarrow> u32 \<Rightarrow> u32 \<Rightarrow> 'a list res" where
  "dec_slice_of L tgt mem ptr len =
     and_then (check_slice_of L tgt ptr len) (\<lambda>(len, len_bytes).
       map_ok (\<lambda>p. slice_elems L tgt mem p len) (dec_ptr tgt mem ptr len_bytes))"

text \<open>A mutable slice is where it starts and how many elements it has.\<close>

definition dec_slice_of_mut ::
  "'a layout \<Rightarrow> target \<Rightarrow> memory \<Rightarrow> u32 \<Rightarrow> u32 \<Rightarrow> (nat \<times> usize) res" where
  "dec_slice_of_mut L tgt mem ptr len =
     and_then (check_slice_of L tgt ptr len) (\<lambda>(len, len_bytes).
       map_ok (\<lambda>p. (p, len)) (dec_ptr_mut tgt mem ptr len_bytes))"

definition enc_slice_of :: "'a layout \<Rightarrow> target \<Rightarrow> memory \<Rightarrow> 'a list \<Rightarrow> u32 \<Rightarrow> memory res" where
  "enc_slice_of L tgt mem xs ptr =
     (if unat ptr mod align_of L \<noteq> 0 then Err WASI_EINVAL
      else case usize_checked_mul tgt (size_of L) (length xs) of
        None \<Rightarrow> Err WASI_EOVERFLOW
      | Some len_bytes \<Rightarrow>
          map_ok (\<lambda>p. overwrite mem p (concat (map (to_mem L tgt) xs)))
            (dec_ptr_mut tgt mem ptr len_bytes))"

section \<open>Scalars\<close>

text \<open>The four functions of the macro \<^verbatim>\<open>dec_enc_scalar!\<close>, and its uses.\<close>

definition dec_scalar :: "target \<Rightarrow> 'a::len word \<Rightarrow> 'a word" where
  "dec_scalar tgt x = from_le tgt x"

definition dec_scalar_byref ::
  "'a::len word layout \<Rightarrow> target \<Rightarrow> memory \<Rightarrow> u32 \<Rightarrow> 'a word res" where
  "dec_scalar_byref L tgt mem ptr = map_ok (dec_scalar tgt) (dec_pointee L tgt mem ptr)"

definition enc_scalar :: "target \<Rightarrow> 'a::len word \<Rightarrow> 'a word" where
  "enc_scalar tgt x = to_le tgt x"

definition enc_scalar_byref ::
  "'a::len word layout \<Rightarrow> target \<Rightarrow> memory \<Rightarrow> u32 \<Rightarrow> 'a word \<Rightarrow> memory res" where
  "enc_scalar_byref L tgt mem ptr x = enc_pointee L tgt mem ptr (enc_scalar tgt x)"

abbreviation dec_clockid :: "target \<Rightarrow> wasi_clockid_t \<Rightarrow> wasi_clockid_t" where
  "dec_clockid \<equiv> dec_scalar"

abbreviation enc_clockid :: "target \<Rightarrow> wasi_clockid_t \<Rightarrow> wasi_clockid_t" where
  "enc_clockid \<equiv> enc_scalar"

abbreviation dec_errno :: "target \<Rightarrow> wasi_errno_t \<Rightarrow> wasi_errno_t" where
  "dec_errno \<equiv> dec_scalar"

abbreviation enc_errno :: "target \<Rightarrow> wasi_errno_t \<Rightarrow> wasi_errno_t" where
  "enc_errno \<equiv> enc_scalar"

abbreviation dec_exitcode :: "target \<Rightarrow> wasi_exitcode_t \<Rightarrow> wasi_exitcode_t" where
  "dec_exitcode \<equiv> dec_scalar"

abbreviation enc_exitcode :: "target \<Rightarrow> wasi_exitcode_t \<Rightarrow> wasi_exitcode_t" where
  "enc_exitcode \<equiv> enc_scalar"

abbreviation dec_fd :: "target \<Rightarrow> wasi_fd_t \<Rightarrow> wasi_fd_t" where
  "dec_fd \<equiv> dec_scalar"

abbreviation enc_fd :: "target \<Rightarrow> wasi_fd_t \<Rightarrow> wasi_fd_t" where
  "enc_fd \<equiv> enc_scalar"

abbreviation enc_fd_byref :: "target \<Rightarrow> memory \<Rightarrow> u32 \<Rightarrow> wasi_fd_t \<Rightarrow> memory res" where
  "enc_fd_byref \<equiv> enc_scalar_byref L_u32"

abbreviation dec_fdflags :: "target \<Rightarrow> wasi_fdflags_t \<Rightarrow> wasi_fdflags_t" where
  "dec_fdflags \<equiv> dec_scalar"

abbreviation enc_fdflags :: "target \<Rightarrow> wasi_fdflags_t \<Rightarrow> wasi_fdflags_t" where
  "enc_fdflags \<equiv> enc_scalar"

abbreviation dec_device :: "target \<Rightarrow> wasi_device_t \<Rightarrow> wasi_device_t" where
  "dec_device \<equiv> dec_scalar"

abbreviation enc_device :: "target \<Rightarrow> wasi_device_t \<Rightarrow> wasi_device_t" where
  "enc_device \<equiv> enc_scalar"

abbreviation dec_inode :: "target \<Rightarrow> wasi_inode_t \<Rightarrow> wasi_inode_t" where
  "dec_inode \<equiv> dec_scalar"

abbreviation enc_inode :: "target \<Rightarrow> wasi_inode_t \<Rightarrow> wasi_inode_t" where
  "enc_inode \<equiv> enc_scalar"

abbreviation dec_linkcount :: "target \<Rightarrow> wasi_linkcount_t \<Rightarrow> wasi_linkcount_t" where
  "dec_linkcount \<equiv> dec_scalar"

abbreviation enc_linkcount :: "target \<Rightarrow> wasi_linkcount_t \<Rightarrow> wasi_linkcount_t" where
  "enc_linkcount \<equiv> enc_scalar"

abbreviation dec_filedelta :: "target \<Rightarrow> wasi_filedelta_t \<Rightarrow> wasi_filedelta_t" where
  "dec_filedelta \<equiv> dec_scalar"

abbreviation enc_filedelta :: "target \<Rightarrow> wasi_filedelta_t \<Rightarrow> wasi_filedelta_t" where
  "enc_filedelta \<equiv> enc_scalar"

abbreviation dec_filesize :: "target \<Rightarrow> wasi_filesize_t \<Rightarrow> wasi_filesize_t" where
  "dec_filesize \<equiv> dec_scalar"

abbreviation enc_filesize :: "target \<Rightarrow> wasi_filesize_t \<Rightarrow> wasi_filesize_t" where
  "enc_filesize \<equiv> enc_scalar"

abbreviation enc_filesize_byref :: "target \<Rightarrow> memory \<Rightarrow> u32 \<Rightarrow> wasi_filesize_t \<Rightarrow> memory res" where
  "enc_filesize_byref \<equiv> enc_scalar_byref L_u64"

abbreviation dec_filetype :: "target \<Rightarrow> wasi_filetype_t \<Rightarrow> wasi_filetype_t" where
  "dec_filetype \<equiv> dec_scalar"

abbreviation enc_filetype :: "target \<Rightarrow> wasi_filetype_t \<Rightarrow> wasi_filetype_t" where
  "enc_filetype \<equiv> enc_scalar"

abbreviation dec_lookupflags :: "target \<Rightarrow> wasi_lookupflags_t \<Rightarrow> wasi_lookupflags_t" where
  "dec_lookupflags \<equiv> dec_scalar"

abbreviation enc_lookupflags :: "target \<Rightarrow> wasi_lookupflags_t \<Rightarrow> wasi_lookupflags_t" where
  "enc_lookupflags \<equiv> enc_scalar"

abbreviation dec_oflags :: "target \<Rightarrow> wasi_oflags_t \<Rightarrow> wasi_oflags_t" where
  "dec_oflags \<equiv> dec_scalar"

abbreviation enc_oflags :: "target \<Rightarrow> wasi_oflags_t \<Rightarrow> wasi_oflags_t" where
  "enc_oflags \<equiv> enc_scalar"

abbreviation dec_rights :: "target \<Rightarrow> wasi_rights_t \<Rightarrow> wasi_rights_t" where
  "dec_rights \<equiv> dec_scalar"

abbreviation enc_rights :: "target \<Rightarrow> wasi_rights_t \<Rightarrow> wasi_rights_t" where
  "enc_rights \<equiv> enc_scalar"

abbreviation dec_timestamp :: "target \<Rightarrow> wasi_timestamp_t \<Rightarrow> wasi_timestamp_t" where
  "dec_timestamp \<equiv> dec_scalar"

abbreviation enc_timestamp :: "target \<Rightarrow> wasi_timestamp_t \<Rightarrow> wasi_timestamp_t" where
  "enc_timestamp \<equiv> enc_scalar"

abbreviation enc_timestamp_byref :: "target \<Rightarrow> memory \<Rightarrow> u32 \<Rightarrow> wasi_timestamp_t \<Rightarrow> memory res" where
  "enc_timestamp_byref \<equiv> enc_scalar_byref L_u64"

abbreviation dec_whence :: "target \<Rightarrow> wasi_whence_t \<Rightarrow> wasi_whence_t" where
  "dec_whence \<equiv> dec_scalar"

abbreviation enc_whence :: "target \<Rightarrow> wasi_whence_t \<Rightarrow> wasi_whence_t" where
  "enc_whence \<equiv> enc_scalar"

abbreviation dec_subclockflags :: "target \<Rightarrow> wasi_subclockflags_t \<Rightarrow> wasi_subclockflags_t" where
  "dec_subclockflags \<equiv> dec_scalar"

abbreviation enc_subclockflags :: "target \<Rightarrow> wasi_subclockflags_t \<Rightarrow> wasi_subclockflags_t" where
  "enc_subclockflags \<equiv> enc_scalar"

abbreviation dec_eventrwflags :: "target \<Rightarrow> wasi_eventrwflags_t \<Rightarrow> wasi_eventrwflags_t" where
  "dec_eventrwflags \<equiv> dec_scalar"

abbreviation enc_eventrwflags :: "target \<Rightarrow> wasi_eventrwflags_t \<Rightarrow> wasi_eventrwflags_t" where
  "enc_eventrwflags \<equiv> enc_scalar"

abbreviation dec_eventtype :: "target \<Rightarrow> wasi_eventtype_t \<Rightarrow> wasi_eventtype_t" where
  "dec_eventtype \<equiv> dec_scalar"

abbreviation enc_eventtype :: "target \<Rightarrow> wasi_eventtype_t \<Rightarrow> wasi_eventtype_t" where
  "enc_eventtype \<equiv> enc_scalar"

abbreviation dec_userdata :: "target \<Rightarrow> wasi_userdata_t \<Rightarrow> wasi_userdata_t" where
  "dec_userdata \<equiv> dec_scalar"

abbreviation enc_userdata :: "target \<Rightarrow> wasi_userdata_t \<Rightarrow> wasi_userdata_t" where
  "enc_userdata \<equiv> enc_scalar"

abbreviation dec_advice :: "target \<Rightarrow> wasi_advice_t \<Rightarrow> wasi_advice_t" where
  "dec_advice \<equiv> dec_scalar"

abbreviation enc_advice :: "target \<Rightarrow> wasi_advice_t \<Rightarrow> wasi_advice_t" where
  "enc_advice \<equiv> enc_scalar"

abbreviation dec_fstflags :: "target \<Rightarrow> wasi_fstflags_t \<Rightarrow> wasi_fstflags_t" where
  "dec_fstflags \<equiv> dec_scalar"

abbreviation enc_fstflags :: "target \<Rightarrow> wasi_fstflags_t \<Rightarrow> wasi_fstflags_t" where
  "enc_fstflags \<equiv> enc_scalar"

abbreviation dec_dircookie :: "target \<Rightarrow> wasi_dircookie_t \<Rightarrow> wasi_dircookie_t" where
  "dec_dircookie \<equiv> dec_scalar"

abbreviation enc_dircookie :: "target \<Rightarrow> wasi_dircookie_t \<Rightarrow> wasi_dircookie_t" where
  "enc_dircookie \<equiv> enc_scalar"

section \<open>Struct layouts\<close>

text \<open>
  Offsets as the layout tests of \<^verbatim>\<open>wasm32.rs\<close> assert them.  Bytes between two fields that no
  declared field covers are padding of the compiler.
\<close>

definition pad :: "target \<Rightarrow> nat \<Rightarrow> bytes" where
  "pad tgt n = replicate n (pad_byte tgt)"

lemma length_pad [simp]: "length (pad tgt n) = n"
  by (simp add: pad_def)

definition L_filestat :: "filestat32 layout" where [layout_simps]:
  "L_filestat = \<lparr>size_of = 56, align_of = 8,
     to_mem = (\<lambda>tgt x.
       ne_bytes tgt 8 (st_dev32 x) @ ne_bytes tgt 8 (st_ino32 x) @
       ne_bytes tgt 1 (st_filetype32 x) @ pad tgt 3 @ ne_bytes tgt 4 (st_nlink32 x) @
       ne_bytes tgt 8 (st_size32 x) @ ne_bytes tgt 8 (st_atim32 x) @
       ne_bytes tgt 8 (st_mtim32 x) @ ne_bytes tgt 8 (st_ctim32 x)),
     of_mem = (\<lambda>tgt bs. \<lparr>
       st_dev32 = of_ne tgt (slice_at bs 0 8), st_ino32 = of_ne tgt (slice_at bs 8 8),
       st_filetype32 = of_ne tgt (slice_at bs 16 1), st_nlink32 = of_ne tgt (slice_at bs 20 4),
       st_size32 = of_ne tgt (slice_at bs 24 8), st_atim32 = of_ne tgt (slice_at bs 32 8),
       st_mtim32 = of_ne tgt (slice_at bs 40 8), st_ctim32 = of_ne tgt (slice_at bs 48 8)\<rparr>)\<rparr>"

definition L_fdstat :: "fdstat32 layout" where [layout_simps]:
  "L_fdstat = \<lparr>size_of = 24, align_of = 8,
     to_mem = (\<lambda>tgt x.
       ne_bytes tgt 1 (fs_filetype32 x) @ pad tgt 1 @ ne_bytes tgt 2 (fs_flags32 x) @
       ne_bytes tgt 4 (fs_pad32 x) @ ne_bytes tgt 8 (fs_rights_base32 x) @
       ne_bytes tgt 8 (fs_rights_inheriting32 x)),
     of_mem = (\<lambda>tgt bs. \<lparr>
       fs_filetype32 = of_ne tgt (slice_at bs 0 1), fs_flags32 = of_ne tgt (slice_at bs 2 2),
       fs_pad32 = of_ne tgt (slice_at bs 4 4),
       fs_rights_base32 = of_ne tgt (slice_at bs 8 8),
       fs_rights_inheriting32 = of_ne tgt (slice_at bs 16 8)\<rparr>)\<rparr>"

definition L_prestat :: "prestat32 layout" where [layout_simps]:
  "L_prestat = \<lparr>size_of = 8, align_of = 4,
     to_mem = (\<lambda>tgt x.
       ne_bytes tgt 1 (pr_type32 x) @ pad tgt 3 @ ne_bytes tgt 4 (pr_name_len32 x)),
     of_mem = (\<lambda>tgt bs. \<lparr>
       pr_type32 = of_ne tgt (slice_at bs 0 1), pr_name_len32 = of_ne tgt (slice_at bs 4 4)\<rparr>)\<rparr>"

definition L_iovec :: "iovec32 layout" where [layout_simps]:
  "L_iovec = \<lparr>size_of = 8, align_of = 4,
     to_mem = (\<lambda>tgt x. ne_bytes tgt 4 (buf32 x) @ ne_bytes tgt 4 (buf_len32 x)),
     of_mem = (\<lambda>tgt bs. \<lparr>
       buf32 = of_ne tgt (slice_at bs 0 4), buf_len32 = of_ne tgt (slice_at bs 4 4)\<rparr>)\<rparr>"

definition L_dirent :: "dirent32 layout" where [layout_simps]:
  "L_dirent = \<lparr>size_of = 24, align_of = 8,
     to_mem = (\<lambda>tgt x.
       ne_bytes tgt 8 (d_next32 x) @ ne_bytes tgt 8 (d_ino32 x) @
       ne_bytes tgt 4 (d_namlen32 x) @ ne_bytes tgt 1 (d_type32 x) @ d_pad32 x),
     of_mem = (\<lambda>tgt bs. \<lparr>
       d_next32 = of_ne tgt (slice_at bs 0 8), d_ino32 = of_ne tgt (slice_at bs 8 8),
       d_namlen32 = of_ne tgt (slice_at bs 16 4), d_type32 = of_ne tgt (slice_at bs 20 1),
       d_pad32 = slice_at bs 21 3\<rparr>)\<rparr>"

definition L_event :: "event32 layout" where [layout_simps]:
  "L_event = \<lparr>size_of = 32, align_of = 8,
     to_mem = (\<lambda>tgt x.
       ne_bytes tgt 8 (ev_userdata32 x) @ ne_bytes tgt 2 (ev_error32 x) @
       ne_bytes tgt 1 (ev_type32 x) @ pad tgt 1 @ ne_bytes tgt 4 (ev_pad32 x) @
       ne_bytes tgt 8 (ev_nbytes32 x) @ ne_bytes tgt 2 (ev_flags32 x) @
       concat (map (ne_bytes tgt 2) (ev_rw_pad32 x))),
     of_mem = (\<lambda>tgt bs. \<lparr>
       ev_userdata32 = of_ne tgt (slice_at bs 0 8), ev_error32 = of_ne tgt (slice_at bs 8 2),
       ev_type32 = of_ne tgt (slice_at bs 10 1), ev_pad32 = of_ne tgt (slice_at bs 12 4),
       ev_nbytes32 = of_ne tgt (slice_at bs 16 8), ev_flags32 = of_ne tgt (slice_at bs 24 2),
       ev_rw_pad32 = [of_ne tgt (slice_at bs 26 2), of_ne tgt (slice_at bs 28 2),
         of_ne tgt (slice_at bs 30 2)]\<rparr>)\<rparr>"

definition L_subscription :: "subscription32 layout" where [layout_simps]:
  "L_subscription = \<lparr>size_of = 56, align_of = 8,
     to_mem = (\<lambda>tgt x.
       ne_bytes tgt 8 (su_userdata32 x) @ ne_bytes tgt 1 (su_type32 x) @ pad tgt 3 @
       ne_bytes tgt 4 (su_pad32 x) @ su_u32 x),
     of_mem = (\<lambda>tgt bs. \<lparr>
       su_userdata32 = of_ne tgt (slice_at bs 0 8), su_type32 = of_ne tgt (slice_at bs 8 1),
       su_pad32 = of_ne tgt (slice_at bs 12 4), su_u32 = slice_at bs 16 40\<rparr>)\<rparr>"

section \<open>Converting structs\<close>

definition dec_iovec :: "target \<Rightarrow> memory \<Rightarrow> iovec32 \<Rightarrow> iovec res" where
  "dec_iovec tgt mem iovec =
     and_then (dec_usize tgt (buf_len32 iovec)) (\<lambda>len.
       map_ok (\<lambda>buf. \<lparr>iov_buf = buf, iov_buf_len = len\<rparr>) (dec_ptr tgt mem (buf32 iovec) len))"

definition dec_iovec_slice :: "target \<Rightarrow> memory \<Rightarrow> u32 \<Rightarrow> u32 \<Rightarrow> iovec list res" where
  "dec_iovec_slice tgt mem ptr len =
     and_then (dec_slice_of L_iovec tgt mem ptr len) (collect_res (dec_iovec tgt mem))"

definition dec_ciovec :: "target \<Rightarrow> memory \<Rightarrow> iovec32 \<Rightarrow> iovec res" where
  "dec_ciovec tgt mem ciovec =
     and_then (dec_usize tgt (buf_len32 ciovec)) (\<lambda>len.
       map_ok (\<lambda>buf. \<lparr>iov_buf = buf, iov_buf_len = len\<rparr>) (dec_ptr tgt mem (buf32 ciovec) len))"

definition dec_ciovec_slice :: "target \<Rightarrow> memory \<Rightarrow> u32 \<Rightarrow> u32 \<Rightarrow> iovec list res" where
  "dec_ciovec_slice tgt mem ptr len =
     and_then (dec_slice_of L_iovec tgt mem ptr len) (collect_res (dec_ciovec tgt mem))"

definition dec_filestat :: "target \<Rightarrow> filestat32 \<Rightarrow> filestat" where
  "dec_filestat tgt x = \<lparr>
     st_dev = dec_device tgt (st_dev32 x), st_ino = dec_inode tgt (st_ino32 x),
     st_filetype = dec_filetype tgt (st_filetype32 x),
     st_nlink = dec_linkcount tgt (st_nlink32 x), st_size = dec_filesize tgt (st_size32 x),
     st_atim = dec_timestamp tgt (st_atim32 x), st_mtim = dec_timestamp tgt (st_mtim32 x),
     st_ctim = dec_timestamp tgt (st_ctim32 x)\<rparr>"

definition dec_filestat_byref :: "target \<Rightarrow> memory \<Rightarrow> u32 \<Rightarrow> filestat res" where
  "dec_filestat_byref tgt mem ptr = map_ok (dec_filestat tgt) (dec_pointee L_filestat tgt mem ptr)"

definition enc_filestat :: "target \<Rightarrow> filestat \<Rightarrow> filestat32" where
  "enc_filestat tgt x = \<lparr>
     st_dev32 = enc_device tgt (st_dev x), st_ino32 = enc_inode tgt (st_ino x),
     st_filetype32 = enc_filetype tgt (st_filetype x),
     st_nlink32 = enc_linkcount tgt (st_nlink x), st_size32 = enc_filesize tgt (st_size x),
     st_atim32 = enc_timestamp tgt (st_atim x), st_mtim32 = enc_timestamp tgt (st_mtim x),
     st_ctim32 = enc_timestamp tgt (st_ctim x)\<rparr>"

definition enc_filestat_byref :: "target \<Rightarrow> memory \<Rightarrow> u32 \<Rightarrow> filestat \<Rightarrow> memory res" where
  "enc_filestat_byref tgt mem ptr x = enc_pointee L_filestat tgt mem ptr (enc_filestat tgt x)"

definition dec_fdstat :: "target \<Rightarrow> fdstat32 \<Rightarrow> fdstat" where
  "dec_fdstat tgt x = \<lparr>
     fs_filetype = dec_filetype tgt (fs_filetype32 x), fs_flags = dec_fdflags tgt (fs_flags32 x),
     fs_rights_base = dec_rights tgt (fs_rights_base32 x),
     fs_rights_inheriting = dec_rights tgt (fs_rights_inheriting32 x)\<rparr>"

definition dec_fdstat_byref :: "target \<Rightarrow> memory \<Rightarrow> u32 \<Rightarrow> fdstat res" where
  "dec_fdstat_byref tgt mem ptr = map_ok (dec_fdstat tgt) (dec_pointee L_fdstat tgt mem ptr)"

definition enc_fdstat :: "target \<Rightarrow> fdstat \<Rightarrow> fdstat32" where
  "enc_fdstat tgt x = \<lparr>
     fs_filetype32 = enc_filetype tgt (fs_filetype x), fs_flags32 = enc_fdflags tgt (fs_flags x),
     fs_pad32 = 0,
     fs_rights_base32 = enc_rights tgt (fs_rights_base x),
     fs_rights_inheriting32 = enc_rights tgt (fs_rights_inheriting x)\<rparr>"

definition enc_fdstat_byref :: "target \<Rightarrow> memory \<Rightarrow> u32 \<Rightarrow> fdstat \<Rightarrow> memory res" where
  "enc_fdstat_byref tgt mem ptr x = enc_pointee L_fdstat tgt mem ptr (enc_fdstat tgt x)"

definition dec_prestat :: "target \<Rightarrow> prestat32 \<Rightarrow> prestat res" where
  "dec_prestat tgt x =
     (if pr_type32 x = WASI_PREOPENTYPE_DIR
      then map_ok (\<lambda>n. \<lparr>pr_type = WASI_PREOPENTYPE_DIR, pr_name_len = n\<rparr>)
             (dec_usize tgt (pr_name_len32 x))
      else Err WASI_EINVAL)"

definition dec_prestat_byref :: "target \<Rightarrow> memory \<Rightarrow> u32 \<Rightarrow> prestat res" where
  "dec_prestat_byref tgt mem ptr = and_then (dec_pointee L_prestat tgt mem ptr) (dec_prestat tgt)"

definition enc_prestat :: "prestat \<Rightarrow> prestat32 res" where
  "enc_prestat x =
     (if pr_type x = WASI_PREOPENTYPE_DIR
      then map_ok (\<lambda>n. \<lparr>pr_type32 = WASI_PREOPENTYPE_DIR, pr_name_len32 = n\<rparr>)
             (enc_usize (pr_name_len x))
      else Err WASI_EINVAL)"

definition enc_prestat_byref :: "target \<Rightarrow> memory \<Rightarrow> u32 \<Rightarrow> prestat \<Rightarrow> memory res" where
  "enc_prestat_byref tgt mem ptr x =
     and_then (enc_prestat x) (enc_pointee L_prestat tgt mem ptr)"

text \<open>
  The two views of the raw union of a subscription, with the offsets the layout tests assert.
\<close>

definition u_clock32 :: "target \<Rightarrow> bytes \<Rightarrow> subscription_clock" where
  "u_clock32 tgt u = \<lparr>
     sc_identifier = of_ne tgt (slice_at u 0 8), sc_clock_id = of_ne tgt (slice_at u 8 4),
     sc_timeout = of_ne tgt (slice_at u 16 8), sc_precision = of_ne tgt (slice_at u 24 8),
     sc_flags = of_ne tgt (slice_at u 32 2)\<rparr>"

definition u_fd_readwrite32 :: "target \<Rightarrow> bytes \<Rightarrow> wasi_fd_t" where
  "u_fd_readwrite32 tgt u = of_ne tgt (slice_at u 0 4)"

definition dec_subscription :: "target \<Rightarrow> subscription32 \<Rightarrow> subscription res" where
  "dec_subscription tgt x =
     (let userdata = dec_userdata tgt (su_userdata32 x);
          type = dec_eventtype tgt (su_type32 x);
          u_orig = su_u32 x
      in if type = WASI_EVENTTYPE_CLOCK then
           (let c = u_clock32 tgt u_orig in
            Ok \<lparr>su_userdata = userdata, su_type = type, su_u = U_clock \<lparr>
              sc_identifier = dec_userdata tgt (sc_identifier c),
              sc_clock_id = dec_clockid tgt (sc_clock_id c),
              sc_timeout = dec_timestamp tgt (sc_timeout c),
              sc_precision = dec_timestamp tgt (sc_precision c),
              sc_flags = dec_subclockflags tgt (sc_flags c)\<rparr>\<rparr>)
         else if type = WASI_EVENTTYPE_FD_READ \<or> type = WASI_EVENTTYPE_FD_WRITE then
           Ok \<lparr>su_userdata = userdata, su_type = type,
             su_u = U_fd_readwrite (dec_fd tgt (u_fd_readwrite32 tgt u_orig))\<rparr>
         else Err WASI_EINVAL)"

definition enc_event :: "target \<Rightarrow> event \<Rightarrow> event32" where
  "enc_event tgt x = \<lparr>
     ev_userdata32 = enc_userdata tgt (ev_userdata x),
     ev_error32 = enc_errno tgt (ev_error x),
     ev_type32 = enc_eventtype tgt (ev_type x),
     ev_pad32 = 0,
     ev_nbytes32 = enc_filesize tgt (ev_nbytes x),
     ev_flags32 = enc_eventrwflags tgt (ev_flags x),
     ev_rw_pad32 = [0, 0, 0]\<rparr>"

section \<open>The interface of a guest type\<close>

text \<open>
  What the memory functions need of a layout: a value is stored in exactly its size, and is read
  back as it was stored.  \<open>wf\<close> restricts the values to those that exist in Rust where a record
  models an array by a list.
\<close>

locale pod =
  fixes L :: "'a layout" and wf :: "'a \<Rightarrow> bool"
  assumes align_pos: "0 < align_of L"
    and align_size: "align_of L dvd size_of L"
    and to_mem_length: "wf x \<Longrightarrow> length (to_mem L tgt x) = size_of L"
    and of_to_mem: "wf x \<Longrightarrow> of_mem L tgt (to_mem L tgt x) = x"

text \<open>Where an access of \<open>n\<close> bytes at a guest pointer is allowed, and the error otherwise.\<close>

definition in_bounds :: "target \<Rightarrow> memory \<Rightarrow> u32 \<Rightarrow> nat \<Rightarrow> bool" where
  "in_bounds tgt mem ptr n \<longleftrightarrow> unat ptr + n < 2 ^ usize_bits tgt \<and> unat ptr + n \<le> length mem"

lemma dec_ptr_eq:
  "dec_ptr tgt mem ptr n = (if in_bounds tgt mem ptr n then Ok (unat ptr) else Err WASI_EFAULT)"
  by (simp add: dec_ptr_def usize_checked_add_def get_range_def in_bounds_def)

lemma dec_ptr_mut_eq: "dec_ptr_mut tgt mem ptr n = dec_ptr tgt mem ptr n"
  by (simp add: dec_ptr_mut_def dec_ptr_def)

lemma in_bounds_length:
  "length mem' = length mem \<Longrightarrow> in_bounds tgt mem' ptr n = in_bounds tgt mem ptr n"
  by (simp add: in_bounds_def)

lemma dec_pointee_eq:
  "dec_pointee L tgt mem ptr =
     (if unat ptr mod align_of L \<noteq> 0 then Err WASI_EINVAL
      else if in_bounds tgt mem ptr (size_of L)
      then Ok (of_mem L tgt (slice_at mem (unat ptr) (size_of L)))
      else Err WASI_EFAULT)"
  by (simp add: dec_pointee_def dec_ptr_to_def dec_ptr_eq)

lemma enc_pointee_eq:
  "enc_pointee L tgt mem ptr x =
     (if unat ptr mod align_of L \<noteq> 0 then Err WASI_EINVAL
      else if in_bounds tgt mem ptr (size_of L)
      then Ok (overwrite mem (unat ptr) (to_mem L tgt x))
      else Err WASI_EFAULT)"
  by (simp add: enc_pointee_def dec_ptr_to_mut_def dec_ptr_eq dec_ptr_mut_eq)

lemma enc_pointee_not_Panic [simp]: "enc_pointee L tgt mem ptr x \<noteq> Panic"
  by (simp add: enc_pointee_eq)

lemma dec_pointee_not_Panic [simp]: "dec_pointee L tgt mem ptr \<noteq> Panic"
  by (simp add: dec_pointee_eq)

lemma dec_usize_supported [simp]:
  "supported tgt \<Longrightarrow> dec_usize tgt x = Ok (unat (from_le tgt x))"
  by (simp add: dec_usize_def)

lemma dec_usize_not_Err [simp]: "dec_usize tgt x \<noteq> Err e"
  by (cases "usize_try_from tgt (from_le tgt x)") (simp_all add: dec_usize_def)

lemma enc_usize_cases: "enc_usize n = (if n < 2 ^ 32 then Ok (of_nat n) else Panic)"
  by (simp add: enc_usize_def u32_try_from_def)

context pod
begin

lemma enc_pointee_OkD:
  assumes "enc_pointee L tgt mem ptr x = Ok mem'"
  shows "unat ptr mod align_of L = 0" "in_bounds tgt mem ptr (size_of L)"
    "mem' = overwrite mem (unat ptr) (to_mem L tgt x)"
  using assms by (auto simp: enc_pointee_eq split: if_splits)

lemma enc_length:
  assumes "wf x" "enc_pointee L tgt mem ptr x = Ok mem'"
  shows "length mem' = length mem"
  using enc_pointee_OkD [OF assms(2)] assms(1)
  by (simp add: to_mem_length in_bounds_def)

lemma enc_slice_same:
  assumes "wf x" "enc_pointee L tgt mem ptr x = Ok mem'"
  shows "slice_at mem' (unat ptr) (size_of L) = to_mem L tgt x"
  using enc_pointee_OkD [OF assms(2)] assms(1)
  by (simp add: to_mem_length in_bounds_def)

lemma dec_enc_pointee:
  assumes "wf x" "enc_pointee L tgt mem ptr x = Ok mem'"
  shows "dec_pointee L tgt mem' ptr = Ok x"
  using enc_pointee_OkD [OF assms(2)] enc_slice_same [OF assms] enc_length [OF assms] assms(1)
  by (simp add: dec_pointee_eq of_to_mem in_bounds_def)

lemma enc_frame:
  assumes "wf x" "enc_pointee L tgt mem ptr x = Ok mem'"
    and "b + n \<le> length mem" "b + n \<le> unat ptr \<or> unat ptr + size_of L \<le> b"
  shows "slice_at mem' b n = slice_at mem b n"
  using enc_pointee_OkD [OF assms(2)] assms(1,3,4)
  by (simp add: slice_overwrite_disjoint to_mem_length in_bounds_def)

lemma dec_Err_iff_enc_Err:
  "dec_pointee L tgt mem ptr = Err e \<longleftrightarrow> enc_pointee L tgt mem ptr x = Err e"
  by (simp add: dec_pointee_eq enc_pointee_eq)

lemma length_concat_to_mem:
  "(\<And>x. x \<in> set xs \<Longrightarrow> wf x) \<Longrightarrow>
     length (concat (map (to_mem L tgt) xs)) = size_of L * length xs"
  by (induction xs) (auto simp: to_mem_length)

lemma slice_elems_concat:
  assumes "\<And>x. x \<in> set xs \<Longrightarrow> wf x"
    and "p + size_of L * length xs \<le> length mem"
  shows "slice_elems L tgt (overwrite mem p (concat (map (to_mem L tgt) xs))) p (length xs) = xs"
    (is "slice_elems L tgt ?mem' p _ = xs")
proof (rule nth_equalityI)
  show "length (slice_elems L tgt ?mem' p (length xs)) = length xs"
    by (simp add: slice_elems_def)
next
  fix i assume "i < length (slice_elems L tgt ?mem' p (length xs))"
  then have i: "i < length xs" by (simp add: slice_elems_def)
  let ?c = "concat (map (to_mem L tgt) xs)"
  have split: "?c = concat (map (to_mem L tgt) (take i xs)) @ to_mem L tgt (xs ! i) @
      concat (map (to_mem L tgt) (drop (Suc i) xs))"
    using i by (metis append_Cons append_Nil concat.simps(2) concat_append id_take_nth_drop
        list.simps(9) map_append)
  have lc: "length ?c = size_of L * length xs"
    using assms(1) by (rule length_concat_to_mem)
  have lt: "length (concat (map (to_mem L tgt) (take i xs))) = i * size_of L"
    using assms(1) i by (subst length_concat_to_mem) (auto dest: in_set_takeD)
  have le: "length (to_mem L tgt (xs ! i)) = size_of L"
    using assms(1) i by (simp add: to_mem_length)
  have "Suc i * size_of L \<le> length xs * size_of L"
    using i by (intro mult_le_mono1) simp
  then have "slice_at ?mem' (p + i * size_of L) (size_of L) = slice_at ?c (i * size_of L) (size_of L)"
    using assms(2) lc by (intro slice_overwrite_inside) (simp_all add: mult.commute)
  also have "\<dots> = to_mem L tgt (xs ! i)"
    using lt le by (subst split) (simp add: slice_at_def)
  finally show "slice_elems L tgt ?mem' p (length xs) ! i = xs ! i"
    using assms(1) i by (simp add: slice_elems_def of_to_mem)
qed

end

section \<open>The guest types are such types\<close>

interpretation pod_u8: pod L_u8 "\<lambda>_. True"
  by unfold_locales (simp_all add: layout_simps)

interpretation pod_u16: pod L_u16 "\<lambda>_. True"
  by unfold_locales (simp_all add: layout_simps)

interpretation pod_u32: pod L_u32 "\<lambda>_. True"
  by unfold_locales (simp_all add: layout_simps)

interpretation pod_u64: pod L_u64 "\<lambda>_. True"
  by unfold_locales (simp_all add: layout_simps)

interpretation pod_filestat: pod L_filestat "\<lambda>_. True"
  by unfold_locales (simp_all add: layout_simps slice_at_def)

interpretation pod_fdstat: pod L_fdstat "\<lambda>_. True"
  by unfold_locales (simp_all add: layout_simps slice_at_def)

interpretation pod_prestat: pod L_prestat "\<lambda>_. True"
  by unfold_locales (simp_all add: layout_simps slice_at_def)

interpretation pod_iovec: pod L_iovec "\<lambda>_. True"
  by unfold_locales (simp_all add: layout_simps slice_at_def)

interpretation pod_dirent: pod L_dirent "\<lambda>x. length (d_pad32 x) = 3"
  by unfold_locales (simp_all add: layout_simps slice_at_def)

lemma event_pad_cases:
  "length xs = 3 \<Longrightarrow> \<exists>a b c. xs = [a, b, c]" for xs :: "'a list"
  by (auto simp: length_Suc_conv numeral_3_eq_3)

interpretation pod_event: pod L_event "\<lambda>x. length (ev_rw_pad32 x) = 3"
  by unfold_locales (auto simp: layout_simps slice_at_def dest!: event_pad_cases)

interpretation pod_subscription: pod L_subscription "\<lambda>x. length (su_u32 x) = 40"
  by unfold_locales (simp_all add: layout_simps slice_at_def)

section \<open>Byte slices\<close>

lemma to_mem_L_u8 [simp]: "to_mem L_u8 tgt b = [b]"
  by (simp add: L_u8_def ne_bytes_def)

lemma of_mem_L_u8 [simp]: "of_mem L_u8 tgt [b] = b"
  by (simp add: L_u8_def of_ne_def)

lemma L_u8_size [simp]: "size_of L_u8 = 1" "align_of L_u8 = 1"
  by (simp_all add: L_u8_def)

lemma concat_to_mem_L_u8 [simp]: "concat (map (to_mem L_u8 tgt) bs) = bs"
  by (induction bs) simp_all

lemma enc_slice_of_u8:
  "enc_slice_of L_u8 tgt mem bs ptr =
     (if length bs < 2 ^ usize_bits tgt then
        (if in_bounds tgt mem ptr (length bs) then Ok (overwrite mem (unat ptr) bs)
         else Err WASI_EFAULT)
      else Err WASI_EOVERFLOW)"
  by (simp add: enc_slice_of_def usize_checked_mul_def dec_ptr_mut_eq dec_ptr_eq)

lemma slice_elems_u8:
  assumes "p + n \<le> length mem"
  shows "slice_elems L_u8 tgt mem p n = slice_at mem p n"
proof (rule nth_equalityI)
  show "length (slice_elems L_u8 tgt mem p n) = length (slice_at mem p n)"
    using assms by (simp add: slice_elems_def)
next
  fix i assume "i < length (slice_elems L_u8 tgt mem p n)"
  then have i: "i < n" by (simp add: slice_elems_def)
  have "slice_at mem (p + i) 1 = [mem ! (p + i)]"
    using assms i by (intro nth_equalityI) (auto simp: nth_slice_at)
  then show "slice_elems L_u8 tgt mem p n ! i = slice_at mem p n ! i"
    using assms i by (simp add: slice_elems_def nth_slice_at)
qed

lemma dec_slice_of_u8:
  assumes "supported tgt"
  shows "dec_slice_of L_u8 tgt mem ptr len =
     (if in_bounds tgt mem ptr (unat (from_le tgt len))
      then Ok (slice_at mem (unat ptr) (unat (from_le tgt len))) else Err WASI_EFAULT)"
  using unat_lt_usize [OF assms, of "from_le tgt len"]
  by (auto simp: dec_slice_of_def check_slice_of_def usize_checked_mul_def dec_ptr_eq assms
      slice_elems_u8 in_bounds_def)

lemma dec_slice_of_mut_u8:
  assumes "supported tgt"
  shows "dec_slice_of_mut L_u8 tgt mem ptr len =
     (if in_bounds tgt mem ptr (unat (from_le tgt len))
      then Ok (unat ptr, unat (from_le tgt len)) else Err WASI_EFAULT)"
  using unat_lt_usize [OF assms, of "from_le tgt len"]
  by (auto simp: dec_slice_of_mut_def check_slice_of_def usize_checked_mul_def dec_ptr_mut_eq
      dec_ptr_eq assms in_bounds_def)

section \<open>What the memory functions guarantee\<close>

lemma enc_filestat_inv [simp]: "dec_filestat tgt (enc_filestat tgt st) = st"
  by (simp add: dec_filestat_def enc_filestat_def dec_scalar_def enc_scalar_def)

lemma enc_fdstat_inv [simp]: "dec_fdstat tgt (enc_fdstat tgt fs) = fs"
  by (simp add: dec_fdstat_def enc_fdstat_def dec_scalar_def enc_scalar_def)

lemma dec_iovec_in_bounds:
  "dec_iovec tgt mem v = Ok w \<Longrightarrow> iov_buf w + iov_buf_len w \<le> length mem"
  by (auto simp: dec_iovec_def dec_ptr_eq in_bounds_def and_then_Ok_iff map_ok_Ok_iff
      split: if_splits)

lemma dec_iovec_cases:
  "supported tgt \<Longrightarrow> dec_iovec tgt mem v =
     (if in_bounds tgt mem (buf32 v) (unat (from_le tgt (buf_len32 v)))
      then Ok \<lparr>iov_buf = unat (buf32 v), iov_buf_len = unat (from_le tgt (buf_len32 v))\<rparr>
      else Err WASI_EFAULT)"
  by (simp add: dec_iovec_def dec_ptr_eq)

lemma dec_ciovec_eq: "dec_ciovec tgt mem v = dec_iovec tgt mem v"
  by (simp add: dec_ciovec_def dec_iovec_def)

lemma dec_slice_of_length:
  "supported tgt \<Longrightarrow> dec_slice_of L tgt mem ptr len = Ok xs \<Longrightarrow>
     length xs = unat (from_le tgt len)"
  by (auto simp: dec_slice_of_def check_slice_of_def and_then_Ok_iff map_ok_Ok_iff slice_elems_def
      split: if_splits option.splits)

text \<open>
  A little-endian configuration of a 64-bit release build, and the big-endian counterpart, used at
  concrete inputs.
\<close>

definition tgt_le :: target where
  "tgt_le = \<lparr>big_endian = False, usize_bits = 64, overflow_checks = False, trace_enabled = False,
     pad_byte = 0\<rparr>"

definition tgt_be :: target where
  "tgt_be = \<lparr>big_endian = True, usize_bits = 64, overflow_checks = True, trace_enabled = False,
     pad_byte = 0\<rparr>"

lemma tgt_sel [simp]:
  "big_endian tgt_le = False" "usize_bits tgt_le = 64" "overflow_checks tgt_le = False"
  "trace_enabled tgt_le = False" "big_endian tgt_be = True" "usize_bits tgt_be = 64"
  "overflow_checks tgt_be = True" "trace_enabled tgt_be = False"
  by (simp_all add: tgt_le_def tgt_be_def)

lemma supported_tgt [simp]: "supported tgt_le" "supported tgt_be"
  by (simp_all add: supported_def)

text \<open>
  C13. What \<^verbatim>\<open>enc_filestat_byref\<close> stores, \<^verbatim>\<open>dec_filestat_byref\<close> reads back, on a host of either byte
  order; the memory keeps its size and every byte outside the 56 bytes at the pointer.
\<close>

theorem filestat_round_trip:
  assumes "enc_filestat_byref tgt mem ptr st = Ok mem'"
  shows "dec_filestat_byref tgt mem' ptr = Ok st \<and> length mem' = length mem \<and>
    (\<forall>b n. b + n \<le> length mem \<and> (b + n \<le> unat ptr \<or> unat ptr + 56 \<le> b) \<longrightarrow>
       slice_at mem' b n = slice_at mem b n)"
proof (intro conjI allI impI)
  note e = assms [unfolded enc_filestat_byref_def]
  show "dec_filestat_byref tgt mem' ptr = Ok st"
    using pod_filestat.dec_enc_pointee [OF TrueI e] by (simp add: dec_filestat_byref_def)
  show "length mem' = length mem"
    by (rule pod_filestat.enc_length [OF TrueI e])
  show "slice_at mem' b n = slice_at mem b n"
    if "b + n \<le> length mem \<and> (b + n \<le> unat ptr \<or> unat ptr + 56 \<le> b)" for b n
    using pod_filestat.enc_frame [OF TrueI e, of b n] that by (simp add: L_filestat_def)
qed

lemma filestat_round_trip_witness:
  "\<exists>mem'. enc_filestat_byref tgt_be (replicate 64 7) 8
       \<lparr>st_dev = 1, st_ino = 2, st_filetype = 4, st_nlink = 3, st_size = 500, st_atim = 6,
        st_mtim = 7, st_ctim = 0x0102030405060708\<rparr> = Ok mem' \<and>
     dec_filestat_byref tgt_be mem' 8 = Ok
       \<lparr>st_dev = 1, st_ino = 2, st_filetype = 4, st_nlink = 3, st_size = 500, st_atim = 6,
        st_mtim = 7, st_ctim = 0x0102030405060708\<rparr>"
proof -
  let ?st = "\<lparr>st_dev = 1, st_ino = 2, st_filetype = 4, st_nlink = 3, st_size = 500, st_atim = 6,
        st_mtim = 7, st_ctim = 0x0102030405060708\<rparr>"
  have "\<exists>mem'. enc_filestat_byref tgt_be (replicate 64 7) 8 ?st = Ok mem'"
    by (simp add: enc_filestat_byref_def enc_pointee_eq L_filestat_def in_bounds_def)
  then obtain mem' where "enc_filestat_byref tgt_be (replicate 64 7) 8 ?st = Ok mem'" ..
  with filestat_round_trip [OF this] show ?thesis by blast
qed

text \<open>
  C30. Sizes, positions and time stamps, and descriptors, reach the guest in little-endian byte order,
  whatever the byte order of the host: the bytes at the pointer are those of the value, least
  significant first.  Counts, which go through \<^verbatim>\<open>enc_usize\<close>, are stored in the order of the host.
\<close>

theorem scalars_little_endian:
  assumes "enc_filesize_byref tgt mem ptr n = Ok mem1" "enc_fd_byref tgt mem ptr fd = Ok mem2"
    and "enc_usize_byref tgt mem ptr k = Ok mem3"
  shows "slice_at mem1 (unat ptr) 8 = le_bytes 8 n \<and> slice_at mem2 (unat ptr) 4 = le_bytes 4 fd \<and>
    k < 2 ^ 32 \<and> slice_at mem3 (unat ptr) 4 =
      (if big_endian tgt then rev (le_bytes 4 (of_nat k :: u32)) else le_bytes 4 (of_nat k :: u32))"
proof (intro conjI)
  note e = assms(1,2) [unfolded enc_scalar_byref_def enc_scalar_def]
  show "slice_at mem1 (unat ptr) 8 = le_bytes 8 n"
    using pod_u64.enc_slice_same [OF TrueI e(1)] by (simp add: L_u64_def ne_bytes_to_le)
  show "slice_at mem2 (unat ptr) 4 = le_bytes 4 fd"
    using pod_u32.enc_slice_same [OF TrueI e(2)] by (simp add: L_u32_def ne_bytes_to_le)
  have k: "k < 2 ^ 32" "enc_pointee L_u32 tgt mem ptr (of_nat k) = Ok mem3"
    using assms(3) by (auto simp: enc_usize_byref_def enc_usize_cases and_then_Ok_iff split: if_splits)
  show "k < 2 ^ 32" by (rule k(1))
  show "slice_at mem3 (unat ptr) 4 =
      (if big_endian tgt then rev (le_bytes 4 (of_nat k :: u32)) else le_bytes 4 (of_nat k :: u32))"
    using pod_u32.enc_slice_same [OF TrueI k(2)] by (simp add: L_u32_def ne_bytes_def)
qed

lemma scalars_little_endian_witness:
  "\<exists>mem1 mem2 mem3. enc_filesize_byref tgt_be (replicate 16 7) 8 0x0102030405060708 = Ok mem1 \<and>
     enc_fd_byref tgt_be (replicate 16 7) 8 0x01020304 = Ok mem2 \<and>
     enc_usize_byref tgt_be (replicate 16 7) 8 5 = Ok mem3 \<and>
     slice_at mem1 8 8 = [8, 7, 6, 5, 4, 3, 2, 1] \<and> slice_at mem2 8 4 = [4, 3, 2, 1] \<and>
     slice_at mem3 8 4 = [0, 0, 0, 5]"
proof -
  obtain mem1 where 1: "enc_filesize_byref tgt_be (replicate 16 7) 8 0x0102030405060708 = Ok mem1"
    by (simp add: enc_scalar_byref_def enc_pointee_eq L_u64_def in_bounds_def)
  obtain mem2 where 2: "enc_fd_byref tgt_be (replicate 16 7) 8 0x01020304 = Ok mem2"
    by (simp add: enc_scalar_byref_def enc_pointee_eq L_u32_def in_bounds_def)
  obtain mem3 where 3: "enc_usize_byref tgt_be (replicate 16 7) 8 5 = Ok mem3"
    by (simp add: enc_usize_byref_def enc_usize_cases enc_pointee_eq L_u32_def in_bounds_def)
  have "le_bytes 8 (0x0102030405060708 :: u64) = [8, 7, 6, 5, 4, 3, 2, 1]"
    "le_bytes 4 (0x01020304 :: u32) = [4, 3, 2, 1]" "le_bytes 4 (5 :: u32) = [5, 0, 0, 0]"
    by code_simp+
  with scalars_little_endian [OF 1 2 3] 1 2 3 show ?thesis by auto
qed

text \<open>
  C29. A byte slice written with \<^verbatim>\<open>enc_slice_of\<close> is read back by \<^verbatim>\<open>dec_slice_of\<close> with the same
  length; the call fails exactly when the bytes do not fit, and then nothing was written.
\<close>

theorem byte_slice_round_trip:
  assumes "supported tgt" "length bs < 2 ^ 32"
  shows "(case enc_slice_of L_u8 tgt mem bs ptr of
       Ok mem' \<Rightarrow> dec_slice_of L_u8 tgt mem' ptr (enc_u32 tgt (of_nat (length bs))) = Ok bs \<and>
         length mem' = length mem
     | Err e \<Rightarrow> e = WASI_EFAULT \<and> length mem < unat ptr + length bs \<or>
         e = WASI_EFAULT \<and> 2 ^ usize_bits tgt \<le> unat ptr + length bs
     | Panic \<Rightarrow> False)"
proof -
  have "(2::nat) ^ 32 \<le> 2 ^ usize_bits tgt"
    using assms(1) unfolding supported_def by (intro power_increasing) simp_all
  then have "length bs < 2 ^ usize_bits tgt" using assms(2) by linarith
  moreover have "unat (of_nat (length bs) :: u32) = length bs"
    using assms(2) by (simp add: unat_of_nat take_bit_nat_eq_self)
  ultimately show ?thesis
    by (auto simp: enc_slice_of_u8 dec_slice_of_u8 assms(1) enc_u32_def in_bounds_def)
qed

lemma byte_slice_round_trip_witness:
  "\<exists>mem'. enc_slice_of L_u8 tgt_be (replicate 8 0) [1, 2, 3] 4 = Ok mem' \<and>
     dec_slice_of L_u8 tgt_be mem' 4 (enc_u32 tgt_be (of_nat (length [1, 2, 3 :: u8]))) = Ok [1, 2, 3]"
proof -
  obtain mem' where m: "enc_slice_of L_u8 tgt_be (replicate 8 0) [1, 2, 3] 4 = Ok mem'"
    by (simp add: enc_slice_of_u8 in_bounds_def)
  have "length [1, 2, 3 :: u8] < 2 ^ 32" by simp
  from byte_slice_round_trip [OF supported_tgt(2) this, where mem = "replicate 8 0" and ptr = 4] m
  show ?thesis by (simp only: m res.case) blast
qed

text \<open>
  C16. Every buffer \<^verbatim>\<open>dec_iovec_slice\<close> hands to a read lies inside the guest's memory, and there is
  one for each entry the guest announced.
\<close>

theorem iovecs_in_bounds:
  assumes "supported tgt" "dec_iovec_slice tgt mem ptr n = Ok iovs"
  shows "length iovs = unat (from_le tgt n) \<and>
    list_all (\<lambda>v. iov_buf v + iov_buf_len v \<le> length mem) iovs"
proof -
  obtain vs where vs: "dec_slice_of L_iovec tgt mem ptr n = Ok vs"
      and c: "collect_res (dec_iovec tgt mem) vs = Ok iovs"
    using assms(2) by (auto simp: dec_iovec_slice_def and_then_Ok_iff)
  have "list_all (\<lambda>v. iov_buf v + iov_buf_len v \<le> length mem) iovs"
    using c unfolding collect_res_Ok_iff
    by (induction rule: list_all2_induct) (auto dest: dec_iovec_in_bounds)
  then show ?thesis
    using collect_res_length [OF c] dec_slice_of_length [OF assms(1) vs] by simp
qed

lemma iovecs_in_bounds_witness:
  "dec_iovec_slice tgt_le [12, 0, 0, 0, 4, 0, 0, 0, 1, 2, 3, 4, 5, 6, 7, 8] 0 1 =
     Ok [\<lparr>iov_buf = 12, iov_buf_len = 4\<rparr>] \<and>
   length [\<lparr>iov_buf = 12, iov_buf_len = 4\<rparr>] = unat (from_le tgt_le (1 :: u32))"
proof
  show 1: "dec_iovec_slice tgt_le [12, 0, 0, 0, 4, 0, 0, 0, 1, 2, 3, 4, 5, 6, 7, 8] 0 1 =
     Ok [\<lparr>iov_buf = 12, iov_buf_len = 4\<rparr>]"
    by (simp add: dec_iovec_slice_def dec_slice_of_def check_slice_of_def L_iovec_def
        usize_checked_mul_def dec_ptr_eq in_bounds_def slice_elems_def slice_at_def of_ne_def
        dec_iovec_cases)
  show "length [\<lparr>iov_buf = 12, iov_buf_len = 4\<rparr>] = unat (from_le tgt_le (1 :: u32))"
    using iovecs_in_bounds [OF supported_tgt(1) 1] by blast
qed

end
