(* ===== verification/Utf8_Path.thy ===== *)
theory Utf8_Path
  imports Wasi_Types
begin

text \<open>
  Strings and paths as the standard library of the source's language treats them: validation of
  UTF-8, \<^verbatim>\<open>CString::new\<close>, and the decomposition of a path into components
  (\<^verbatim>\<open>std::path::Components\<close> on Unix).  A \<^verbatim>\<open>str\<close>, an \<^verbatim>\<open>OsStr\<close> and a \<^verbatim>\<open>Path\<close> are byte lists.
  The lemmas bound the length of what is left of a path, on which the termination of the path
  resolution rests.
\<close>

section \<open>UTF-8\<close>

text \<open>
  \<^verbatim>\<open>str::from_utf8\<close>: the well-formed byte sequences of the Unicode standard (no overlong forms,
  no surrogates, nothing above U+10FFFF).
\<close>

definition in_range :: "u8 \<Rightarrow> nat \<Rightarrow> nat \<Rightarrow> bool" where
  "in_range b lo hi \<longleftrightarrow> lo \<le> unat b \<and> unat b \<le> hi"

definition is_cont :: "u8 \<Rightarrow> bool" where
  "is_cont b \<longleftrightarrow> in_range b 0x80 0xBF"

text \<open>How many bytes the first character of a byte list takes, if it is well-formed.\<close>

definition utf8_char :: "bytes \<Rightarrow> nat option" where
  "utf8_char bs = (case bs of
     [] \<Rightarrow> None
   | b0 # r0 \<Rightarrow>
      if unat b0 < 0x80 then Some 1
      else (case r0 of
        [] \<Rightarrow> None
      | b1 # r1 \<Rightarrow>
         if in_range b0 0xC2 0xDF then (if is_cont b1 then Some 2 else None)
         else (case r1 of
           [] \<Rightarrow> None
         | b2 # r2 \<Rightarrow>
            if in_range b0 0xE0 0xEF then
              (if is_cont b2 \<and>
                  (if unat b0 = 0xE0 then in_range b1 0xA0 0xBF
                   else if unat b0 = 0xED then in_range b1 0x80 0x9F
                   else is_cont b1)
               then Some 3 else None)
            else (case r2 of
              [] \<Rightarrow> None
            | b3 # _ \<Rightarrow>
               if in_range b0 0xF0 0xF4 \<and> is_cont b2 \<and> is_cont b3 \<and>
                  (if unat b0 = 0xF0 then in_range b1 0x90 0xBF
                   else if unat b0 = 0xF4 then in_range b1 0x80 0x8F
                   else is_cont b1)
               then Some 4 else None))))"

lemma utf8_char_pos: "utf8_char bs = Some n \<Longrightarrow> 0 < n \<and> bs \<noteq> []"
  by (auto simp: utf8_char_def split: list.splits if_splits)

function valid_utf8 :: "bytes \<Rightarrow> bool" where
  "valid_utf8 bs =
     (bs = [] \<or> (case utf8_char bs of None \<Rightarrow> False | Some n \<Rightarrow> valid_utf8 (drop n bs)))"
  by pat_completeness auto
termination
  by (relation "measure length") (auto dest: utf8_char_pos)

declare valid_utf8.simps [simp del]

lemma valid_utf8_Nil [simp]: "valid_utf8 []"
  by (subst valid_utf8.simps) simp

lemma valid_utf8_ascii [simp]:
  "unat b < 128 \<Longrightarrow> valid_utf8 (b # bs) = valid_utf8 bs"
  by (subst valid_utf8.simps) (simp add: utf8_char_def)

lemma valid_utf8_ascii_list: "\<forall>b \<in> set bs. unat b < 128 \<Longrightarrow> valid_utf8 bs"
  by (induction bs) auto

lemma utf8_char_append:
  assumes "utf8_char a = Some n"
  shows "utf8_char (a @ b) = Some n \<and> n \<le> length a"
proof -
  have "\<exists>a'. a = a' \<and> a' \<noteq> []" using utf8_char_pos [OF assms] by auto
  then show ?thesis
    using assms
    by (cases a; cases "tl a"; cases "tl (tl a)"; cases "tl (tl (tl a))")
      (auto simp: utf8_char_def split: if_splits)
qed

lemma valid_utf8_append: "valid_utf8 a \<Longrightarrow> valid_utf8 b \<Longrightarrow> valid_utf8 (a @ b)"
proof (induction a rule: valid_utf8.induct)
  case (1 a)
  show ?case
  proof (cases "a = []")
    case False
    then obtain n where n: "utf8_char a = Some n" "valid_utf8 (drop n a)"
      using 1(2) by (subst (asm) valid_utf8.simps) (auto split: option.splits)
    then have "valid_utf8 (drop n (a @ b))"
      using 1(1) [OF n] 1(3) utf8_char_append [OF n(1), of b] by simp
    then show ?thesis
      using utf8_char_append [OF n(1), of b] by (subst valid_utf8.simps) simp
  qed (simp add: 1(3))
qed

definition path_from_slice :: "bytes \<Rightarrow> bytes res" where
  "path_from_slice s = (if valid_utf8 s then Ok s else Err WASI_EILSEQ)"

definition path_from_vec :: "bytes \<Rightarrow> bytes res" where
  "path_from_vec s = (if valid_utf8 s then Ok s else Err WASI_EILSEQ)"

text \<open>\<^verbatim>\<open>CString::new\<close> fails on an interior NUL; the result is kept without its terminator.\<close>

definition cstring_new :: "bytes \<Rightarrow> bytes option" where
  "cstring_new bs = (if 0 \<in> set bs then None else Some bs)"

lemma path_from_slice_Ok_iff [simp]: "path_from_slice s = Ok p \<longleftrightarrow> p = s \<and> valid_utf8 s"
  by (auto simp: path_from_slice_def)

lemma path_from_slice_not_Panic [simp]: "path_from_slice s \<noteq> Panic"
  by (simp add: path_from_slice_def)

section \<open>Components of a path\<close>

abbreviation SLASH :: u8 where "SLASH \<equiv> 47"
abbreviation DOT :: u8 where "DOT \<equiv> 46"

datatype component = RootDir | CurDir | ParentDir | Normal bytes

text \<open>The first segment of a path, and what follows the separator after it.\<close>

definition seg :: "bytes \<Rightarrow> bytes" where
  "seg p = takeWhile (\<lambda>b. b \<noteq> SLASH) p"

definition after_seg :: "bytes \<Rightarrow> bytes" where
  "after_seg p = drop (Suc (length (seg p))) p"

lemma length_after_seg: "length (after_seg p) = length p - Suc (length (seg p))"
  by (simp add: after_seg_def)

lemma after_seg_less: "p \<noteq> [] \<Longrightarrow> length (after_seg p) < length p"
  by (cases p) (auto simp: length_after_seg)

text \<open>
  \<^verbatim>\<open>trim_left\<close> and \<^verbatim>\<open>trim_right\<close> of \<^verbatim>\<open>Components\<close>: empty and \<^verbatim>\<open>.\<close> segments at an end are dropped.
\<close>

function trim_left :: "bytes \<Rightarrow> bytes" where
  "trim_left p =
     (if p \<noteq> [] \<and> (seg p = [] \<or> seg p = [DOT]) then trim_left (after_seg p) else p)"
  by pat_completeness auto
termination
  by (relation "measure length") (auto simp: after_seg_less)

declare trim_left.simps [simp del]

definition trim_right :: "bytes \<Rightarrow> bytes" where
  "trim_right p = rev (trim_left (rev p))"

lemma trim_left_Nil [simp]: "trim_left [] = []"
  by (subst trim_left.simps) simp

lemma length_trim_left: "length (trim_left p) \<le> length p"
proof (induction p rule: trim_left.induct)
  case (1 p)
  then show ?case
    by (subst trim_left.simps) (auto dest: after_seg_less intro: le_trans less_imp_le)
qed

lemma length_trim_right: "length (trim_right p) \<le> length p"
  using length_trim_left [of "rev p"] by (simp add: trim_right_def)

lemma trim_left_SLASH [simp]: "trim_left (SLASH # p) = trim_left p"
  by (subst trim_left.simps) (simp add: seg_def after_seg_def)

lemma trim_right_SLASH [simp]: "trim_right (p @ [SLASH]) = trim_right p"
  by (simp add: trim_right_def)

text \<open>\<^verbatim>\<open>as_path\<close> after the first component was taken.\<close>

definition rest_path :: "bytes \<Rightarrow> bytes" where
  "rest_path p = trim_right (trim_left p)"

lemma length_rest_path: "length (rest_path p) \<le> length p"
  using length_trim_left [of p] length_trim_right [of "trim_left p"] by (simp add: rest_path_def)

text \<open>
  \<^verbatim>\<open>let head = components.next(); let tail = components.as_path();\<close> for a fresh iterator: a leading
  separator is the root, a leading \<^verbatim>\<open>.\<close> segment is \<open>CurDir\<close>, later empty and \<^verbatim>\<open>.\<close> segments
  vanish.
\<close>

definition path_next :: "bytes \<Rightarrow> (component \<times> bytes) option" where
  "path_next p = (case p of
     [] \<Rightarrow> None
   | b # q \<Rightarrow>
      if b = SLASH then Some (RootDir, rest_path q)
      else if seg p = [DOT] then Some (CurDir, rest_path q)
      else if seg p = [DOT, DOT] then Some (ParentDir, rest_path (after_seg p))
      else Some (Normal (seg p), rest_path (after_seg p)))"

lemma path_next_None [simp]: "path_next p = None \<longleftrightarrow> p = []"
  by (cases p) (simp_all add: path_next_def)

text \<open>A name of one segment that is neither empty nor special.\<close>

definition plain_name :: "bytes \<Rightarrow> bool" where
  "plain_name n \<longleftrightarrow> n \<noteq> [] \<and> n \<noteq> [DOT] \<and> n \<noteq> [DOT, DOT] \<and> SLASH \<notin> set n"

lemma path_next_Normal:
  assumes "path_next p = Some (Normal n, t)"
  shows "plain_name n" "n = seg p" "t = rest_path (after_seg p)"
proof -
  from assms have "n = seg p" "t = rest_path (after_seg p)" and ne: "n \<noteq> [DOT]" "n \<noteq> [DOT, DOT]"
    and hd: "p \<noteq> [] \<and> hd p \<noteq> SLASH"
    by (auto simp: path_next_def split: list.splits if_splits)
  then show "n = seg p" "t = rest_path (after_seg p)" by simp_all
  have "n \<noteq> []" using hd \<open>n = seg p\<close> by (cases p) (auto simp: seg_def)
  moreover have "SLASH \<notin> set n"
    using \<open>n = seg p\<close> by (auto simp: seg_def dest: set_takeWhileD)
  ultimately show "plain_name n" using ne by (simp add: plain_name_def)
qed

definition ends_with_slash :: "bytes \<Rightarrow> bool" where
  "ends_with_slash p \<longleftrightarrow> p \<noteq> [] \<and> last p = SLASH"

text \<open>What the path resolution pushes back is shorter than the path it took apart.\<close>

lemma path_next_shorter:
  assumes "path_next p = Some (c, t)" "c \<noteq> RootDir" "t \<noteq> []"
  shows "length t + 2 \<le> length p"
proof -
  have rest: "length (rest_path (after_seg p)) \<le> length p - Suc (length (seg p))"
    using length_rest_path [of "after_seg p"] by (simp add: length_after_seg)
  obtain b q where p: "p = b # q" and b: "b \<noteq> SLASH"
    using assms by (auto simp: path_next_def split: list.splits if_splits)
  then have seg: "0 < length (seg p)" by (simp add: seg_def)
  show ?thesis
  proof (cases "seg p = [DOT]")
    case True
    then have t: "t = rest_path q" and q: "takeWhile (\<lambda>b. b \<noteq> SLASH) q = []"
      using assms p b by (auto simp: path_next_def seg_def split: if_splits)
    then obtain q' where "q = SLASH # q'"
      using assms(3) by (cases q) (auto simp: rest_path_def trim_right_def split: if_splits)
    then have "length t \<le> length q'"
      using t length_trim_left [of q'] length_trim_right [of "trim_left q"]
      by (simp add: rest_path_def)
    then show ?thesis using p \<open>q = SLASH # q'\<close> by simp
  next
    case False
    then have "t = rest_path (after_seg p)"
      using assms p b by (auto simp: path_next_def split: if_splits)
    moreover have "0 < length t" using assms(3) by simp
    ultimately show ?thesis using rest seg by arith
  qed
qed

lemma hd_trim_left: "trim_left p \<noteq> [] \<Longrightarrow> hd (trim_left p) \<noteq> SLASH"
proof (induction p rule: trim_left.induct)
  case (1 p)
  show ?case
  proof (cases "p \<noteq> [] \<and> (seg p = [] \<or> seg p = [DOT])")
    case True
    then have "trim_left p = trim_left (after_seg p)" by (subst trim_left.simps) simp
    then show ?thesis using 1(1) [OF True] 1(2) by simp
  next
    case False
    then have "trim_left p = p" by (subst trim_left.simps) (simp only: if_False)
    then show ?thesis using False 1(2) by (cases p) (auto simp: seg_def)
  qed
qed

lemma rest_path_no_slash [simp]: "\<not> ends_with_slash (rest_path p)"
proof
  assume "ends_with_slash (rest_path p)"
  then have "trim_left (rev (trim_left p)) \<noteq> []" "hd (trim_left (rev (trim_left p))) = SLASH"
    by (auto simp: ends_with_slash_def rest_path_def trim_right_def last_rev)
  then show False using hd_trim_left by blast
qed

lemma path_next_rest: "path_next p = Some (c, t) \<Longrightarrow> \<exists>q. t = rest_path q"
  by (auto simp: path_next_def split: list.splits if_splits)

lemma plain_name_no_slash: "plain_name n \<Longrightarrow> \<not> ends_with_slash n"
  by (metis ends_with_slash_def last_in_set plain_name_def)

lemma ends_with_slash_snoc [simp]: "ends_with_slash (p @ [SLASH])"
  by (simp add: ends_with_slash_def)

section \<open>Paths made of plain names\<close>

fun join_path :: "bytes list \<Rightarrow> bytes" where
  "join_path [] = []"
| "join_path [n] = n"
| "join_path (n # ns) = n @ SLASH # join_path ns"

lemma seg_append [simp]: "SLASH \<notin> set n \<Longrightarrow> seg (n @ SLASH # q) = n"
  unfolding seg_def by (induction n) auto

lemma seg_self [simp]: "SLASH \<notin> set n \<Longrightarrow> seg n = n"
  unfolding seg_def by (induction n) auto

lemma after_seg_append [simp]: "SLASH \<notin> set n \<Longrightarrow> after_seg (n @ SLASH # q) = q"
  by (simp add: after_seg_def)

lemma after_seg_self [simp]: "SLASH \<notin> set n \<Longrightarrow> after_seg n = []"
  by (simp add: after_seg_def)

lemma trim_left_id: "seg p \<noteq> [] \<Longrightarrow> seg p \<noteq> [DOT] \<Longrightarrow> trim_left p = p"
  by (subst trim_left.simps) simp

lemma plain_name_slash: "plain_name n \<Longrightarrow> SLASH \<notin> set n"
  and plain_name_ne: "plain_name n \<Longrightarrow> n \<noteq> []" "plain_name n \<Longrightarrow> n \<noteq> [DOT]"
    "plain_name n \<Longrightarrow> n \<noteq> [DOT, DOT]"
  by (simp_all add: plain_name_def)

lemma plain_name_rev [simp]: "plain_name (rev n) = plain_name n"
proof -
  have "rev n = [DOT, DOT] \<longleftrightarrow> n = [DOT, DOT]"
    by (simp only: rev_swap rev.simps append.simps)
  then show ?thesis by (simp add: plain_name_def)
qed

lemma join_path_snoc: "ns \<noteq> [] \<Longrightarrow> join_path (ns @ [n]) = join_path ns @ SLASH # n"
proof (induction ns)
  case (Cons m ns)
  then show ?case by (cases ns) auto
qed simp

lemmas plain_simps = plain_name_slash plain_name_ne

lemma trim_left_join: "list_all plain_name ns \<Longrightarrow> trim_left (join_path ns) = join_path ns"
  by (cases ns rule: join_path.cases) (auto intro!: trim_left_id simp: plain_simps)

lemma trim_right_join: "list_all plain_name ns \<Longrightarrow> trim_right (join_path ns) = join_path ns"
proof (cases ns rule: rev_cases)
  case (snoc ms n)
  assume "list_all plain_name ns"
  then have n: "plain_name (rev n)" using snoc by simp
  have "rev (join_path ns) = rev n @ (if ms = [] then [] else SLASH # rev (join_path ms))"
    using snoc by (simp add: join_path_snoc)
  then have "seg (rev (join_path ns)) = rev n"
    using n by (cases "ms = []") (simp_all add: plain_simps del: set_rev)
  then have "trim_left (rev (join_path ns)) = rev (join_path ns)"
    using plain_simps [OF n] by (intro trim_left_id) simp_all
  then show ?thesis by (simp add: trim_right_def)
qed (simp add: trim_right_def)

lemma rest_path_join [simp]: "list_all plain_name ns \<Longrightarrow> rest_path (join_path ns) = join_path ns"
  by (simp add: rest_path_def trim_left_join trim_right_join)

lemma rest_path_join_slash [simp]:
  assumes "list_all plain_name ns" "ns \<noteq> []"
  shows "rest_path (join_path ns @ [SLASH]) = join_path ns"
proof -
  obtain n ms where n: "ns = n # ms" "plain_name n" using assms by (cases ns) auto
  have "seg (join_path ns @ [SLASH]) = n"
    using n plain_name_slash [OF n(2)] seg_append [of n "[]"] by (cases ms) simp_all
  then have "trim_left (join_path ns @ [SLASH]) = join_path ns @ [SLASH]"
    using plain_simps [OF n(2)] by (intro trim_left_id) simp_all
  then show ?thesis using assms(1) by (simp add: rest_path_def trim_right_join)
qed

lemma path_next_plain:
  assumes "plain_name n" "q = [] \<or> (\<exists>q'. q = SLASH # q')"
  shows "path_next (n @ q) = Some (Normal n, rest_path (drop 1 q))"
proof -
  note n = plain_simps [OF assms(1)]
  have seg: "seg (n @ q) = n" "after_seg (n @ q) = drop 1 q"
    using assms(2) n(1) by auto
  obtain b m where bm: "n = b # m" "b \<noteq> SLASH"
    using n(1,2) by (cases n) auto
  have "path_next (n @ q) = (if seg (n @ q) = [DOT] then Some (CurDir, rest_path (m @ q))
      else if seg (n @ q) = [DOT, DOT] then Some (ParentDir, rest_path (after_seg (n @ q)))
      else Some (Normal (seg (n @ q)), rest_path (after_seg (n @ q))))"
    using bm by (simp only: path_next_def append.simps list.case if_False)
  then show ?thesis unfolding seg using n(3,4) by (simp only: if_False)
qed

lemma path_next_join:
  assumes "plain_name n" "list_all plain_name ns"
  shows "path_next (join_path (n # ns)) = Some (Normal n, join_path ns)"
proof (cases ns)
  case Nil
  then show ?thesis
    using path_next_plain [OF assms(1), of "[]"] by (simp add: rest_path_def trim_right_def)
next
  case (Cons m ms)
  then have "join_path (n # ns) = n @ SLASH # join_path ns" by simp
  then show ?thesis
    using path_next_plain [OF assms(1), of "SLASH # join_path ns"] assms(2) by simp
qed

lemma path_next_join_slash:
  assumes "plain_name n" "list_all plain_name ns"
  shows "path_next (join_path (n # ns) @ [SLASH]) = Some (Normal n, join_path ns)"
proof (cases ns)
  case Nil
  then show ?thesis
    using path_next_plain [OF assms(1), of "[SLASH]"] by (simp add: rest_path_def trim_right_def)
next
  case (Cons m ms)
  then have "join_path (n # ns) @ [SLASH] = n @ SLASH # join_path ns @ [SLASH]" by simp
  then show ?thesis
    using path_next_plain [OF assms(1), of "SLASH # join_path ns @ [SLASH]"] assms(2) Cons
    by simp
qed

lemma valid_utf8_join: "list_all valid_utf8 ns \<Longrightarrow> valid_utf8 (join_path ns)"
  by (induction ns rule: join_path.induct) (auto intro!: valid_utf8_append)

lemma join_path_eq_Nil: "list_all plain_name ns \<Longrightarrow> join_path ns = [] \<longleftrightarrow> ns = []"
  by (cases ns rule: join_path.cases) (auto simp: plain_name_ne)

lemma join_path_no_slash: "list_all plain_name ns \<Longrightarrow> \<not> ends_with_slash (join_path ns)"
  using rest_path_no_slash [of "join_path ns"] by simp

section \<open>Cutting a valid string at a separator\<close>

lemma utf8_char_cut:
  assumes "utf8_char (a @ b # c) = Some n" "unat b < 128" "a \<noteq> []"
  shows "utf8_char a = Some n \<and> n \<le> length a"
proof -
  have nc: "\<not> is_cont b" "\<not> in_range b 0xA0 0xBF" "\<not> in_range b 0x80 0x9F"
    "\<not> in_range b 0x90 0xBF" "\<not> in_range b 0x80 0x8F"
    using assms(2) by (auto simp: is_cont_def in_range_def)
  show ?thesis
    using assms(1,3) nc
    by (cases a; cases "tl a"; cases "tl (tl a)"; cases "tl (tl (tl a))")
      (auto simp: utf8_char_def split: if_splits list.splits)
qed

lemma valid_utf8_cut:
  "valid_utf8 (a @ b # c) \<Longrightarrow> unat b < 128 \<Longrightarrow> valid_utf8 a \<and> valid_utf8 c"
proof (induction "length a" arbitrary: a rule: less_induct)
  case less
  show ?case
  proof (cases "a = []")
    case True
    then show ?thesis using less.prems by simp
  next
    case False
    obtain n where n: "utf8_char (a @ b # c) = Some n" "valid_utf8 (drop n (a @ b # c))"
      using less.prems(1) by (subst (asm) valid_utf8.simps) (auto split: option.splits)
    have a: "utf8_char a = Some n" "n \<le> length a" "0 < n"
      using utf8_char_cut [OF n(1) less.prems(2) False] utf8_char_pos [OF n(1)] by simp_all
    have "valid_utf8 (drop n a) \<and> valid_utf8 c"
      using less.hyps [of "drop n a"] n(2) a False less.prems(2) by simp
    then show ?thesis using a(1) by (subst valid_utf8.simps) simp
  qed
qed

lemma seg_cases: "after_seg p = [] \<and> (p = seg p \<or> p = seg p @ [SLASH]) \<or>
    p = seg p @ SLASH # after_seg p"
proof (cases "SLASH \<in> set p")
  case True
  then obtain u v where "p = u @ SLASH # v" "SLASH \<notin> set u"
    by (meson split_list_first)
  then show ?thesis by simp
qed simp

lemma valid_after_seg:
  assumes "valid_utf8 p"
  shows "valid_utf8 (seg p) \<and> valid_utf8 (after_seg p)"
proof -
  have cut: "valid_utf8 (seg p) \<and> valid_utf8 c" if "p = seg p @ SLASH # c" for c
  proof -
    have "valid_utf8 (seg p @ SLASH # c)" using assms that by simp
    then show ?thesis by (rule valid_utf8_cut) simp
  qed
  from seg_cases [of p] show ?thesis
  proof (elim disjE conjE)
    assume "after_seg p = []" "p = seg p"
    then show ?thesis using assms by simp
  next
    assume "after_seg p = []" "p = seg p @ [SLASH]"
    then show ?thesis using cut [of "[]"] by simp
  next
    assume "p = seg p @ SLASH # after_seg p"
    then show ?thesis by (rule cut)
  qed
qed

lemma valid_trim_left: "valid_utf8 p \<Longrightarrow> valid_utf8 (trim_left p)"
proof (induction p rule: trim_left.induct)
  case (1 p)
  then show ?case by (subst trim_left.simps) (auto dest: valid_after_seg)
qed

lemma valid_rev_after_seg:
  assumes "valid_utf8 (rev p)"
  shows "valid_utf8 (rev (after_seg p))"
  using seg_cases [of p]
proof (elim disjE conjE)
  assume "p = seg p @ SLASH # after_seg p"
  then have "rev p = rev (after_seg p) @ SLASH # rev (seg p)"
    by (metis rev_append rev.simps(2) append.assoc append_Cons append_Nil)
  then show ?thesis using assms valid_utf8_cut [of "rev (after_seg p)" SLASH] by simp
qed simp_all

lemma valid_rev_trim_left: "valid_utf8 (rev p) \<Longrightarrow> valid_utf8 (rev (trim_left p))"
proof (induction p rule: trim_left.induct)
  case (1 p)
  then show ?case by (subst trim_left.simps) (auto dest: valid_rev_after_seg)
qed

lemma valid_rest_path: "valid_utf8 p \<Longrightarrow> valid_utf8 (rest_path p)"
  using valid_rev_trim_left [of "rev (trim_left p)"] valid_trim_left
  by (simp add: rest_path_def trim_right_def)

text \<open>Taking a valid path apart gives valid paths again.\<close>

lemma path_next_valid:
  assumes "path_next p = Some (c, t)" "valid_utf8 p"
  shows "valid_utf8 t" "c = Normal n \<Longrightarrow> valid_utf8 n"
proof -
  have "valid_utf8 (tl p)" if "hd p = SLASH \<or> hd p = DOT" "p \<noteq> []"
    using assms(2) that by (cases p) auto
  moreover have "hd p = DOT" if "seg p = [DOT]" "p \<noteq> []"
    using that by (cases p) (auto simp: seg_def split: if_splits)
  ultimately show "valid_utf8 t"
    using assms valid_after_seg [of p]
    by (auto simp: path_next_def intro: valid_rest_path split: list.splits if_splits)
  show "valid_utf8 n" if "c = Normal n"
    using assms valid_after_seg [of p] path_next_Normal that by simp
qed

end
