(* ===== verification/Nix_Host.thy ===== *)
theory Nix_Host
  imports Host_Os Guest_Memory Utf8_Path
begin

text \<open>
  \<^verbatim>\<open>src/sys/unix/host_impl.rs\<close> and the error conversion of \<^verbatim>\<open>src/sys/mod.rs\<close>: error numbers, flag
  words, file types and file statistics between the platform and WASI.
\<close>

section \<open>Error numbers\<close>

primrec errno_from_nix :: "nix_errno \<Rightarrow> wasi_errno_t" where
  "errno_from_nix EPERM = WASI_EPERM"
| "errno_from_nix ENOENT = WASI_ENOENT"
| "errno_from_nix ESRCH = WASI_ESRCH"
| "errno_from_nix EINTR = WASI_EINTR"
| "errno_from_nix EIO = WASI_EIO"
| "errno_from_nix ENXIO = WASI_ENXIO"
| "errno_from_nix E2BIG = WASI_E2BIG"
| "errno_from_nix ENOEXEC = WASI_ENOEXEC"
| "errno_from_nix EBADF = WASI_EBADF"
| "errno_from_nix ECHILD = WASI_ECHILD"
| "errno_from_nix EAGAIN = WASI_EAGAIN"
| "errno_from_nix ENOMEM = WASI_ENOMEM"
| "errno_from_nix EACCES = WASI_EACCES"
| "errno_from_nix EFAULT = WASI_EFAULT"
| "errno_from_nix EBUSY = WASI_EBUSY"
| "errno_from_nix EEXIST = WASI_EEXIST"
| "errno_from_nix EXDEV = WASI_EXDEV"
| "errno_from_nix ENODEV = WASI_ENODEV"
| "errno_from_nix ENOTDIR = WASI_ENOTDIR"
| "errno_from_nix EISDIR = WASI_EISDIR"
| "errno_from_nix EINVAL = WASI_EINVAL"
| "errno_from_nix ENFILE = WASI_ENFILE"
| "errno_from_nix EMFILE = WASI_EMFILE"
| "errno_from_nix ENOTTY = WASI_ENOTTY"
| "errno_from_nix ETXTBSY = WASI_ETXTBSY"
| "errno_from_nix EFBIG = WASI_EFBIG"
| "errno_from_nix ENOSPC = WASI_ENOSPC"
| "errno_from_nix ESPIPE = WASI_ESPIPE"
| "errno_from_nix EROFS = WASI_EROFS"
| "errno_from_nix EMLINK = WASI_EMLINK"
| "errno_from_nix EPIPE = WASI_EPIPE"
| "errno_from_nix EDOM = WASI_EDOM"
| "errno_from_nix ERANGE = WASI_ERANGE"
| "errno_from_nix EDEADLK = WASI_EDEADLK"
| "errno_from_nix ENAMETOOLONG = WASI_ENAMETOOLONG"
| "errno_from_nix ENOLCK = WASI_ENOLCK"
| "errno_from_nix ENOSYS = WASI_ENOSYS"
| "errno_from_nix ENOTEMPTY = WASI_ENOTEMPTY"
| "errno_from_nix ELOOP = WASI_ELOOP"
| "errno_from_nix ENOMSG = WASI_ENOMSG"
| "errno_from_nix EIDRM = WASI_EIDRM"
| "errno_from_nix ENOLINK = WASI_ENOLINK"
| "errno_from_nix EPROTO = WASI_EPROTO"
| "errno_from_nix EMULTIHOP = WASI_EMULTIHOP"
| "errno_from_nix EBADMSG = WASI_EBADMSG"
| "errno_from_nix EOVERFLOW = WASI_EOVERFLOW"
| "errno_from_nix EILSEQ = WASI_EILSEQ"
| "errno_from_nix ENOTSOCK = WASI_ENOTSOCK"
| "errno_from_nix EDESTADDRREQ = WASI_EDESTADDRREQ"
| "errno_from_nix EMSGSIZE = WASI_EMSGSIZE"
| "errno_from_nix EPROTOTYPE = WASI_EPROTOTYPE"
| "errno_from_nix ENOPROTOOPT = WASI_ENOPROTOOPT"
| "errno_from_nix EPROTONOSUPPORT = WASI_EPROTONOSUPPORT"
| "errno_from_nix EAFNOSUPPORT = WASI_EAFNOSUPPORT"
| "errno_from_nix EADDRINUSE = WASI_EADDRINUSE"
| "errno_from_nix EADDRNOTAVAIL = WASI_EADDRNOTAVAIL"
| "errno_from_nix ENETDOWN = WASI_ENETDOWN"
| "errno_from_nix ENETUNREACH = WASI_ENETUNREACH"
| "errno_from_nix ENETRESET = WASI_ENETRESET"
| "errno_from_nix ECONNABORTED = WASI_ECONNABORTED"
| "errno_from_nix ECONNRESET = WASI_ECONNRESET"
| "errno_from_nix ENOBUFS = WASI_ENOBUFS"
| "errno_from_nix EISCONN = WASI_EISCONN"
| "errno_from_nix ENOTCONN = WASI_ENOTCONN"
| "errno_from_nix ETIMEDOUT = WASI_ETIMEDOUT"
| "errno_from_nix ECONNREFUSED = WASI_ECONNREFUSED"
| "errno_from_nix EHOSTUNREACH = WASI_EHOSTUNREACH"
| "errno_from_nix EALREADY = WASI_EALREADY"
| "errno_from_nix EINPROGRESS = WASI_EINPROGRESS"
| "errno_from_nix ESTALE = WASI_ESTALE"
| "errno_from_nix EDQUOT = WASI_EDQUOT"
| "errno_from_nix ECANCELED = WASI_ECANCELED"
| "errno_from_nix EOWNERDEAD = WASI_EOWNERDEAD"
| "errno_from_nix ENOTRECOVERABLE = WASI_ENOTRECOVERABLE"
| "errno_from_nix OtherErrno = WASI_ENOSYS"

definition errno_from_host :: "('w, 'z) std_os_scheme \<Rightarrow> int \<Rightarrow> wasi_errno_t" where
  "errno_from_host os err = errno_from_nix (sys_from_i32 os err)"

text \<open>\<^verbatim>\<open>err.raw_os_error().map_or(dflt, errno_from_host)\<close>\<close>

definition io_error_or :: "('w, 'z) std_os_scheme \<Rightarrow> wasi_errno_t \<Rightarrow> io_error \<Rightarrow> wasi_errno_t" where
  "io_error_or os dflt err = (case err of None \<Rightarrow> dflt | Some c \<Rightarrow> errno_from_host os c)"

text \<open>
  The three ways the source turns a failed call into an error of its own: \<open>from_std\<close> for
  \<^verbatim>\<open>std::io\<close> errors, \<open>from_nix\<close> for \<^verbatim>\<open>e.as_errno().unwrap()\<close>, which panics on an error without a
  number, and \<open>from_libc\<close> for the value \<^verbatim>\<open>0\<close> or \<^verbatim>\<open>Errno::last()\<close>.
\<close>

definition from_std_or ::
  "('w, 'z) std_os_scheme \<Rightarrow> wasi_errno_t \<Rightarrow> ('w, io_error, 'a) call \<Rightarrow> ('w, 'a) io" where
  "from_std_or os dflt c = (\<lambda>w. case c w of
     (Inl e, w') \<Rightarrow> (Err (io_error_or os dflt e), w') | (Inr x, w') \<Rightarrow> (Ok x, w'))"

abbreviation from_std ::
  "('w, 'z) std_os_scheme \<Rightarrow> ('w, io_error, 'a) call \<Rightarrow> ('w, 'a) io" where
  "from_std os \<equiv> from_std_or os WASI_EIO"

fun nix_unwrap :: "nix_error + 'a \<Rightarrow> 'a res" where
  "nix_unwrap (Inr x) = Ok x"
| "nix_unwrap (Inl (Some e)) = Err (errno_from_nix e)"
| "nix_unwrap (Inl None) = Panic"

definition from_nix :: "('w, nix_error, 'a) call \<Rightarrow> ('w, 'a) io" where
  "from_nix c = (\<lambda>w. case c w of (r, w') \<Rightarrow> (nix_unwrap r, w'))"

text \<open>\<^verbatim>\<open>e.as_errno().map_or(EIO, |e| errno_from_host(e as i32))\<close>\<close>

fun nix_map_or :: "wasi_errno_t \<Rightarrow> nix_error + 'a \<Rightarrow> 'a res" where
  "nix_map_or dflt (Inr x) = Ok x"
| "nix_map_or dflt (Inl (Some e)) = Err (errno_from_nix e)"
| "nix_map_or dflt (Inl None) = Err dflt"

definition from_nix_or :: "wasi_errno_t \<Rightarrow> ('w, nix_error, 'a) call \<Rightarrow> ('w, 'a) io" where
  "from_nix_or dflt c = (\<lambda>w. case c w of (r, w') \<Rightarrow> (nix_map_or dflt r, w'))"

definition last_error :: "('w, 'z) os_scheme \<Rightarrow> 'w \<Rightarrow> wasi_errno_t" where
  "last_error os w = errno_from_nix (sys_errno_last os w)"

definition from_libc :: "('w, 'z) os_scheme \<Rightarrow> ('w \<Rightarrow> int \<times> 'w) \<Rightarrow> ('w, unit) io" where
  "from_libc os c = (\<lambda>w. case c w of
     (res, w') \<Rightarrow> (if res \<noteq> 0 then Err (last_error os w') else Ok (), w'))"

section \<open>Flags\<close>

definition host_O_RSYNC :: "'z libc_scheme \<Rightarrow> u32" where
  "host_O_RSYNC lc = (if linux lc then O_RSYNC lc else O_SYNC lc)"

definition nix_from_fdflags :: "'z libc_scheme \<Rightarrow> wasi_fdflags_t \<Rightarrow> u32" where
  "nix_from_fdflags lc fdflags =
     (if fdflags AND WASI_FDFLAG_APPEND \<noteq> 0 then O_APPEND lc else 0) OR
     (if fdflags AND WASI_FDFLAG_DSYNC \<noteq> 0 then O_DSYNC lc else 0) OR
     (if fdflags AND WASI_FDFLAG_NONBLOCK \<noteq> 0 then O_NONBLOCK lc else 0) OR
     (if fdflags AND WASI_FDFLAG_RSYNC \<noteq> 0 then host_O_RSYNC lc else 0) OR
     (if fdflags AND WASI_FDFLAG_SYNC \<noteq> 0 then O_SYNC lc else 0)"

definition fdflags_from_nix :: "'z libc_scheme \<Rightarrow> u32 \<Rightarrow> wasi_fdflags_t" where
  "fdflags_from_nix lc oflags =
     (if contains oflags (O_APPEND lc) then WASI_FDFLAG_APPEND else 0) OR
     (if contains oflags (O_DSYNC lc) then WASI_FDFLAG_DSYNC else 0) OR
     (if contains oflags (O_NONBLOCK lc) then WASI_FDFLAG_NONBLOCK else 0) OR
     (if contains oflags (host_O_RSYNC lc) then WASI_FDFLAG_RSYNC else 0) OR
     (if contains oflags (O_SYNC lc) then WASI_FDFLAG_SYNC else 0)"

definition nix_from_oflags :: "'z libc_scheme \<Rightarrow> wasi_oflags_t \<Rightarrow> u32" where
  "nix_from_oflags lc oflags =
     (if oflags AND WASI_O_CREAT \<noteq> 0 then O_CREAT lc else 0) OR
     (if oflags AND WASI_O_DIRECTORY \<noteq> 0 then O_DIRECTORY lc else 0) OR
     (if oflags AND WASI_O_EXCL \<noteq> 0 then O_EXCL lc else 0) OR
     (if oflags AND WASI_O_TRUNC \<noteq> 0 then O_TRUNC lc else 0)"

section \<open>File types and statistics\<close>

definition filetype_from_nix :: "'z libc_stat_scheme \<Rightarrow> u32 \<Rightarrow> wasi_filetype_t" where
  "filetype_from_nix lc sflags =
     (if contains sflags (S_IFCHR lc) then WASI_FILETYPE_CHARACTER_DEVICE
      else if contains sflags (S_IFBLK lc) then WASI_FILETYPE_BLOCK_DEVICE
      else if contains sflags (S_IFIFO lc) \<or> contains sflags (S_IFSOCK lc)
      then WASI_FILETYPE_SOCKET_STREAM
      else if contains sflags (S_IFDIR lc) then WASI_FILETYPE_DIRECTORY
      else if contains sflags (S_IFREG lc) then WASI_FILETYPE_REGULAR_FILE
      else if contains sflags (S_IFLNK lc) then WASI_FILETYPE_SYMBOLIC_LINK
      else WASI_FILETYPE_UNKNOWN)"

definition nix_from_filetype :: "'z libc_stat_scheme \<Rightarrow> wasi_filetype_t \<Rightarrow> u32" where
  "nix_from_filetype lc sflags =
     (if sflags AND WASI_FILETYPE_CHARACTER_DEVICE \<noteq> 0 then S_IFCHR lc else 0) OR
     (if sflags AND WASI_FILETYPE_BLOCK_DEVICE \<noteq> 0 then S_IFBLK lc else 0) OR
     (if sflags AND WASI_FILETYPE_SOCKET_STREAM \<noteq> 0 then S_IFIFO lc OR S_IFSOCK lc else 0) OR
     (if sflags AND WASI_FILETYPE_DIRECTORY \<noteq> 0 then S_IFDIR lc else 0) OR
     (if sflags AND WASI_FILETYPE_REGULAR_FILE \<noteq> 0 then S_IFREG lc else 0) OR
     (if sflags AND WASI_FILETYPE_SYMBOLIC_LINK \<noteq> 0 then S_IFLNK lc else 0)"

text \<open>\<^verbatim>\<open>u64::try_from\<close> of a platform integer.\<close>

definition u64_try_from :: "int \<Rightarrow> u64 option" where
  "u64_try_from i = (if 0 \<le> i \<and> i < 2 ^ 64 then Some (of_int i) else None)"

definition filestat_from_nix :: "'z libc_stat_scheme \<Rightarrow> nix_filestat \<Rightarrow> filestat res" where
  "filestat_from_nix lc fs =
     and_then (ok_or (u64_try_from (nst_dev fs)) WASI_EOVERFLOW) (\<lambda>dev.
     and_then (ok_or (u64_try_from (nst_ino fs)) WASI_EOVERFLOW) (\<lambda>ino.
     Ok \<lparr>st_dev = dev, st_ino = ino,
         st_filetype = filetype_from_nix lc (nst_mode fs AND S_ALL lc),
         st_nlink = ucast (nst_nlink fs), st_size = nst_size fs,
         st_atim = nst_atime fs, st_mtim = nst_mtime fs, st_ctim = nst_ctime fs\<rparr>))"

text \<open>The variant for Linux: the length of the name is counted up to its terminating NUL.\<close>

definition dirent_from_host :: "target \<Rightarrow> host_dirent \<Rightarrow> dirent32 res" where
  "dirent_from_host tgt host_entry =
     (let d_namlen = length (hd_name host_entry) in
      if d_namlen > 2 ^ 32 - 1 then Err WASI_EIO
      else Ok \<lparr>d_next32 = enc_dircookie tgt (hd_off host_entry),
               d_ino32 = enc_inode tgt (hd_ino host_entry),
               d_namlen32 = enc_u32 tgt (of_nat d_namlen),
               d_type32 = enc_filetype tgt (hd_type host_entry),
               d_pad32 = [0, 0, 0]\<rparr>)"

text \<open>An \<^verbatim>\<open>OsStr\<close> is its bytes.\<close>

definition path_from_host :: "bytes \<Rightarrow> bytes res" where
  "path_from_host s = path_from_slice s"

section \<open>Error numbers that exist\<close>

text \<open>The numbers WASI gives a meaning, apart from success.\<close>

definition valid_err :: "wasi_errno_t \<Rightarrow> bool" where
  "valid_err e \<longleftrightarrow> 0 < unat e \<and> unat e \<le> 76"

text \<open>
  A result whose error is such a number; \<open>p\<close> tells whether a panic is allowed.
\<close>

definition res_ok :: "bool \<Rightarrow> 'a res \<Rightarrow> bool" where
  "res_ok p r = (case r of Ok _ \<Rightarrow> True | Err e \<Rightarrow> valid_err e | Panic \<Rightarrow> p)"

lemma res_ok_simps [simp]:
  "res_ok p (Ok x)" "res_ok p (Err e) = valid_err e" "res_ok p Panic = p"
  by (simp_all add: res_ok_def)

lemma valid_errno_from_nix [simp]: "valid_err (errno_from_nix e)"
  by (cases e) (simp_all add: valid_err_def wasi_const)

lemma valid_errno_from_host [simp]: "valid_err (errno_from_host os e)"
  by (simp add: errno_from_host_def)

lemma valid_err_consts [simp]:
  "valid_err WASI_E2BIG" "valid_err WASI_EBADF" "valid_err WASI_EFAULT" "valid_err WASI_EILSEQ"
  "valid_err WASI_EINVAL" "valid_err WASI_EIO" "valid_err WASI_ELOOP" "valid_err WASI_EMFILE"
  "valid_err WASI_ENAMETOOLONG" "valid_err WASI_ENFILE" "valid_err WASI_ENOENT"
  "valid_err WASI_ENOSYS" "valid_err WASI_ENOTCAPABLE" "valid_err WASI_ENOTDIR"
  "valid_err WASI_ENOTSUP" "valid_err WASI_ENXIO" "valid_err WASI_EOVERFLOW"
  by (simp_all add: valid_err_def wasi_const)

lemma res_ok_and_then:
  "res_ok p r \<Longrightarrow> (\<And>x. r = Ok x \<Longrightarrow> res_ok p (f x)) \<Longrightarrow> res_ok p (and_then r f)"
  by (cases r) simp_all

lemma res_ok_map_ok [simp]: "res_ok p (map_ok f r) = res_ok p r"
  by (cases r) simp_all

lemma res_ok_ok_or: "valid_err e \<Longrightarrow> res_ok p (ok_or x e)"
  by (cases x) simp_all

lemma res_ok_nix_unwrap: "p \<or> r \<noteq> Inl None \<Longrightarrow> res_ok p (nix_unwrap r)"
  by (cases r rule: nix_unwrap.cases) auto

lemma res_ok_nix_map_or: "valid_err e \<Longrightarrow> res_ok p (nix_map_or e r)"
  by (cases r rule: nix_unwrap.cases) auto

lemma res_ok_collect:
  "(\<And>x. x \<in> set xs \<Longrightarrow> res_ok p (f x)) \<Longrightarrow> res_ok p (collect_res f xs)"
  by (induction xs) (auto intro!: res_ok_and_then)

text \<open>A step of the platform all of whose results are such.\<close>

definition io_ok :: "bool \<Rightarrow> ('w, 'a) io \<Rightarrow> bool" where
  "io_ok p m \<longleftrightarrow> (\<forall>w. res_ok p (fst (m w)))"

lemma io_ok_bind:
  assumes "io_ok p m" "\<And>x. io_ok p (f x)"
  shows "io_ok p (io_bind m f)"
  unfolding io_ok_def
proof
  fix w
  obtain r w' where m: "m w = (r, w')" by force
  then have "res_ok p r" using assms(1) by (metis io_ok_def fst_conv)
  then show "res_ok p (fst (io_bind m f w))"
    using m assms(2) by (cases r) (auto simp: io_ok_def)
qed

lemma io_ok_res [simp]: "io_ok p (io_res r) = res_ok p r"
  by (simp add: io_ok_def)

lemma io_ok_map: "io_ok p m \<Longrightarrow> io_ok p (io_map f m)"
  by (simp add: io_ok_def)

lemma io_ok_on_fail: "io_ok p m \<Longrightarrow> io_ok p (io_on_fail m c)"
  by (simp add: io_ok_def)

lemma io_ok_with_file: "io_ok p m \<Longrightarrow> io_ok p (with_file os f m)"
  by (simp add: io_ok_def)

lemma io_ok_call [simp]: "io_ok p (io_call c)"
  by (auto simp: io_ok_def io_call_def split: prod.splits)

lemma io_ok_from_std [simp]: "valid_err e \<Longrightarrow> io_ok p (from_std_or os e c)"
  by (auto simp: io_ok_def from_std_or_def io_error_or_def split: prod.splits sum.splits option.splits)

lemma io_ok_from_nix_or [simp]: "valid_err e \<Longrightarrow> io_ok p (from_nix_or e c)"
  by (auto simp: io_ok_def from_nix_or_def res_ok_nix_map_or split: prod.splits)

lemma io_ok_from_nix: "p \<or> (\<forall>w. fst (c w) \<noteq> Inl None) \<Longrightarrow> io_ok p (from_nix c)"
  unfolding io_ok_def from_nix_def
  by (metis (mono_tags, lifting) case_prod_beta fst_conv res_ok_nix_unwrap)

lemma valid_last_error [simp]: "valid_err (last_error os w)"
  by (simp add: last_error_def)

lemma io_ok_from_libc [simp]: "io_ok p (from_libc os c)"
  by (auto simp: io_ok_def from_libc_def split: prod.splits)

end
