(* ===== verification/Fd_Entry.thy ===== *)
theory Fd_Entry
  imports Nix_Host
begin

text \<open>
  \<^verbatim>\<open>src/fdentry.rs\<close> and \<^verbatim>\<open>src/sys/unix/fdentry_impl.rs\<close>: what the library keeps for an open
  descriptor of the guest, and the rights it derives from the type and access mode of the host's
  file.  A \<^verbatim>\<open>std::fs::File\<close> is its raw descriptor; dropping one closes it, which the model writes
  out as a call of \<open>sys_close\<close>.
\<close>

section \<open>Data\<close>

datatype descriptor = File raw_fd | Stdin | Stdout | Stderr

record fd_object =
  fo_file_type :: wasi_filetype_t
  fo_descriptor :: descriptor
  fo_needs_close :: bool

record fd_entry =
  fe_object :: fd_object
  fe_rights_base :: wasi_rights_t
  fe_rights_inheriting :: wasi_rights_t
  fe_preopen_path :: "bytes option"

fun as_raw_fd :: "descriptor \<Rightarrow> raw_fd" where
  "as_raw_fd (File f) = f"
| "as_raw_fd Stdin = 0"
| "as_raw_fd Stdout = 1"
| "as_raw_fd Stderr = 2"

text \<open>\<^verbatim>\<open>Drop for FdObject\<close>; only the variant \<open>File\<close> owns a descriptor of the host.\<close>

definition drop_fd_object :: "('w, 'z) std_os_scheme \<Rightarrow> fd_object \<Rightarrow> 'w \<Rightarrow> 'w" where
  "drop_fd_object os obj w =
     (if fo_needs_close obj
      then (case fo_descriptor obj of File f \<Rightarrow> sys_close os f w | _ \<Rightarrow> w)
      else w)"

abbreviation drop_fd_entry :: "('w, 'z) std_os_scheme \<Rightarrow> fd_entry \<Rightarrow> 'w \<Rightarrow> 'w" where
  "drop_fd_entry os fe \<equiv> drop_fd_object os (fe_object fe)"

section \<open>Type and rights of a host descriptor\<close>

definition determine_type_rights ::
  "('w, 'z) nix_os_scheme \<Rightarrow> raw_fd \<Rightarrow>
     ('w, wasi_filetype_t \<times> wasi_rights_t \<times> wasi_rights_t) io" where
  "determine_type_rights os fd =
     io_bind (from_std os (sys_metadata os fd)) (\<lambda>md.
       case md_file_type md of
         Ft_block_device \<Rightarrow> io_res (Ok
           (WASI_FILETYPE_BLOCK_DEVICE, RIGHTS_BLOCK_DEVICE_BASE, RIGHTS_BLOCK_DEVICE_INHERITING))
       | Ft_char_device \<Rightarrow>
           io_bind (from_nix_or WASI_EIO (sys_isatty os fd)) (\<lambda>tty.
             if tty then io_res (Ok
               (WASI_FILETYPE_CHARACTER_DEVICE, RIGHTS_TTY_BASE, RIGHTS_TTY_BASE))
             else io_res (Ok
               (WASI_FILETYPE_CHARACTER_DEVICE, RIGHTS_CHARACTER_DEVICE_BASE,
                RIGHTS_CHARACTER_DEVICE_INHERITING)))
       | Ft_dir \<Rightarrow> io_res (Ok
           (WASI_FILETYPE_DIRECTORY, RIGHTS_DIRECTORY_BASE, RIGHTS_DIRECTORY_INHERITING))
       | Ft_file \<Rightarrow> io_res (Ok
           (WASI_FILETYPE_REGULAR_FILE, RIGHTS_REGULAR_FILE_BASE, RIGHTS_REGULAR_FILE_INHERITING))
       | Ft_socket \<Rightarrow>
           io_bind (from_nix_or WASI_EIO (sys_getsockopt_type os fd)) (\<lambda>ty.
             case ty of
               Datagram \<Rightarrow> io_res (Ok
                 (WASI_FILETYPE_SOCKET_DGRAM, RIGHTS_SOCKET_BASE, RIGHTS_SOCKET_INHERITING))
             | Stream \<Rightarrow> io_res (Ok
                 (WASI_FILETYPE_SOCKET_STREAM, RIGHTS_SOCKET_BASE, RIGHTS_SOCKET_INHERITING))
             | OtherSock \<Rightarrow> io_res (Err WASI_EINVAL))
       | Ft_fifo \<Rightarrow> io_res (Ok
           (WASI_FILETYPE_SOCKET_STREAM, RIGHTS_SOCKET_BASE, RIGHTS_SOCKET_INHERITING))
       | Ft_symlink \<Rightarrow> io_res (Err WASI_EINVAL)
       | Ft_other \<Rightarrow> io_res (Err WASI_EINVAL))"

text \<open>How the access mode of the open file narrows the base rights.\<close>

definition limit_access :: "'z libc_scheme \<Rightarrow> u32 \<Rightarrow> wasi_rights_t \<Rightarrow> wasi_rights_t" where
  "limit_access lc flags_bits base =
     (let flags = flags_bits AND O_ALL lc; accmode = flags AND O_ACCMODE lc in
      if accmode = O_RDONLY lc then base AND NOT WASI_RIGHT_FD_WRITE
      else if accmode = O_WRONLY lc then base AND NOT WASI_RIGHT_FD_READ
      else base)"

definition determine_type_and_access_rights ::
  "('w, 'z) nix_os_scheme \<Rightarrow> 'y libc_scheme \<Rightarrow> raw_fd \<Rightarrow>
     ('w, wasi_filetype_t \<times> wasi_rights_t \<times> wasi_rights_t) io" where
  "determine_type_and_access_rights os lc fd =
     io_bind (determine_type_rights os fd) (\<lambda>(file_type, base, inheriting).
     io_bind (from_nix_or WASI_EIO (sys_fcntl_getfl os fd)) (\<lambda>flags_bits.
       io_res (Ok (file_type, limit_access lc flags_bits base, inheriting))))"

section \<open>Making an entry\<close>

definition new_entry ::
  "descriptor \<Rightarrow> wasi_filetype_t \<times> wasi_rights_t \<times> wasi_rights_t \<Rightarrow> fd_entry" where
  "new_entry d = (\<lambda>(file_type, base, inheriting).
     \<lparr>fe_object = \<lparr>fo_file_type = file_type, fo_descriptor = d, fo_needs_close = True\<rparr>,
      fe_rights_base = base, fe_rights_inheriting = inheriting, fe_preopen_path = None\<rparr>)"

text \<open>The file is moved into the entry; if there is none, it is closed.\<close>

definition fdentry_from ::
  "('w, 'z) nix_os_scheme \<Rightarrow> 'y libc_scheme \<Rightarrow> raw_fd \<Rightarrow> ('w, fd_entry) io" where
  "fdentry_from os lc file =
     io_on_fail (io_map (new_entry (File file)) (determine_type_and_access_rights os lc file))
       (sys_close os file)"

definition fdentry_duplicate ::
  "('w, 'z) nix_os_scheme \<Rightarrow> 'y libc_scheme \<Rightarrow> raw_fd \<Rightarrow> ('w, fd_entry) io" where
  "fdentry_duplicate os lc file =
     io_bind (from_std os (sys_try_clone os file)) (fdentry_from os lc)"

definition duplicate_stdin ::
  "('w, 'z) nix_os_scheme \<Rightarrow> 'y libc_scheme \<Rightarrow> ('w, fd_entry) io" where
  "duplicate_stdin os lc =
     io_map (new_entry Stdin) (determine_type_and_access_rights os lc (as_raw_fd Stdin))"

definition duplicate_stdout ::
  "('w, 'z) nix_os_scheme \<Rightarrow> 'y libc_scheme \<Rightarrow> ('w, fd_entry) io" where
  "duplicate_stdout os lc =
     io_map (new_entry Stdout) (determine_type_and_access_rights os lc (as_raw_fd Stdout))"

definition duplicate_stderr ::
  "('w, 'z) nix_os_scheme \<Rightarrow> 'y libc_scheme \<Rightarrow> ('w, fd_entry) io" where
  "duplicate_stderr os lc =
     io_map (new_entry Stderr) (determine_type_and_access_rights os lc (as_raw_fd Stderr))"

section \<open>Lemmas\<close>

lemma from_nix_or_not_Panic [simp]: "fst (from_nix_or e c w) \<noteq> Panic"
  by (auto simp: from_nix_or_def split: prod.splits elim: nix_map_or.elims)

lemma from_std_or_not_Panic [simp]: "fst (from_std_or os e c w) \<noteq> Panic"
  by (auto simp: from_std_or_def split: prod.splits sum.splits)

lemma determine_type_rights_not_Panic: "fst (determine_type_rights os fd w) \<noteq> Panic"
  by (auto simp: determine_type_rights_def fst_io_bind_Panic
      split: host_filetype.splits sock_type.splits if_splits)

lemma determine_rights_not_Panic [simp]:
  "fst (determine_type_and_access_rights os lc fd w) \<noteq> Panic"
  by (auto simp: determine_type_and_access_rights_def fst_io_bind_Panic
      determine_type_rights_not_Panic)

lemma fdentry_from_not_Panic [simp]: "fst (fdentry_from os lc file w) \<noteq> Panic"
  by (simp add: fdentry_from_def)

lemma fdentry_from_Ok:
  assumes "fdentry_from os lc file w = (Ok fe, w')"
  shows "fe_object fe = \<lparr>fo_file_type = fo_file_type (fe_object fe), fo_descriptor = File file,
      fo_needs_close = True\<rparr>" "fe_preopen_path fe = None"
  using assms by (auto simp: fdentry_from_def io_map_Ok_iff new_entry_def split: prod.splits)

text \<open>The rights a type of file can be given, before its access mode is looked at.\<close>

definition type_rights :: "(wasi_filetype_t \<times> wasi_rights_t \<times> wasi_rights_t) list" where
  "type_rights =
     [(WASI_FILETYPE_BLOCK_DEVICE, RIGHTS_BLOCK_DEVICE_BASE, RIGHTS_BLOCK_DEVICE_INHERITING),
      (WASI_FILETYPE_CHARACTER_DEVICE, RIGHTS_TTY_BASE, RIGHTS_TTY_BASE),
      (WASI_FILETYPE_CHARACTER_DEVICE, RIGHTS_CHARACTER_DEVICE_BASE,
       RIGHTS_CHARACTER_DEVICE_INHERITING),
      (WASI_FILETYPE_DIRECTORY, RIGHTS_DIRECTORY_BASE, RIGHTS_DIRECTORY_INHERITING),
      (WASI_FILETYPE_REGULAR_FILE, RIGHTS_REGULAR_FILE_BASE, RIGHTS_REGULAR_FILE_INHERITING),
      (WASI_FILETYPE_SOCKET_DGRAM, RIGHTS_SOCKET_BASE, RIGHTS_SOCKET_INHERITING),
      (WASI_FILETYPE_SOCKET_STREAM, RIGHTS_SOCKET_BASE, RIGHTS_SOCKET_INHERITING)]"

lemma determine_type_rights_Ok:
  assumes "determine_type_rights os fd w = (Ok t, w')"
  shows "t \<in> set type_rights"
proof -
  obtain md w1 where md: "from_std os (sys_metadata os fd) w = (Ok md, w1)"
    using assms by (auto simp: determine_type_rights_def io_bind_Ok_iff)
  have sock: "t \<in> set type_rights" if ft: "md_file_type md = Ft_socket"
  proof -
    obtain ty w2 where "from_nix_or WASI_EIO (sys_getsockopt_type os fd) w1 = (Ok ty, w2)"
      using assms md ft by (auto simp: determine_type_rights_def io_bind_Ok_iff)
    then show ?thesis
      using assms md ft by (cases ty) (auto simp: determine_type_rights_def type_rights_def)
  qed
  show ?thesis
    using assms md sock
    by (cases "md_file_type md")
      (auto simp: determine_type_rights_def type_rights_def io_bind_Ok_iff split: if_splits)
qed

lemma limit_access_subset: "limit_access lc flags base AND NOT base = 0"
  by (rule bit_word_eqI) (auto simp: limit_access_def Let_def bit_simps)

lemma determine_rights_Ok:
  assumes "determine_type_and_access_rights os lc fd w = (Ok (ty, base, inh), w')"
  obtains base0 flags where "(ty, base0, inh) \<in> set type_rights" "base = limit_access lc flags base0"
  using assms determine_type_rights_Ok
  by (fastforce simp: determine_type_and_access_rights_def io_bind_Ok_iff split: prod.splits)

end
