(* ===== verification/Hash_Map.thy ===== *)
theory Hash_Map
  imports Main "HOL-Library.AList"
begin

text \<open>
  \<^verbatim>\<open>std::collections::HashMap\<close>: the operations the library calls, as an interface with the laws
  the standard library documents, and its realisation as an association list with distinct keys.
  The order in which such a map is iterated is not specified; where the library iterates one, the
  model takes the order as a parameter.
\<close>

locale hash_map =
  fixes lookup :: "'m \<Rightarrow> 'k \<Rightarrow> 'v option"
    and insert_kv :: "'k \<Rightarrow> 'v \<Rightarrow> 'm \<Rightarrow> 'm"
    and remove_k :: "'k \<Rightarrow> 'm \<Rightarrow> 'm"
    and empty_map :: 'm
    and inv :: "'m \<Rightarrow> bool"
  assumes lookup_empty: "lookup empty_map k = None"
    and lookup_insert: "lookup (insert_kv k v m) = (lookup m)(k \<mapsto> v)"
    and lookup_remove: "inv m \<Longrightarrow> lookup (remove_k k m) = (lookup m)(k := None)"
    and inv_empty: "inv empty_map"
    and inv_insert: "inv m \<Longrightarrow> inv (insert_kv k v m)"
    and inv_remove: "inv m \<Longrightarrow> inv (remove_k k m)"
begin

definition keys :: "'m \<Rightarrow> 'k set" where
  "keys m = dom (lookup m)"

lemma keys_insert: "keys (insert_kv k v m) = insert k (keys m)"
  by (auto simp: keys_def lookup_insert)

lemma keys_remove: "inv m \<Longrightarrow> keys (remove_k k m) = keys m - {k}"
  by (auto simp: keys_def lookup_remove)

lemma insert_other: "k \<noteq> k' \<Longrightarrow> lookup (insert_kv k v m) k' = lookup m k'"
  by (simp add: lookup_insert)

lemma remove_insert:
  "inv m \<Longrightarrow> lookup m k = None \<Longrightarrow> lookup (remove_k k (insert_kv k v m)) = lookup m"
  by (auto simp: lookup_remove lookup_insert inv_insert)

end

type_synonym ('k, 'v) map_list = "('k \<times> 'v) list"

abbreviation hm_get :: "('k, 'v) map_list \<Rightarrow> 'k \<Rightarrow> 'v option" where
  "hm_get m k \<equiv> map_of m k"

abbreviation hm_insert :: "'k \<Rightarrow> 'v \<Rightarrow> ('k, 'v) map_list \<Rightarrow> ('k, 'v) map_list" where
  "hm_insert k v m \<equiv> AList.update k v m"

abbreviation hm_remove :: "'k \<Rightarrow> ('k, 'v) map_list \<Rightarrow> ('k, 'v) map_list" where
  "hm_remove k m \<equiv> AList.delete k m"

definition hm_contains_key :: "('k, 'v) map_list \<Rightarrow> 'k \<Rightarrow> bool" where
  "hm_contains_key m k \<longleftrightarrow> hm_get m k \<noteq> None"

definition hm_inv :: "('k, 'v) map_list \<Rightarrow> bool" where
  "hm_inv m \<longleftrightarrow> distinct (map fst m)"

interpretation hm: hash_map map_of AList.update AList.delete "[]" hm_inv
  by unfold_locales
    (simp_all add: hm_inv_def update_conv' delete_conv' distinct_update distinct_delete)

lemma hm_contains_key_iff: "hm_contains_key m k \<longleftrightarrow> k \<in> hm.keys m"
  by (auto simp: hm_contains_key_def hm.keys_def)

lemma finite_hm_keys: "finite (hm.keys m)"
  by (simp add: hm.keys_def finite_dom_map_of)

end
