(* ===== verification/Example_Os.thy ===== *)
theory Example_Os
  imports Host_Os
begin

text \<open>
  A platform on which every call fails and nothing changes.  Theorems with hypotheses about the
  platform are applied to it with the calls they need replaced; no definition of the model uses it.
\<close>

definition idle_std_os :: "'w std_os" where
  "idle_std_os = \<lparr>
     sys_from_i32 = (\<lambda>_. ENOSYS),
     sys_open = (\<lambda>_ w. (Inl (Some 38), w)),
     sys_close = (\<lambda>_ w. w),
     sys_try_clone = (\<lambda>_ w. (Inl (Some 38), w)),
     sys_metadata = (\<lambda>_ w. (Inl (Some 38), w)),
     sys_sync_data = (\<lambda>_ w. (Inl (Some 38), w)),
     sys_sync_all = (\<lambda>_ w. (Inl (Some 38), w)),
     sys_set_len = (\<lambda>_ _ w. (Inl (Some 38), w)),
     sys_read_at = (\<lambda>_ _ _ w. (Inl (Some 38), w)),
     sys_write_at = (\<lambda>_ _ _ w. (Inl (Some 38), w)),
     sys_read_vectored = (\<lambda>_ _ w. (Inl (Some 38), w)),
     sys_stdin_read_vectored = (\<lambda>_ w. (Inl (Some 38), w)),
     sys_write_vectored = (\<lambda>_ _ w. (Inl (Some 38), w)),
     sys_stdout_write_vectored = (\<lambda>_ w. (Inl (Some 38), w)),
     sys_stderr_write_vectored = (\<lambda>_ w. (Inl (Some 38), w)),
     sys_env_vars = (\<lambda>_. []),
     sys_now_nanos = (\<lambda>_. None)\<rparr>"

definition idle_nix_os :: "'w nix_os" where
  "idle_nix_os = std_os.extend idle_std_os (nix_os.fields
     (\<lambda>_ w. (Inl (Some ENOSYS), w))
     (\<lambda>_ _ w. (Inl (Some ENOSYS), w))
     (\<lambda>_ w. (Inl (Some ENOSYS), w))
     (\<lambda>_ w. (Inl (Some ENOSYS), w))
     (\<lambda>_ _ _ _ w. (Inl (Some ENOSYS), w))
     (\<lambda>_ _ _ w. (Inl (Some ENOSYS), w))
     (\<lambda>_ _ _ w. (Inl (Some ENOSYS), w))
     (\<lambda>_ w. (Inl (Some ENOSYS), w))
     (\<lambda>_ _ w. (Inl (Some ENOSYS), w))
     (\<lambda>_ _ _ w. (Inl (Some ENOSYS), w))
     (\<lambda>_ _ w. (Inl (Some ENOSYS), w))
     (\<lambda>_ _ w. (Inl (Some ENOSYS), w))
     (\<lambda>_ w. (Inl (Some ENOSYS), w)))"

definition idle_os :: "'w os" where
  "idle_os = nix_os.extend idle_nix_os (os.fields
     (\<lambda>_. ENOSYS)
     (\<lambda>_. None)
     (\<lambda>_ _ _ w. (-1, w))
     (\<lambda>_ _ _ _ _ w. (-1, w))
     (\<lambda>_ _ _ _ w. (-1, w))
     (\<lambda>_ _ _ w. (-1, w))
     (\<lambda>_ _ _ w. (-1, w))
     (\<lambda>_ _ _ w. ((-1, []), w))
     (\<lambda>_ _ _ w. (-1, w))
     (\<lambda>_ _ _ _ _ w. (-1, w))
     (\<lambda>_ _ _ _ w. (-1, w))
     (\<lambda>_ w. (None, w))
     (\<lambda>_ _ w. w)
     (\<lambda>_ w. ((-1, None), w))
     (\<lambda>_ w. ((-1, \<lparr>tv_sec = 0, tv_nsec = 0\<rparr>), w))
     (\<lambda>_ w. ((-1, \<lparr>tv_sec = 0, tv_nsec = 0\<rparr>), w))
     (\<lambda>n w. (replicate n 0, w))
     (\<lambda>w. w))"

definition linux_consts :: libc_misc where
  "linux_consts = \<lparr>linux = True, O_ALL = 0x7FFFFF, O_RDONLY = 0, O_WRONLY = 1, O_RDWR = 2,
     O_ACCMODE = 3, O_CREAT = 64, O_EXCL = 128, O_TRUNC = 512, O_APPEND = 1024, O_NONBLOCK = 2048,
     O_DSYNC = 4096, O_SYNC = 1052672, O_RSYNC = 1052672, O_DIRECTORY = 65536, O_NOFOLLOW = 131072,
     S_ALL = 61440, S_IFIFO = 4096, S_IFCHR = 8192, S_IFDIR = 16384, S_IFBLK = 24576,
     S_IFREG = 32768, S_IFLNK = 40960, S_IFSOCK = 49152, AT_SYMLINK_FOLLOW = 1024,
     AT_SYMLINK_NOFOLLOW = 256, AT_REMOVEDIR = 512, UTIME_NOW = 1073741823, UTIME_OMIT = 1073741822,
     PATH_MAX = 4096, POSIX_FADV_NORMAL = 0, POSIX_FADV_RANDOM = 1, POSIX_FADV_SEQUENTIAL = 2,
     POSIX_FADV_DONTNEED = 4, POSIX_FADV_NOREUSE = 5, CLOCK_REALTIME = 0, CLOCK_MONOTONIC = 1,
     CLOCK_PROCESS_CPUTIME_ID = 2, CLOCK_THREAD_CPUTIME_ID = 3, POLLIN = 1, POLLOUT = 4,
     POLLERR = 8, POLLHUP = 16, POLLNVAL = 32\<rparr>"

lemmas idle_defs = idle_os_def idle_nix_os_def idle_std_os_def nix_os.defs os.defs std_os.defs

lemma linux_consts_linux [simp]: "linux_libc linux_consts"
  by (simp add: linux_libc_def linux_consts_def)

end
