(* ===== verification/Wasi_Ctx.thy ===== *)
theory Wasi_Ctx
  imports Fd_Entry Hash_Map Example_Os
begin

text \<open>
  \<^verbatim>\<open>src/ctx.rs\<close>: the builder of a context, the context, its table of descriptors and the check of
  rights that guards every hostcall.  A builder method consumes the builder, so on an error its
  descriptors are closed.
\<close>

section \<open>Data\<close>

type_synonym fd_table = "(wasi_fd_t, fd_entry) map_list"

record wasi_ctx_builder =
  b_fds :: fd_table
  b_preopens :: "(bytes, raw_fd) map_list"
  b_args :: "bytes list"
  b_env :: "(bytes, bytes) map_list"

record wasi_ctx =
  fds :: fd_table
  args :: "bytes list"
  env :: "bytes list"

text \<open>Destructors of the tables; the order in which a table is dropped is not specified.\<close>

definition drop_fds :: "('w, 'z) std_os_scheme \<Rightarrow> fd_table \<Rightarrow> 'w \<Rightarrow> 'w" where
  "drop_fds os m = fold (\<lambda>(_, fe). drop_fd_entry os fe) m"

definition drop_files :: "('w, 'z) std_os_scheme \<Rightarrow> ('k \<times> raw_fd) list \<Rightarrow> 'w \<Rightarrow> 'w" where
  "drop_files os m = fold (\<lambda>(_, f). sys_close os f) m"

definition drop_builder :: "('w, 'z) std_os_scheme \<Rightarrow> wasi_ctx_builder \<Rightarrow> 'w \<Rightarrow> 'w" where
  "drop_builder os b w = drop_files os (b_preopens b) (drop_fds os (b_fds b) w)"

text \<open>\<^verbatim>\<open>self.fds.insert(k, fe);\<close> drops the entry that was there.\<close>

definition replace_entry ::
  "('w, 'z) std_os_scheme \<Rightarrow> wasi_fd_t \<Rightarrow> fd_entry \<Rightarrow> fd_table \<Rightarrow> 'w \<Rightarrow> fd_table \<times> 'w" where
  "replace_entry os k fe m w =
     (hm_insert k fe m,
      (case hm_get m k of None \<Rightarrow> w | Some old \<Rightarrow> drop_fd_entry os old w))"

section \<open>The builder\<close>

definition dev_null :: "('w, 'z) nix_os_scheme \<Rightarrow> ('w, raw_fd) io" where
  "dev_null os = from_std os (sys_open os [47, 100, 101, 118, 47, 110, 117, 108, 108])"

definition preopen_dir :: "('w, 'z) nix_os_scheme \<Rightarrow> bytes \<Rightarrow> ('w, raw_fd) io" where
  "preopen_dir os path = from_std os (sys_open os path)"

text \<open>The statement \<^verbatim>\<open>self.fds.insert(fd, e?);\<close> of a method that owns the builder.\<close>

definition insert_std ::
  "('w, 'z) std_os_scheme \<Rightarrow> wasi_fd_t \<Rightarrow> ('w, fd_entry) io \<Rightarrow> wasi_ctx_builder \<Rightarrow>
     ('w, wasi_ctx_builder) io" where
  "insert_std os fd e b =
     io_bind (io_on_fail e (drop_builder os b)) (\<lambda>fe w.
       case replace_entry os fd fe (b_fds b) w of
         (m, w') \<Rightarrow> (Ok (b\<lparr>b_fds := m\<rparr>), w'))"

definition builder_new ::
  "('w, 'z) nix_os_scheme \<Rightarrow> 'y libc_scheme \<Rightarrow> ('w, wasi_ctx_builder) io" where
  "builder_new os lc =
     (let null_entry = io_bind (dev_null os) (fdentry_from os lc) in
      io_bind (insert_std os 0 null_entry \<lparr>b_fds = [], b_preopens = [], b_args = [], b_env = []\<rparr>)
        (\<lambda>b. io_bind (insert_std os 1 null_entry b)
        (\<lambda>b. insert_std os 2 null_entry b)))"

definition cstring_arg :: "bytes \<Rightarrow> bytes res" where
  "cstring_arg s = ok_or (cstring_new s) WASI_ENOTCAPABLE"

definition builder_args ::
  "('w, 'z) std_os_scheme \<Rightarrow> wasi_ctx_builder \<Rightarrow> bytes list \<Rightarrow> ('w, wasi_ctx_builder) io" where
  "builder_args os b xs =
     io_on_fail (io_res (map_ok (\<lambda>a. b\<lparr>b_args := a\<rparr>) (collect_res cstring_arg xs)))
       (drop_builder os b)"

definition builder_arg ::
  "('w, 'z) std_os_scheme \<Rightarrow> wasi_ctx_builder \<Rightarrow> bytes \<Rightarrow> ('w, wasi_ctx_builder) io" where
  "builder_arg os b x =
     io_on_fail (io_res (map_ok (\<lambda>a. b\<lparr>b_args := b_args b @ [a]\<rparr>) (cstring_arg x)))
       (drop_builder os b)"

definition inherit_stdio ::
  "('w, 'z) nix_os_scheme \<Rightarrow> 'y libc_scheme \<Rightarrow> wasi_ctx_builder \<Rightarrow> ('w, wasi_ctx_builder) io" where
  "inherit_stdio os lc b =
     io_bind (insert_std os 0 (duplicate_stdin os lc) b) (\<lambda>b.
     io_bind (insert_std os 1 (duplicate_stdout os lc) b) (\<lambda>b.
       insert_std os 2 (duplicate_stderr os lc) b))"

definition builder_env ::
  "('w, 'z) std_os_scheme \<Rightarrow> wasi_ctx_builder \<Rightarrow> bytes \<Rightarrow> bytes \<Rightarrow> ('w, wasi_ctx_builder) io" where
  "builder_env os b k v =
     io_on_fail (io_res
       (and_then (cstring_arg k) (\<lambda>k'. and_then (cstring_arg v) (\<lambda>v'.
          Ok (b\<lparr>b_env := hm_insert k' v' (b_env b)\<rparr>)))))
       (drop_builder os b)"

definition env_pair :: "bytes \<times> bytes \<Rightarrow> (bytes \<times> bytes) res" where
  "env_pair = (\<lambda>(k, v).
     case (cstring_arg k, cstring_arg v) of (Ok k', Ok v') \<Rightarrow> Ok (k', v') | _ \<Rightarrow> Err WASI_ENOTCAPABLE)"

text \<open>Collecting pairs into a map: a later pair replaces an earlier one with the same key.\<close>

definition collect_map :: "('k \<times> 'v) list \<Rightarrow> ('k, 'v) map_list" where
  "collect_map kvs = fold (\<lambda>(k, v). hm_insert k v) kvs []"

definition builder_envs ::
  "('w, 'z) std_os_scheme \<Rightarrow> wasi_ctx_builder \<Rightarrow> (bytes \<times> bytes) list \<Rightarrow>
     ('w, wasi_ctx_builder) io" where
  "builder_envs os b kvs =
     io_on_fail (io_res (map_ok (\<lambda>e. b\<lparr>b_env := collect_map e\<rparr>) (collect_res env_pair kvs)))
       (drop_builder os b)"

text \<open>\<^verbatim>\<open>std::env::vars()\<close> panics when it reaches a variable that is not valid Unicode.\<close>

definition inherit_env ::
  "('w, 'z) std_os_scheme \<Rightarrow> wasi_ctx_builder \<Rightarrow> ('w, wasi_ctx_builder) io" where
  "inherit_env os b = (\<lambda>w.
     io_on_fail (io_res (map_ok (\<lambda>e. b\<lparr>b_env := collect_map e\<rparr>)
         (collect_res (\<lambda>(k, v). if valid_utf8 k \<and> valid_utf8 v then env_pair (k, v) else Panic)
           (sys_env_vars os w))))
       (drop_builder os b) w)"

definition preopened_dir ::
  "('w, 'z) std_os_scheme \<Rightarrow> wasi_ctx_builder \<Rightarrow> raw_fd \<Rightarrow> bytes \<Rightarrow> 'w \<Rightarrow> wasi_ctx_builder \<times> 'w" where
  "preopened_dir os b dir guest_path w =
     (b\<lparr>b_preopens := hm_insert guest_path dir (b_preopens b)\<rparr>,
      (case hm_get (b_preopens b) guest_path of None \<Rightarrow> w | Some old \<Rightarrow> sys_close os old w))"

section \<open>The first free descriptor\<close>

text \<open>
  The loop \<^verbatim>\<open>while self.fds.contains_key(&fd)\<close> of \<open>insert_fd_entry\<close> and of \<open>build\<close>; \<open>None\<close> is the
  overflow of \<^verbatim>\<open>fd.checked_add(1)\<close>.
\<close>

function next_free_fd :: "(wasi_fd_t, 'v) map_list \<Rightarrow> wasi_fd_t \<Rightarrow> wasi_fd_t option" where
  "next_free_fd m fd =
     (if hm_contains_key m fd
      then (case checked_add fd 1 of None \<Rightarrow> None | Some next_fd \<Rightarrow> next_free_fd m next_fd)
      else Some fd)"
  by pat_completeness auto
termination
proof (relation "measure (\<lambda>(m, fd). 2 ^ 32 - unat fd)")
  show "wf (measure (\<lambda>(m :: (wasi_fd_t, 'v) map_list, fd :: wasi_fd_t). 2 ^ 32 - unat fd))"
    by simp
  fix m :: "(wasi_fd_t, 'v) map_list" and fd next_fd :: wasi_fd_t
  assume "checked_add fd 1 = Some next_fd"
  then have "unat next_fd = unat fd + 1" by (auto dest: checked_add_SomeD)
  then show "((m, next_fd), m, fd) \<in> measure (\<lambda>(m, fd). 2 ^ 32 - unat fd)"
    using unat_bound [of fd] by simp
qed

declare next_free_fd.simps [simp del]

section \<open>Building a context\<close>

text \<open>
  The loop over the preopened directories, in the order \<open>dirs\<close> in which the map yields them.  On
  an error the directory at hand, those not yet reached and all entries made so far are closed.
\<close>

definition check_preopen :: "('w, 'z) std_os_scheme \<Rightarrow> raw_fd \<Rightarrow> ('w, unit) io" where
  "check_preopen os dir =
     io_bind (from_std os (sys_metadata os dir)) (\<lambda>md.
       io_res (if md_file_type md = Ft_dir then Ok () else Err WASI_EBADF))"

fun build_preopens ::
  "('w, 'z) nix_os_scheme \<Rightarrow> 'y libc_scheme \<Rightarrow> target \<Rightarrow> (bytes \<times> raw_fd) list \<Rightarrow> wasi_fd_t \<Rightarrow>
     fd_table \<Rightarrow> ('w, fd_table) io" where
  "build_preopens os lc tgt [] preopen_fd m = io_res (Ok m)"
| "build_preopens os lc tgt ((guest_path, dir) # dirs) preopen_fd m =
     (let rest = (\<lambda>w. drop_fds os m (drop_files os dirs w)) in
      io_bind (io_on_fail
          (io_on_fail
            (io_bind (check_preopen os dir) (\<lambda>_. io_res (ok_or (next_free_fd m preopen_fd) WASI_ENFILE)))
            (sys_close os dir))
          rest) (\<lambda>fd.
      io_bind (io_on_fail (fdentry_from os lc dir) rest) (\<lambda>fe.
      let m' = hm_insert fd (fe\<lparr>fe_preopen_path := Some guest_path\<rparr>) m in
      io_bind (io_on_fail (io_res (plain_add tgt fd 1))
          (\<lambda>w. drop_fds os m' (drop_files os dirs w))) (\<lambda>next_fd.
        build_preopens os lc tgt dirs next_fd m'))))"

definition env_string :: "bytes \<times> bytes \<Rightarrow> bytes" where
  "env_string = (\<lambda>(k, v). k @ [61] @ v)"

definition build ::
  "('w, 'z) nix_os_scheme \<Rightarrow> 'y libc_scheme \<Rightarrow> target \<Rightarrow>
     ((bytes \<times> raw_fd) list \<Rightarrow> (bytes \<times> raw_fd) list) \<Rightarrow>
     ((bytes \<times> bytes) list \<Rightarrow> (bytes \<times> bytes) list) \<Rightarrow>
     wasi_ctx_builder \<Rightarrow> ('w, wasi_ctx) io" where
  "build os lc tgt preopen_order env_order b =
     io_map (\<lambda>m. \<lparr>fds = m, args = b_args b, env = map env_string (env_order (b_env b))\<rparr>)
       (build_preopens os lc tgt (preopen_order (b_preopens b)) 3 (b_fds b))"

definition wasi_ctx_new ::
  "('w, 'z) nix_os_scheme \<Rightarrow> 'y libc_scheme \<Rightarrow> target \<Rightarrow>
     ((bytes \<times> bytes) list \<Rightarrow> (bytes \<times> bytes) list) \<Rightarrow> bytes list \<Rightarrow> ('w, wasi_ctx) io" where
  "wasi_ctx_new os lc tgt env_order xs =
     io_bind (builder_new os lc) (\<lambda>b.
     io_bind (builder_args os b xs) (\<lambda>b.
     io_bind (inherit_stdio os lc b) (\<lambda>b.
     io_bind (inherit_env os b) (\<lambda>b.
       build os lc tgt id env_order b))))"

section \<open>Looking up and inserting entries\<close>

definition validate_rights :: "fd_entry \<Rightarrow> wasi_rights_t \<Rightarrow> wasi_rights_t \<Rightarrow> unit res" where
  "validate_rights fe rights_base rights_inheriting =
     (if NOT (fe_rights_base fe) AND rights_base \<noteq> 0 \<or>
         NOT (fe_rights_inheriting fe) AND rights_inheriting \<noteq> 0
      then Err WASI_ENOTCAPABLE else Ok ())"

definition get_fd_entry ::
  "wasi_ctx \<Rightarrow> wasi_fd_t \<Rightarrow> wasi_rights_t \<Rightarrow> wasi_rights_t \<Rightarrow> fd_entry res" where
  "get_fd_entry ctx fd rights_base rights_inheriting =
     (case hm_get (fds ctx) fd of
        Some fe \<Rightarrow> and_then (validate_rights fe rights_base rights_inheriting) (\<lambda>_. Ok fe)
      | None \<Rightarrow> Err WASI_EBADF)"

text \<open>
  A mutable borrow returns the entry; what the caller writes through it is put back under the
  same key.
\<close>

definition get_fd_entry_mut ::
  "wasi_ctx \<Rightarrow> wasi_fd_t \<Rightarrow> wasi_rights_t \<Rightarrow> wasi_rights_t \<Rightarrow> fd_entry res" where
  "get_fd_entry_mut ctx fd rights_base rights_inheriting =
     (case hm_get (fds ctx) fd of
        Some fe \<Rightarrow> and_then (validate_rights fe rights_base rights_inheriting) (\<lambda>_. Ok fe)
      | None \<Rightarrow> Err WASI_EBADF)"

definition put_fd_entry :: "wasi_ctx \<Rightarrow> wasi_fd_t \<Rightarrow> fd_entry \<Rightarrow> wasi_ctx" where
  "put_fd_entry ctx fd fe = ctx\<lparr>fds := hm_insert fd fe (fds ctx)\<rparr>"

text \<open>On an error the new entry is dropped by the caller's side of the move.\<close>

definition insert_fd_entry :: "wasi_ctx \<Rightarrow> fd_entry \<Rightarrow> (wasi_fd_t \<times> wasi_ctx) res" where
  "insert_fd_entry ctx fe =
     (case next_free_fd (fds ctx) 3 of
        None \<Rightarrow> Err WASI_EMFILE
      | Some fd \<Rightarrow> Ok (fd, ctx\<lparr>fds := hm_insert fd fe (fds ctx)\<rparr>))"

section \<open>Lemmas\<close>

lemma next_free_fd_Some:
  assumes "next_free_fd m fd = Some r"
  shows "unat fd \<le> unat r" "r \<notin> hm.keys m"
    "\<And>k. unat fd \<le> unat k \<Longrightarrow> unat k < unat r \<Longrightarrow> k \<in> hm.keys m"
proof -
  have "unat fd \<le> unat r \<and> r \<notin> hm.keys m \<and>
      (\<forall>k. unat fd \<le> unat k \<and> unat k < unat r \<longrightarrow> k \<in> hm.keys m)"
    using assms
  proof (induction m fd rule: next_free_fd.induct)
    case (1 m fd)
    show ?case
    proof (cases "hm_contains_key m fd")
      case True
      then obtain next_fd where n: "checked_add fd 1 = Some next_fd"
          and r: "next_free_fd m next_fd = Some r"
        using 1(2) by (subst (asm) next_free_fd.simps) (auto split: option.splits)
      have u: "unat next_fd = unat fd + 1" using n by (auto dest: checked_add_SomeD)
      have ih: "unat next_fd \<le> unat r \<and> r \<notin> hm.keys m \<and>
          (\<forall>k. unat next_fd \<le> unat k \<and> unat k < unat r \<longrightarrow> k \<in> hm.keys m)"
        using 1(1) [OF True n r] .
      have "k \<in> hm.keys m" if k: "unat fd \<le> unat k" "unat k < unat r" for k
      proof (cases "unat k = unat fd")
        case True
        then have "k = fd" by (simp add: word_unat_eq_iff)
        then show ?thesis
          using \<open>hm_contains_key m fd\<close> by (simp add: hm_contains_key_iff)
      next
        case False
        then show ?thesis using ih k u by auto
      qed
      then show ?thesis using ih u by auto
    next
      case False
      then show ?thesis
        using 1(2) by (subst (asm) next_free_fd.simps) (auto simp: hm_contains_key_iff)
    qed
  qed
  then show "unat fd \<le> unat r" "r \<notin> hm.keys m"
    "\<And>k. unat fd \<le> unat k \<Longrightarrow> unat k < unat r \<Longrightarrow> k \<in> hm.keys m" by auto
qed

lemma next_free_fd_None:
  assumes "next_free_fd m fd = None" "unat fd \<le> unat k"
  shows "k \<in> hm.keys m"
  using assms
proof (induction m fd rule: next_free_fd.induct)
  case (1 m fd)
  have key: "hm_contains_key m fd"
    using 1(2) by (subst (asm) next_free_fd.simps) (auto split: if_splits)
  show ?case
  proof (cases "unat k = unat fd")
    case True
    then have "k = fd" by (simp add: word_unat_eq_iff)
    then show ?thesis using key by (simp add: hm_contains_key_iff)
  next
    case False
    then have less: "unat fd < unat k" using 1(3) by simp
    then have "checked_add fd 1 \<noteq> None"
      using unat_bound [of k] by (simp add: checked_add_def)
    then obtain next_fd where n: "checked_add fd 1 = Some next_fd" by auto
    have "next_free_fd m next_fd = None"
      using 1(2) key n by (subst (asm) next_free_fd.simps) simp
    moreover have "unat next_fd \<le> unat k"
      using n less by (auto dest: checked_add_SomeD)
    ultimately show ?thesis using 1(1) [OF key n] by simp
  qed
qed

lemma next_free_fd_here: "fd \<notin> hm.keys m \<Longrightarrow> next_free_fd m fd = Some fd"
  by (subst next_free_fd.simps) (simp add: hm_contains_key_iff)

lemma validate_rights_cases:
  "validate_rights fe rb ri =
     (if rb AND NOT (fe_rights_base fe) = 0 \<and> ri AND NOT (fe_rights_inheriting fe) = 0
      then Ok () else Err WASI_ENOTCAPABLE)"
  by (simp add: validate_rights_def and.commute)

lemma get_fd_entry_Ok:
  "get_fd_entry ctx fd rb ri = Ok fe \<longleftrightarrow>
     hm_get (fds ctx) fd = Some fe \<and> rb AND NOT (fe_rights_base fe) = 0 \<and>
     ri AND NOT (fe_rights_inheriting fe) = 0"
  by (auto simp: get_fd_entry_def validate_rights_cases split: option.splits)

lemma get_fd_entry_not_Panic [simp]: "get_fd_entry ctx fd rb ri \<noteq> Panic"
  by (auto simp: get_fd_entry_def validate_rights_cases split: option.splits)

lemma get_fd_entry_mut_eq: "get_fd_entry_mut ctx fd rb ri = get_fd_entry ctx fd rb ri"
  by (simp add: get_fd_entry_mut_def get_fd_entry_def)

lemma insert_fd_entry_not_Panic [simp]: "insert_fd_entry ctx fe \<noteq> Panic"
  by (simp add: insert_fd_entry_def split: option.splits)

section \<open>What a context guarantees\<close>

text \<open>
  C17. \<^verbatim>\<open>insert_fd_entry\<close> returns the smallest free descriptor that is at least 3, stores the entry
  there and nowhere else, and never overwrites an entry; it fails, with \<^verbatim>\<open>EMFILE\<close>, exactly when
  every descriptor from 3 on is in use.
\<close>

theorem insert_fd_entry_smallest_free:
  "case insert_fd_entry ctx fe of
     Ok (fd, ctx') \<Rightarrow> 3 \<le> unat fd \<and> hm_get (fds ctx) fd = None \<and>
       (\<forall>k. 3 \<le> unat k \<and> unat k < unat fd \<longrightarrow> hm_get (fds ctx) k \<noteq> None) \<and>
       hm_get (fds ctx') = (hm_get (fds ctx))(fd \<mapsto> fe) \<and>
       args ctx' = args ctx \<and> env ctx' = env ctx
   | Err e \<Rightarrow> e = WASI_EMFILE \<and> (\<forall>k. 3 \<le> unat k \<longrightarrow> hm_get (fds ctx) k \<noteq> None)
   | Panic \<Rightarrow> False"
proof (cases "next_free_fd (fds ctx) 3")
  case None
  then show ?thesis
    using next_free_fd_None [OF None] by (auto simp: insert_fd_entry_def hm.keys_def)
next
  case (Some fd)
  then show ?thesis
    using next_free_fd_Some [OF Some] by (auto simp: insert_fd_entry_def hm.keys_def update_conv')
qed

definition some_entry :: fd_entry where
  "some_entry = new_entry (File 7) (WASI_FILETYPE_REGULAR_FILE, 3, 0)"

lemma insert_fd_entry_smallest_free_witness:
  "\<exists>ctx'. insert_fd_entry \<lparr>fds = [(0, some_entry), (3, some_entry), (5, some_entry)],
       args = [], env = []\<rparr> some_entry = Ok (4, ctx') \<and>
     hm_get (fds ctx') 4 = Some some_entry \<and> hm_get (fds ctx') 5 = Some some_entry"
proof -
  let ?ctx = "\<lparr>fds = [(0, some_entry), (3, some_entry), (5, some_entry)], args = [], env = []\<rparr>"
  have "next_free_fd (fds ?ctx) 3 = Some 4"
    by (subst next_free_fd.simps)
      (simp add: next_free_fd_here hm_contains_key_def checked_add_def hm.keys_def)
  then obtain ctx' where ctx': "insert_fd_entry ?ctx some_entry = Ok (4, ctx')"
    by (simp add: insert_fd_entry_def)
  then show ?thesis
    using insert_fd_entry_smallest_free [of ?ctx some_entry] by (auto simp: ctx')
qed

text \<open>
  C18. \<^verbatim>\<open>get_fd_entry\<close> hands out an entry only if it holds every right the caller asks for, base and
  inheriting; an unknown descriptor is \<^verbatim>\<open>EBADF\<close>, a missing right \<^verbatim>\<open>ENOTCAPABLE\<close>.
\<close>

theorem get_fd_entry_checks_rights:
  "get_fd_entry ctx fd rb ri =
     (case hm_get (fds ctx) fd of
        None \<Rightarrow> Err WASI_EBADF
      | Some fe \<Rightarrow>
          if (\<forall>i < 64. bit rb i \<longrightarrow> bit (fe_rights_base fe) i) \<and>
             (\<forall>i < 64. bit ri i \<longrightarrow> bit (fe_rights_inheriting fe) i)
          then Ok fe else Err WASI_ENOTCAPABLE)"
proof -
  have "x AND NOT y = 0 \<longleftrightarrow> (\<forall>i < 64. bit x i \<longrightarrow> bit y i)" for x y :: u64
    by (auto simp: bit_eq_iff bit_simps dest: bit_imp_le_length)
  then show ?thesis
    by (auto simp: get_fd_entry_def validate_rights_cases split: option.splits)
qed

lemma get_fd_entry_checks_rights_witness:
  "get_fd_entry \<lparr>fds = [(4, some_entry)], args = [], env = []\<rparr> 4 8 0 = Err WASI_ENOTCAPABLE"
proof -
  have "bit (8 :: u64) 3" "\<not> bit (3 :: u64) 3"
    by code_simp+
  then show ?thesis
    by (subst get_fd_entry_checks_rights)
      (auto simp: some_entry_def new_entry_def intro: exI [of _ 3])
qed

text \<open>A directory the platform lets the library inspect: the calls succeed and change nothing.\<close>

definition good_dir :: "('w, 'z) nix_os_scheme \<Rightarrow> 'w \<Rightarrow> raw_fd \<Rightarrow> bool" where
  "good_dir os w dir \<longleftrightarrow>
     (\<exists>md. sys_metadata os dir w = (Inr md, w) \<and> md_file_type md = Ft_dir) \<and>
     (\<exists>flags. sys_fcntl_getfl os dir w = (Inr flags, w))"

lemma good_dir_from:
  assumes "good_dir os w dir"
  obtains fe where "fdentry_from os lc dir w = (Ok fe, w)"
    "fo_descriptor (fe_object fe) = File dir" "fe_preopen_path fe = None"
  using assms
  by (auto simp: good_dir_def fdentry_from_def io_map_def io_on_fail_def
      determine_type_and_access_rights_def determine_type_rights_def from_std_or_def
      from_nix_or_def new_entry_def)

lemma good_dir_check: "good_dir os w dir \<Longrightarrow> check_preopen os dir w = (Ok (), w)"
  by (auto simp: good_dir_def check_preopen_def from_std_or_def)

text \<open>Entry \<open>k\<close> of a table is the preopened directory \<open>d\<close>.\<close>

definition is_preopen :: "fd_table \<Rightarrow> wasi_fd_t \<Rightarrow> bytes \<times> raw_fd \<Rightarrow> bool" where
  "is_preopen m k d \<longleftrightarrow> (\<exists>fe. hm_get m k = Some fe \<and> fe_preopen_path fe = Some (fst d) \<and>
     fo_descriptor (fe_object fe) = File (snd d))"

lemma is_preopen_insert:
  "k \<noteq> fd \<Longrightarrow> is_preopen (hm_insert fd fe m) k d = is_preopen m k d"
  by (simp add: is_preopen_def update_conv')

lemma build_preopens_consecutive:
  assumes "list_all (\<lambda>d. good_dir os w (snd d)) dirs"
    and "\<And>k. hm_get m k \<noteq> None \<longleftrightarrow> unat k < unat fd"
    and "unat fd + length dirs < 2 ^ 32"
  shows "\<exists>m'. build_preopens os lc tgt dirs fd m w = (Ok m', w) \<and>
     (\<forall>k. unat k < unat fd \<longrightarrow> hm_get m' k = hm_get m k) \<and>
     (\<forall>k. hm_get m' k \<noteq> None \<longleftrightarrow> unat k < unat fd + length dirs) \<and>
     (\<forall>i < length dirs. is_preopen m' (fd + of_nat i) (dirs ! i))"
  using assms
proof (induction dirs arbitrary: fd m)
  case Nil
  then show ?case by simp
next
  case (Cons d dirs)
  obtain path dir where d: "d = (path, dir)" by force
  have good: "good_dir os w dir" using Cons.prems(1) d by simp
  obtain fe where fe: "fdentry_from os lc dir w = (Ok fe, w)"
      "fo_descriptor (fe_object fe) = File dir" "fe_preopen_path fe = None"
    by (rule good_dir_from [OF good])
  define m1 where "m1 = hm_insert fd (fe\<lparr>fe_preopen_path := Some path\<rparr>) m"
  have u: "unat (fd + 1) = unat fd + 1"
    using Cons.prems(3) by (simp add: unat_word_ariths)
  have none: "hm_get m fd = None" using Cons.prems(2) [of fd] by auto
  have keys: "hm_get m1 k \<noteq> None \<longleftrightarrow> unat k < unat (fd + 1)" for k
    using Cons.prems(2) [of k] u by (auto simp: m1_def update_conv' less_Suc_eq word_unat_eq_iff)
  obtain m' where m': "build_preopens os lc tgt dirs (fd + 1) m1 w = (Ok m', w)"
      "\<And>k. unat k < unat (fd + 1) \<Longrightarrow> hm_get m' k = hm_get m1 k"
      "\<And>k. hm_get m' k \<noteq> None \<longleftrightarrow> unat k < unat (fd + 1) + length dirs"
      "\<And>i. i < length dirs \<Longrightarrow> is_preopen m' (fd + 1 + of_nat i) (dirs ! i)"
    using Cons.IH [of m1 "fd + 1", OF _ keys] Cons.prems(1,3) u by auto
  have "next_free_fd m fd = Some fd" using none by (intro next_free_fd_here) (simp add: hm.keys_def domIff)
  then have "build_preopens os lc tgt (d # dirs) fd m w = (Ok m', w)"
    using fe(1) good_dir_check [OF good] m'(1) Cons.prems(3)
    by (simp add: d Let_def io_on_fail_def io_bind_def plain_add_def m1_def)
  moreover have "is_preopen m' (fd + of_nat i) ((d # dirs) ! i)" if i: "i < length (d # dirs)" for i
  proof (cases i)
    case 0
    have "hm_get m' fd = Some (fe\<lparr>fe_preopen_path := Some path\<rparr>)"
      using m'(2) [of fd] u by (simp add: m1_def update_conv')
    then show ?thesis using 0 fe(2) d by (simp add: is_preopen_def)
  next
    case (Suc j)
    then show ?thesis using m'(4) [of j] i by (simp add: add.assoc)
  qed
  moreover have "hm_get m' k = hm_get m k" if "unat k < unat fd" for k
    using m'(2) [of k] that u by (auto simp: m1_def update_conv')
  ultimately show ?case using m'(3) u by auto
qed

lemma unat_less_3: "unat k < 3 \<longleftrightarrow> k \<in> {0, 1, 2}" for k :: u32
proof -
  have "unat k < 3 \<longleftrightarrow> k < 3" by (simp add: word_less_nat_alt)
  also have "\<dots> \<longleftrightarrow> unat k = 0 \<or> unat k = 1 \<or> unat k = 2"
    by (auto simp: word_less_nat_alt)
  finally show ?thesis by (auto simp: word_unat_eq_iff)
qed

text \<open>
  C24. Startup finds the preopened directories at descriptors 3, 4, 5 and so on, in the order the
  map yields them and with their guest paths; the standard descriptors keep their entries, nothing
  else is in the table, and each environment variable becomes the string \<^verbatim>\<open>key=value\<close>.
\<close>

theorem build_numbers_preopens:
  assumes "list_all (\<lambda>d. good_dir os w (snd d)) (preopen_order (b_preopens b))"
    and "\<And>k. hm_get (b_fds b) k \<noteq> None \<longleftrightarrow> k \<in> {0, 1, 2}"
    and "3 + length (preopen_order (b_preopens b)) < 2 ^ 32"
  shows "\<exists>ctx. build os lc tgt preopen_order env_order b w = (Ok ctx, w) \<and>
     (\<forall>k \<in> {0, 1, 2}. hm_get (fds ctx) k = hm_get (b_fds b) k) \<and>
     (\<forall>k. hm_get (fds ctx) k \<noteq> None \<longleftrightarrow> unat k < 3 + length (preopen_order (b_preopens b))) \<and>
     (\<forall>i < length (preopen_order (b_preopens b)).
        is_preopen (fds ctx) (3 + of_nat i) (preopen_order (b_preopens b) ! i)) \<and>
     args ctx = b_args b \<and> env ctx = map (\<lambda>(k, v). k @ [61] @ v) (env_order (b_env b))"
  using build_preopens_consecutive [OF assms(1), of "b_fds b" 3 lc tgt] assms(2,3) unat_less_3
  by (fastforce simp: build_def io_map_def env_string_def)

text \<open>A platform on which every descriptor is a directory open for reading and writing.\<close>

definition dir_os :: "'w os" where
  "dir_os = idle_os\<lparr>sys_metadata := \<lambda>_ w. (Inr \<lparr>md_file_type = Ft_dir, md_len = 0\<rparr>, w),
     sys_fcntl_getfl := \<lambda>_ w. (Inr 2, w)\<rparr>"

lemma good_dir_dir_os [simp]: "good_dir dir_os w dir"
  by (simp add: good_dir_def dir_os_def)

lemma build_numbers_preopens_witness:
  "\<exists>ctx. build dir_os linux_consts tgt_le rev id
       \<lparr>b_fds = [(0, some_entry), (1, some_entry), (2, some_entry)],
        b_preopens = [([46], 10), ([47, 116], 11)], b_args = [], b_env = [([65], [66])]\<rparr> () =
       (Ok ctx, ()) \<and> is_preopen (fds ctx) 4 ([46], 10) \<and> env ctx = [[65, 61, 66]]"
proof -
  let ?b = "\<lparr>b_fds = [(0, some_entry), (1, some_entry), (2, some_entry)],
        b_preopens = [([46 :: u8], 10), ([47, 116], 11)], b_args = [], b_env = [([65], [66])]\<rparr>"
  have "\<exists>ctx. build dir_os linux_consts tgt_le rev id ?b () = (Ok ctx, ()) \<and>
     (\<forall>k \<in> {0, 1, 2}. hm_get (fds ctx) k = hm_get (b_fds ?b) k) \<and>
     (\<forall>k. hm_get (fds ctx) k \<noteq> None \<longleftrightarrow> unat k < 3 + length (rev (b_preopens ?b))) \<and>
     (\<forall>i < length (rev (b_preopens ?b)).
        is_preopen (fds ctx) (3 + of_nat i) (rev (b_preopens ?b) ! i)) \<and>
     args ctx = b_args ?b \<and> env ctx = map (\<lambda>(k, v). k @ [61] @ v) (id (b_env ?b))"
    by (rule build_numbers_preopens) (auto split: if_splits)
  then obtain ctx where ctx: "build dir_os linux_consts tgt_le rev id ?b () = (Ok ctx, ())"
      and i: "\<forall>i < length (rev (b_preopens ?b)).
        is_preopen (fds ctx) (3 + of_nat i) (rev (b_preopens ?b) ! i)"
      and e: "env ctx = map (\<lambda>(k, v). k @ [61] @ v) (id (b_env ?b))" by blast
  have "is_preopen (fds ctx) 4 ([46], 10)" using i [rule_format, of 1] by simp
  then show ?thesis using ctx e by auto
qed

end
