(* ===== verification/Path_Get.thy ===== *)
theory Path_Get
  imports Wasi_Ctx "HOL-Library.Multiset"
begin

text \<open>
  \<^verbatim>\<open>src/sys/unix/hostcalls_impl/fs_helpers.rs\<close>: the resolution of a guest path below a preopened
  directory.  The loop keeps a stack of open directories and a stack of paths still to process;
  one iteration is \<open>path_step\<close>, the loop \<open>path_loop\<close>.  The head of a list is the top of a stack.
\<close>

section \<open>The two calls of the loop\<close>

definition openat ::
  "('w, 'z) nix_os_scheme \<Rightarrow> 'y libc_scheme \<Rightarrow> raw_fd \<Rightarrow> bytes \<Rightarrow> ('w, raw_fd) io" where
  "openat os lc dirfd path =
     from_nix (sys_openat os dirfd path (O_RDONLY lc OR O_DIRECTORY lc OR O_NOFOLLOW lc) 0)"

definition readlinkat ::
  "('w, 'z) nix_os_scheme \<Rightarrow> 'y libc_stat_scheme \<Rightarrow> raw_fd \<Rightarrow> bytes \<Rightarrow> ('w, bytes) io" where
  "readlinkat os lc dirfd path =
     io_bind (from_nix (sys_readlinkat os dirfd path (PATH_MAX lc + 1))) (\<lambda>s. io_res (path_from_host s))"

definition utime_now :: "'z libc_stat_scheme \<Rightarrow> int" where
  "utime_now lc = UTIME_NOW lc"

definition utime_omit :: "'z libc_stat_scheme \<Rightarrow> int" where
  "utime_omit lc = UTIME_OMIT lc"

section \<open>One iteration\<close>

definition MAX_SYMLINK_EXPANSIONS :: nat where
  "MAX_SYMLINK_EXPANSIONS = 128"

record path_state =
  dir_stack :: "raw_fd list"
  path_stack :: "bytes list"
  symlink_expansions :: nat

text \<open>
  An iteration goes on with a new state, or the function returns, with the directories that are
  still on the stack and are closed on the way out.
\<close>

datatype path_outcome = Next path_state | Finish "(raw_fd \<times> bytes) res" "raw_fd list"

definition push_tail :: "bool \<Rightarrow> bytes \<Rightarrow> bytes list \<Rightarrow> bytes list res" where
  "push_tail slash tail ps =
     (if path_next tail \<noteq> None
      then map_ok (\<lambda>t. (if slash then t @ [SLASH] else t) # ps) (path_from_host tail)
      else Ok ps)"

definition expand_link :: "path_state \<Rightarrow> bytes \<Rightarrow> bytes \<Rightarrow> path_outcome" where
  "expand_link st head link =
     (let n = symlink_expansions st + 1 in
      if n > MAX_SYMLINK_EXPANSIONS then Finish (Err WASI_ELOOP) (dir_stack st)
      else Next (st\<lparr>path_stack := (if ends_with_slash head then link @ [SLASH] else link) # path_stack st,
                  symlink_expansions := n\<rparr>))"

text \<open>The last component: the directory on top and the name in it.\<close>

definition found :: "path_state \<Rightarrow> bytes \<Rightarrow> path_outcome" where
  "found st head = (case dir_stack st of
     [] \<Rightarrow> Finish (Err WASI_ENOTCAPABLE) [] | d # ds \<Rightarrow> Finish (Ok (d, head)) ds)"

definition normal_step ::
  "('w, 'z) nix_os_scheme \<Rightarrow> 'y libc_stat_scheme \<Rightarrow> wasi_lookupflags_t \<Rightarrow> bool \<Rightarrow> bool \<Rightarrow> path_state \<Rightarrow>
     bytes \<Rightarrow> 'w \<Rightarrow> path_outcome \<times> 'w" where
  "normal_step os lc dirflags needs_final_component slash st head w =
     (case dir_stack st of
        [] \<Rightarrow> (Finish (Err WASI_ENOTCAPABLE) [], w)
      | d # ds \<Rightarrow>
        if path_stack st \<noteq> [] \<or> slash \<and> \<not> needs_final_component then
          (case openat os lc d head w of
             (Ok new_dir, w1) \<Rightarrow> (Next (st\<lparr>dir_stack := new_dir # dir_stack st\<rparr>), w1)
           | (Err e, w1) \<Rightarrow>
               if e = WASI_ELOOP \<or> e = WASI_EMLINK \<or> e = WASI_ENOTDIR then
                 (case readlinkat os lc d head w1 of
                    (Ok link, w2) \<Rightarrow> (expand_link st head link, w2)
                  | (Err e, w2) \<Rightarrow> (Finish (Err e) (dir_stack st), w2)
                  | (Panic, w2) \<Rightarrow> (Finish Panic (dir_stack st), w2))
               else (Finish (Err e) (dir_stack st), w1)
           | (Panic, w1) \<Rightarrow> (Finish Panic (dir_stack st), w1))
        else if slash \<or> dirflags AND WASI_LOOKUP_SYMLINK_FOLLOW \<noteq> 0 then
          (case readlinkat os lc d head w of
             (Ok link, w1) \<Rightarrow> (expand_link st head link, w1)
           | (Err e, w1) \<Rightarrow>
               if e \<noteq> WASI_EINVAL \<and> e \<noteq> WASI_ENOENT then (Finish (Err e) (dir_stack st), w1)
               else (found st head, w1)
           | (Panic, w1) \<Rightarrow> (Finish Panic (dir_stack st), w1))
        else (found st head, w))"

definition path_step ::
  "('w, 'z) nix_os_scheme \<Rightarrow> 'y libc_stat_scheme \<Rightarrow> wasi_lookupflags_t \<Rightarrow> bool \<Rightarrow> path_state \<Rightarrow> 'w \<Rightarrow>
     path_outcome \<times> 'w" where
  "path_step os lc dirflags needs_final_component st w =
     (case path_stack st of
        [] \<Rightarrow> (found st [DOT], w)
      | cur_path # ps \<Rightarrow>
        (case path_next cur_path of
           None \<Rightarrow> (Finish (Err WASI_ENOENT) (dir_stack st), w)
         | Some (head, tail) \<Rightarrow>
           let slash = ends_with_slash cur_path in
           (case push_tail slash tail ps of
              Err e \<Rightarrow> (Finish (Err e) (dir_stack st), w)
            | Panic \<Rightarrow> (Finish Panic (dir_stack st), w)
            | Ok ps' \<Rightarrow>
              let st' = st\<lparr>path_stack := ps'\<rparr> in
              (case head of
                 RootDir \<Rightarrow> (Finish (Err WASI_ENOTCAPABLE) (dir_stack st), w)
               | CurDir \<Rightarrow> (Next st', w)
               | ParentDir \<Rightarrow>
                   (case dir_stack st of
                      [] \<Rightarrow> (Finish (Err WASI_ENOTCAPABLE) [], w)
                    | d # ds \<Rightarrow>
                        if ds = [] then (Finish (Err WASI_ENOTCAPABLE) [], sys_close os d w)
                        else (Next (st'\<lparr>dir_stack := ds\<rparr>), sys_close os d w))
               | Normal name \<Rightarrow>
                   (case path_from_host name of
                      Err e \<Rightarrow> (Finish (Err e) (dir_stack st), w)
                    | Panic \<Rightarrow> (Finish Panic (dir_stack st), w)
                    | Ok head \<Rightarrow>
                        normal_step os lc dirflags needs_final_component slash st'
                          (if slash then head @ [SLASH] else head) w)))))"

section \<open>Every iteration makes progress\<close>

text \<open>
  Either a link is expanded, which happens at most 128 times, or the paths on the stack get
  shorter in total.
\<close>

definition path_measure :: "(path_state \<times> path_state) set" where
  "path_measure = measures [\<lambda>st. 129 - symlink_expansions st,
     \<lambda>st. sum_list (map length (path_stack st))]"

lemma wf_path_measure: "wf path_measure"
  by (simp add: path_measure_def)

lemma expand_link_Next:
  "expand_link st head link = Next st' \<Longrightarrow> symlink_expansions st < 128 \<and>
     symlink_expansions st' = symlink_expansions st + 1 \<and> dir_stack st' = dir_stack st"
  by (auto simp: expand_link_def Let_def MAX_SYMLINK_EXPANSIONS_def split: if_splits)

lemma expand_link_Finish:
  "expand_link st head link = Finish r ds \<Longrightarrow> r = Err WASI_ELOOP \<and> ds = dir_stack st"
  by (auto simp: expand_link_def Let_def split: if_splits)

lemma found_Finish: "\<exists>r ds. found st head = Finish r ds"
  by (cases "dir_stack st") (auto simp: found_def)

lemma found_not_Next [simp]: "found st head \<noteq> Next st'" "Next st' \<noteq> found st head"
  using found_Finish [of st head] by auto

text \<open>The ways one iteration can go on, as elimination rules.\<close>

definition looked_up ::
  "('w, 'z) nix_os_scheme \<Rightarrow> 'y libc_stat_scheme \<Rightarrow> raw_fd \<Rightarrow> bytes \<Rightarrow> 'w \<Rightarrow> 'w \<Rightarrow> bool" where
  "looked_up os lc d head w w' \<longleftrightarrow>
     w' = w \<or> (\<exists>r. openat os lc d head w = (r, w') \<and> (\<forall>x. r \<noteq> Ok x)) \<or>
     (\<exists>r. readlinkat os lc d head w = (r, w')) \<or>
     (\<exists>e w1 r. openat os lc d head w = (Err e, w1) \<and> readlinkat os lc d head w1 = (r, w'))"

lemma normal_step_cases:
  assumes "normal_step os lc fl nf slash st head w = (out, w')" "dir_stack st = d # ds"
  shows "(\<exists>nd. openat os lc d head w = (Ok nd, w') \<and> out = Next (st\<lparr>dir_stack := nd # d # ds\<rparr>)) \<or>
     looked_up os lc d head w w' \<and>
     ((\<exists>link w1. readlinkat os lc d head w1 = (Ok link, w') \<and> out = expand_link st head link) \<or>
      out = Finish (Ok (d, head)) ds \<or> (\<exists>e. out = Finish (Err e) (d # ds)) \<or>
      out = Finish Panic (d # ds))"
proof (cases "path_stack st \<noteq> [] \<or> slash \<and> \<not> nf")
  case True
  obtain r w1 where o: "openat os lc d head w = (r, w1)" by force
  show ?thesis
  proof (cases r)
    case (Err e)
    obtain r2 w2 where l: "readlinkat os lc d head w1 = (r2, w2)" by force
    then show ?thesis
      using assms True o Err
      by (cases r2) (auto simp: normal_step_def looked_up_def split: if_splits)
  qed (use assms True o in \<open>auto simp: normal_step_def looked_up_def\<close>)
next
  case False
  obtain r w1 where "readlinkat os lc d head w = (r, w1)" by force
  then show ?thesis
    using assms False
    by (cases r) (auto simp: normal_step_def looked_up_def found_def split: if_splits)
qed

lemma normal_step_NextE:
  assumes "normal_step os lc fl nf slash st head w = (Next st', w')"
  obtains (enter) d ds nd where "dir_stack st = d # ds" "openat os lc d head w = (Ok nd, w')"
      "st' = st\<lparr>dir_stack := nd # d # ds\<rparr>"
  | (link) d ds link w1 where "dir_stack st = d # ds" "looked_up os lc d head w w'"
      "readlinkat os lc d head w1 = (Ok link, w')" "expand_link st head link = Next st'"
proof -
  obtain d ds where ds: "dir_stack st = d # ds"
    using assms by (auto simp: normal_step_def split: list.splits)
  show ?thesis
    using normal_step_cases [OF assms ds] that(1) [OF ds] that(2) [OF ds] by auto
qed

lemma normal_step_FinishE:
  assumes "normal_step os lc fl nf slash st head w = (Finish r rest, w')"
  obtains (found) d ds where "dir_stack st = d # ds" "looked_up os lc d head w w'"
      "r = Ok (d, head)" "rest = ds"
  | (fail) d ds where "dir_stack st = d # ds" "looked_up os lc d head w w'"
      "\<forall>x. r \<noteq> Ok x" "rest = d # ds"
  | (empty) "dir_stack st = []" "\<forall>x. r \<noteq> Ok x" "rest = []" "w' = w"
proof (cases "dir_stack st")
  case Nil
  then show ?thesis using assms empty by (auto simp: normal_step_def)
next
  case (Cons d ds)
  then show ?thesis
    using normal_step_cases [OF assms Cons] found fail expand_link_Finish [of st head _ r rest]
    by (auto dest: sym)
qed

lemma path_step_NextE:
  assumes "path_step os lc fl nf st w = (Next st', w')"
  obtains (cur) p ps tail ps' where "path_stack st = p # ps" "path_next p = Some (CurDir, tail)"
      "push_tail (ends_with_slash p) tail ps = Ok ps'" "st' = st\<lparr>path_stack := ps'\<rparr>" "w' = w"
  | (parent) p ps tail ps' d ds where "path_stack st = p # ps"
      "path_next p = Some (ParentDir, tail)" "push_tail (ends_with_slash p) tail ps = Ok ps'"
      "dir_stack st = d # ds" "ds \<noteq> []" "st' = st\<lparr>path_stack := ps', dir_stack := ds\<rparr>"
      "w' = sys_close os d w"
  | (normal) p ps tail ps' name where "path_stack st = p # ps"
      "path_next p = Some (Normal name, tail)" "push_tail (ends_with_slash p) tail ps = Ok ps'"
      "normal_step os lc fl nf (ends_with_slash p) (st\<lparr>path_stack := ps'\<rparr>)
         (if ends_with_slash p then name @ [SLASH] else name) w = (Next st', w')"
proof -
  obtain p ps where ps: "path_stack st = p # ps"
    using assms by (auto simp: path_step_def split: list.splits)
  obtain head tail where pn: "path_next p = Some (head, tail)"
    using assms ps by (auto simp: path_step_def Let_def split: option.splits)
  obtain ps' where push: "push_tail (ends_with_slash p) tail ps = Ok ps'"
    using assms ps pn by (auto simp: path_step_def Let_def split: res.splits)
  show ?thesis
  proof (cases head)
    case RootDir
    then show ?thesis using assms ps pn push by (simp add: path_step_def Let_def)
  next
    case CurDir
    then show ?thesis using assms ps pn push cur by (simp add: path_step_def Let_def)
  next
    case ParentDir
    then show ?thesis using assms ps pn push parent
      by (auto simp: path_step_def Let_def split: list.splits if_splits)
  next
    case (Normal name)
    then show ?thesis using assms ps pn push normal
      by (auto simp: path_step_def Let_def path_from_host_def split: res.splits)
  qed
qed

lemma push_tail_Ok:
  assumes "push_tail slash tail ps = Ok ps'" "path_next p = Some (head, tail)" "head \<noteq> RootDir"
  shows "sum_list (map length ps') < length p + sum_list (map length ps)"
proof (cases "tail = []")
  case True
  moreover have "p \<noteq> []" using assms(2) by (auto simp: path_next_def)
  ultimately show ?thesis using assms(1) by (auto simp: push_tail_def)
next
  case False
  then have "length tail + 2 \<le> length p" using path_next_shorter assms(2,3) by blast
  then show ?thesis
    using assms(1) False by (auto simp: push_tail_def map_ok_Ok_iff path_from_host_def)
qed

lemma path_step_FinishE:
  assumes "path_step os lc fl nf st w = (Finish r rest, w')"
  obtains (done_dot) d where "dir_stack st = d # rest" "r = Ok (d, [DOT])" "w' = w"
  | (fail) "\<forall>x. r \<noteq> Ok x" "rest = dir_stack st" "w' = w"
  | (escape) d where "\<forall>x. r \<noteq> Ok x" "dir_stack st = [d]" "rest = []" "w' = sys_close os d w"
  | (normal) p ps tail ps' name where "path_stack st = p # ps"
      "path_next p = Some (Normal name, tail)" "push_tail (ends_with_slash p) tail ps = Ok ps'"
      "normal_step os lc fl nf (ends_with_slash p) (st\<lparr>path_stack := ps'\<rparr>)
         (if ends_with_slash p then name @ [SLASH] else name) w = (Finish r rest, w')"
proof (cases "path_stack st")
  case Nil
  then show ?thesis
    using assms done_dot fail by (auto simp: path_step_def found_def split: list.splits)
next
  case (Cons p ps)
  show ?thesis
  proof (cases "path_next p")
    case None
    then show ?thesis using assms Cons fail by (auto simp: path_step_def path_next_def)
  next
    case (Some ht)
    obtain head tail where pn: "path_next p = Some (head, tail)" using Some by (cases ht) auto
    show ?thesis
    proof (cases "push_tail (ends_with_slash p) tail ps")
      case (Ok ps')
      show ?thesis
      proof (cases head)
        case ParentDir
        then show ?thesis
          using assms Cons pn Ok fail escape
          by (auto simp: path_step_def Let_def split: list.splits if_splits)
      next
        case (Normal name)
        then show ?thesis
          using assms Cons pn Ok fail normal
          by (auto simp: path_step_def Let_def path_from_host_def split: res.splits)
      qed (use assms Cons pn Ok fail in \<open>auto simp: path_step_def Let_def\<close>)
    qed (use assms Cons pn fail in \<open>auto simp: path_step_def Let_def\<close>)
  qed
qed

lemma path_step_progress:
  assumes "path_step os lc fl nf st w = (Next st', w')"
  shows "(st', st) \<in> path_measure"
  using assms
proof (cases rule: path_step_NextE)
  case (cur p ps tail ps')
  then show ?thesis using push_tail_Ok [OF cur(3,2)] by (simp add: path_measure_def)
next
  case (parent p ps tail ps' d ds)
  then show ?thesis using push_tail_Ok [OF parent(3,2)] by (simp add: path_measure_def)
next
  case (normal p ps tail ps' name)
  from normal(4) show ?thesis
  proof (cases rule: normal_step_NextE)
    case (enter d ds nd)
    then show ?thesis using normal push_tail_Ok [OF normal(3,2)] by (simp add: path_measure_def)
  next
    case (link d ds link w1)
    then show ?thesis using expand_link_Next [OF link(4)] by (auto simp: path_measure_def)
  qed
qed

section \<open>The loop and the function\<close>

definition close_dirs :: "('w, 'z) nix_os_scheme \<Rightarrow> raw_fd list \<Rightarrow> 'w \<Rightarrow> 'w" where
  "close_dirs os ds = fold (sys_close os) (rev ds)"

function path_loop ::
  "('w, 'z) nix_os_scheme \<Rightarrow> 'y libc_stat_scheme \<Rightarrow> wasi_lookupflags_t \<Rightarrow> bool \<Rightarrow> path_state \<Rightarrow>
     ('w, raw_fd \<times> bytes) io" where
  "path_loop os lc dirflags needs_final_component st w =
     (case path_step os lc dirflags needs_final_component st w of
        (Next st', w') \<Rightarrow> path_loop os lc dirflags needs_final_component st' w'
      | (Finish r ds, w') \<Rightarrow> (r, close_dirs os ds w'))"
  by pat_completeness auto
termination
  by (relation "inv_image path_measure (\<lambda>(os, lc, fl, nf, st, w). st)")
    (auto simp: wf_path_measure dest!: sym path_step_progress)

declare path_loop.simps [simp del]

definition path_get ::
  "('w, 'z) nix_os_scheme \<Rightarrow> 'y libc_stat_scheme \<Rightarrow> wasi_ctx \<Rightarrow> wasi_fd_t \<Rightarrow> wasi_lookupflags_t \<Rightarrow>
     bytes \<Rightarrow> wasi_rights_t \<Rightarrow> wasi_rights_t \<Rightarrow> bool \<Rightarrow> ('w, raw_fd \<times> bytes) io" where
  "path_get os lc ctx dirfd dirflags path needed_base needed_inheriting needs_final_component =
     (if 0 \<in> set path then io_res (Err WASI_EILSEQ)
      else io_bind (io_res (get_fd_entry ctx dirfd needed_base needed_inheriting)) (\<lambda>dirfe.
        case fo_descriptor (fe_object dirfe) of
          File f \<Rightarrow>
            io_bind (from_std_or os WASI_EBADF (sys_try_clone os f)) (\<lambda>d.
              path_loop os lc dirflags needs_final_component
                \<lparr>dir_stack = [d], path_stack = [path], symlink_expansions = 0\<rparr>)
        | _ \<Rightarrow> io_res (Err WASI_EBADF)))"

section \<open>What one run of the loop comes across\<close>

text \<open>The name an iteration hands to the platform, if it handles a plain component.\<close>

definition handed :: "path_state \<Rightarrow> bytes option" where
  "handed st = (case path_stack st of
     [] \<Rightarrow> None
   | p # _ \<Rightarrow> (case path_next p of
       Some (Normal name, _) \<Rightarrow> Some (if ends_with_slash p then name @ [SLASH] else name)
     | _ \<Rightarrow> None))"

definition hands_slash :: "path_state \<Rightarrow> bool" where
  "hands_slash st \<longleftrightarrow> (case handed st of Some h \<Rightarrow> ends_with_slash h | None \<Rightarrow> False)"

definition hands_long :: "'y libc_stat_scheme \<Rightarrow> path_state \<Rightarrow> bool" where
  "hands_long lc st \<longleftrightarrow> (case handed st of Some h \<Rightarrow> PATH_MAX lc \<le> length h | None \<Rightarrow> False)"

text \<open>Some iteration of the run that starts in this state, on this platform, satisfies \<open>Q\<close>.\<close>

inductive meets ::
  "('w, 'z) nix_os_scheme \<Rightarrow> 'y libc_stat_scheme \<Rightarrow> wasi_lookupflags_t \<Rightarrow> bool \<Rightarrow> (path_state \<Rightarrow> bool) \<Rightarrow>
     path_state \<Rightarrow> 'w \<Rightarrow> bool"
  for os lc fl nf Q where
  here: "Q st \<Longrightarrow> meets os lc fl nf Q st w"
| later: "path_step os lc fl nf st w = (Next st', w') \<Longrightarrow> meets os lc fl nf Q st' w' \<Longrightarrow>
    meets os lc fl nf Q st w"

inductive_simps meets_iff: "meets os lc fl nf Q st w"

text \<open>The same for the run of \<open>path_get\<close> that a call makes.\<close>

definition resolution_meets ::
  "('w, 'z) nix_os_scheme \<Rightarrow> 'y libc_stat_scheme \<Rightarrow> wasi_ctx \<Rightarrow> wasi_fd_t \<Rightarrow> wasi_lookupflags_t \<Rightarrow>
     bytes \<Rightarrow> wasi_rights_t \<Rightarrow> wasi_rights_t \<Rightarrow> bool \<Rightarrow> (path_state \<Rightarrow> bool) \<Rightarrow> 'w \<Rightarrow> bool" where
  "resolution_meets os lc ctx dirfd fl path nb ni nf Q w \<longleftrightarrow>
     (\<exists>fe f d0 w0. get_fd_entry ctx dirfd nb ni = Ok fe \<and> fo_descriptor (fe_object fe) = File f \<and>
        sys_try_clone os f w = (Inr d0, w0) \<and>
        meets os lc fl nf Q \<lparr>dir_stack = [d0], path_stack = [path], symlink_expansions = 0\<rparr> w0)"

lemma hands_slash_iff:
  assumes "path_stack st = p # ps" "path_next p = Some (Normal name, tail)"
  shows "hands_slash st \<longleftrightarrow> ends_with_slash p"
  using assms plain_name_no_slash [of name] path_next_Normal(1) [OF assms(2)]
  by (auto simp: hands_slash_def handed_def ends_with_slash_def)

section \<open>Invariants of the loop\<close>

text \<open>
  The names that reach the platform: one plain segment, with the separator after it if the path
  being processed ends in one.
\<close>

definition component_name :: "bool \<Rightarrow> bytes \<Rightarrow> bool" where
  "component_name slashes h \<longleftrightarrow>
     (\<exists>n. plain_name n \<and> (h = n \<or> slashes \<and> h = n @ [SLASH]))"

text \<open>
  The interface of an invariant \<open>Inv\<close> of the open directories and the state of the platform: what
  the loop does to them keeps it.  \<open>slashes\<close> tells whether names with a separator after them count;
  without it the invariant is about runs that hand no such name to the platform.
\<close>

locale path_inv =
  fixes os :: "('w, 'z) nix_os_scheme" and lc :: "'y libc_stat_scheme" and slashes :: bool
    and Inv :: "raw_fd list \<Rightarrow> 'w \<Rightarrow> bool"
  assumes inv_close: "Inv (d # ds) w \<Longrightarrow> Inv ds (sys_close os d w)"
    and inv_enter: "Inv (d # ds) w \<Longrightarrow> component_name slashes h \<Longrightarrow>
      openat os lc d h w = (Ok nd, w') \<Longrightarrow> Inv (nd # d # ds) w'"
    and inv_look: "Inv (d # ds) w \<Longrightarrow> component_name slashes h \<Longrightarrow>
      looked_up os lc d h w w' \<Longrightarrow> Inv (d # ds) w'"
begin

definition good :: "wasi_lookupflags_t \<Rightarrow> bool \<Rightarrow> path_state \<Rightarrow> 'w \<Rightarrow> bool" where
  "good fl nf st w \<longleftrightarrow> Inv (dir_stack st) w \<and> (slashes \<or> \<not> meets os lc fl nf hands_slash st w)"

lemma head_component:
  assumes "path_stack st = p # ps" "path_next p = Some (Normal name, tail)" "good fl nf st w"
  shows "component_name slashes (if ends_with_slash p then name @ [SLASH] else name)"
proof -
  have "slashes \<or> \<not> hands_slash st" 
    using assms(3) meets.here [of hands_slash st os lc fl nf w] by (auto simp: good_def)
  then show ?thesis
    using path_next_Normal(1) [OF assms(2)] hands_slash_iff [OF assms(1,2)]
    by (auto simp: component_name_def)
qed

lemma step_good:
  assumes step: "path_step os lc fl nf st w = (Next st', w')" and g: "good fl nf st w"
  shows "good fl nf st' w'"
proof -
  have i: "Inv (dir_stack st) w" using g by (simp add: good_def)
  have "Inv (dir_stack st') w'"
    using step
  proof (cases rule: path_step_NextE)
    case (parent p ps tail ps' d ds)
    then show ?thesis using i inv_close by auto
  next
    case (normal p ps tail ps' name)
    note comp = head_component [OF normal(1,2) g]
    from normal(4) show ?thesis
    proof (cases rule: normal_step_NextE)
      case (enter d ds nd)
      then show ?thesis using inv_enter [OF _ comp enter(2)] i by simp
    next
      case (link d ds link w1)
      have "dir_stack st' = d # ds" using expand_link_Next [OF link(4)] link(1) by simp
      then show ?thesis using inv_look [OF _ comp link(2)] i link(1) by simp
    qed
  qed (use i in simp)
  then show ?thesis using g meets.later [OF step] by (auto simp: good_def)
qed

lemma finish_good:
  assumes "path_step os lc fl nf st w = (Finish r rest, w')" and g: "good fl nf st w"
  shows "case r of Ok (d, h) \<Rightarrow> Inv (d # rest) w' \<and> (h = [DOT] \<or> component_name slashes h)
     | _ \<Rightarrow> Inv rest w'"
  using assms(1)
proof (cases rule: path_step_FinishE)
  case (done_dot d)
  then show ?thesis using g by (simp add: good_def)
next
  case fail
  then show ?thesis using g by (cases r) (auto simp: good_def)
next
  case (escape d)
  then show ?thesis using g inv_close [of d "[]"] by (cases r) (auto simp: good_def)
next
  case (normal p ps tail ps' name)
  note comp = head_component [OF normal(1,2) g]
  from normal(4) show ?thesis
  proof (cases rule: normal_step_FinishE)
    case (found d ds)
    then show ?thesis using inv_look [OF _ comp found(2)] g comp by (simp add: good_def)
  next
    case (fail d ds)
    then show ?thesis using inv_look [OF _ comp fail(2)] g by (cases r) (auto simp: good_def)
  next
    case empty
    then show ?thesis using g by (cases r) (auto simp: good_def)
  qed
qed

lemma loop_inv:
  "path_loop os lc fl nf st w = (r, w') \<Longrightarrow> good fl nf st w \<Longrightarrow>
     \<exists>rest w1. w' = close_dirs os rest w1 \<and>
       (case r of Ok (d, h) \<Rightarrow> Inv (d # rest) w1 \<and> (h = [DOT] \<or> component_name slashes h)
        | _ \<Rightarrow> Inv rest w1)"
proof (induction st arbitrary: w rule: wf_induct_rule [OF wf_path_measure])
  case (1 st)
  obtain out w2 where step: "path_step os lc fl nf st w = (out, w2)" by force
  show ?case
  proof (cases out)
    case (Next st')
    then have loop: "path_loop os lc fl nf st' w2 = (r, w')"
      using 1(2) step by (subst (asm) path_loop.simps) simp
    have step': "path_step os lc fl nf st w = (Next st', w2)" using step Next by simp
    show ?thesis by (rule 1(1) [OF path_step_progress [OF step'] loop step_good [OF step' 1(3)]])
  next
    case (Finish r' rest)
    then have "r' = r" "w' = close_dirs os rest w2"
      using 1(2) step by (subst (asm) path_loop.simps, simp)+
    moreover have "path_step os lc fl nf st w = (Finish r' rest, w2)" using step Finish by simp
    ultimately show ?thesis using finish_good [OF _ 1(3)] by blast
  qed
qed

lemma loop_result:
  assumes "path_loop os lc fl nf st w = (r, w')" "Inv (dir_stack st) w"
    and "slashes \<or> \<not> meets os lc fl nf hands_slash st w"
  shows "\<exists>rest w1. w' = close_dirs os rest w1 \<and>
       (case r of Ok (d, h) \<Rightarrow> Inv (d # rest) w1 \<and> (h = [DOT] \<or> component_name slashes h)
        | _ \<Rightarrow> Inv rest w1)"
  using loop_inv [OF assms(1)] assms(2,3) by (simp add: good_def)

end

section \<open>The stacks a call can reach\<close>

text \<open>
  The open directories together with the state of the platform, as the calls of the loop transform
  them, from the duplicated descriptor \<open>d0\<close> on.  Every theorem about the directories is a rule
  induction on this relation.
\<close>

inductive stack_from ::
  "('w, 'z) nix_os_scheme \<Rightarrow> 'y libc_stat_scheme \<Rightarrow> bool \<Rightarrow> raw_fd \<Rightarrow> 'w \<Rightarrow> raw_fd list \<Rightarrow> 'w \<Rightarrow> bool"
  for os lc slashes d0 w0 where
  start: "stack_from os lc slashes d0 w0 [d0] w0"
| close: "stack_from os lc slashes d0 w0 (d # ds) w \<Longrightarrow>
    stack_from os lc slashes d0 w0 ds (sys_close os d w)"
| enter: "stack_from os lc slashes d0 w0 (d # ds) w \<Longrightarrow> component_name slashes h \<Longrightarrow>
    openat os lc d h w = (Ok nd, w') \<Longrightarrow> stack_from os lc slashes d0 w0 (nd # d # ds) w'"
| look: "stack_from os lc slashes d0 w0 (d # ds) w \<Longrightarrow> component_name slashes h \<Longrightarrow>
    looked_up os lc d h w w' \<Longrightarrow> stack_from os lc slashes d0 w0 (d # ds) w'"

interpretation stack: path_inv os lc slashes "stack_from os lc slashes d0 w0"
    for os lc slashes d0 w0
  by unfold_locales (auto intro: stack_from.close stack_from.enter stack_from.look)

lemma path_get_stack:
  assumes "path_get os lc ctx dirfd fl path nb ni nf w = (r, w')"
    and "sl \<or> \<not> resolution_meets os lc ctx dirfd fl path nb ni nf hands_slash w"
  obtains (early) "\<forall>x. r \<noteq> Ok x" "w' = w"
  | (clone_failed) f e where "sys_try_clone os f w = (Inl e, w')" "\<forall>x. r \<noteq> Ok x"
  | (resolved) f d0 w0 rest w1 fe where "sys_try_clone os f w = (Inr d0, w0)"
      "get_fd_entry ctx dirfd nb ni = Ok fe" "fo_descriptor (fe_object fe) = File f"
      "w' = close_dirs os rest w1"
      "case r of
         Ok (d, h) \<Rightarrow> stack_from os lc sl d0 w0 (d # rest) w1 \<and> (h = [DOT] \<or> component_name sl h)
       | _ \<Rightarrow> stack_from os lc sl d0 w0 rest w1"
proof -
  consider "\<forall>x. r \<noteq> Ok x" "w' = w"
    | fe f where "get_fd_entry ctx dirfd nb ni = Ok fe" "fo_descriptor (fe_object fe) = File f"
      "0 \<notin> set path"
    using assms(1)
    by (auto simp: path_get_def io_bind_def split: if_splits res.splits descriptor.splits)
  then show ?thesis
  proof cases
    case 1
    then show ?thesis by (rule early)
  next
    case 2
    obtain c w0 where clone: "sys_try_clone os f w = (c, w0)" by force
    show ?thesis
    proof (cases c)
      case (Inl e)
      then show ?thesis
        using assms(1) 2 clone clone_failed
        by (auto simp: path_get_def from_std_or_def io_bind_def)
    next
      case (Inr d0)
      let ?st = "\<lparr>dir_stack = [d0], path_stack = [path], symlink_expansions = 0\<rparr>"
      have loop: "path_loop os lc fl nf ?st w0 = (r, w')"
        using assms(1) 2 clone Inr by (simp add: path_get_def from_std_or_def io_bind_def)
      have "sl \<or> \<not> meets os lc fl nf hands_slash ?st w0"
        using assms(2) 2(1,2) clone Inr unfolding resolution_meets_def by blast
      then have "\<exists>rest w1. w' = close_dirs os rest w1 \<and>
        (case r of
           Ok (d, h) \<Rightarrow> stack_from os lc sl d0 w0 (d # rest) w1 \<and> (h = [DOT] \<or> component_name sl h)
         | _ \<Rightarrow> stack_from os lc sl d0 w0 rest w1)"
        by (intro stack.loop_result [OF loop]) (simp_all add: stack_from.start)
      then obtain rest w1 where r: "w' = close_dirs os rest w1 \<and>
          (case r of
             Ok (d, h) \<Rightarrow> stack_from os lc sl d0 w0 (d # rest) w1 \<and> (h = [DOT] \<or> component_name sl h)
           | _ \<Rightarrow> stack_from os lc sl d0 w0 rest w1)"
        by (elim exE) (rule that)
      show ?thesis
        using clone Inr by (intro resolved [OF _ 2(1,2) conjunct1 [OF r] conjunct2 [OF r]]) simp
    qed
  qed
qed

lemma path_get_stack_any:
  assumes "path_get os lc ctx dirfd fl path nb ni nf w = (r, w')"
  obtains (early) "\<forall>x. r \<noteq> Ok x" "w' = w"
  | (clone_failed) f e where "sys_try_clone os f w = (Inl e, w')" "\<forall>x. r \<noteq> Ok x"
  | (resolved) f d0 w0 rest w1 where "sys_try_clone os f w = (Inr d0, w0)"
      "w' = close_dirs os rest w1"
      "case r of
         Ok (d, h) \<Rightarrow> stack_from os lc True d0 w0 (d # rest) w1 \<and>
           (h = [DOT] \<or> component_name True h)
       | _ \<Rightarrow> stack_from os lc True d0 w0 rest w1"
  by (rule path_get_stack [OF assms disjI1 [OF TrueI]])
    (rule early clone_failed resolved; assumption)+

section \<open>No descriptor is leaked\<close>

text \<open>
  What the platform documents of open descriptors: a successful open or duplication adds the
  descriptor it returns, closing removes it, and no other call of the resolution changes them.
\<close>

definition counts_fds ::
  "('w, 'z) nix_os_scheme \<Rightarrow> 'y libc_stat_scheme \<Rightarrow> ('w \<Rightarrow> raw_fd multiset) \<Rightarrow> bool" where
  "counts_fds os lc own \<longleftrightarrow>
     (\<forall>f w r w'. sys_try_clone os f w = (r, w') \<longrightarrow>
        own w' = (case r of Inr d \<Rightarrow> add_mset d (own w) | Inl _ \<Rightarrow> own w)) \<and>
     (\<forall>d h fl m w r w'. sys_openat os d h fl m w = (r, w') \<longrightarrow>
        own w' = (case r of Inr d \<Rightarrow> add_mset d (own w) | Inl _ \<Rightarrow> own w)) \<and>
     (\<forall>d h n w r w'. sys_readlinkat os d h n w = (r, w') \<longrightarrow> own w' = own w) \<and>
     (\<forall>d w. own (sys_close os d w) = own w - {#d#})"

lemma from_nix_openat:
  "openat os lc d h w = (r, w') \<Longrightarrow>
     \<exists>q. sys_openat os d h (O_RDONLY lc OR O_DIRECTORY lc OR O_NOFOLLOW lc) 0 w = (q, w') \<and>
       r = nix_unwrap q"
  by (auto simp: openat_def from_nix_def split: prod.splits)

lemma readlinkat_sys:
  "readlinkat os lc d h w = (r, w') \<Longrightarrow> \<exists>q. sys_readlinkat os d h (PATH_MAX lc + 1) w = (q, w')"
  by (auto simp: readlinkat_def from_nix_def io_bind_def split: prod.splits res.splits)

lemma nix_unwrap_Ok [simp]: "nix_unwrap q = Ok x \<longleftrightarrow> q = Inr x"
  by (cases q rule: nix_unwrap.cases) auto

lemma counts_openat:
  assumes "counts_fds os lc own" "openat os lc d h w = (r, w')"
  shows "own w' = (case r of Ok nd \<Rightarrow> add_mset nd (own w) | _ \<Rightarrow> own w)"
proof -
  obtain q where q: "sys_openat os d h (O_RDONLY lc OR O_DIRECTORY lc OR O_NOFOLLOW lc) 0 w = (q, w')"
      "r = nix_unwrap q" using from_nix_openat [OF assms(2)] by blast
  then have "own w' = (case q of Inr d \<Rightarrow> add_mset d (own w) | Inl _ \<Rightarrow> own w)"
    using assms(1) unfolding counts_fds_def by blast
  then show ?thesis using q(2) by (cases q rule: nix_unwrap.cases) auto
qed

lemma counts_readlinkat:
  assumes "counts_fds os lc own" "readlinkat os lc d h w = (r, w')"
  shows "own w' = own w"
proof -
  obtain q where "sys_readlinkat os d h (PATH_MAX lc + 1) w = (q, w')"
    using readlinkat_sys [OF assms(2)] by blast
  then show ?thesis using assms(1) unfolding counts_fds_def by blast
qed

lemma counts_looked_up:
  assumes "counts_fds os lc own" "looked_up os lc d h w w'"
  shows "own w' = own w"
  using assms(2) counts_openat [OF assms(1)] counts_readlinkat [OF assms(1)]
  unfolding looked_up_def by (fastforce split: res.splits)

lemma counts_stack:
  assumes "counts_fds os lc own" "own w0 = add_mset d0 base" "stack_from os lc sl d0 w0 ds w"
  shows "own w = base + mset ds"
  using assms(3)
proof (induction rule: stack_from.induct)
  case (close d ds w)
  then show ?case using assms(1) by (simp add: counts_fds_def)
next
  case (enter d ds w h nd w')
  then show ?case using counts_openat [OF assms(1) enter(3)] by simp
next
  case (look d ds w h w')
  then show ?case using counts_looked_up [OF assms(1) look(3)] by simp
qed (simp add: assms(2))

lemma counts_close_dirs:
  "counts_fds os lc own \<Longrightarrow> own (close_dirs os ds w) = own w - mset ds"
proof (induction ds arbitrary: w)
  case (Cons d ds)
  then show ?case by (simp add: close_dirs_def counts_fds_def)
qed (simp add: close_dirs_def)

text \<open>
  C7. Resolving a path leaks no descriptor of the host: on success the caller owns exactly one
  descriptor more than before, the returned directory; on any error or panic it owns the same ones.
\<close>

theorem path_get_leaks_nothing:
  assumes "counts_fds os lc own"
    and "path_get os lc ctx dirfd dirflags path nb ni nf w = (r, w')"
  shows "own w' = (case r of Ok (d, _) \<Rightarrow> add_mset d (own w) | _ \<Rightarrow> own w)"
  using assms(2)
proof (cases rule: path_get_stack_any)
  case early
  then show ?thesis by (cases r) auto
next
  case (clone_failed f e)
  then have "own w' = own w" using assms(1) unfolding counts_fds_def by fastforce
  then show ?thesis using clone_failed(2) by (cases r) auto
next
  case (resolved f d0 w0 rest w1)
  have w0: "own w0 = add_mset d0 (own w)"
    using resolved(1) assms(1) unfolding counts_fds_def by fastforce
  then show ?thesis
    using counts_stack [OF assms(1) w0] counts_close_dirs [OF assms(1), of rest w1] resolved(2,3)
    by (auto split: res.splits)
qed

section \<open>Paths of plain names\<close>

text \<open>Opening one directory after the other, the reference for a path without links.\<close>

fun open_dirs ::
  "('w, 'z) nix_os_scheme \<Rightarrow> 'y libc_scheme \<Rightarrow> raw_fd list \<Rightarrow> bytes list \<Rightarrow> 'w \<Rightarrow> (raw_fd list \<times> 'w) option"
  where
  "open_dirs os lc ds [] w = Some (ds, w)"
| "open_dirs os lc [] (n # ns) w = None"
| "open_dirs os lc (d # ds) (n # ns) w =
     (case openat os lc d n w of (Ok nd, w') \<Rightarrow> open_dirs os lc (nd # d # ds) ns w' | _ \<Rightarrow> None)"

definition clean_name :: "bytes \<Rightarrow> bool" where
  "clean_name n \<longleftrightarrow> plain_name n \<and> valid_utf8 n"

lemma clean_names:
  "list_all clean_name ns \<Longrightarrow> list_all plain_name ns \<and> list_all valid_utf8 ns"
  by (induction ns) (auto simp: clean_name_def)

lemma push_tail_join:
  assumes "list_all clean_name ns"
  shows "push_tail False (join_path ns) ps = Ok (if ns = [] then ps else join_path ns # ps)"
  using clean_names [OF assms]
  by (auto simp: push_tail_def path_from_host_def path_from_slice_def join_path_eq_Nil valid_utf8_join)

lemma path_step_name:
  assumes "clean_name n" "list_all clean_name ns" "path_stack st = join_path (n # ns) # ps"
  shows "path_step os lc fl nf st w =
     normal_step os lc fl nf False
       (st\<lparr>path_stack := (if ns = [] then ps else join_path ns # ps)\<rparr>) n w"
proof -
  have "list_all plain_name (n # ns)" using clean_names [of "n # ns"] assms(1,2) by simp
  then have "\<not> ends_with_slash (join_path (n # ns))" by (rule join_path_no_slash)
  moreover have "path_next (join_path (n # ns)) = Some (Normal n, join_path ns)"
    using assms(1) clean_names [OF assms(2)] by (simp add: path_next_join clean_name_def)
  ultimately show ?thesis
    using assms(1,3) push_tail_join [OF assms(2), of ps]
    by (simp add: path_step_def Let_def path_from_host_def path_from_slice_def clean_name_def
        del: join_path.simps)
qed

lemma path_loop_plain:
  assumes "list_all clean_name ns" "clean_name n" "fl AND WASI_LOOKUP_SYMLINK_FOLLOW = 0"
    and "open_dirs os lc ds0 ns w = Some (d # ds, w1)"
  shows "path_loop os lc fl nf
     \<lparr>dir_stack = ds0, path_stack = [join_path (ns @ [n])], symlink_expansions = k\<rparr> w =
     (Ok (d, n), close_dirs os ds w1)"
  using assms(1,4)
proof (induction ns arbitrary: ds0 w)
  case Nil
  then have "ds0 = d # ds" "w1 = w" by simp_all
  moreover have "path_step os lc fl nf
      \<lparr>dir_stack = d # ds, path_stack = [n], symlink_expansions = k\<rparr> w = (Finish (Ok (d, n)) ds, w)"
    using path_step_name [OF assms(2), of "[]"
        "\<lparr>dir_stack = d # ds, path_stack = [n], symlink_expansions = k\<rparr>" "[]" os lc fl nf w] assms(3)
    by (simp add: normal_step_def found_def)
  ultimately show ?case
    by (subst path_loop.simps) simp
next
  case (Cons m ns)
  let ?st = "\<lparr>dir_stack = ds0, path_stack = [join_path (m # ns @ [n])], symlink_expansions = k\<rparr>"
  obtain d0 ds' nd w2 where o: "ds0 = d0 # ds'" "openat os lc d0 m w = (Ok nd, w2)"
      "open_dirs os lc (nd # d0 # ds') ns w2 = Some (d # ds, w1)"
    using Cons.prems(2) by (cases ds0) (auto split: prod.splits res.splits)
  have "path_step os lc fl nf ?st w =
      (Next \<lparr>dir_stack = nd # ds0, path_stack = [join_path (ns @ [n])], symlink_expansions = k\<rparr>, w2)"
    using path_step_name [of m "ns @ [n]" ?st "[]" os lc fl nf w] Cons.prems(1) assms(2) o(1,2)
    by (simp add: normal_step_def)
  moreover have "path_loop os lc fl nf
      \<lparr>dir_stack = nd # ds0, path_stack = [join_path (ns @ [n])], symlink_expansions = k\<rparr> w2 =
      (Ok (d, n), close_dirs os ds w1)"
    using Cons.IH [OF _ o(3)] Cons.prems(1) o(1) by simp
  ultimately show ?case
    by (simp add: path_loop.simps [of _ _ _ _ ?st])
qed

text \<open>
  C14. A path of plain names, without following links at its end, resolves to what opening its
  directories one after the other from the guest's descriptor gives, and to its last name; all
  directories in between are closed again.
\<close>

theorem path_get_plain:
  assumes "get_fd_entry ctx dirfd nb ni = Ok fe" "fo_descriptor (fe_object fe) = File f"
    and "sys_try_clone os f w = (Inr d0, w0)"
    and "list_all clean_name (ns @ [n])" "list_all (\<lambda>m. 0 \<notin> set m) (ns @ [n])"
    and "fl AND WASI_LOOKUP_SYMLINK_FOLLOW = 0"
    and "open_dirs os lc [d0] ns w0 = Some (d # ds, w1)"
  shows "path_get os lc ctx dirfd fl (join_path (ns @ [n])) nb ni nf w =
     (Ok (d, n), close_dirs os ds w1)"
proof -
  have "0 \<notin> set (join_path ms)" if "list_all (\<lambda>m. 0 \<notin> set m) ms" for ms :: "bytes list"
    using that by (induction ms rule: join_path.induct) auto
  then have "0 \<notin> set (join_path (ns @ [n]))" using assms(5) .
  then show ?thesis
    using assms(1-4) path_loop_plain [OF _ _ assms(6,7), of n nf 0]
    by (simp add: path_get_def from_std_or_def io_bind_def)
qed

section \<open>Confinement\<close>

text \<open>
  A property of directories that the platform keeps: opening a plain name without following links
  gives a fresh descriptor that has it again, and no call of the resolution takes it from another
  descriptor.  \<open>P\<close> may say that the directory lies below the preopened one.
\<close>

definition keeps_inside ::
  "('w, 'z) nix_os_scheme \<Rightarrow> 'y libc_stat_scheme \<Rightarrow> ('w \<Rightarrow> raw_fd \<Rightarrow> bool) \<Rightarrow> bool" where
  "keeps_inside os lc P \<longleftrightarrow>
     (\<forall>d n w nd w'. P w d \<longrightarrow> plain_name n \<longrightarrow> openat os lc d n w = (Ok nd, w') \<longrightarrow>
        \<not> P w nd \<and> P w' nd \<and> (\<forall>x. P w x \<longrightarrow> P w' x)) \<and>
     (\<forall>d n w r w'. openat os lc d n w = (r, w') \<longrightarrow> (\<forall>x. r \<noteq> Ok x) \<longrightarrow> (\<forall>x. P w x \<longrightarrow> P w' x)) \<and>
     (\<forall>d n w r w'. readlinkat os lc d n w = (r, w') \<longrightarrow> (\<forall>x. P w x \<longrightarrow> P w' x)) \<and>
     (\<forall>d w x. x \<noteq> d \<longrightarrow> P w x \<longrightarrow> P (sys_close os d w) x)"

lemma keeps_openat:
  "keeps_inside os lc P \<Longrightarrow> P w d \<Longrightarrow> plain_name n \<Longrightarrow> openat os lc d n w = (Ok nd, w') \<Longrightarrow>
     \<not> P w nd \<and> P w' nd \<and> (\<forall>x. P w x \<longrightarrow> P w' x)"
  unfolding keeps_inside_def by blast

lemma keeps_openat_fail:
  "keeps_inside os lc P \<Longrightarrow> openat os lc d n w = (r, w') \<Longrightarrow> \<forall>x. r \<noteq> Ok x \<Longrightarrow> P w x \<Longrightarrow> P w' x"
  unfolding keeps_inside_def by blast

lemma keeps_readlinkat:
  "keeps_inside os lc P \<Longrightarrow> readlinkat os lc d n w = (r, w') \<Longrightarrow> P w x \<Longrightarrow> P w' x"
  unfolding keeps_inside_def by blast

lemma keeps_close:
  "keeps_inside os lc P \<Longrightarrow> x \<noteq> d \<Longrightarrow> P w x \<Longrightarrow> P (sys_close os d w) x"
  unfolding keeps_inside_def by blast

lemma keeps_looked_up:
  assumes "keeps_inside os lc P" "looked_up os lc d h w w'" "P w x"
  shows "P w' x"
  using assms(2,3) keeps_openat_fail [OF assms(1)] keeps_readlinkat [OF assms(1)]
  unfolding looked_up_def by (elim disjE exE conjE) blast+

lemma inside_stack:
  assumes "keeps_inside os lc P" "P w0 d0" "stack_from os lc False d0 w0 ds w"
  shows "distinct ds \<and> list_all (P w) ds"
  using assms(3)
proof (induction rule: stack_from.induct)
  case (close d ds w)
  then have "d \<notin> set ds" "distinct ds" "list_all (P w) ds" by simp_all
  then have "P (sys_close os d w) x" if "x \<in> set ds" for x
    using that by (intro keeps_close [OF assms(1)]) (auto simp: list_all_iff)
  then show ?case using \<open>distinct ds\<close> by (simp add: list_all_iff)
next
  case (enter d ds w h nd w')
  then have "plain_name h" "P w d" by (simp_all add: component_name_def)
  then have "\<not> P w nd" "P w' nd" "\<forall>x. P w x \<longrightarrow> P w' x"
    using keeps_openat [OF assms(1) _ _ enter(3)] by blast+
  then show ?case using enter(4) by (auto simp: list_all_iff)
next
  case (look d ds w h w')
  then show ?case using keeps_looked_up [OF assms(1) look(3)] by (simp add: list_all_iff)
qed (simp add: assms(2))

lemma inside_close_dirs:
  assumes "keeps_inside os lc P" "P w x" "x \<notin> set ds"
  shows "P (close_dirs os ds w) x"
  using assms(2,3)
proof (induction ds arbitrary: w rule: rev_induct)
  case (snoc d ds)
  have "P (sys_close os d w) x" using snoc.prems by (intro keeps_close [OF assms(1)]) auto
  then show ?case using snoc.IH snoc.prems(2) by (simp add: close_dirs_def)
qed (simp add: close_dirs_def)


section \<open>Rejected paths, trailing separators, cycles\<close>

lemma push_tail_valid:
  "valid_utf8 tail \<Longrightarrow> \<exists>ps'. push_tail slash tail ps = Ok ps'"
  by (auto simp: push_tail_def path_from_host_def path_from_slice_def)

text \<open>
  C15. What a path is rejected for before any directory is opened: a NUL byte is \<^verbatim>\<open>EILSEQ\<close>, the
  empty path \<^verbatim>\<open>ENOENT\<close>, a path whose first component is the root or \<^verbatim>\<open>..\<close> \<^verbatim>\<open>ENOTCAPABLE\<close>.  The only
  descriptor made is the duplicate of the guest's directory, and it is closed.
\<close>

theorem path_get_rejects:
  assumes "get_fd_entry ctx dirfd nb ni = Ok fe" "fo_descriptor (fe_object fe) = File f"
    and "sys_try_clone os f w = (Inr d0, w0)" "valid_utf8 path"
  shows "(0 \<in> set path \<longrightarrow>
       path_get os lc ctx dirfd fl path nb ni nf w = (Err WASI_EILSEQ, w)) \<and>
     (path = [] \<longrightarrow>
       path_get os lc ctx dirfd fl path nb ni nf w = (Err WASI_ENOENT, sys_close os d0 w0)) \<and>
     (0 \<notin> set path \<and> (\<exists>t. path_next path = Some (RootDir, t) \<or> path_next path = Some (ParentDir, t)) \<longrightarrow>
       path_get os lc ctx dirfd fl path nb ni nf w = (Err WASI_ENOTCAPABLE, sys_close os d0 w0))"
proof -
  let ?st = "\<lparr>dir_stack = [d0], path_stack = [path], symlink_expansions = 0\<rparr>"
  have get: "path_get os lc ctx dirfd fl path nb ni nf w = path_loop os lc fl nf ?st w0"
    if "0 \<notin> set path"
    using assms(1-3) that by (simp add: path_get_def from_std_or_def io_bind_def)
  have "path_loop os lc fl nf ?st w0 = (Err WASI_ENOENT, sys_close os d0 w0)" if "path = []"
  proof -
    have "path_step os lc fl nf ?st w0 = (Finish (Err WASI_ENOENT) [d0], w0)"
      using that by (simp add: path_step_def path_next_def)
    then show ?thesis by (subst path_loop.simps) (simp add: close_dirs_def)
  qed
  moreover have "path_loop os lc fl nf ?st w0 = (Err WASI_ENOTCAPABLE, sys_close os d0 w0)"
    if pn: "path_next path = Some (RootDir, t) \<or> path_next path = Some (ParentDir, t)" for t
  proof -
    obtain ps' where "push_tail (ends_with_slash path) t [] = Ok ps'"
      using push_tail_valid pn path_next_valid(1) assms(4) by blast
    then have "path_step os lc fl nf ?st w0 = (Finish (Err WASI_ENOTCAPABLE) [d0], w0) \<or>
        path_step os lc fl nf ?st w0 = (Finish (Err WASI_ENOTCAPABLE) [], sys_close os d0 w0)"
      using pn by (auto simp: path_step_def Let_def)
    then show ?thesis by (subst path_loop.simps) (auto simp: close_dirs_def)
  qed
  ultimately show ?thesis
    using get by (auto simp: path_get_def)
qed

lemma path_step_slash:
  assumes "clean_name n" "list_all clean_name ns" "path_stack st = (join_path (n # ns) @ [SLASH]) # ps"
  shows "path_step os lc fl nf st w =
     normal_step os lc fl nf True
       (st\<lparr>path_stack := (if ns = [] then ps else (join_path ns @ [SLASH]) # ps)\<rparr>) (n @ [SLASH]) w"
proof -
  have "path_next (join_path (n # ns) @ [SLASH]) = Some (Normal n, join_path ns)"
    using assms(1) clean_names [OF assms(2)] by (simp add: path_next_join_slash clean_name_def)
  moreover have "push_tail True (join_path ns) ps =
      Ok (if ns = [] then ps else (join_path ns @ [SLASH]) # ps)"
    using clean_names [OF assms(2)]
    by (auto simp: push_tail_def path_from_host_def path_from_slice_def join_path_eq_Nil
        valid_utf8_join)
  ultimately show ?thesis
    using assms(1,3)
    by (simp add: path_step_def Let_def path_from_host_def path_from_slice_def clean_name_def
        del: join_path.simps)
qed

lemma path_loop_slash:
  assumes "list_all clean_name ns" "ns \<noteq> []"
    and "open_dirs os lc ds0 (map (\<lambda>n. n @ [SLASH]) ns) w = Some (d # ds, w1)"
  shows "path_loop os lc fl False
     \<lparr>dir_stack = ds0, path_stack = [join_path ns @ [SLASH]], symlink_expansions = k\<rparr> w =
     (Ok (d, [DOT]), close_dirs os ds w1)"
  using assms
proof (induction ns arbitrary: ds0 w)
  case (Cons m ns)
  let ?st = "\<lparr>dir_stack = ds0, path_stack = [join_path (m # ns) @ [SLASH]], symlink_expansions = k\<rparr>"
  obtain d0 ds' nd w2 where o: "ds0 = d0 # ds'" "openat os lc d0 (m @ [SLASH]) w = (Ok nd, w2)"
      "open_dirs os lc (nd # d0 # ds') (map (\<lambda>n. n @ [SLASH]) ns) w2 = Some (d # ds, w1)"
    using Cons.prems(3) by (cases ds0) (auto split: prod.splits res.splits)
  let ?st' = "\<lparr>dir_stack = nd # ds0, path_stack = (if ns = [] then [] else [join_path ns @ [SLASH]]),
      symlink_expansions = k\<rparr>"
  have "path_step os lc fl False ?st w = (Next ?st', w2)"
    using path_step_slash [of m ns ?st "[]" os lc fl False w] Cons.prems(1) o(1,2)
    by (simp add: normal_step_def del: join_path.simps)
  moreover have "path_loop os lc fl False ?st' w2 = (Ok (d, [DOT]), close_dirs os ds w1)"
  proof (cases "ns = []")
    case True
    then have "path_step os lc fl False ?st' w2 = (Finish (Ok (d, [DOT])) ds, w1)"
      using o by (simp add: path_step_def found_def)
    then show ?thesis by (subst path_loop.simps) simp
  next
    case False
    then show ?thesis using Cons.IH [OF _ False o(3)] Cons.prems(1) o(1) by simp
  qed
  ultimately show ?case
    by (simp add: path_loop.simps [of _ _ _ _ ?st])
qed simp

text \<open>
  C35. With a trailing separator every component reaches the platform as \<^verbatim>\<open>name/\<close>: each directory
  is opened under that name and the result is the last of them with the name \<^verbatim>\<open>.\<close>.  The platform
  thus resolves the component before \<^verbatim>\<open>O_NOFOLLOW\<close> can apply to it, and the resolution trusts
  whatever directory it returns.
\<close>

theorem path_get_trailing_slash:
  assumes "get_fd_entry ctx dirfd nb ni = Ok fe" "fo_descriptor (fe_object fe) = File f"
    and "sys_try_clone os f w = (Inr d0, w0)"
    and "list_all clean_name ns" "list_all (\<lambda>m. 0 \<notin> set m) ns" "ns \<noteq> []"
    and "open_dirs os lc [d0] (map (\<lambda>n. n @ [SLASH]) ns) w0 = Some (d # ds, w1)"
  shows "path_get os lc ctx dirfd fl (join_path ns @ [SLASH]) nb ni False w =
     (Ok (d, [DOT]), close_dirs os ds w1)"
proof -
  have "0 \<notin> set (join_path ms)" if "list_all (\<lambda>m. 0 \<notin> set m) ms" for ms :: "bytes list"
    using that by (induction ms rule: join_path.induct) auto
  then have "0 \<notin> set (join_path ns @ [SLASH])" using assms(5) by simp
  then show ?thesis
    using assms(1-3) path_loop_slash [OF assms(4,6,7)]
    by (simp add: path_get_def from_std_or_def io_bind_def)
qed

lemma path_loop_cycle:
  assumes "clean_name n" "fl AND WASI_LOOKUP_SYMLINK_FOLLOW \<noteq> 0"
    and "\<And>w. readlinkat os lc d n w = (Ok n, tick w)" "k \<le> 128"
  shows "path_loop os lc fl nf
     \<lparr>dir_stack = d # ds, path_stack = [n], symlink_expansions = k\<rparr> w =
     (Err WASI_ELOOP, close_dirs os (d # ds) ((tick ^^ (129 - k)) w))"
  using assms(4)
proof (induction "128 - k" arbitrary: k w)
  case 0
  then have "k = 128" by simp
  then have "path_step os lc fl nf \<lparr>dir_stack = d # ds, path_stack = [n], symlink_expansions = k\<rparr> w =
      (Finish (Err WASI_ELOOP) (d # ds), tick w)"
    using path_step_name [OF assms(1), of "[]" "\<lparr>dir_stack = d # ds, path_stack = [n],
        symlink_expansions = k\<rparr>" "[]" os lc fl nf w] assms(2,3)
    by (simp add: normal_step_def expand_link_def MAX_SYMLINK_EXPANSIONS_def)
  then show ?case using \<open>k = 128\<close> by (subst path_loop.simps) simp
next
  case (Suc m)
  have "\<not> ends_with_slash n" using assms(1) by (simp add: clean_name_def plain_name_no_slash)
  then have "path_step os lc fl nf \<lparr>dir_stack = d # ds, path_stack = [n], symlink_expansions = k\<rparr> w =
      (Next \<lparr>dir_stack = d # ds, path_stack = [n], symlink_expansions = Suc k\<rparr>, tick w)"
    using path_step_name [OF assms(1), of "[]" "\<lparr>dir_stack = d # ds, path_stack = [n],
        symlink_expansions = k\<rparr>" "[]" os lc fl nf w] assms(2,3) Suc.hyps(2)
    by (simp add: normal_step_def expand_link_def MAX_SYMLINK_EXPANSIONS_def)
  moreover have "path_loop os lc fl nf \<lparr>dir_stack = d # ds, path_stack = [n],
      symlink_expansions = Suc k\<rparr> (tick w) =
      (Err WASI_ELOOP, close_dirs os (d # ds) ((tick ^^ (129 - Suc k)) (tick w)))"
    using Suc.hyps(1) [of "Suc k" "tick w"] Suc.hyps(2) by simp
  moreover have "(tick ^^ (129 - Suc k)) (tick w) = (tick ^^ (129 - k)) w"
  proof -
    have "129 - k = Suc (129 - Suc k)" using Suc.hyps(2) by simp
    then show ?thesis by (simp add: funpow_swap1)
  qed
  ultimately show ?case by (subst path_loop.simps) simp
qed

text \<open>
  C27. A symbolic link that leads to itself does not keep the resolution going.  The link is read
  exactly 129 times, every reading changing the platform by \<open>tick\<close>: 128 expansions are made, the
  129th is refused with \<^verbatim>\<open>ELOOP\<close>, and the directory is closed.
\<close>

theorem path_get_link_cycle:
  assumes "get_fd_entry ctx dirfd nb ni = Ok fe" "fo_descriptor (fe_object fe) = File f"
    and "sys_try_clone os f w = (Inr d0, w0)"
    and "clean_name n" "0 \<notin> set n" "fl AND WASI_LOOKUP_SYMLINK_FOLLOW \<noteq> 0"
    and "\<And>w. readlinkat os lc d0 n w = (Ok n, tick w)"
  shows "path_get os lc ctx dirfd fl n nb ni nf w =
     (Err WASI_ELOOP, sys_close os d0 ((tick ^^ 129) w0))"
  using assms(1-3,5) path_loop_cycle [OF assms(4,6), where k = 0 and nf = nf and ds = "[]" and w = w0,
    OF assms(7)]
  by (simp add: path_get_def from_std_or_def io_bind_def close_dirs_def)

section \<open>The theorems at a concrete platform\<close>

text \<open>
  A platform whose state is the list of open descriptors.  Every directory has a directory \<open>a\<close>, a
  link \<open>l\<close> to \<open>a\<close> and a link \<open>c\<close> to itself; \<open>a/\<close> opens as well.
\<close>

fun fresh :: "raw_fd list \<Rightarrow> raw_fd" where
  "fresh [] = 1"
| "fresh (d # w) = max (d + 1) (fresh w)"

lemma fresh_above: "d \<in> set w \<Longrightarrow> d < fresh w"
  by (induction w) auto

lemma fresh_notin [simp]: "fresh w \<notin> set w"
  using fresh_above by blast

definition desk_os :: "raw_fd list os" where
  "desk_os = idle_os\<lparr>
     sys_close := \<lambda>d w. remove1 d w,
     sys_try_clone := \<lambda>_ w. (Inr (fresh w), fresh w # w),
     sys_openat := \<lambda>_ h _ _ w. if h = [97] \<or> h = [97, 47] then (Inr (fresh w), fresh w # w)
       else (Inl (Some (if h = [108] \<or> h = [99] then ELOOP else ENOENT)), w),
     sys_readlinkat := \<lambda>_ h _ w.
       ((if h = [108] then Inr [97] else if h = [99] then Inr [99] else Inl (Some EINVAL)), w)\<rparr>"

definition desk_entry :: fd_entry where
  "desk_entry = new_entry (File 7) (WASI_FILETYPE_DIRECTORY, 0, 0)"

definition desk_ctx :: wasi_ctx where
  "desk_ctx = \<lparr>fds = [(3, desk_entry)], args = [], env = []\<rparr>"

lemma desk_simps [simp]:
  "sys_try_clone desk_os f w = (Inr (fresh w), fresh w # w)"
  "sys_close desk_os d w = remove1 d w"
  "openat desk_os lc d [97] w = (Ok (fresh w), fresh w # w)"
  "openat desk_os lc d [97, 47] w = (Ok (fresh w), fresh w # w)"
  "readlinkat desk_os lc d [99] w = (Ok [99], w)"
  "get_fd_entry desk_ctx 3 0 0 = Ok desk_entry"
  "fo_descriptor (fe_object desk_entry) = File 7"
  by (simp_all add: desk_os_def openat_def readlinkat_def from_nix_def io_bind_def desk_ctx_def
      path_from_host_def path_from_slice_def get_fd_entry_def validate_rights_def new_entry_def
      desk_entry_def)

lemma desk_counts: "counts_fds desk_os lc mset"
  unfolding counts_fds_def by (auto simp: desk_os_def split: if_splits)

lemma clean_ascii:
  "SLASH \<notin> set n \<Longrightarrow> n \<noteq> [] \<Longrightarrow> n \<noteq> [DOT] \<Longrightarrow> n \<noteq> [DOT, DOT] \<Longrightarrow> \<forall>b \<in> set n. unat b < 128 \<Longrightarrow>
     clean_name n"
  by (simp add: clean_name_def plain_name_def valid_utf8_ascii_list)

lemma clean_letters [simp]: "clean_name [97]" "clean_name [98]" "clean_name [99]"
  by (simp_all add: clean_ascii)

lemma path_get_plain_witness:
  "path_get desk_os linux_consts desk_ctx 3 0 [97, 47, 97, 47, 98] 0 0 True [] = (Ok (3, [98]), [3])"
proof -
  have "path_get desk_os linux_consts desk_ctx 3 0 (join_path ([[97], [97]] @ [[98]])) 0 0 True [] =
      (Ok (3, [98]), close_dirs desk_os [2, 1] [3, 2, 1])"
    by (rule path_get_plain [where f = 7 and fe = desk_entry and ?d0.0 = 1 and ?w0.0 = "[1]"]) simp_all
  then show ?thesis by (simp add: close_dirs_def)
qed

lemma desk_path:
  "path_get desk_os linux_consts desk_ctx 3 0 [97, 47, 98] 0 0 nf [] = (Ok (2, [98]), [2])"
  using path_loop_plain [of "[[97]]" "[98]" 0 desk_os linux_consts "[1]" "[1]" 2 "[1]" "[2, 1]" nf 0]
  by (simp add: path_get_def from_std_or_def io_bind_def close_dirs_def)

lemma path_get_leaks_nothing_witness:
  "path_get desk_os linux_consts desk_ctx 3 0 [97, 47, 98] 0 0 True [] = (Ok (2, [98]), [2]) \<and>
     mset [2 :: raw_fd] = add_mset 2 (mset [])"
  using path_get_leaks_nothing [OF desk_counts desk_path] desk_path by simp

lemma desk_keeps: "keeps_inside desk_os lc (\<lambda>w d. d \<in> set w)"
proof -
  have o: "openat desk_os lc d n w = (r, w') \<Longrightarrow>
      r = Ok (fresh w) \<and> w' = fresh w # w \<or> (\<exists>e. r = Err e) \<and> w' = w" for d n w r w'
    by (auto simp: desk_os_def openat_def from_nix_def split: if_splits)
  have l: "readlinkat desk_os lc d n w = (r, w') \<Longrightarrow> w' = w" for d n w r w'
    by (auto simp: desk_os_def readlinkat_def from_nix_def io_bind_def split: if_splits res.splits)
  show ?thesis unfolding keeps_inside_def by (auto dest!: o l)
qed

lemma desk_no_slash:
  "\<not> resolution_meets desk_os linux_consts desk_ctx 3 0 [97, 47, 98] 0 0 nf hands_slash []"
proof -
  let ?st = "\<lparr>dir_stack = [1], path_stack = [[97, 47, 98]], symlink_expansions = 0\<rparr>"
  let ?st' = "\<lparr>dir_stack = [2, 1], path_stack = [[98]], symlink_expansions = 0\<rparr>"
  have "path_step desk_os linux_consts 0 nf ?st [1] = (Next ?st', [2, 1])"
    using path_step_name [of "[97]" "[[98]]" ?st "[]" desk_os linux_consts 0 nf "[1]"]
    by (simp add: normal_step_def)
  moreover have "path_step desk_os linux_consts 0 nf ?st' [2, 1] = (Finish (Ok (2, [98])) [1], [2, 1])"
    using path_step_name [of "[98]" "[]" ?st' "[]" desk_os linux_consts 0 nf "[2, 1]"]
    by (simp add: normal_step_def found_def)
  moreover have "\<not> hands_slash ?st" "\<not> hands_slash ?st'"
    by (simp_all add: hands_slash_def handed_def path_next_def seg_def ends_with_slash_def)
  ultimately have "\<not> meets desk_os linux_consts 0 nf hands_slash ?st [1]"
    by (simp add: meets_iff [of _ _ _ _ _ ?st] meets_iff [of _ _ _ _ _ ?st'])
  then show ?thesis by (simp add: resolution_meets_def)
qed


lemma path_get_rejects_witness:
  "path_get desk_os linux_consts desk_ctx 3 0 [46, 46] 0 0 True [] = (Err WASI_ENOTCAPABLE, [])"
proof -
  have "path_next [DOT, DOT] = Some (ParentDir, rest_path [])"
    by (simp add: path_next_def seg_def after_seg_def)
  moreover have "valid_utf8 [46, 46]" by (simp add: valid_utf8_ascii_list)
  ultimately have "path_get desk_os linux_consts desk_ctx 3 0 [DOT, DOT] 0 0 True [] =
      (Err WASI_ENOTCAPABLE, sys_close desk_os (fresh []) [fresh []])"
    using path_get_rejects [where os = desk_os and lc = linux_consts and ctx = desk_ctx and dirfd = 3
        and nb = 0 and ni = 0 and path = "[DOT, DOT]" and w = "[]" and f = 7 and fl = 0 and nf = True
        and fe = desk_entry and ?d0.0 = "fresh []" and ?w0.0 = "[fresh []]"]
    by simp
  then show ?thesis by simp
qed

lemma path_get_trailing_slash_witness:
  "path_get desk_os linux_consts desk_ctx 3 0 [97, 47, 97, 47] 0 0 False [] = (Ok (3, [46]), [3])"
proof -
  have "path_get desk_os linux_consts desk_ctx 3 0 (join_path [[97], [97]] @ [SLASH]) 0 0 False [] =
      (Ok (3, [46]), close_dirs desk_os [2, 1] [3, 2, 1])"
    by (rule path_get_trailing_slash [where f = 7 and fe = desk_entry and ?d0.0 = 1 and ?w0.0 = "[1]"]) simp_all
  then show ?thesis by (simp add: close_dirs_def)
qed

text \<open>The same platform, which also notes every reading of a link, as a \<open>0\<close> in its state.\<close>

definition tally_os :: "raw_fd list os" where
  "tally_os = desk_os\<lparr>sys_readlinkat := \<lambda>_ h _ w. (Inr h, 0 # w)\<rparr>"

lemma tally_simps:
  "sys_try_clone tally_os f w = (Inr (fresh w), fresh w # w)"
  "sys_close tally_os d w = remove1 d w"
  "readlinkat tally_os lc d [99] w = (Ok [99], 0 # w)"
  by (simp_all add: tally_os_def desk_os_def readlinkat_def from_nix_def io_bind_def
      path_from_host_def path_from_slice_def)

lemma funpow_Cons: "(Cons x ^^ n) w = replicate n x @ w"
  by (induction n) simp_all

lemma path_get_link_cycle_witness:
  "path_get tally_os linux_consts desk_ctx 3 WASI_LOOKUP_SYMLINK_FOLLOW [99] 0 0 True [] =
     (Err WASI_ELOOP, replicate 129 0)"
  using path_get_link_cycle [where os = tally_os and lc = linux_consts and ctx = desk_ctx and dirfd = 3
      and nb = 0 and ni = 0 and n = "[99]" and w = "[]" and f = 7 and nf = True
      and fl = WASI_LOOKUP_SYMLINK_FOLLOW and tick = "Cons 0"
      and fe = desk_entry and ?d0.0 = "fresh []" and ?w0.0 = "[fresh []]"]
  by (simp add: wasi_const tally_simps funpow_Cons remove1_append del: replicate.simps
      replicate_Suc)

end
