(* ===== verification/Unix_Fs.thy ===== *)
theory Unix_Fs
  imports Path_Get
begin

text \<open>
  \<^verbatim>\<open>src/sys/unix/hostcalls_impl/fs.rs\<close>: what each file system hostcall asks of the platform.  A
  resolved directory is dropped, that is closed, when the function returns (\<open>with_file\<close>).
\<close>

section \<open>Reading, writing, positions, flags\<close>

definition impl_fd_pread ::
  "('w, 'z) os_scheme \<Rightarrow> raw_fd \<Rightarrow> usize \<Rightarrow> wasi_filesize_t \<Rightarrow> ('w, bytes) io" where
  "impl_fd_pread os file buf_len offset = from_std os (sys_read_at os file buf_len offset)"

definition impl_fd_pwrite ::
  "('w, 'z) os_scheme \<Rightarrow> raw_fd \<Rightarrow> bytes \<Rightarrow> wasi_filesize_t \<Rightarrow> ('w, usize) io" where
  "impl_fd_pwrite os file buf offset = from_std os (sys_write_at os file buf offset)"

abbreviation entry_raw_fd :: "fd_entry \<Rightarrow> raw_fd" where
  "entry_raw_fd fe \<equiv> as_raw_fd (fo_descriptor (fe_object fe))"

text \<open>The entry removed at the end is dropped, which closes the file it holds.\<close>

definition impl_fd_renumber ::
  "('w, 'z) os_scheme \<Rightarrow> wasi_ctx \<Rightarrow> wasi_fd_t \<Rightarrow> wasi_fd_t \<Rightarrow> 'w \<Rightarrow> (unit res \<times> wasi_ctx) \<times> 'w" where
  "impl_fd_renumber os ctx from to w =
     (case hm_get (fds ctx) from of
        None \<Rightarrow> ((Err WASI_EBADF, ctx), w)
      | Some fe_from \<Rightarrow>
        (case hm_get (fds ctx) to of
           None \<Rightarrow> ((Err WASI_EBADF, ctx), w)
         | Some fe_to \<Rightarrow>
           if fe_preopen_path fe_from \<noteq> None \<or> fe_preopen_path fe_to \<noteq> None
           then ((Err WASI_ENOTSUP, ctx), w)
           else
             let rawfd_from = entry_raw_fd fe_from; rawfd_to = entry_raw_fd fe_to in
             (case from_nix (sys_dup2 os rawfd_from rawfd_to) w of
                (Ok _, w') \<Rightarrow>
                  let k = of_int rawfd_from :: wasi_fd_t in
                  ((Ok (), ctx\<lparr>fds := hm_remove k (fds ctx)\<rparr>),
                   (case hm_get (fds ctx) k of None \<Rightarrow> w' | Some old \<Rightarrow> drop_fd_entry os old w'))
              | (Err e, w') \<Rightarrow> ((Err e, ctx), w')
              | (Panic, w') \<Rightarrow> ((Panic, ctx), w'))))"

definition impl_fd_seek ::
  "('w, 'z) os_scheme \<Rightarrow> fd_entry \<Rightarrow> wasi_filedelta_t \<Rightarrow> wasi_whence_t \<Rightarrow> ('w, u64) io" where
  "impl_fd_seek os fd_entry offset whence =
     io_bind (io_res
       (if whence = WASI_WHENCE_CUR then Ok SeekCur
        else if whence = WASI_WHENCE_END then Ok SeekEnd
        else if whence = WASI_WHENCE_SET then Ok SeekSet
        else Err WASI_EINVAL)) (\<lambda>nwhence.
       from_nix (sys_lseek os (entry_raw_fd fd_entry) offset nwhence))"

definition impl_fd_tell :: "('w, 'z) os_scheme \<Rightarrow> fd_entry \<Rightarrow> ('w, u64) io" where
  "impl_fd_tell os fd_entry = from_nix (sys_lseek os (entry_raw_fd fd_entry) 0 SeekCur)"

definition impl_fd_fdstat_get ::
  "('w, 'z) os_scheme \<Rightarrow> 'y libc_scheme \<Rightarrow> fd_entry \<Rightarrow> ('w, wasi_fdflags_t) io" where
  "impl_fd_fdstat_get os lc fd_entry =
     io_map (\<lambda>bits. fdflags_from_nix lc (bits AND O_ALL lc))
       (from_nix (sys_fcntl_getfl os (entry_raw_fd fd_entry)))"

definition impl_fd_fdstat_set_flags ::
  "('w, 'z) os_scheme \<Rightarrow> 'y libc_scheme \<Rightarrow> fd_entry \<Rightarrow> wasi_fdflags_t \<Rightarrow> ('w, unit) io" where
  "impl_fd_fdstat_set_flags os lc fd_entry fdflags =
     from_nix (sys_fcntl_setfl os (entry_raw_fd fd_entry) (nix_from_fdflags lc fdflags))"

definition host_advice :: "'z libc_misc_scheme \<Rightarrow> wasi_advice_t \<Rightarrow> int res" where
  "host_advice lc advice =
     (if advice = WASI_ADVICE_DONTNEED then Ok (POSIX_FADV_DONTNEED lc)
      else if advice = WASI_ADVICE_SEQUENTIAL then Ok (POSIX_FADV_SEQUENTIAL lc)
      else if advice = WASI_ADVICE_WILLNEED then Ok (POSIX_FADV_DONTNEED lc)
      else if advice = WASI_ADVICE_NOREUSE then Ok (POSIX_FADV_NOREUSE lc)
      else if advice = WASI_ADVICE_RANDOM then Ok (POSIX_FADV_RANDOM lc)
      else if advice = WASI_ADVICE_NORMAL then Ok (POSIX_FADV_NORMAL lc)
      else Err WASI_EINVAL)"

text \<open>Both variants of the function: on Linux the platform is called, elsewhere it is not.\<close>

definition impl_fd_advise ::
  "('w, 'z) os_scheme \<Rightarrow> 'y libc_misc_scheme \<Rightarrow> fd_entry \<Rightarrow> wasi_advice_t \<Rightarrow> wasi_filesize_t \<Rightarrow>
     wasi_filesize_t \<Rightarrow> ('w, unit) io" where
  "impl_fd_advise os lc fd_entry advice offset len =
     io_bind (io_res (host_advice lc advice)) (\<lambda>host_adv.
       if linux lc
       then from_libc os (sys_posix_fadvise os (entry_raw_fd fd_entry) offset len host_adv)
       else io_res (Ok ()))"

section \<open>Directories and links\<close>

abbreviation path_cstr :: "bytes \<Rightarrow> ('w, bytes) io" where
  "path_cstr path \<equiv> io_res (ok_or (cstring_new path) WASI_EILSEQ)"

definition impl_path_create_directory ::
  "('w, 'z) os_scheme \<Rightarrow> 'y libc_stat_scheme \<Rightarrow> wasi_ctx \<Rightarrow> wasi_fd_t \<Rightarrow> bytes \<Rightarrow> ('w, unit) io" where
  "impl_path_create_directory os lc ctx dirfd path =
     io_bind (path_get os lc ctx dirfd 0 path
         (WASI_RIGHT_PATH_OPEN OR WASI_RIGHT_PATH_CREATE_DIRECTORY) 0 False) (\<lambda>(dir, path).
       with_file os dir (io_bind (path_cstr path) (\<lambda>cstr.
         from_libc os (sys_mkdirat os dir cstr 511))))"

definition impl_path_link ::
  "('w, 'z) os_scheme \<Rightarrow> 'y libc_stat_scheme \<Rightarrow> wasi_ctx \<Rightarrow> wasi_fd_t \<Rightarrow> wasi_fd_t \<Rightarrow> bytes \<Rightarrow>
     bytes \<Rightarrow> wasi_rights_t \<Rightarrow> wasi_rights_t \<Rightarrow> ('w, unit) io" where
  "impl_path_link os lc ctx old_dirfd new_dirfd old_path new_path source_rights target_rights =
     io_bind (path_get os lc ctx old_dirfd 0 old_path source_rights 0 False) (\<lambda>(old_dir, old_path).
       with_file os old_dir
         (io_bind (path_get os lc ctx new_dirfd 0 new_path target_rights 0 False)
           (\<lambda>(new_dir, new_path).
             with_file os new_dir
               (io_bind (path_cstr old_path) (\<lambda>old_cstr.
                io_bind (path_cstr new_path) (\<lambda>new_cstr.
                  from_libc os (sys_linkat os old_dir old_cstr new_dir new_cstr
                    (AT_SYMLINK_FOLLOW lc))))))))"

definition impl_path_rename ::
  "('w, 'z) os_scheme \<Rightarrow> 'y libc_stat_scheme \<Rightarrow> wasi_ctx \<Rightarrow> wasi_fd_t \<Rightarrow> bytes \<Rightarrow> wasi_rights_t \<Rightarrow>
     wasi_fd_t \<Rightarrow> bytes \<Rightarrow> wasi_rights_t \<Rightarrow> ('w, unit) io" where
  "impl_path_rename os lc ctx old_dirfd old_path old_rights new_dirfd new_path new_rights =
     io_bind (path_get os lc ctx old_dirfd 0 old_path old_rights 0 False) (\<lambda>(old_dir, old_path).
       with_file os old_dir
         (io_bind (path_get os lc ctx new_dirfd 0 new_path new_rights 0 False)
           (\<lambda>(new_dir, new_path).
             with_file os new_dir
               (io_bind (path_cstr old_path) (\<lambda>old_cstr.
                io_bind (path_cstr new_path) (\<lambda>new_cstr.
                  from_libc os (sys_renameat os old_dir old_cstr new_dir new_cstr)))))))"

definition impl_path_symlink ::
  "('w, 'z) os_scheme \<Rightarrow> 'y libc_stat_scheme \<Rightarrow> wasi_ctx \<Rightarrow> wasi_fd_t \<Rightarrow> wasi_rights_t \<Rightarrow> bytes \<Rightarrow>
     bytes \<Rightarrow> ('w, unit) io" where
  "impl_path_symlink os lc ctx dirfd rights old_path new_path =
     io_bind (path_get os lc ctx dirfd 0 new_path rights 0 False) (\<lambda>(dir, new_path).
       with_file os dir
         (io_bind (path_cstr old_path) (\<lambda>old_cstr.
          io_bind (path_cstr new_path) (\<lambda>new_cstr.
            from_libc os (sys_symlinkat os old_cstr dir new_cstr)))))"

text \<open>
  The correction of \<^verbatim>\<open>EPERM\<close> is compiled for every target: \<^verbatim>\<open>linux\<close> is not a configuration option
  the compiler sets.
\<close>

definition unlink_error ::
  "('w, 'z) os_scheme \<Rightarrow> 'y libc_stat_scheme \<Rightarrow> raw_fd \<Rightarrow> bytes \<Rightarrow> 'w \<Rightarrow> nix_errno \<times> 'w" where
  "unlink_error os lc dir path w =
     (let e = sys_errno_last os w in
      if e = EPERM then
        (case sys_fstatat os dir path (AT_SYMLINK_NOFOLLOW lc) w of
           (Inr stat, w') \<Rightarrow>
             (if contains (nst_mode stat AND S_ALL lc) (S_IFDIR lc) then EISDIR else e, w')
         | (Inl _, w') \<Rightarrow> (sys_errno_last os w', w'))
      else (e, w))"

definition impl_path_unlink_file ::
  "('w, 'z) os_scheme \<Rightarrow> 'y libc_stat_scheme \<Rightarrow> wasi_ctx \<Rightarrow> wasi_fd_t \<Rightarrow> bytes \<Rightarrow> wasi_rights_t \<Rightarrow>
     ('w, unit) io" where
  "impl_path_unlink_file os lc ctx dirfd path rights =
     io_bind (path_get os lc ctx dirfd 0 path rights 0 False) (\<lambda>(dir, path).
       with_file os dir (io_bind (path_cstr path) (\<lambda>cstr.
         io_bind (io_call (sys_unlinkat os dir cstr 0)) (\<lambda>res.
           if res = 0 then io_res (Ok ())
           else io_bind (io_call (unlink_error os lc dir path)) (\<lambda>e.
             io_res (Err (errno_from_nix e)))))))"

definition impl_path_remove_directory ::
  "('w, 'z) os_scheme \<Rightarrow> 'y libc_stat_scheme \<Rightarrow> wasi_ctx \<Rightarrow> wasi_fd_t \<Rightarrow> bytes \<Rightarrow> wasi_rights_t \<Rightarrow>
     ('w, unit) io" where
  "impl_path_remove_directory os lc ctx dirfd path rights =
     io_bind (path_get os lc ctx dirfd 0 path rights 0 False) (\<lambda>(dir, path).
       with_file os dir (io_bind (path_cstr path) (\<lambda>cstr.
         from_libc os (sys_unlinkat os dir cstr (AT_REMOVEDIR lc)))))"

text \<open>
  The bytes the platform stores in the buffer, with the length the function returns.  A buffer of
  length zero is replaced by one byte that is thrown away.
\<close>

definition impl_path_readlink ::
  "('w, 'z) os_scheme \<Rightarrow> 'y libc_stat_scheme \<Rightarrow> wasi_ctx \<Rightarrow> wasi_fd_t \<Rightarrow> bytes \<Rightarrow> wasi_rights_t \<Rightarrow>
     usize \<Rightarrow> ('w, usize \<times> bytes) io" where
  "impl_path_readlink os lc ctx dirfd path rights buf_len =
     io_bind (path_get os lc ctx dirfd 0 path rights 0 False) (\<lambda>(dir, path).
       with_file os dir (io_bind (path_cstr path) (\<lambda>cstr.
         io_bind (io_call (sys_libc_readlinkat os dir cstr (if buf_len = 0 then 1 else buf_len)))
           (\<lambda>(len, stored) w.
             if len < 0 then (Err (last_error os w), w)
             else (Ok (min (nat len) buf_len, take buf_len stored), w)))))"

section \<open>Opening\<close>

definition open_access :: "'z libc_scheme \<Rightarrow> bool \<Rightarrow> bool \<Rightarrow> u32" where
  "open_access lc read write =
     (if read \<and> write then O_RDWR lc else if write then O_WRONLY lc else O_RDONLY lc)"

definition open_all_flags ::
  "'z libc_scheme \<Rightarrow> bool \<Rightarrow> bool \<Rightarrow> wasi_oflags_t \<Rightarrow> u32" where
  "open_all_flags lc read write oflags =
     open_access lc read write OR O_NOFOLLOW lc OR nix_from_oflags lc oflags"

text \<open>The rights on the directory, widened by what the flags imply.\<close>

definition open_needed_base ::
  "'z libc_scheme \<Rightarrow> u32 \<Rightarrow> wasi_rights_t \<Rightarrow> wasi_rights_t" where
  "open_needed_base lc flags needed =
     needed OR (if contains flags (O_CREAT lc) then WASI_RIGHT_PATH_CREATE_FILE else 0)
       OR (if contains flags (O_TRUNC lc) then WASI_RIGHT_PATH_FILESTAT_SET_SIZE else 0)"

definition open_needed_inheriting ::
  "'z libc_scheme \<Rightarrow> u32 \<Rightarrow> wasi_rights_t \<Rightarrow> wasi_rights_t" where
  "open_needed_inheriting lc flags needed =
     needed OR (if contains flags (O_DSYNC lc) then WASI_RIGHT_FD_DATASYNC else 0)
       OR (if intersects flags (host_O_RSYNC lc OR O_SYNC lc) then WASI_RIGHT_FD_SYNC else 0)"

text \<open>What a failed open is reported as; it may look at the file again.\<close>

definition open_error ::
  "('w, 'z) os_scheme \<Rightarrow> 'y libc_stat_scheme \<Rightarrow> u32 \<Rightarrow> raw_fd \<Rightarrow> bytes \<Rightarrow> nix_error \<Rightarrow> 'w \<Rightarrow>
     wasi_errno_t \<times> 'w" where
  "open_error os lc flags dir path err w =
     (case err of
        None \<Rightarrow> (WASI_ENOSYS, w)
      | Some e \<Rightarrow>
        if e = ENXIO then
          (case sys_fstatat os dir path (AT_SYMLINK_NOFOLLOW lc) w of
             (Inr stat, w') \<Rightarrow>
               (if contains (nst_mode stat AND S_ALL lc) (S_IFSOCK lc) then WASI_ENOTSUP
                else WASI_ENXIO, w')
           | (Inl _, w') \<Rightarrow> (WASI_ENXIO, w'))
        else if e = ENOTDIR \<and> flags AND (O_NOFOLLOW lc OR O_DIRECTORY lc) \<noteq> 0 then
          (case sys_fstatat os dir path (AT_SYMLINK_NOFOLLOW lc) w of
             (Inr stat, w') \<Rightarrow>
               (if contains (nst_mode stat AND S_ALL lc) (S_IFLNK lc) then WASI_ELOOP
                else WASI_ENOTDIR, w')
           | (Inl _, w') \<Rightarrow> (WASI_ENOTDIR, w'))
        else if e = EMLINK \<and> flags AND O_NOFOLLOW lc \<noteq> 0 then (WASI_ELOOP, w)
        else (errno_from_nix e, w))"

text \<open>The entry for the new file; without one the file is closed.\<close>

definition open_entry ::
  "('w, 'z) os_scheme \<Rightarrow> 'y libc_scheme \<Rightarrow> raw_fd \<Rightarrow> ('w, fd_entry) io" where
  "open_entry os lc file =
     io_bind (io_on_fail (determine_type_rights os file) (sys_close os file))
       (\<lambda>(_, max_base, max_inheriting).
         io_map (\<lambda>fe. fe\<lparr>fe_rights_base := fe_rights_base fe AND max_base,
             fe_rights_inheriting := fe_rights_inheriting fe AND max_inheriting\<rparr>)
           (fdentry_from os lc file))"

definition impl_path_open ::
  "('w, 'z) os_scheme \<Rightarrow> 'y libc_stat_scheme \<Rightarrow> wasi_ctx \<Rightarrow> wasi_fd_t \<Rightarrow> wasi_lookupflags_t \<Rightarrow> bytes \<Rightarrow>
     wasi_oflags_t \<Rightarrow> bool \<Rightarrow> bool \<Rightarrow> wasi_rights_t \<Rightarrow> wasi_rights_t \<Rightarrow> wasi_fdflags_t \<Rightarrow>
     ('w, fd_entry) io" where
  "impl_path_open os lc ctx dirfd dirflags path oflags read write needed_base needed_inheriting
       fdflags =
     (let flags0 = open_all_flags lc read write oflags;
          needed_base = open_needed_base lc flags0 needed_base;
          flags = flags0 OR nix_from_fdflags lc fdflags;
          needed_inheriting = open_needed_inheriting lc flags needed_inheriting
      in io_bind (path_get os lc ctx dirfd dirflags path needed_base needed_inheriting
             (contains (nix_from_oflags lc oflags) (O_CREAT lc))) (\<lambda>(dir, path).
           with_file os dir (\<lambda>w.
             case sys_openat os dir path flags 438 w of
               (Inr new_fd, w') \<Rightarrow> open_entry os lc new_fd w'
             | (Inl err, w') \<Rightarrow>
                 (case open_error os lc flags dir path err w' of (e, w'') \<Rightarrow> (Err e, w'')))))"

section \<open>Reading a directory\<close>

text \<open>
  The loop of \<^verbatim>\<open>fd_readdir\<close>: what it has stored so far, and how it ends.  A name length larger than
  the name would read past it; that read is undefined and is a panic here.
\<close>

definition dirent_size :: nat where
  "dirent_size = size_of L_dirent"

lemma dirent_size_pos [simp]: "0 < dirent_size"
  by (simp add: dirent_size_def L_dirent_def)

function readdir_loop ::
  "('w, 'z) os_scheme \<Rightarrow> target \<Rightarrow> int \<Rightarrow> usize \<Rightarrow> bytes \<Rightarrow> 'w \<Rightarrow> (unit res \<times> bytes) \<times> 'w" where
  "readdir_loop os tgt dir left stored w =
     (if left = 0 then ((Ok (), stored), w)
      else (case sys_readdir_r os dir w of
        ((res, host_entry), w') \<Rightarrow>
          if res = -1 then ((Err (last_error os w'), stored), w')
          else (case host_entry of
            None \<Rightarrow> ((Ok (), stored), w')
          | Some h \<Rightarrow>
            (case dirent_from_host tgt h of
               Err e \<Rightarrow> ((Err e, stored), w')
             | Panic \<Rightarrow> ((Panic, stored), w')
             | Ok entry \<Rightarrow>
               let name_len = unat (d_namlen32 entry);
                   required_space = dirent_size + name_len
               in if required_space > left then ((Ok (), stored), w')
                  else if name_len > length (hd_name h) then ((Panic, stored), w')
                  else readdir_loop os tgt dir (left - required_space)
                         (stored @ to_mem L_dirent tgt entry @ take name_len (hd_name h)) w'))))"
  by pat_completeness auto
termination
  by (relation "measure (\<lambda>(os, tgt, dir, left, stored, w). left)") auto

declare readdir_loop.simps [simp del]

text \<open>The bytes stored in the buffer, and the result, which counts them.\<close>

definition impl_fd_readdir ::
  "('w, 'z) os_scheme \<Rightarrow> target \<Rightarrow> fd_entry \<Rightarrow> usize \<Rightarrow> wasi_dircookie_t \<Rightarrow> 'w \<Rightarrow>
     (usize res \<times> bytes) \<times> 'w" where
  "impl_fd_readdir os tgt fd_entry host_buf_len cookie w =
     (case sys_fdopendir os (entry_raw_fd fd_entry) w of
        (None, w1) \<Rightarrow> ((Err (last_error os w1), []), w1)
      | (Some dir, w1) \<Rightarrow>
          let w2 = (if cookie \<noteq> WASI_DIRCOOKIE_START then sys_seekdir os dir cookie w1 else w1) in
          (case readdir_loop os tgt dir host_buf_len [] w2 of
             ((r, stored), w3) \<Rightarrow> ((map_ok (\<lambda>_. length stored) r, stored), w3)))"

section \<open>File statistics\<close>

definition impl_fd_filestat_get ::
  "('w, 'z) os_scheme \<Rightarrow> 'y libc_stat_scheme \<Rightarrow> fd_entry \<Rightarrow> ('w, filestat) io" where
  "impl_fd_filestat_get os lc fd_entry =
     io_bind (from_nix (sys_fstat os (entry_raw_fd fd_entry))) (\<lambda>st. io_res (filestat_from_nix lc st))"

definition impl_path_filestat_get ::
  "('w, 'z) os_scheme \<Rightarrow> 'y libc_stat_scheme \<Rightarrow> wasi_ctx \<Rightarrow> wasi_fd_t \<Rightarrow> wasi_lookupflags_t \<Rightarrow> bytes \<Rightarrow>
     ('w, filestat) io" where
  "impl_path_filestat_get os lc ctx dirfd dirflags path =
     io_bind (path_get os lc ctx dirfd dirflags path WASI_RIGHT_PATH_FILESTAT_GET 0 False)
       (\<lambda>(dir, path). with_file os dir
         (let atflags = (if dirflags = 0 then 0 else AT_SYMLINK_NOFOLLOW lc) in
          io_bind (from_nix (sys_fstatat os dir path atflags)) (\<lambda>st.
            io_res (filestat_from_nix lc st))))"

text \<open>The time in nanoseconds that \<^verbatim>\<open>SET_MTIM_NOW\<close> asks for.\<close>

definition now_ns :: "timespec \<Rightarrow> u64 res" where
  "now_ns ts = ok_or
     (case checked_mul (tv_sec ts) 1000000000 of
        None \<Rightarrow> None | Some sec_ns \<Rightarrow> checked_add sec_ns (tv_nsec ts)) WASI_EOVERFLOW"

definition mtime_or_now ::
  "('w, 'z) os_scheme \<Rightarrow> 'y libc_misc_scheme \<Rightarrow> wasi_timestamp_t \<Rightarrow> wasi_fstflags_t \<Rightarrow> ('w, u64) io" where
  "mtime_or_now os lc mtim fst_flags =
     (if fst_flags AND WASI_FILESTAT_SET_MTIM_NOW \<noteq> 0 then
        io_bind (io_call (sys_clock_gettime os (CLOCK_REALTIME lc))) (\<lambda>(res, ts) w.
          if res \<noteq> 0 then (Err (last_error os w), w) else (now_ns ts, w))
      else io_res (Ok mtim))"

definition atime_spec ::
  "('w, 'z) os_scheme \<Rightarrow> 'y libc_stat_scheme \<Rightarrow> wasi_timestamp_t \<Rightarrow> wasi_fstflags_t \<Rightarrow> timespec res" where
  "atime_spec os lc atim fst_flags =
     (if fst_flags AND WASI_FILESTAT_SET_ATIM_NOW \<noteq> 0 then
        Ok \<lparr>tv_sec = 0, tv_nsec = of_int (utime_now lc)\<rparr>
      else if fst_flags AND WASI_FILESTAT_SET_ATIM \<noteq> 0 then
        unwrap (nix_timespec_nanoseconds os atim)
      else Ok \<lparr>tv_sec = 0, tv_nsec = of_int (utime_omit lc)\<rparr>)"

definition impl_fd_filestat_set_times ::
  "('w, 'z) os_scheme \<Rightarrow> 'y libc_misc_scheme \<Rightarrow> fd_entry \<Rightarrow> wasi_timestamp_t \<Rightarrow> wasi_timestamp_t \<Rightarrow>
     wasi_fstflags_t \<Rightarrow> ('w, unit) io" where
  "impl_fd_filestat_set_times os lc fd_entry atim mtim fst_flags =
     io_bind (mtime_or_now os lc mtim fst_flags) (\<lambda>mtim.
     io_bind (io_res (atime_spec os lc atim fst_flags)) (\<lambda>ts_atime.
     io_bind (io_res (unwrap (nix_timespec_nanoseconds os mtim))) (\<lambda>ts_mtime.
       from_libc os (sys_futimens os (entry_raw_fd fd_entry) ts_atime ts_mtime))))"

definition impl_fd_filestat_set_size ::
  "('w, 'z) os_scheme \<Rightarrow> fd_entry \<Rightarrow> wasi_filesize_t \<Rightarrow> ('w, unit) io" where
  "impl_fd_filestat_set_size os fd_entry size_new =
     from_nix (sys_ftruncate os (entry_raw_fd fd_entry) size_new)"

definition impl_path_filestat_set_times ::
  "('w, 'z) os_scheme \<Rightarrow> 'y libc_misc_scheme \<Rightarrow> wasi_ctx \<Rightarrow> wasi_fd_t \<Rightarrow> wasi_lookupflags_t \<Rightarrow>
     bytes \<Rightarrow> wasi_rights_t \<Rightarrow> wasi_timestamp_t \<Rightarrow> wasi_timestamp_t \<Rightarrow> wasi_fstflags_t \<Rightarrow> ('w, unit) io" where
  "impl_path_filestat_set_times os lc ctx dirfd dirflags path rights atim mtim fst_flags =
     io_bind (path_get os lc ctx dirfd dirflags path rights 0 False) (\<lambda>(dir, path).
       with_file os dir
         (let atflags = (if dirflags = WASI_LOOKUP_SYMLINK_FOLLOW then 0 else AT_SYMLINK_NOFOLLOW lc) in
          io_bind (mtime_or_now os lc mtim fst_flags) (\<lambda>mtim.
          io_bind (io_res (atime_spec os lc atim fst_flags)) (\<lambda>ts_atime.
          io_bind (io_res (unwrap (nix_timespec_nanoseconds os mtim))) (\<lambda>ts_mtime.
          io_bind (path_cstr path) (\<lambda>cstr.
            from_libc os (sys_utimensat os dir cstr ts_atime ts_mtime atflags)))))))"

end
