(* ===== verification/Hostcall_Base.thy ===== *)
theory Hostcall_Base
  imports Unix_Fs
begin

text \<open>
  What every hostcall has in common: the state it works on (the context, the guest's memory and the
  platform), early returns with an error number, and \<^verbatim>\<open>return_enc_errno\<close> of
  \<^verbatim>\<open>src/hostcalls/mod.rs\<close>.  The body of a hostcall is a step \<open>'a hc\<close> whose error is the number the
  source returns early with.
\<close>

section \<open>State and steps\<close>

record 'w store =
  st_ctx :: wasi_ctx
  st_mem :: memory
  st_world :: 'w

type_synonym ('w, 'a) hc = "'w store \<Rightarrow> 'a res \<times> 'w store"

definition hc_bind :: "('w, 'a) hc \<Rightarrow> ('a \<Rightarrow> ('w, 'b) hc) \<Rightarrow> ('w, 'b) hc" where
  "hc_bind m f = (\<lambda>s. case m s of
     (Ok x, s') \<Rightarrow> f x s' | (Err e, s') \<Rightarrow> (Err e, s') | (Panic, s') \<Rightarrow> (Panic, s'))"

definition hc_res :: "'a res \<Rightarrow> ('w, 'a) hc" where
  "hc_res r = (\<lambda>s. (r, s))"

text \<open>A call of the platform.\<close>

definition hc_io :: "('w, 'a) io \<Rightarrow> ('w, 'a) hc" where
  "hc_io m = (\<lambda>s. case m (st_world s) of (r, w) \<Rightarrow> (r, s\<lparr>st_world := w\<rparr>))"

text \<open>Reading and writing the guest's memory; a failed write leaves it as it was.\<close>

definition hc_read :: "(memory \<Rightarrow> 'a res) \<Rightarrow> ('w, 'a) hc" where
  "hc_read f = (\<lambda>s. (f (st_mem s), s))"

definition hc_write :: "(memory \<Rightarrow> memory res) \<Rightarrow> ('w, unit) hc" where
  "hc_write f = (\<lambda>s. case f (st_mem s) of
     Ok mem \<Rightarrow> (Ok (), s\<lparr>st_mem := mem\<rparr>) | Err e \<Rightarrow> (Err e, s) | Panic \<Rightarrow> (Panic, s))"

text \<open>Reading the context.\<close>

definition hc_ctx :: "(wasi_ctx \<Rightarrow> 'a res) \<Rightarrow> ('w, 'a) hc" where
  "hc_ctx f = (\<lambda>s. (f (st_ctx s), s))"

definition hc_put_ctx :: "(wasi_ctx \<Rightarrow> wasi_ctx) \<Rightarrow> ('w, unit) hc" where
  "hc_put_ctx f = (\<lambda>s. (Ok (), s\<lparr>st_ctx := f (st_ctx s)\<rparr>))"

text \<open>The file of a descriptor, or \<^verbatim>\<open>EBADF\<close> for a standard stream.\<close>

definition entry_file :: "fd_entry \<Rightarrow> raw_fd res" where
  "entry_file fe = (case fo_descriptor (fe_object fe) of File f \<Rightarrow> Ok f | _ \<Rightarrow> Err WASI_EBADF)"

text \<open>\<^verbatim>\<open>wasi_ctx.fds.get(&fd)\<close> with \<^verbatim>\<open>EBADF\<close> if there is no entry; no right is checked.\<close>

definition any_fd_entry :: "wasi_ctx \<Rightarrow> wasi_fd_t \<Rightarrow> fd_entry res" where
  "any_fd_entry ctx fd = ok_or (hm_get (fds ctx) fd) WASI_EBADF"

section \<open>Returning to the guest\<close>

datatype outcome = Ret wasi_errno_t | Panicked | Exited wasi_exitcode_t

text \<open>With tracing enabled the encoded number is turned into a name, which panics on other values.\<close>

definition return_enc_errno :: "target \<Rightarrow> wasi_errno_t \<Rightarrow> outcome" where
  "return_enc_errno tgt errno =
     (let errno = enc_errno tgt errno in
      if trace_enabled tgt \<and> strerror errno = Panic then Panicked else Ret errno)"

definition hostcall :: "target \<Rightarrow> ('w, unit) hc \<Rightarrow> 'w store \<Rightarrow> outcome \<times> 'w store" where
  "hostcall tgt m s = (case m s of
     (Ok _, s') \<Rightarrow> (return_enc_errno tgt WASI_ESUCCESS, s')
   | (Err e, s') \<Rightarrow> (return_enc_errno tgt e, s')
   | (Panic, s') \<Rightarrow> (Panicked, s'))"

section \<open>Sizes of host buffers\<close>

text \<open>A plain sum of \<^verbatim>\<open>usize\<close> values, and \<^verbatim>\<open>vec![0; n]\<close>, which panics above \<^verbatim>\<open>isize::MAX\<close>.\<close>

definition usize_sum :: "target \<Rightarrow> usize list \<Rightarrow> usize res" where
  "usize_sum tgt ns =
     (if sum_list ns < 2 ^ usize_bits tgt then Ok (sum_list ns)
      else if overflow_checks tgt then Panic else Ok (sum_list ns mod 2 ^ usize_bits tgt))"

definition vec_alloc :: "target \<Rightarrow> usize \<Rightarrow> usize res" where
  "vec_alloc tgt n = (if n < 2 ^ (usize_bits tgt - 1) then Ok n else Panic)"

section \<open>Lemmas\<close>

lemma hc_bind_Ok_iff:
  "hc_bind m f s = (Ok y, s') \<longleftrightarrow> (\<exists>x s1. m s = (Ok x, s1) \<and> f x s1 = (Ok y, s'))"
  by (auto simp: hc_bind_def split: prod.splits res.splits)

lemma hc_bind_simps [simp]:
  "m s = (Ok x, s') \<Longrightarrow> hc_bind m f s = f x s'"
  "m s = (Err e, s') \<Longrightarrow> hc_bind m f s = (Err e, s')"
  "m s = (Panic, s') \<Longrightarrow> hc_bind m f s = (Panic, s')"
  by (simp_all add: hc_bind_def)

lemma hc_res_apply [simp]: "hc_res r s = (r, s)"
  by (simp add: hc_res_def)

lemma hc_ctx_apply [simp]: "hc_ctx f s = (f (st_ctx s), s)"
  by (simp add: hc_ctx_def)

lemma hc_read_apply [simp]: "hc_read f s = (f (st_mem s), s)"
  by (simp add: hc_read_def)

lemma hc_put_ctx_apply [simp]: "hc_put_ctx f s = (Ok (), s\<lparr>st_ctx := f (st_ctx s)\<rparr>)"
  by (simp add: hc_put_ctx_def)

text \<open>
  A step keeps a property of the state, whatever its result.  The rules take a step apart; those
  of a hostcall are collected in \<open>handler_simps\<close>.
\<close>

definition keeps :: "('w store \<Rightarrow> bool) \<Rightarrow> ('w, 'a) hc \<Rightarrow> bool" where
  "keeps I m \<longleftrightarrow> (\<forall>s. I s \<longrightarrow> I (snd (m s)))"

named_theorems keeps_intros "a step keeps a property of the state"

lemma keeps_bind [keeps_intros]:
  assumes "keeps I m" "\<And>x. keeps I (f x)"
  shows "keeps I (hc_bind m f)"
  unfolding keeps_def
proof (intro allI impI)
  fix s assume "I s"
  then have 1: "I (snd (m s))" using assms(1) by (simp add: keeps_def)
  obtain r s' where m: "m s = (r, s')" by force
  then show "I (snd (hc_bind m f s))"
    using 1 assms(2) by (cases r) (auto simp: keeps_def)
qed

lemma keeps_res [keeps_intros]: "keeps I (hc_res r)"
  and keeps_read [keeps_intros]: "keeps I (hc_read g)"
  and keeps_ctx [keeps_intros]: "keeps I (hc_ctx h)"
  by (simp_all add: keeps_def)

lemma keeps_io: "(\<And>s w. I s \<Longrightarrow> I (s\<lparr>st_world := w\<rparr>)) \<Longrightarrow> keeps I (hc_io m)"
  by (auto simp: keeps_def hc_io_def split: prod.splits)

lemma keeps_if [keeps_intros]:
  "keeps I m \<Longrightarrow> keeps I m' \<Longrightarrow> keeps I (if b then m else m')"
  by simp

lemma keeps_case_option [keeps_intros]:
  "keeps I m \<Longrightarrow> (\<And>x. keeps I (f x)) \<Longrightarrow> keeps I (case x of None \<Rightarrow> m | Some y \<Rightarrow> f y)"
  by (cases x) simp_all

lemma keeps_case_prod [keeps_intros]:
  "(\<And>x y. keeps I (f x y)) \<Longrightarrow> keeps I (case p of (x, y) \<Rightarrow> f x y)"
  by (cases p) simp

lemma keeps_Let [keeps_intros]: "(\<And>x. keeps I (f x)) \<Longrightarrow> keeps I (let x = e in f x)"
  by (simp add: Let_def)

lemma keeps_hostcall:
  "keeps I m \<Longrightarrow> I s \<Longrightarrow> I (snd (hostcall tgt m s))"
  by (cases "m s") (auto simp: keeps_def hostcall_def split: res.splits dest: spec [of _ s])

end
