(* ===== verification/Hostcalls_Fs.thy ===== *)
theory Hostcalls_Fs
  imports Hostcall_Base
begin

text \<open>
  \<^verbatim>\<open>src/hostcalls/fs.rs\<close>: the file system hostcalls, one definition each, as the guest calls them:
  the arguments are the raw values of the guest, decoded first, and every early return is an error
  of the step.  \<open>hostcall\<close> turns the step into the number returned to the guest.
\<close>

section \<open>Helpers of the hostcalls\<close>

definition hc_entry ::
  "wasi_fd_t \<Rightarrow> wasi_rights_t \<Rightarrow> wasi_rights_t \<Rightarrow> ('w, fd_entry) hc" where
  "hc_entry fd base inheriting = hc_ctx (\<lambda>ctx. get_fd_entry ctx fd base inheriting)"

definition hc_entry_mut ::
  "wasi_fd_t \<Rightarrow> wasi_rights_t \<Rightarrow> wasi_rights_t \<Rightarrow> ('w, fd_entry) hc" where
  "hc_entry_mut fd base inheriting = hc_ctx (\<lambda>ctx. get_fd_entry_mut ctx fd base inheriting)"

definition hc_with_ctx :: "(wasi_ctx \<Rightarrow> ('w, 'a) io) \<Rightarrow> ('w, 'a) hc" where
  "hc_with_ctx f = (\<lambda>s. hc_io (f (st_ctx s)) s)"

text \<open>\<^verbatim>\<open>dec_slice_of::<u8>(memory, ptr, len).and_then(host::path_from_slice)\<close>\<close>

definition dec_path :: "target \<Rightarrow> u32 \<Rightarrow> u32 \<Rightarrow> ('w, bytes) hc" where
  "dec_path tgt ptr len =
     hc_read (\<lambda>mem. and_then (dec_slice_of L_u8 tgt mem ptr len) path_from_slice)"

definition iovec_to_host :: "memory \<Rightarrow> iovec \<Rightarrow> bytes" where
  "iovec_to_host mem v = slice_at mem (iov_buf v) (iov_buf_len v)"

text \<open>Filling the buffers of a read one after the other.\<close>

fun scatter :: "iovec list \<Rightarrow> bytes \<Rightarrow> memory \<Rightarrow> memory" where
  "scatter [] data mem = mem"
| "scatter (v # vs) data mem =
     (if data = [] then mem
      else let vec_len = min (iov_buf_len v) (length data) in
        scatter vs (drop vec_len data) (overwrite mem (iov_buf v) (take vec_len data)))"

definition gather :: "memory \<Rightarrow> iovec list \<Rightarrow> bytes" where
  "gather mem iovs = concat (map (iovec_to_host mem) iovs)"

definition I64_MAX :: nat where
  "I64_MAX = 2 ^ 63 - 1"

section \<open>Descriptors\<close>

definition fd_close ::
  "('w, 'z) os_scheme \<Rightarrow> target \<Rightarrow> wasi_fd_t \<Rightarrow> 'w store \<Rightarrow> outcome \<times> 'w store" where
  "fd_close os tgt fd = hostcall tgt (\<lambda>s.
     let fd = dec_fd tgt fd; m = fds (st_ctx s) in
     case hm_get m fd of
       None \<Rightarrow> (Err WASI_EBADF, s)
     | Some fe \<Rightarrow>
         if fe_preopen_path fe \<noteq> None then (Err WASI_ENOTSUP, s)
         else
           let fe' = fe\<lparr>fe_object := (fe_object fe)\<lparr>fo_needs_close := True\<rparr>\<rparr> in
           (Ok (), s\<lparr>st_ctx := (st_ctx s)\<lparr>fds := hm_remove fd m\<rparr>,
                     st_world := drop_fd_entry os fe' (st_world s)\<rparr>))"

definition fd_datasync ::
  "('w, 'z) os_scheme \<Rightarrow> target \<Rightarrow> wasi_fd_t \<Rightarrow> 'w store \<Rightarrow> outcome \<times> 'w store" where
  "fd_datasync os tgt fd = hostcall tgt (
     hc_bind (hc_entry (dec_fd tgt fd) WASI_RIGHT_FD_DATASYNC 0) (\<lambda>fe.
     hc_bind (hc_res (entry_file fe)) (\<lambda>file.
       hc_io (from_std os (sys_sync_data os file)))))"

definition fd_sync ::
  "('w, 'z) os_scheme \<Rightarrow> target \<Rightarrow> wasi_fd_t \<Rightarrow> 'w store \<Rightarrow> outcome \<times> 'w store" where
  "fd_sync os tgt fd = hostcall tgt (
     hc_bind (hc_entry (dec_fd tgt fd) WASI_RIGHT_FD_SYNC 0) (\<lambda>fe.
     hc_bind (hc_res (entry_file fe)) (\<lambda>file.
       hc_io (from_std os (sys_sync_all os file)))))"

definition fd_renumber ::
  "('w, 'z) os_scheme \<Rightarrow> target \<Rightarrow> wasi_fd_t \<Rightarrow> wasi_fd_t \<Rightarrow> 'w store \<Rightarrow> outcome \<times> 'w store" where
  "fd_renumber os tgt from to = hostcall tgt (\<lambda>s.
     case impl_fd_renumber os (st_ctx s) (dec_fd tgt from) (dec_fd tgt to) (st_world s) of
       ((r, ctx), w) \<Rightarrow> (r, s\<lparr>st_ctx := ctx, st_world := w\<rparr>))"

definition fd_advise ::
  "('w, 'z) os_scheme \<Rightarrow> 'y libc_misc_scheme \<Rightarrow> target \<Rightarrow> wasi_fd_t \<Rightarrow> wasi_filesize_t \<Rightarrow>
     wasi_filesize_t \<Rightarrow> wasi_advice_t \<Rightarrow> 'w store \<Rightarrow> outcome \<times> 'w store" where
  "fd_advise os lc tgt fd offset len advice = hostcall tgt (
     hc_bind (hc_entry (dec_fd tgt fd) WASI_RIGHT_FD_ADVISE 0) (\<lambda>fe.
       hc_io (impl_fd_advise os lc fe (dec_advice tgt advice) (dec_filesize tgt offset)
         (dec_filesize tgt len))))"

definition fd_allocate ::
  "('w, 'z) os_scheme \<Rightarrow> target \<Rightarrow> wasi_fd_t \<Rightarrow> wasi_filesize_t \<Rightarrow> wasi_filesize_t \<Rightarrow>
     'w store \<Rightarrow> outcome \<times> 'w store" where
  "fd_allocate os tgt fd offset len = hostcall tgt (
     hc_bind (hc_entry (dec_fd tgt fd) WASI_RIGHT_FD_ALLOCATE 0) (\<lambda>fe.
     hc_bind (hc_res (entry_file fe)) (\<lambda>f.
     hc_bind (hc_io (from_std os (sys_metadata os f))) (\<lambda>metadata.
     hc_bind (hc_res (ok_or (checked_add (dec_filesize tgt offset) (dec_filesize tgt len))
         WASI_E2BIG)) (\<lambda>wanted_size.
       if unat wanted_size > I64_MAX then hc_res (Err WASI_E2BIG)
       else if wanted_size > md_len metadata
       then hc_io (from_std os (sys_set_len os f wanted_size))
       else hc_res (Ok ()))))))"

section \<open>Reading and writing\<close>

definition fd_pread ::
  "('w, 'z) os_scheme \<Rightarrow> target \<Rightarrow> wasi_fd_t \<Rightarrow> u32 \<Rightarrow> u32 \<Rightarrow> wasi_filesize_t \<Rightarrow> u32 \<Rightarrow>
     'w store \<Rightarrow> outcome \<times> 'w store" where
  "fd_pread os tgt fd iovs_ptr iovs_len offset nread = hostcall tgt (
     hc_bind (hc_read (\<lambda>mem. dec_iovec_slice tgt mem iovs_ptr iovs_len)) (\<lambda>iovs.
     hc_bind (hc_entry (dec_fd tgt fd) WASI_RIGHT_FD_READ 0) (\<lambda>fe.
     hc_bind (hc_res (entry_file fe)) (\<lambda>file.
     let offset = dec_filesize tgt offset in
     if unat offset > I64_MAX then hc_res (Err WASI_EIO)
     else
       hc_bind (hc_res (and_then (usize_sum tgt (map iov_buf_len iovs)) (vec_alloc tgt))) (\<lambda>buf_size.
       hc_bind (hc_io (impl_fd_pread os file buf_size offset)) (\<lambda>data.
       let data = take buf_size data in
       hc_bind (hc_write (\<lambda>mem. Ok (scatter iovs data mem))) (\<lambda>_.
         hc_write (\<lambda>mem. enc_usize_byref tgt mem nread (length data)))))))))"

definition fd_pwrite ::
  "('w, 'z) os_scheme \<Rightarrow> target \<Rightarrow> wasi_fd_t \<Rightarrow> u32 \<Rightarrow> u32 \<Rightarrow> wasi_filesize_t \<Rightarrow> u32 \<Rightarrow>
     'w store \<Rightarrow> outcome \<times> 'w store" where
  "fd_pwrite os tgt fd iovs_ptr iovs_len offset nwritten = hostcall tgt (
     hc_bind (hc_read (\<lambda>mem. dec_iovec_slice tgt mem iovs_ptr iovs_len)) (\<lambda>iovs.
     hc_bind (hc_entry (dec_fd tgt fd) WASI_RIGHT_FD_READ 0) (\<lambda>fe.
     hc_bind (hc_res (entry_file fe)) (\<lambda>file.
     let offset = dec_filesize tgt offset in
     if unat offset > I64_MAX then hc_res (Err WASI_EIO)
     else
       hc_bind (hc_res (and_then (usize_sum tgt (map iov_buf_len iovs)) (vec_alloc tgt))) (\<lambda>_.
       hc_bind (hc_read (\<lambda>mem. Ok (gather mem iovs))) (\<lambda>buf.
       hc_bind (hc_io (impl_fd_pwrite os file buf offset)) (\<lambda>host_nwritten.
         hc_write (\<lambda>mem. enc_usize_byref tgt mem nwritten host_nwritten))))))))"

definition fd_read ::
  "('w, 'z) os_scheme \<Rightarrow> target \<Rightarrow> wasi_fd_t \<Rightarrow> u32 \<Rightarrow> u32 \<Rightarrow> u32 \<Rightarrow>
     'w store \<Rightarrow> outcome \<times> 'w store" where
  "fd_read os tgt fd iovs_ptr iovs_len nread = hostcall tgt (
     hc_bind (hc_read (\<lambda>mem. dec_iovec_slice tgt mem iovs_ptr iovs_len)) (\<lambda>iovs.
     hc_bind (hc_entry_mut (dec_fd tgt fd) WASI_RIGHT_FD_READ 0) (\<lambda>fe.
     let lens = map iov_buf_len iovs in
     hc_bind (case fo_descriptor (fe_object fe) of
         File f \<Rightarrow> hc_io (from_std os (sys_read_vectored os f lens))
       | Stdin \<Rightarrow> hc_io (from_std os (sys_stdin_read_vectored os lens))
       | _ \<Rightarrow> hc_res (Err WASI_EBADF)) (\<lambda>data.
     let data = take (sum_list lens) data in
     hc_bind (hc_write (\<lambda>mem. Ok (scatter iovs data mem))) (\<lambda>_.
       hc_write (\<lambda>mem. enc_usize_byref tgt mem nread (length data)))))))"

definition fd_write ::
  "('w, 'z) os_scheme \<Rightarrow> target \<Rightarrow> wasi_fd_t \<Rightarrow> u32 \<Rightarrow> u32 \<Rightarrow> u32 \<Rightarrow>
     'w store \<Rightarrow> outcome \<times> 'w store" where
  "fd_write os tgt fd iovs_ptr iovs_len nwritten = hostcall tgt (
     hc_bind (hc_read (\<lambda>mem. dec_iovec_slice tgt mem iovs_ptr iovs_len)) (\<lambda>iovs.
     hc_bind (hc_entry_mut (dec_fd tgt fd) WASI_RIGHT_FD_WRITE 0) (\<lambda>fe.
     hc_bind (hc_read (\<lambda>mem. Ok (map (iovec_to_host mem) iovs))) (\<lambda>bufs.
     hc_bind (case fo_descriptor (fe_object fe) of
         File f \<Rightarrow> hc_io (from_std os (sys_write_vectored os f bufs))
       | Stdin \<Rightarrow> hc_res (Err WASI_EBADF)
       | Stdout \<Rightarrow> hc_io (from_std os (sys_stdout_write_vectored os bufs))
       | Stderr \<Rightarrow> hc_io (from_std os (sys_stderr_write_vectored os bufs))) (\<lambda>host_nwritten.
       hc_write (\<lambda>mem. enc_usize_byref tgt mem nwritten host_nwritten))))))"

text \<open>With tracing enabled the raw \<^verbatim>\<open>whence\<close> is turned into a name first.\<close>

definition fd_seek ::
  "('w, 'z) os_scheme \<Rightarrow> target \<Rightarrow> wasi_fd_t \<Rightarrow> wasi_filedelta_t \<Rightarrow> wasi_whence_t \<Rightarrow> u32 \<Rightarrow>
     'w store \<Rightarrow> outcome \<times> 'w store" where
  "fd_seek os tgt fd offset whence newoffset = hostcall tgt (
     hc_bind (hc_res (if trace_enabled tgt then whence_to_str whence else Ok [])) (\<lambda>_.
     let offset = dec_filedelta tgt offset; whence = dec_whence tgt whence;
         rights = (if offset = 0 \<and> whence = WASI_WHENCE_CUR then WASI_RIGHT_FD_TELL
                   else WASI_RIGHT_FD_SEEK OR WASI_RIGHT_FD_TELL)
     in
     hc_bind (hc_entry (dec_fd tgt fd) rights 0) (\<lambda>fe.
     hc_bind (hc_io (impl_fd_seek os fe offset whence)) (\<lambda>host_newoffset.
       hc_write (\<lambda>mem. enc_filesize_byref tgt mem newoffset host_newoffset)))))"

definition fd_tell ::
  "('w, 'z) os_scheme \<Rightarrow> target \<Rightarrow> wasi_fd_t \<Rightarrow> u32 \<Rightarrow> 'w store \<Rightarrow> outcome \<times> 'w store" where
  "fd_tell os tgt fd newoffset = hostcall tgt (
     hc_bind (hc_entry (dec_fd tgt fd) WASI_RIGHT_FD_TELL 0) (\<lambda>fe.
     hc_bind (hc_io (impl_fd_tell os fe)) (\<lambda>host_offset.
       hc_write (\<lambda>mem. enc_filesize_byref tgt mem newoffset host_offset))))"

section \<open>Descriptor status\<close>

text \<open>An unknown descriptor is reported after the status has been written back as it was read.\<close>

definition fd_fdstat_get ::
  "('w, 'z) os_scheme \<Rightarrow> 'y libc_scheme \<Rightarrow> target \<Rightarrow> wasi_fd_t \<Rightarrow> u32 \<Rightarrow>
     'w store \<Rightarrow> outcome \<times> 'w store" where
  "fd_fdstat_get os lc tgt fd fdstat_ptr = hostcall tgt (
     hc_bind (hc_read (\<lambda>mem. dec_fdstat_byref tgt mem fdstat_ptr)) (\<lambda>host_fdstat.
     hc_bind (hc_ctx (\<lambda>ctx. Ok (hm_get (fds ctx) (dec_fd tgt fd)))) (\<lambda>entry.
       case entry of
         Some fe \<Rightarrow>
           hc_bind (hc_io (impl_fd_fdstat_get os lc fe)) (\<lambda>flags.
             hc_write (\<lambda>mem. enc_fdstat_byref tgt mem fdstat_ptr
               (host_fdstat\<lparr>fs_filetype := fo_file_type (fe_object fe), fs_flags := flags,
                 fs_rights_base := fe_rights_base fe,
                 fs_rights_inheriting := fe_rights_inheriting fe\<rparr>)))
       | None \<Rightarrow>
           hc_bind (hc_write (\<lambda>mem. enc_fdstat_byref tgt mem fdstat_ptr host_fdstat)) (\<lambda>_.
             hc_res (Err WASI_EBADF)))))"

definition fd_fdstat_set_flags ::
  "('w, 'z) os_scheme \<Rightarrow> 'y libc_scheme \<Rightarrow> target \<Rightarrow> wasi_fd_t \<Rightarrow> wasi_fdflags_t \<Rightarrow>
     'w store \<Rightarrow> outcome \<times> 'w store" where
  "fd_fdstat_set_flags os lc tgt fd fdflags = hostcall tgt (
     hc_bind (hc_ctx (\<lambda>ctx. any_fd_entry ctx (dec_fd tgt fd))) (\<lambda>fe.
       hc_io (impl_fd_fdstat_set_flags os lc fe (dec_fdflags tgt fdflags))))"

text \<open>The rights are compared and stored as the guest passes them, without decoding.\<close>

definition fd_fdstat_set_rights ::
  "target \<Rightarrow> wasi_fd_t \<Rightarrow> wasi_rights_t \<Rightarrow> wasi_rights_t \<Rightarrow> 'w store \<Rightarrow> outcome \<times> 'w store" where
  "fd_fdstat_set_rights tgt fd rights_base rights_inheriting = hostcall tgt (
     hc_bind (hc_ctx (\<lambda>ctx. any_fd_entry ctx (dec_fd tgt fd))) (\<lambda>fe.
       if fe_rights_base fe AND rights_base \<noteq> rights_base \<or>
          fe_rights_inheriting fe AND rights_inheriting \<noteq> rights_inheriting
       then hc_res (Err WASI_ENOTCAPABLE)
       else hc_put_ctx (\<lambda>ctx. put_fd_entry ctx (dec_fd tgt fd)
         (fe\<lparr>fe_rights_base := rights_base, fe_rights_inheriting := rights_inheriting\<rparr>))))"

definition fd_filestat_get ::
  "('w, 'z) os_scheme \<Rightarrow> 'y libc_stat_scheme \<Rightarrow> target \<Rightarrow> wasi_fd_t \<Rightarrow> u32 \<Rightarrow>
     'w store \<Rightarrow> outcome \<times> 'w store" where
  "fd_filestat_get os lc tgt fd filestat_ptr = hostcall tgt (
     hc_bind (hc_ctx (\<lambda>ctx. any_fd_entry ctx (dec_fd tgt fd))) (\<lambda>fe.
     hc_bind (hc_io (impl_fd_filestat_get os lc fe)) (\<lambda>host_filestat.
       hc_write (\<lambda>mem. enc_filestat_byref tgt mem filestat_ptr host_filestat))))"

definition fd_filestat_set_times ::
  "('w, 'z) os_scheme \<Rightarrow> 'y libc_misc_scheme \<Rightarrow> target \<Rightarrow> wasi_fd_t \<Rightarrow> wasi_timestamp_t \<Rightarrow>
     wasi_timestamp_t \<Rightarrow> wasi_fstflags_t \<Rightarrow> 'w store \<Rightarrow> outcome \<times> 'w store" where
  "fd_filestat_set_times os lc tgt fd atim mtim fst_flags = hostcall tgt (
     hc_bind (hc_entry (dec_fd tgt fd) WASI_RIGHT_FD_FILESTAT_SET_TIMES 0) (\<lambda>fe.
       hc_io (impl_fd_filestat_set_times os lc fe (dec_timestamp tgt atim) (dec_timestamp tgt mtim)
         (dec_fstflags tgt fst_flags))))"

definition fd_filestat_set_size ::
  "('w, 'z) os_scheme \<Rightarrow> target \<Rightarrow> wasi_fd_t \<Rightarrow> wasi_filesize_t \<Rightarrow> 'w store \<Rightarrow> outcome \<times> 'w store" where
  "fd_filestat_set_size os tgt fd size_new = hostcall tgt (
     hc_bind (hc_entry (dec_fd tgt fd) WASI_RIGHT_FD_FILESTAT_SET_SIZE 0) (\<lambda>fe.
       let size_new = dec_filesize tgt size_new in
       if unat size_new > I64_MAX then hc_res (Err WASI_E2BIG)
       else hc_io (impl_fd_filestat_set_size os fe size_new)))"

end
