(* ===== verification/Hostcalls_Path.thy ===== *)
theory Hostcalls_Path
  imports Hostcalls_Fs
begin

text \<open>
  The rest of \<^verbatim>\<open>src/hostcalls/fs.rs\<close>: hostcalls that take a path, that read a directory and that
  describe the preopened directories.
\<close>

section \<open>Changing the tree\<close>

definition path_create_directory ::
  "('w, 'z) os_scheme \<Rightarrow> 'y libc_stat_scheme \<Rightarrow> target \<Rightarrow> wasi_fd_t \<Rightarrow> u32 \<Rightarrow> u32 \<Rightarrow>
     'w store \<Rightarrow> outcome \<times> 'w store" where
  "path_create_directory os lc tgt dirfd path_ptr path_len = hostcall tgt (
     hc_bind (dec_path tgt path_ptr path_len) (\<lambda>path.
       hc_with_ctx (\<lambda>ctx. impl_path_create_directory os lc ctx (dec_fd tgt dirfd) path)))"

definition path_link ::
  "('w, 'z) os_scheme \<Rightarrow> 'y libc_stat_scheme \<Rightarrow> target \<Rightarrow> wasi_fd_t \<Rightarrow> wasi_lookupflags_t \<Rightarrow> u32 \<Rightarrow>
     u32 \<Rightarrow> wasi_fd_t \<Rightarrow> u32 \<Rightarrow> u32 \<Rightarrow> 'w store \<Rightarrow> outcome \<times> 'w store" where
  "path_link os lc tgt old_dirfd old_flags old_path_ptr old_path_len new_dirfd new_path_ptr
       new_path_len = hostcall tgt (
     hc_bind (dec_path tgt old_path_ptr old_path_len) (\<lambda>old_path.
     hc_bind (dec_path tgt new_path_ptr new_path_len) (\<lambda>new_path.
       hc_with_ctx (\<lambda>ctx. impl_path_link os lc ctx (dec_fd tgt old_dirfd) (dec_fd tgt new_dirfd)
         old_path new_path WASI_RIGHT_PATH_LINK_SOURCE WASI_RIGHT_PATH_LINK_TARGET))))"

definition path_rename ::
  "('w, 'z) os_scheme \<Rightarrow> 'y libc_stat_scheme \<Rightarrow> target \<Rightarrow> wasi_fd_t \<Rightarrow> u32 \<Rightarrow> u32 \<Rightarrow> wasi_fd_t \<Rightarrow>
     u32 \<Rightarrow> u32 \<Rightarrow> 'w store \<Rightarrow> outcome \<times> 'w store" where
  "path_rename os lc tgt old_dirfd old_path_ptr old_path_len new_dirfd new_path_ptr new_path_len =
     hostcall tgt (
     hc_bind (dec_path tgt old_path_ptr old_path_len) (\<lambda>old_path.
     hc_bind (dec_path tgt new_path_ptr new_path_len) (\<lambda>new_path.
       hc_with_ctx (\<lambda>ctx. impl_path_rename os lc ctx (dec_fd tgt old_dirfd) old_path
         WASI_RIGHT_PATH_RENAME_SOURCE (dec_fd tgt new_dirfd) new_path
         WASI_RIGHT_PATH_RENAME_TARGET))))"

definition path_symlink ::
  "('w, 'z) os_scheme \<Rightarrow> 'y libc_stat_scheme \<Rightarrow> target \<Rightarrow> u32 \<Rightarrow> u32 \<Rightarrow> wasi_fd_t \<Rightarrow> u32 \<Rightarrow> u32 \<Rightarrow>
     'w store \<Rightarrow> outcome \<times> 'w store" where
  "path_symlink os lc tgt old_path_ptr old_path_len dirfd new_path_ptr new_path_len = hostcall tgt (
     hc_bind (dec_path tgt old_path_ptr old_path_len) (\<lambda>old_path.
     hc_bind (dec_path tgt new_path_ptr new_path_len) (\<lambda>new_path.
       hc_with_ctx (\<lambda>ctx. impl_path_symlink os lc ctx (dec_fd tgt dirfd) WASI_RIGHT_PATH_SYMLINK
         old_path new_path))))"

definition path_unlink_file ::
  "('w, 'z) os_scheme \<Rightarrow> 'y libc_stat_scheme \<Rightarrow> target \<Rightarrow> wasi_fd_t \<Rightarrow> u32 \<Rightarrow> u32 \<Rightarrow>
     'w store \<Rightarrow> outcome \<times> 'w store" where
  "path_unlink_file os lc tgt dirfd path_ptr path_len = hostcall tgt (
     hc_bind (dec_path tgt path_ptr path_len) (\<lambda>path.
       hc_with_ctx (\<lambda>ctx. impl_path_unlink_file os lc ctx (dec_fd tgt dirfd) path
         WASI_RIGHT_PATH_UNLINK_FILE)))"

definition path_remove_directory ::
  "('w, 'z) os_scheme \<Rightarrow> 'y libc_stat_scheme \<Rightarrow> target \<Rightarrow> wasi_fd_t \<Rightarrow> u32 \<Rightarrow> u32 \<Rightarrow>
     'w store \<Rightarrow> outcome \<times> 'w store" where
  "path_remove_directory os lc tgt dirfd path_ptr path_len = hostcall tgt (
     hc_bind (dec_path tgt path_ptr path_len) (\<lambda>path.
       hc_with_ctx (\<lambda>ctx. impl_path_remove_directory os lc ctx (dec_fd tgt dirfd) path
         WASI_RIGHT_PATH_REMOVE_DIRECTORY)))"

section \<open>Status\<close>

definition path_filestat_get ::
  "('w, 'z) os_scheme \<Rightarrow> 'y libc_stat_scheme \<Rightarrow> target \<Rightarrow> wasi_fd_t \<Rightarrow> wasi_lookupflags_t \<Rightarrow> u32 \<Rightarrow>
     u32 \<Rightarrow> u32 \<Rightarrow> 'w store \<Rightarrow> outcome \<times> 'w store" where
  "path_filestat_get os lc tgt dirfd dirflags path_ptr path_len filestat_ptr = hostcall tgt (
     hc_bind (dec_path tgt path_ptr path_len) (\<lambda>path.
     hc_bind (hc_with_ctx (\<lambda>ctx. impl_path_filestat_get os lc ctx (dec_fd tgt dirfd)
         (dec_lookupflags tgt dirflags) path)) (\<lambda>host_filestat.
       hc_write (\<lambda>mem. enc_filestat_byref tgt mem filestat_ptr host_filestat))))"

definition path_filestat_set_times ::
  "('w, 'z) os_scheme \<Rightarrow> 'y libc_misc_scheme \<Rightarrow> target \<Rightarrow> wasi_fd_t \<Rightarrow> wasi_lookupflags_t \<Rightarrow> u32 \<Rightarrow>
     u32 \<Rightarrow> wasi_timestamp_t \<Rightarrow> wasi_timestamp_t \<Rightarrow> wasi_fstflags_t \<Rightarrow> 'w store \<Rightarrow>
     outcome \<times> 'w store" where
  "path_filestat_set_times os lc tgt dirfd dirflags path_ptr path_len atim mtim fst_flags =
     hostcall tgt (
     hc_bind (dec_path tgt path_ptr path_len) (\<lambda>path.
       hc_with_ctx (\<lambda>ctx. impl_path_filestat_set_times os lc ctx (dec_fd tgt dirfd)
         (dec_lookupflags tgt dirflags) path WASI_RIGHT_PATH_FILESTAT_SET_TIMES
         (dec_timestamp tgt atim) (dec_timestamp tgt mtim) (dec_fstflags tgt fst_flags))))"

section \<open>Opening\<close>

definition open_read :: "wasi_rights_t \<Rightarrow> bool" where
  "open_read rights_base \<longleftrightarrow>
     rights_base AND (WASI_RIGHT_FD_READ OR WASI_RIGHT_FD_READDIR) \<noteq> 0"

definition open_write :: "wasi_rights_t \<Rightarrow> bool" where
  "open_write rights_base \<longleftrightarrow>
     rights_base AND (WASI_RIGHT_FD_DATASYNC OR WASI_RIGHT_FD_WRITE OR WASI_RIGHT_FD_ALLOCATE OR
       WASI_RIGHT_FD_FILESTAT_SET_SIZE) \<noteq> 0"

text \<open>An entry that finds no place in the table is dropped.\<close>

definition hc_insert_entry :: "('w, 'z) os_scheme \<Rightarrow> fd_entry \<Rightarrow> ('w, wasi_fd_t) hc" where
  "hc_insert_entry os fe = (\<lambda>s.
     case insert_fd_entry (st_ctx s) fe of
       Ok (fd, ctx) \<Rightarrow> (Ok fd, s\<lparr>st_ctx := ctx\<rparr>)
     | Err e \<Rightarrow> (Err e, s\<lparr>st_world := drop_fd_entry os fe (st_world s)\<rparr>)
     | Panic \<Rightarrow> (Panic, s))"

definition path_open ::
  "('w, 'z) os_scheme \<Rightarrow> 'y libc_stat_scheme \<Rightarrow> target \<Rightarrow> wasi_fd_t \<Rightarrow> wasi_lookupflags_t \<Rightarrow> u32 \<Rightarrow>
     u32 \<Rightarrow> wasi_oflags_t \<Rightarrow> wasi_rights_t \<Rightarrow> wasi_rights_t \<Rightarrow> wasi_fdflags_t \<Rightarrow> u32 \<Rightarrow>
     'w store \<Rightarrow> outcome \<times> 'w store" where
  "path_open os lc tgt dirfd dirflags path_ptr path_len oflags rights_base rights_inheriting fdflags
       fd_out_ptr = hostcall tgt (
     let rights_base = dec_rights tgt rights_base;
         rights_inheriting = dec_rights tgt rights_inheriting
     in
     hc_bind (dec_path tgt path_ptr path_len) (\<lambda>path s.
       case hc_with_ctx (\<lambda>ctx. impl_path_open os lc ctx (dec_fd tgt dirfd)
           (dec_lookupflags tgt dirflags) path (dec_oflags tgt oflags) (open_read rights_base)
           (open_write rights_base) WASI_RIGHT_PATH_OPEN (rights_base OR rights_inheriting)
           (dec_fdflags tgt fdflags)) s of
         (Ok fe, s1) \<Rightarrow>
           hc_bind (hc_insert_entry os fe) (\<lambda>guest_fd.
             hc_write (\<lambda>mem. enc_fd_byref tgt mem fd_out_ptr guest_fd)) s1
       | (Err e, s1) \<Rightarrow>
           hc_bind (hc_write (\<lambda>mem. enc_fd_byref tgt mem fd_out_ptr (- 1))) (\<lambda>_. hc_res (Err e)) s1
       | (Panic, s1) \<Rightarrow> (Panic, s1)))"

section \<open>Directories and links read into guest memory\<close>

text \<open>What was stored before an error stays in the guest's buffer.\<close>

definition hc_readdir ::
  "('w, 'z) os_scheme \<Rightarrow> target \<Rightarrow> fd_entry \<Rightarrow> nat \<times> usize \<Rightarrow> wasi_dircookie_t \<Rightarrow> ('w, usize) hc" where
  "hc_readdir os tgt fe = (\<lambda>(p, len) cookie s.
     case impl_fd_readdir os tgt fe len cookie (st_world s) of
       ((r, stored), w) \<Rightarrow> (r, s\<lparr>st_mem := overwrite (st_mem s) p stored, st_world := w\<rparr>))"

definition fd_readdir ::
  "('w, 'z) os_scheme \<Rightarrow> target \<Rightarrow> wasi_fd_t \<Rightarrow> u32 \<Rightarrow> u32 \<Rightarrow> wasi_dircookie_t \<Rightarrow> u32 \<Rightarrow>
     'w store \<Rightarrow> outcome \<times> 'w store" where
  "fd_readdir os tgt fd buf buf_len cookie buf_used = hostcall tgt (
     hc_bind (hc_write (\<lambda>mem. enc_usize_byref tgt mem buf_used 0)) (\<lambda>_.
     hc_bind (hc_entry (dec_fd tgt fd) WASI_RIGHT_FD_READDIR 0) (\<lambda>fe.
     hc_bind (hc_read (\<lambda>mem. dec_slice_of_mut L_u8 tgt mem buf buf_len)) (\<lambda>host_buf.
     hc_bind (hc_readdir os tgt fe host_buf (dec_dircookie tgt cookie)) (\<lambda>host_bufused.
       hc_write (\<lambda>mem. enc_usize_byref tgt mem buf_used host_bufused))))))"

definition path_readlink ::
  "('w, 'z) os_scheme \<Rightarrow> 'y libc_stat_scheme \<Rightarrow> target \<Rightarrow> wasi_fd_t \<Rightarrow> u32 \<Rightarrow> u32 \<Rightarrow> u32 \<Rightarrow> u32 \<Rightarrow>
     u32 \<Rightarrow> 'w store \<Rightarrow> outcome \<times> 'w store" where
  "path_readlink os lc tgt dirfd path_ptr path_len buf_ptr buf_len buf_used = hostcall tgt (
     hc_bind (hc_write (\<lambda>mem. enc_usize_byref tgt mem buf_used 0)) (\<lambda>_.
     hc_bind (hc_read (\<lambda>mem. and_then (dec_slice_of L_u8 tgt mem path_ptr path_len) path_from_vec))
       (\<lambda>path.
     hc_bind (hc_read (\<lambda>mem. dec_slice_of_mut L_u8 tgt mem buf_ptr buf_len)) (\<lambda>(p, len).
     hc_bind (hc_with_ctx (\<lambda>ctx. impl_path_readlink os lc ctx (dec_fd tgt dirfd) path
         WASI_RIGHT_PATH_READLINK len)) (\<lambda>(host_bufused, stored).
     hc_bind (hc_write (\<lambda>mem. Ok (overwrite mem p stored))) (\<lambda>_.
       hc_write (\<lambda>mem. enc_usize_byref tgt mem buf_used host_bufused)))))))"

section \<open>Preopened directories\<close>

text \<open>The guest path of a preopened directory, as both calls below look it up.\<close>

definition preopen_name :: "wasi_ctx \<Rightarrow> wasi_fd_t \<Rightarrow> bytes res" where
  "preopen_name ctx fd =
     and_then (get_fd_entry ctx fd WASI_RIGHT_PATH_OPEN 0) (\<lambda>fe.
       case fe_preopen_path fe of
         None \<Rightarrow> Err WASI_ENOTSUP
       | Some po_path \<Rightarrow>
           if fo_file_type (fe_object fe) \<noteq> WASI_FILETYPE_DIRECTORY then Err WASI_ENOTDIR
           else path_from_host po_path)"

definition fd_prestat_get ::
  "target \<Rightarrow> wasi_fd_t \<Rightarrow> u32 \<Rightarrow> 'w store \<Rightarrow> outcome \<times> 'w store" where
  "fd_prestat_get tgt fd prestat_ptr = hostcall tgt (
     hc_bind (hc_ctx (\<lambda>ctx. preopen_name ctx (dec_fd tgt fd))) (\<lambda>path.
       hc_write (\<lambda>mem. enc_prestat_byref tgt mem prestat_ptr
         \<lparr>pr_type = WASI_PREOPENTYPE_DIR, pr_name_len = length path\<rparr>)))"

definition fd_prestat_dir_name ::
  "target \<Rightarrow> wasi_fd_t \<Rightarrow> u32 \<Rightarrow> u32 \<Rightarrow> 'w store \<Rightarrow> outcome \<times> 'w store" where
  "fd_prestat_dir_name tgt fd path_ptr path_len = hostcall tgt (
     hc_bind (hc_ctx (\<lambda>ctx. preopen_name ctx (dec_fd tgt fd))) (\<lambda>path.
     hc_bind (hc_res (dec_usize tgt path_len)) (\<lambda>len.
       if length path > len then hc_res (Err WASI_ENAMETOOLONG)
       else hc_write (\<lambda>mem. enc_slice_of L_u8 tgt mem path path_ptr))))"

end
