(* ===== verification/Hostcalls_Misc.thy ===== *)
theory Hostcalls_Misc
  imports Hostcall_Base
begin

text \<open>
  \<^verbatim>\<open>src/hostcalls/misc.rs\<close>, \<^verbatim>\<open>src/hostcalls/sock.rs\<close> and \<^verbatim>\<open>src/sys/unix/hostcalls_impl/misc.rs\<close>:
  arguments and environment, clocks, polling, random bytes, and the calls that end or are not
  implemented.
\<close>

section \<open>Arguments and environment\<close>

definition with_nul :: "bytes \<Rightarrow> bytes" where
  "with_nul s = s @ [0]"

text \<open>
  The loop that stores the strings one after the other and collects their addresses; the memory is
  changed by every string stored before an error.
\<close>

fun store_strings ::
  "target \<Rightarrow> bytes list \<Rightarrow> u32 \<Rightarrow> u32 \<Rightarrow> u32 list \<Rightarrow> memory \<Rightarrow> u32 list res \<times> memory" where
  "store_strings tgt [] buf buf_offset ptrs mem = (Ok ptrs, mem)"
| "store_strings tgt (s # ss) buf buf_offset ptrs mem =
     (case plain_add tgt buf buf_offset of
        Err e \<Rightarrow> (Err e, mem)
      | Panic \<Rightarrow> (Panic, mem)
      | Ok ptr \<Rightarrow>
        (case enc_slice_of L_u8 tgt mem (with_nul s) ptr of
           Err e \<Rightarrow> (Err e, mem)
         | Panic \<Rightarrow> (Panic, mem)
         | Ok mem' \<Rightarrow>
           (case u32_try_from (length (with_nul s)) of
              None \<Rightarrow> (Err WASI_EOVERFLOW, mem')
            | Some len \<Rightarrow>
              (case checked_add buf_offset len of
                 None \<Rightarrow> (Err WASI_EOVERFLOW, mem')
               | Some new_offset \<Rightarrow> store_strings tgt ss buf new_offset (ptrs @ [ptr]) mem'))))"

definition hc_store_strings ::
  "target \<Rightarrow> (wasi_ctx \<Rightarrow> bytes list) \<Rightarrow> u32 \<Rightarrow> ('w, u32 list) hc" where
  "hc_store_strings tgt strings buf = (\<lambda>s.
     case store_strings tgt (strings (st_ctx s)) buf 0 [] (st_mem s) of
       (r, mem) \<Rightarrow> (r, s\<lparr>st_mem := mem\<rparr>))"

definition args_get ::
  "target \<Rightarrow> u32 \<Rightarrow> u32 \<Rightarrow> 'w store \<Rightarrow> outcome \<times> 'w store" where
  "args_get tgt argv_ptr argv_buf = hostcall tgt (
     hc_bind (hc_store_strings tgt args argv_buf) (\<lambda>argv.
       hc_write (\<lambda>mem. enc_slice_of L_u32 tgt mem argv argv_ptr)))"

definition args_sizes_get ::
  "target \<Rightarrow> u32 \<Rightarrow> u32 \<Rightarrow> 'w store \<Rightarrow> outcome \<times> 'w store" where
  "args_sizes_get tgt argc_ptr argv_buf_size_ptr = hostcall tgt (
     hc_bind (hc_ctx (\<lambda>ctx. Ok (length (args ctx)))) (\<lambda>argc.
     hc_bind (hc_ctx (\<lambda>ctx. usize_sum tgt (map (\<lambda>a. length (with_nul a)) (args ctx)))) (\<lambda>argv_size.
     hc_bind (hc_write (\<lambda>mem. enc_usize_byref tgt mem argc_ptr argc)) (\<lambda>_.
       hc_write (\<lambda>mem. enc_usize_byref tgt mem argv_buf_size_ptr argv_size)))))"

definition environ_get ::
  "target \<Rightarrow> u32 \<Rightarrow> u32 \<Rightarrow> 'w store \<Rightarrow> outcome \<times> 'w store" where
  "environ_get tgt environ_ptr environ_buf = hostcall tgt (
     hc_bind (hc_store_strings tgt env environ_buf) (\<lambda>environ.
       hc_write (\<lambda>mem. enc_slice_of L_u32 tgt mem environ environ_ptr)))"

text \<open>The size is summed in 32 bits, each length truncated to 32 bits first.\<close>

fun environ_size :: "bytes list \<Rightarrow> u32 \<Rightarrow> u32 option" where
  "environ_size [] acc = Some acc"
| "environ_size (pair # pairs) acc =
     (case checked_add acc (of_nat (length (with_nul pair))) of
        None \<Rightarrow> None | Some acc' \<Rightarrow> environ_size pairs acc')"

definition environ_sizes_get ::
  "target \<Rightarrow> u32 \<Rightarrow> u32 \<Rightarrow> 'w store \<Rightarrow> outcome \<times> 'w store" where
  "environ_sizes_get tgt environ_count_ptr environ_size_ptr = hostcall tgt (
     hc_bind (hc_ctx (\<lambda>ctx. Ok (length (env ctx)))) (\<lambda>environ_count.
     hc_bind (hc_ctx (\<lambda>ctx. ok_or (environ_size (env ctx) 0) WASI_EOVERFLOW)) (\<lambda>size.
     hc_bind (hc_write (\<lambda>mem. enc_usize_byref tgt mem environ_count_ptr environ_count)) (\<lambda>_.
       hc_write (\<lambda>mem. enc_usize_byref tgt mem environ_size_ptr (unat size))))))"

section \<open>Clocks\<close>

definition host_clock :: "'z libc_misc_scheme \<Rightarrow> wasi_clockid_t \<Rightarrow> int res" where
  "host_clock lc clock_id =
     (if clock_id = WASI_CLOCK_REALTIME then Ok (CLOCK_REALTIME lc)
      else if clock_id = WASI_CLOCK_MONOTONIC then Ok (CLOCK_MONOTONIC lc)
      else if clock_id = WASI_CLOCK_PROCESS_CPUTIME_ID then Ok (CLOCK_PROCESS_CPUTIME_ID lc)
      else if clock_id = WASI_CLOCK_THREAD_CPUTIME_ID then Ok (CLOCK_THREAD_CPUTIME_ID lc)
      else Err WASI_EINVAL)"

definition impl_clock_res_get ::
  "('w, 'z) os_scheme \<Rightarrow> 'y libc_misc_scheme \<Rightarrow> wasi_clockid_t \<Rightarrow> ('w, wasi_timestamp_t) io" where
  "impl_clock_res_get os lc clock_id =
     io_bind (io_res (host_clock lc clock_id)) (\<lambda>clock.
     io_bind (io_call (sys_clock_getres os clock)) (\<lambda>(res, ts) w.
       if res \<noteq> 0 then (Err (last_error os w), w)
       else (and_then (now_ns ts) (\<lambda>resolution.
               if resolution = 0 then Err WASI_EINVAL else Ok resolution), w)))"

definition impl_clock_time_get ::
  "('w, 'z) os_scheme \<Rightarrow> 'y libc_misc_scheme \<Rightarrow> wasi_clockid_t \<Rightarrow> ('w, wasi_timestamp_t) io" where
  "impl_clock_time_get os lc clock_id =
     io_bind (io_res (host_clock lc clock_id)) (\<lambda>clock.
     io_bind (io_call (sys_clock_gettime os clock)) (\<lambda>(res, ts) w.
       if res \<noteq> 0 then (Err (last_error os w), w) else (now_ns ts, w)))"

definition clock_res_get ::
  "('w, 'z) os_scheme \<Rightarrow> 'y libc_misc_scheme \<Rightarrow> target \<Rightarrow> wasi_clockid_t \<Rightarrow> u32 \<Rightarrow>
     'w store \<Rightarrow> outcome \<times> 'w store" where
  "clock_res_get os lc tgt clock_id resolution_ptr = hostcall tgt (
     hc_bind (hc_io (impl_clock_res_get os lc (dec_clockid tgt clock_id))) (\<lambda>resolution.
       hc_write (\<lambda>mem. enc_timestamp_byref tgt mem resolution_ptr resolution)))"

definition clock_time_get ::
  "('w, 'z) os_scheme \<Rightarrow> 'y libc_misc_scheme \<Rightarrow> target \<Rightarrow> wasi_clockid_t \<Rightarrow> wasi_timestamp_t \<Rightarrow>
     u32 \<Rightarrow> 'w store \<Rightarrow> outcome \<times> 'w store" where
  "clock_time_get os lc tgt clock_id precision time_ptr = hostcall tgt (
     hc_bind (hc_io (impl_clock_time_get os lc (dec_clockid tgt clock_id))) (\<lambda>time.
       hc_write (\<lambda>mem. enc_timestamp_byref tgt mem time_ptr time)))"

section \<open>Polling\<close>

record clock_event_data =
  ce_delay :: nat
  ce_userdata :: wasi_userdata_t

record fd_event_data =
  fev_fd :: int
  fev_type :: wasi_eventtype_t
  fev_userdata :: wasi_userdata_t

definition wasi_clock_to_relative_ns_delay ::
  "('w, 'z) os_scheme \<Rightarrow> subscription_clock \<Rightarrow> 'w \<Rightarrow> nat res" where
  "wasi_clock_to_relative_ns_delay os wasi_clock w =
     (if sc_flags wasi_clock \<noteq> WASI_SUBSCRIPTION_CLOCK_ABSTIME then Ok (unat (sc_timeout wasi_clock))
      else case sys_now_nanos os w of
        None \<Rightarrow> Err WASI_ENOTCAPABLE
      | Some now \<Rightarrow> Ok (unat (sc_timeout wasi_clock) - now))"

text \<open>The two \<^verbatim>\<open>filter_map\<close>s: subscriptions that could not be decoded are skipped.\<close>

definition clock_event ::
  "('w, 'z) os_scheme \<Rightarrow> 'w \<Rightarrow> subscription res \<Rightarrow> clock_event_data option" where
  "clock_event os w event = (case event of
     Ok ev \<Rightarrow>
       if su_type ev = WASI_EVENTTYPE_CLOCK then
         (case su_u ev of
            U_clock c \<Rightarrow>
              (case wasi_clock_to_relative_ns_delay os c w of
                 Ok ns \<Rightarrow> Some \<lparr>ce_delay = ns div 1000000, ce_userdata = su_userdata ev\<rparr>
               | _ \<Rightarrow> None)
          | _ \<Rightarrow> None)
       else None
   | _ \<Rightarrow> None)"

definition fd_event :: "subscription res \<Rightarrow> fd_event_data option" where
  "fd_event event = (case event of
     Ok ev \<Rightarrow>
       if su_type ev = WASI_EVENTTYPE_FD_READ \<or> su_type ev = WASI_EVENTTYPE_FD_WRITE then
         (case su_u ev of
            U_fd_readwrite fd \<Rightarrow>
              Some \<lparr>fev_fd = sint fd, fev_type = su_type ev, fev_userdata = su_userdata ev\<rparr>
          | _ \<Rightarrow> None)
       else None
   | _ \<Rightarrow> None)"

text \<open>\<^verbatim>\<open>min_by_key\<close>: the first of the events with the smallest delay.\<close>

fun min_by_delay :: "clock_event_data list \<Rightarrow> clock_event_data option" where
  "min_by_delay [] = None"
| "min_by_delay (e # es) = (case min_by_delay es of
     None \<Rightarrow> Some e | Some f \<Rightarrow> Some (if ce_delay e \<le> ce_delay f then e else f))"

definition C_INT_MAX :: nat where
  "C_INT_MAX = 2 ^ 31 - 1"

definition poll_flags :: "'z libc_misc_scheme \<Rightarrow> fd_event_data \<Rightarrow> u16" where
  "poll_flags lc ev =
     (if fev_type ev = WASI_EVENTTYPE_FD_READ then POLLIN lc else POLLOUT lc)"

text \<open>
  The loop that repeats an interrupted \<^verbatim>\<open>poll\<close>; it need not end, so not returning is \<open>None\<close>.
\<close>

partial_function (option) poll_wait ::
  "('w, 'z) os_scheme \<Rightarrow> (int \<times> u16) list \<Rightarrow> int \<Rightarrow> 'w \<Rightarrow>
     ((nat \<times> u16 option list) res \<times> 'w) option" where
  "poll_wait os poll_fds poll_timeout w =
     (case sys_poll os poll_fds poll_timeout w of
        (Inr ready, w') \<Rightarrow> Some (Ok ready, w')
      | (Inl _, w') \<Rightarrow>
          if sys_errno_last os w' = EINTR then poll_wait os poll_fds poll_timeout w'
          else Some (Err (last_error os w'), w'))"

definition poll_oneoff_handle_timeout_event :: "target \<Rightarrow> clock_event_data option \<Rightarrow> event32 list" where
  "poll_oneoff_handle_timeout_event tgt timeout = (case timeout of
     None \<Rightarrow> []
   | Some t \<Rightarrow> [enc_event tgt \<lparr>ev_userdata = ce_userdata t, ev_error = WASI_ESUCCESS,
       ev_type = WASI_EVENTTYPE_CLOCK, ev_nbytes = 0, ev_flags = 0\<rparr>])"

text \<open>The event reported for one descriptor, if its returned flags call for one.\<close>

definition revents_event ::
  "'z libc_misc_scheme \<Rightarrow> fd_event_data \<Rightarrow> u16 \<Rightarrow> int \<Rightarrow> event option" where
  "revents_event lc ev revents nbytes =
     (if contains revents (POLLNVAL lc) then
        Some \<lparr>ev_userdata = fev_userdata ev, ev_error = WASI_EBADF, ev_type = fev_type ev,
          ev_nbytes = 0, ev_flags = WASI_EVENT_FD_READWRITE_HANGUP\<rparr>
      else if contains revents (POLLERR lc) then
        Some \<lparr>ev_userdata = fev_userdata ev, ev_error = WASI_EIO, ev_type = fev_type ev,
          ev_nbytes = 0, ev_flags = WASI_EVENT_FD_READWRITE_HANGUP\<rparr>
      else if contains revents (POLLHUP lc) then
        Some \<lparr>ev_userdata = fev_userdata ev, ev_error = WASI_ESUCCESS, ev_type = fev_type ev,
          ev_nbytes = 0, ev_flags = WASI_EVENT_FD_READWRITE_HANGUP\<rparr>
      else if contains revents (POLLIN lc) \<or> contains revents (POLLOUT lc) then
        Some \<lparr>ev_userdata = fev_userdata ev, ev_error = WASI_ESUCCESS, ev_type = fev_type ev,
          ev_nbytes = of_int nbytes, ev_flags = 0\<rparr>
      else None)"

definition fionread_or_0 :: "('w, 'z) os_scheme \<Rightarrow> fd_event_data \<Rightarrow> 'w \<Rightarrow> int \<times> 'w" where
  "fionread_or_0 os ev w =
     (if fev_type ev = WASI_EVENTTYPE_FD_READ then
        (case sys_fionread os (fev_fd ev) w of (Inr n, w') \<Rightarrow> (n, w') | (Inl _, w') \<Rightarrow> (0, w'))
      else (0, w))"

fun poll_oneoff_handle_fd_event ::
  "('w, 'z) os_scheme \<Rightarrow> 'y libc_misc_scheme \<Rightarrow> target \<Rightarrow> (fd_event_data \<times> u16 option) list \<Rightarrow> 'w \<Rightarrow>
     event32 list \<times> 'w" where
  "poll_oneoff_handle_fd_event os lc tgt [] w = ([], w)"
| "poll_oneoff_handle_fd_event os lc tgt ((ev, None) # events) w =
     poll_oneoff_handle_fd_event os lc tgt events w"
| "poll_oneoff_handle_fd_event os lc tgt ((ev, Some revents) # events) w =
     (case fionread_or_0 os ev w of (nbytes, w1) \<Rightarrow>
      case poll_oneoff_handle_fd_event os lc tgt events w1 of (out, w2) \<Rightarrow>
        (case revents_event lc ev revents nbytes of
           None \<Rightarrow> (out, w2) | Some e \<Rightarrow> (enc_event tgt e # out, w2)))"

text \<open>The events to store in the guest's output, or that no event can ever occur.\<close>

definition impl_poll_oneoff ::
  "('w, 'z) os_scheme \<Rightarrow> 'y libc_misc_scheme \<Rightarrow> target \<Rightarrow> subscription res list \<Rightarrow> 'w \<Rightarrow>
     (event32 list res \<times> 'w) option" where
  "impl_poll_oneoff os lc tgt input w =
     (let timeout = min_by_delay (List.map_filter (clock_event os w) input);
          fd_events = List.map_filter fd_event input
      in if fd_events = [] \<and> timeout = None then Some (Ok [], w)
      else
        let poll_fds = map (\<lambda>ev. (fev_fd ev, poll_flags lc ev)) fd_events;
            poll_timeout = (case timeout of None \<Rightarrow> - 1 | Some t \<Rightarrow> int (min (ce_delay t) C_INT_MAX))
        in (case poll_wait os poll_fds poll_timeout w of
              None \<Rightarrow> None
            | Some (Err e, w') \<Rightarrow> Some (Err e, w')
            | Some (Panic, w') \<Rightarrow> Some (Panic, w')
            | Some (Ok (ready, revents), w') \<Rightarrow>
                if ready = 0 then Some (Ok (poll_oneoff_handle_timeout_event tgt timeout), w')
                else (case poll_oneoff_handle_fd_event os lc tgt
                        (take ready (zip fd_events revents)) w' of
                  (out, w'') \<Rightarrow> Some (Ok out, w''))))"

text \<open>Storing the events from the start of the output; the slice has \<open>n\<close> places.\<close>

definition store_events :: "target \<Rightarrow> nat \<times> usize \<Rightarrow> event32 list \<Rightarrow> memory \<Rightarrow> memory res" where
  "store_events tgt = (\<lambda>(p, n) events mem.
     if length events \<le> n then Ok (overwrite mem p (concat (map (to_mem L_event tgt) events)))
     else Panic)"

text \<open>The first comparison of the source is of a 32-bit value with the largest 64-bit one.\<close>

definition poll_oneoff ::
  "('w, 'z) os_scheme \<Rightarrow> 'y libc_misc_scheme \<Rightarrow> target \<Rightarrow> u32 \<Rightarrow> u32 \<Rightarrow> u32 \<Rightarrow> u32 \<Rightarrow>
     'w store \<Rightarrow> (outcome \<times> 'w store) option" where
  "poll_oneoff os lc tgt input output nsubscriptions nevents s =
     (case hc_bind (hc_write (\<lambda>mem. enc_pointee L_u32 tgt mem nevents 0)) (\<lambda>_.
             hc_bind (hc_read (\<lambda>mem. dec_slice_of L_subscription tgt mem input nsubscriptions)) (\<lambda>subs.
             hc_bind (hc_read (\<lambda>mem. dec_slice_of_mut L_event tgt mem output nsubscriptions)) (\<lambda>out.
               hc_res (Ok (map (dec_subscription tgt) subs, out))))) s of
        (Err e, s1) \<Rightarrow> Some (return_enc_errno tgt e, s1)
      | (Panic, s1) \<Rightarrow> Some (Panicked, s1)
      | (Ok (subs, out), s1) \<Rightarrow>
          (case impl_poll_oneoff os lc tgt subs (st_world s1) of
             None \<Rightarrow> None
           | Some (r, w) \<Rightarrow>
               Some (hostcall tgt
                 (hc_bind (hc_res r) (\<lambda>events.
                  hc_bind (hc_write (store_events tgt out events)) (\<lambda>_.
                    hc_write (\<lambda>mem. enc_pointee L_u32 tgt mem nevents (of_nat (length events))))))
                 (s1\<lparr>st_world := w\<rparr>))))"

section \<open>Random bytes, yielding, leaving\<close>

definition random_get ::
  "('w, 'z) os_scheme \<Rightarrow> target \<Rightarrow> u32 \<Rightarrow> u32 \<Rightarrow> 'w store \<Rightarrow> outcome \<times> 'w store" where
  "random_get os tgt buf_ptr buf_len = hostcall tgt (
     hc_bind (hc_read (\<lambda>mem. dec_slice_of_mut L_u8 tgt mem buf_ptr buf_len)) (\<lambda>(p, len).
     hc_bind (hc_io (io_call (sys_fill_bytes os len))) (\<lambda>bs.
       hc_write (\<lambda>mem. Ok (overwrite mem p (take len bs))))))"

definition sched_yield ::
  "('w, 'z) os_scheme \<Rightarrow> target \<Rightarrow> 'w store \<Rightarrow> outcome \<times> 'w store" where
  "sched_yield os tgt = hostcall tgt (hc_io (io_call (\<lambda>w. ((), sys_yield os w))))"

definition proc_exit :: "target \<Rightarrow> wasi_exitcode_t \<Rightarrow> 'w store \<Rightarrow> outcome \<times> 'w store" where
  "proc_exit tgt rval s = (Exited (dec_exitcode tgt rval), s)"

text \<open>\<^verbatim>\<open>unimplemented!\<close> panics.\<close>

definition proc_raise :: "wasi_signal_t \<Rightarrow> 'w store \<Rightarrow> outcome \<times> 'w store" where
  "proc_raise sig s = (Panicked, s)"

definition sock_recv ::
  "wasi_fd_t \<Rightarrow> u32 \<Rightarrow> u32 \<Rightarrow> wasi_riflags_t \<Rightarrow> u32 \<Rightarrow> u32 \<Rightarrow> 'w store \<Rightarrow> outcome \<times> 'w store" where
  "sock_recv sock ri_data ri_data_len ri_flags ro_datalen ro_flags s = (Panicked, s)"

definition sock_send ::
  "wasi_fd_t \<Rightarrow> u32 \<Rightarrow> u32 \<Rightarrow> wasi_siflags_t \<Rightarrow> u32 \<Rightarrow> 'w store \<Rightarrow> outcome \<times> 'w store" where
  "sock_send sock si_data si_data_len si_flags so_datalen s = (Panicked, s)"

definition sock_shutdown ::
  "wasi_fd_t \<Rightarrow> wasi_sdflags_t \<Rightarrow> 'w store \<Rightarrow> outcome \<times> 'w store" where
  "sock_shutdown sock how s = (Panicked, s)"

end
