(* ===== verification/Unix_Laws.thy ===== *)
theory Unix_Laws
  imports Unix_Fs
begin

text \<open>
  The Unix functions return errors WASI defines and panic on nothing a platform documents, apart
  from names that reach \<^verbatim>\<open>PATH_MAX\<close>, for which \<^verbatim>\<open>nix\<close> returns an error without a number.  Every lemma is
  stated for both questions at once: \<open>p\<close> allows panics, and without it the platform has to be
  \<open>numbered\<close> and the names short.
\<close>

section \<open>Platforms whose errors have numbers\<close>

definition has_number :: "(nix_error + 'a) \<times> 'w \<Rightarrow> bool" where
  "has_number r \<longleftrightarrow> fst r \<noteq> Inl None"

definition numbered_calls :: "('w, 'z) os_scheme \<Rightarrow> bool" where
  "numbered_calls os \<longleftrightarrow>
     (\<forall>f w. has_number (sys_fcntl_getfl os f w)) \<and>
     (\<forall>f fl w. has_number (sys_fcntl_setfl os f fl w)) \<and>
     (\<forall>f w. has_number (sys_fstat os f w)) \<and>
     (\<forall>f g w. has_number (sys_dup2 os f g w)) \<and>
     (\<forall>f n wh w. has_number (sys_lseek os f n wh w)) \<and>
     (\<forall>f n w. has_number (sys_ftruncate os f n w))"

text \<open>
  Calls with a name have a number if the name is shorter than the platform's limit.
\<close>

definition numbered_names :: "('w, 'z) nix_os_scheme \<Rightarrow> 'y libc_stat_scheme \<Rightarrow> bool" where
  "numbered_names os lc \<longleftrightarrow> 1 < PATH_MAX lc \<and>
     (\<forall>d h fl m w. length h < PATH_MAX lc \<longrightarrow> has_number (sys_openat os d h fl m w)) \<and>
     (\<forall>d h n w. length h < PATH_MAX lc \<longrightarrow> has_number (sys_readlinkat os d h n w))"

text \<open>
  The same for all calls with a path, and what a platform documents of symbolic links: the text of a
  link is shorter than the limit, and a name with a separator after it is no link.
\<close>

definition numbered_paths :: "('w, 'z) os_scheme \<Rightarrow> 'y libc_stat_scheme \<Rightarrow> bool" where
  "numbered_paths os lc \<longleftrightarrow> numbered_names os lc \<and>
     (\<forall>d h fl w. length h < PATH_MAX lc \<longrightarrow> has_number (sys_fstatat os d h fl w)) \<and>
     (\<forall>d h n w l w'. sys_readlinkat os d h n w = (Inr l, w') \<longrightarrow>
        length l < PATH_MAX lc \<and> \<not> ends_with_slash h)"

definition numbered :: "('w, 'z) os_scheme \<Rightarrow> 'y libc_stat_scheme \<Rightarrow> bool" where
  "numbered os lc \<longleftrightarrow> numbered_calls os \<and> numbered_paths os lc"

definition short_path :: "bool \<Rightarrow> 'y libc_stat_scheme \<Rightarrow> bytes \<Rightarrow> bool" where
  "short_path p lc path \<longleftrightarrow> p \<or> length path < PATH_MAX lc"

lemma short_path_True [simp]: "short_path True lc path"
  by (simp add: short_path_def)

section \<open>Path resolution\<close>

lemma res_ok_openat:
  assumes "p \<or> numbered_names os lc" "short_path p lc h"
  shows "res_ok p (fst (openat os lc d h w))"
proof -
  have "p \<or> fst (sys_openat os d h fl m w) \<noteq> Inl None" for fl m
    using assms by (auto simp: numbered_names_def has_number_def short_path_def)
  then show ?thesis
    by (auto simp: openat_def from_nix_def split: prod.splits intro!: res_ok_nix_unwrap)
      (metis fst_conv)
qed

lemma res_ok_readlinkat:
  assumes "p \<or> numbered_names os lc" "short_path p lc h"
  shows "res_ok p (fst (readlinkat os lc d h w))"
proof -
  have "p \<or> fst (sys_readlinkat os d h n w) \<noteq> Inl None" for n
    using assms by (auto simp: numbered_names_def has_number_def short_path_def)
  moreover have "res_ok p (path_from_host s)" for s
    by (simp add: path_from_host_def path_from_slice_def)
  moreover obtain r w' where "sys_readlinkat os d h (PATH_MAX lc + 1) w = (r, w')" by force
  ultimately show ?thesis
    by (cases r rule: nix_unwrap.cases) (auto simp: readlinkat_def from_nix_def io_bind_def, metis fst_conv)
qed

text \<open>An outcome of an iteration that keeps to the rules.\<close>

definition outcome_ok :: "bool \<Rightarrow> 'y libc_stat_scheme \<Rightarrow> path_outcome \<Rightarrow> bool" where
  "outcome_ok p lc out = (case out of
     Next st \<Rightarrow> True
   | Finish r ds \<Rightarrow> res_ok p r \<and> (\<forall>d h. r = Ok (d, h) \<longrightarrow> short_path p lc h))"

lemma outcome_ok_found: "short_path p lc h \<Longrightarrow> outcome_ok p lc (found st h)"
  by (auto simp: outcome_ok_def found_def split: list.splits)

lemma outcome_ok_simps [simp]:
  "outcome_ok p lc (Next st)"
  "outcome_ok p lc (Finish (Err e) ds) = valid_err e" "outcome_ok p lc (Finish Panic ds) = p"
  by (auto simp: outcome_ok_def)

lemma outcome_ok_link [simp]: "outcome_ok p lc (expand_link st head l)"
  by (simp add: expand_link_def Let_def)

lemma outcome_ok_normal:
  assumes os: "p \<or> numbered_names os lc" and h: "short_path p lc h"
  shows "outcome_ok p lc (fst (normal_step os lc fl nf slash st h w))"
proof (cases "dir_stack st")
  case (Cons d ds)
  obtain ro w1 where o: "openat os lc d h w = (ro, w1)" by force
  obtain rl w2 where l: "readlinkat os lc d h w = (rl, w2)" by force
  obtain rm w3 where m: "readlinkat os lc d h w1 = (rm, w3)" by force
  have "res_ok p ro" "res_ok p rl" "res_ok p rm"
    using res_ok_openat [OF os h, of d w] res_ok_readlinkat [OF os h, of d w]
      res_ok_readlinkat [OF os h, of d w1] by (simp_all add: o l m)
  then show ?thesis
    using Cons o l m outcome_ok_found [OF h, of st]
    by (cases ro; cases rl; cases rm) (simp_all add: normal_step_def)
qed (simp add: normal_step_def)

lemma outcome_ok_step:
  assumes os: "p \<or> numbered_names os lc" and st: "p \<or> \<not> hands_long lc st"
  shows "outcome_ok p lc (fst (path_step os lc fl nf st w))"
proof (cases "path_stack st")
  case Nil
  then show ?thesis using os outcome_ok_found [of p lc "[DOT]" st]
    by (auto simp: path_step_def short_path_def numbered_names_def)
next
  case (Cons q ps)
  show ?thesis
  proof (cases "path_next q")
    case None
    then show ?thesis using Cons by (simp add: path_step_def path_next_def)
  next
    case (Some ht)
    obtain head tail where pn: "path_next q = Some (head, tail)" using Some by (cases ht) auto
    have pt: "res_ok p (push_tail (ends_with_slash q) tail ps)"
      by (simp add: push_tail_def path_from_host_def path_from_slice_def)
    show ?thesis
    proof (cases "push_tail (ends_with_slash q) tail ps")
      case (Ok ps')
      show ?thesis
      proof (cases head)
        case (Normal name)
        have "short_path p lc (if ends_with_slash q then name @ [SLASH] else name)"
          using st Cons pn Normal by (auto simp: hands_long_def handed_def short_path_def)
        then show ?thesis
          using Cons pn Ok Normal outcome_ok_normal [OF os]
          by (auto simp: path_step_def path_from_host_def path_from_slice_def Let_def)
      qed (use Cons pn Ok in \<open>auto simp: path_step_def Let_def split: list.splits\<close>)
    qed (use Cons pn pt in \<open>auto simp: path_step_def Let_def\<close>)
  qed
qed

lemma path_loop_ok:
  assumes "p \<or> numbered_names os lc \<and> \<not> meets os lc fl nf (hands_long lc) st w"
    and "path_loop os lc fl nf st w = (r, w')"
  shows "res_ok p r \<and> (\<forall>d h. r = Ok (d, h) \<longrightarrow> short_path p lc h)"
  using assms
proof (induction os lc fl nf st w rule: path_loop.induct)
  case (1 os lc fl nf st w)
  have step: "outcome_ok p lc (fst (path_step os lc fl nf st w))"
    using 1(2) meets.here [of "hands_long lc" st os lc fl nf w] by (intro outcome_ok_step) auto
  show ?case
  proof (cases "path_step os lc fl nf st w")
    case (Pair out w1)
    show ?thesis
    proof (cases out)
      case (Next st')
      have "p \<or> numbered_names os lc \<and> \<not> meets os lc fl nf (hands_long lc) st' w1"
        using 1(2) meets.later [OF Pair [unfolded Next]] by blast
      then show ?thesis
        using 1(1) [OF Pair [symmetric] Next] 1(3) Pair Next by (simp add: path_loop.simps [of os lc fl nf st])
    next
      case (Finish r' ds)
      then show ?thesis using 1(3) Pair step by (auto simp: outcome_ok_def path_loop.simps [of os lc fl nf st])
    qed
  qed
qed

lemma res_ok_get_fd_entry [simp]: "res_ok p (get_fd_entry ctx fd rb ri)"
  by (auto simp: get_fd_entry_def validate_rights_cases split: option.splits)

text \<open>What a resolution gives, unless this run of it hands over a name that is too long.\<close>

lemma path_get_ok:
  assumes "p \<or> numbered_names os lc \<and>
      \<not> resolution_meets os lc ctx dirfd fl path nb ni nf (hands_long lc) w"
    and "path_get os lc ctx dirfd fl path nb ni nf w = (r, w')"
  shows "res_ok p r \<and> (\<forall>d h. r = Ok (d, h) \<longrightarrow> short_path p lc h)"
proof (cases "\<exists>fe f d0 w0. 0 \<notin> set path \<and> get_fd_entry ctx dirfd nb ni = Ok fe \<and>
    fo_descriptor (fe_object fe) = File f \<and> sys_try_clone os f w = (Inr d0, w0)")
  case True
  then obtain fe f d0 w0 where c: "0 \<notin> set path" "get_fd_entry ctx dirfd nb ni = Ok fe"
      "fo_descriptor (fe_object fe) = File f" "sys_try_clone os f w = (Inr d0, w0)" by blast
  let ?st = "\<lparr>dir_stack = [d0], path_stack = [path], symlink_expansions = 0\<rparr>"
  have "p \<or> numbered_names os lc \<and> \<not> meets os lc fl nf (hands_long lc) ?st w0"
    using assms(1) c(2-4) unfolding resolution_meets_def by blast
  moreover have "path_loop os lc fl nf ?st w0 = (r, w')"
    using assms(2) c by (simp add: path_get_def from_std_or_def io_bind_def)
  ultimately show ?thesis by (rule path_loop_ok)
next
  case False
  have fe: "get_fd_entry ctx dirfd nb ni = Err e \<Longrightarrow> valid_err e" "get_fd_entry ctx dirfd nb ni = Panic \<Longrightarrow> p"
    for e by (metis res_ok_get_fd_entry res_ok_simps(2,3))+
  show ?thesis
    using assms(2) False fe
    by (auto simp: path_get_def io_bind_def from_std_or_def io_error_or_def
        split: if_splits res.splits descriptor.splits sum.splits prod.splits option.splits)
qed


text \<open>
  The guest can provoke the panic with one path: on a platform that is like the example of
  \<open>Path_Get\<close> but refuses long names the way \<^verbatim>\<open>nix\<close> does, a name of 4096 bytes panics.
\<close>

definition strict_os :: "raw_fd list os" where
  "strict_os = desk_os\<lparr>sys_readlinkat :=
     \<lambda>_ h _ w. ((if 4096 \<le> length h then Inl None else Inl (Some EINVAL)), w)\<rparr>"

lemma strict_names: "numbered_names strict_os linux_consts"
  by (simp add: numbered_names_def strict_os_def desk_os_def has_number_def linux_consts_def)

lemma long_name_panics:
  "path_get strict_os linux_consts desk_ctx 3 WASI_LOOKUP_SYMLINK_FOLLOW (replicate 4096 97) 0 0 True [] =
     (Panic, [])"
proof -
  let ?n = "replicate 4096 (97 :: u8)"
  let ?st = "\<lparr>dir_stack = [1], path_stack = [?n], symlink_expansions = 0\<rparr>"
  have "clean_name ?n" 
  proof (rule clean_ascii)
    show "?n \<noteq> [DOT]" "?n \<noteq> [DOT, DOT]"
      by (auto dest!: arg_cong [where f = length] simp del: replicate.simps replicate_Suc)
  qed (simp_all del: replicate.simps replicate_Suc)
  moreover have "readlinkat strict_os linux_consts 1 ?n w = (Panic, w)" for w
    by (simp add: readlinkat_def strict_os_def from_nix_def io_bind_def)
  ultimately have "path_step strict_os linux_consts WASI_LOOKUP_SYMLINK_FOLLOW True ?st [1] =
      (Finish Panic [1], [1])"
    using path_step_name [of ?n "[]" ?st "[]" strict_os linux_consts WASI_LOOKUP_SYMLINK_FOLLOW True "[1]"]
    by (simp add: normal_step_def wasi_const del: replicate.simps replicate_Suc)
  moreover have "sys_try_clone strict_os f w = (Inr (fresh w), fresh w # w)"
    "sys_close strict_os d w = remove1 d w" for f w d
    by (simp_all add: strict_os_def desk_os_def)
  ultimately show ?thesis
    by (simp add: path_get_def from_std_or_def io_bind_def path_loop.simps [of _ _ _ _ ?st]
        close_dirs_def del: replicate.simps replicate_Suc)
qed


section \<open>Short paths stay short\<close>

text \<open>Where links are as a platform documents them, no run from a short path meets a long name.\<close>

lemma readlinkat_link:
  assumes "numbered_paths os lc" "readlinkat os lc d h w = (Ok l, w')"
  shows "length l < PATH_MAX lc" "\<not> ends_with_slash h"
proof -
  have "sys_readlinkat os d h (PATH_MAX lc + 1) w = (Inr l, w')"
    using assms(2)
    by (auto simp: readlinkat_def io_bind_Ok_iff from_nix_def path_from_host_def path_from_slice_def
        split: prod.splits if_splits)
  then show "length l < PATH_MAX lc" "\<not> ends_with_slash h"
    using assms(1) unfolding numbered_paths_def by blast+
qed

lemma short_push_tail:
  assumes "push_tail slash tail ps = Ok ps'" "path_next q = Some (head, tail)" "head \<noteq> RootDir"
    and "list_all (\<lambda>p. length p < n) (q # ps)"
  shows "list_all (\<lambda>p. length p < n) ps'"
proof (cases "tail = []")
  case True
  then show ?thesis using assms(1,4) by (auto simp: push_tail_def)
next
  case False
  then have "length tail + 2 \<le> length q" using path_next_shorter assms(2,3) by blast
  then show ?thesis
    using assms(1,4) False by (auto simp: push_tail_def map_ok_Ok_iff path_from_host_def)
qed

lemma length_Normal:
  assumes "path_next q = Some (Normal name, tail)"
  shows "length (if ends_with_slash q then name @ [SLASH] else name) \<le> length q"
proof -
  have name: "plain_name name" "name = takeWhile (\<lambda>b. b \<noteq> SLASH) q"
    using path_next_Normal [OF assms] by (simp_all add: seg_def)
  have len: "length q = length name + length (dropWhile (\<lambda>b. b \<noteq> SLASH) q)"
    unfolding name(2) by (metis length_append takeWhile_dropWhile_id)
  have "dropWhile (\<lambda>b. b \<noteq> SLASH) q \<noteq> []" if "ends_with_slash q"
    using that name plain_name_no_slash [of q] by (metis append_Nil2 takeWhile_dropWhile_id)
  then show ?thesis using len by (auto simp: Suc_le_eq)
qed

definition short_stack :: "'y libc_stat_scheme \<Rightarrow> path_state \<Rightarrow> bool" where
  "short_stack lc st \<longleftrightarrow> list_all (\<lambda>p. length p < PATH_MAX lc) (path_stack st)"

lemma short_stack_step:
  assumes os: "numbered_paths os lc" and st: "short_stack lc st"
    and step: "path_step os lc fl nf st w = (Next st', w')"
  shows "short_stack lc st'"
  using step
proof (cases rule: path_step_NextE)
  case (cur p ps tail ps')
  then show ?thesis using short_push_tail [OF cur(3,2)] st by (simp add: short_stack_def)
next
  case (parent p ps tail ps' d ds)
  then show ?thesis using short_push_tail [OF parent(3,2)] st by (simp add: short_stack_def)
next
  case (normal p ps tail ps' name)
  have ps': "list_all (\<lambda>p. length p < PATH_MAX lc) ps'"
    using short_push_tail [OF normal(3,2)] st normal(1) by (simp add: short_stack_def)
  from normal(4) show ?thesis
  proof (cases rule: normal_step_NextE)
    case (enter d ds nd)
    then show ?thesis using ps' by (simp add: short_stack_def)
  next
    case (link d ds link w1)
    have "length link < PATH_MAX lc"
      "\<not> ends_with_slash (if ends_with_slash p then name @ [SLASH] else name)"
      using readlinkat_link [OF os link(3)] by simp_all
    then show ?thesis
      using link(4) ps' by (auto simp: expand_link_def Let_def short_stack_def split: if_splits)
  qed
qed

lemma short_stack_hands: "short_stack lc st \<Longrightarrow> \<not> hands_long lc st"
  using length_Normal
  by (fastforce simp: short_stack_def hands_long_def handed_def
      split: list.splits option.splits prod.splits component.splits)

lemma short_never_meets:
  assumes "meets os lc fl nf (hands_long lc) st w" "numbered_paths os lc"
  shows "\<not> short_stack lc st"
  using assms(1)
proof (induction rule: meets.induct)
  case (here st w)
  then show ?case using short_stack_hands by blast
next
  case (later st w st' w')
  then show ?case using short_stack_step [OF assms(2)] by blast
qed

lemma short_resolution:
  assumes "p \<or> numbered_paths os lc" "short_path p lc path"
  shows "p \<or> numbered_names os lc \<and>
      \<not> resolution_meets os lc ctx dirfd fl path nb ni nf (hands_long lc) w"
proof (cases p)
  case False
  then have os: "numbered_paths os lc" and "length path < PATH_MAX lc"
    using assms by (simp_all add: short_path_def)
  then have "short_stack lc \<lparr>dir_stack = ds, path_stack = [path], symlink_expansions = 0\<rparr>" for ds
    by (simp add: short_stack_def)
  then have "\<not> resolution_meets os lc ctx dirfd fl path nb ni nf (hands_long lc) w"
    using short_never_meets [OF _ os] unfolding resolution_meets_def by blast
  then show ?thesis using os by (simp add: numbered_paths_def)
qed simp

lemma path_get_short:
  assumes "p \<or> numbered_paths os lc" "short_path p lc path"
    and "path_get os lc ctx dirfd fl path nb ni nf w = (r, w')"
  shows "res_ok p r \<and> (\<forall>d h. r = Ok (d, h) \<longrightarrow> short_path p lc h)"
  by (rule path_get_ok [OF short_resolution [OF assms(1,2)] assms(3)])

lemma io_ok_path_get:
  assumes "p \<or> numbered_paths os lc" "short_path p lc path"
  shows "io_ok p (path_get os lc ctx dirfd fl path nb ni nf)"
  unfolding io_ok_def using path_get_short [OF assms] by (metis prod.collapse)

text \<open>A step that works on the directory and the name a path resolves to.\<close>

lemma io_ok_path_get_bind:
  assumes os: "p \<or> numbered_paths os lc" and path: "short_path p lc path"
    and f: "\<And>d h. short_path p lc h \<Longrightarrow> io_ok p (f (d, h))"
  shows "io_ok p (io_bind (path_get os lc ctx dirfd fl path nb ni nf) f)"
  unfolding io_ok_def
proof
  fix w
  obtain r w' where r: "path_get os lc ctx dirfd fl path nb ni nf w = (r, w')" by force
  then show "res_ok p (fst (io_bind (path_get os lc ctx dirfd fl path nb ni nf) f w))"
    using path_get_short [OF os path r] f by (cases r) (auto simp: io_ok_def)
qed

section \<open>The functions that do not take a path\<close>

lemma io_ok_sys: "p \<or> (\<forall>w. has_number (c w)) \<Longrightarrow> io_ok p (from_nix c)"
  by (intro io_ok_from_nix) (auto simp: has_number_def)

lemma numbered_has_number:
  assumes "p \<or> numbered_calls os"
  shows "io_ok p (from_nix (sys_fcntl_getfl os f))" "io_ok p (from_nix (sys_fcntl_setfl os f fl))"
    "io_ok p (from_nix (sys_fstat os f))" "io_ok p (from_nix (sys_dup2 os f g))"
    "io_ok p (from_nix (sys_lseek os f n wh))" "io_ok p (from_nix (sys_ftruncate os f m))"
  using assms by (auto intro!: io_ok_sys simp: numbered_calls_def)

lemma res_ok_filestat_from_nix [simp]: "res_ok p (filestat_from_nix lc st)"
  by (auto simp: filestat_from_nix_def intro!: res_ok_and_then res_ok_ok_or)

lemma res_ok_host_advice [simp]: "res_ok p (host_advice lc advice)"
  by (simp add: host_advice_def)

lemma io_ok_file_io [simp]:
  "io_ok p (impl_fd_pread os file n offset)" "io_ok p (impl_fd_pwrite os file buf offset)"
  "io_ok p (impl_fd_advise os lc fe advice offset len)"
  by (auto simp: impl_fd_pread_def impl_fd_pwrite_def impl_fd_advise_def intro!: io_ok_bind)

lemma io_ok_fd_calls:
  assumes "p \<or> numbered_calls os"
  shows "io_ok p (impl_fd_seek os fe delta wh)" "io_ok p (impl_fd_tell os fe)"
    "io_ok p (impl_fd_fdstat_get os lc fe)" "io_ok p (impl_fd_fdstat_set_flags os lc fe fdflags)"
    "io_ok p (impl_fd_filestat_get os lc' fe)" "io_ok p (impl_fd_filestat_set_size os fe size_new)"
  using numbered_has_number [OF assms]
  by (auto simp: impl_fd_seek_def impl_fd_tell_def impl_fd_fdstat_get_def
      impl_fd_fdstat_set_flags_def impl_fd_filestat_get_def impl_fd_filestat_set_size_def
      intro!: io_ok_bind io_ok_map)

text \<open>The time stamps a call asks for lie in the range \<^verbatim>\<open>nix\<close> accepts.\<close>

definition times_in_range ::
  "('w, 'z) os_scheme \<Rightarrow> 'y libc_misc_scheme \<Rightarrow> wasi_timestamp_t \<Rightarrow> wasi_timestamp_t \<Rightarrow> bool" where
  "times_in_range os lc atim mtim \<longleftrightarrow>
     nix_timespec_nanoseconds os atim \<noteq> None \<and> nix_timespec_nanoseconds os mtim \<noteq> None \<and>
     (\<forall>w res ts w' now. sys_clock_gettime os (CLOCK_REALTIME lc) w = ((res, ts), w') \<longrightarrow>
        now_ns ts = Ok now \<longrightarrow> nix_timespec_nanoseconds os now \<noteq> None)"

lemma res_ok_now_ns [simp]: "res_ok p (now_ns ts)"
  by (simp add: now_ns_def res_ok_ok_or)

lemma res_ok_unwrap: "p \<or> x \<noteq> None \<Longrightarrow> res_ok p (unwrap x)"
  by (cases x) auto

lemma mtime_or_now_ok:
  assumes "p \<or> times_in_range os lc atim mtim" "mtime_or_now os lc mtim flags w = (r, w')"
  shows "res_ok p r \<and> (\<forall>now. r = Ok now \<longrightarrow> p \<or> nix_timespec_nanoseconds os now \<noteq> None)"
proof -
  obtain res ts w1 where c: "sys_clock_gettime os (CLOCK_REALTIME lc) w = ((res, ts), w1)"
    by (metis prod.collapse)
  have "p \<or> (\<forall>now. now_ns ts = Ok now \<longrightarrow> nix_timespec_nanoseconds os now \<noteq> None)"
    using assms(1) c unfolding times_in_range_def by blast
  then show ?thesis
    using assms c
    by (auto simp: mtime_or_now_def io_bind_def io_call_def times_in_range_def split: if_splits)
qed

lemma io_ok_mtime_bind:
  assumes "p \<or> times_in_range os lc atim mtim"
    and "\<And>now. p \<or> nix_timespec_nanoseconds os now \<noteq> None \<Longrightarrow> io_ok p (f now)"
  shows "io_ok p (io_bind (mtime_or_now os lc mtim flags) f)"
  unfolding io_ok_def
proof
  fix w
  obtain r w' where r: "mtime_or_now os lc mtim flags w = (r, w')" by force
  then show "res_ok p (fst (io_bind (mtime_or_now os lc mtim flags) f w))"
    using mtime_or_now_ok [OF assms(1) r] assms(2) by (cases r) (auto simp: io_ok_def)
qed

lemma res_ok_atime_spec: "p \<or> times_in_range os lc atim mtim \<Longrightarrow> res_ok p (atime_spec os lc' atim flags)"
  by (auto simp: atime_spec_def times_in_range_def intro!: res_ok_unwrap)

lemma io_ok_fd_filestat_set_times:
  "p \<or> times_in_range os lc atim mtim \<Longrightarrow>
     io_ok p (impl_fd_filestat_set_times os lc fe atim mtim flags)"
  unfolding impl_fd_filestat_set_times_def
  by (rule io_ok_mtime_bind, assumption)
    (auto intro!: io_ok_bind res_ok_atime_spec res_ok_unwrap)

section \<open>The functions that take a path\<close>

lemma io_ok_unlink: "io_ok p (\<lambda>w. (if r w then Err (last_error os w) else Ok (f w), g w))"
  by (simp add: io_ok_def)

lemma io_ok_cstr [simp]: "io_ok p (path_cstr path)"
  by (simp add: res_ok_ok_or)

lemmas io_ok_path_intros = io_ok_with_file io_ok_bind io_ok_from_libc io_ok_cstr

lemma io_ok_path_calls:
  assumes os: "p \<or> numbered_paths os lc" and path: "short_path p lc path"
  shows "io_ok p (impl_path_create_directory os lc ctx dirfd path)"
    "io_ok p (impl_path_symlink os lc ctx dirfd rights old_path path)"
    "io_ok p (impl_path_remove_directory os lc ctx dirfd path rights)"
    "io_ok p (impl_path_unlink_file os lc ctx dirfd path rights)"
    "io_ok p (impl_path_readlink os lc ctx dirfd path rights n)"
  unfolding impl_path_create_directory_def impl_path_symlink_def impl_path_remove_directory_def
    impl_path_unlink_file_def impl_path_readlink_def
  by (rule io_ok_path_get_bind [OF os path];
      auto intro!: io_ok_path_intros simp del: io_ok_res split: prod.splits; simp add: io_ok_def)+

lemma io_ok_two_paths:
  assumes os: "p \<or> numbered_paths os lc" and paths: "short_path p lc path" "short_path p lc path'"
  shows "io_ok p (impl_path_link os lc ctx fd fd' path path' rights rights')"
    "io_ok p (impl_path_rename os lc ctx fd path rights fd' path' rights')"
  unfolding impl_path_link_def impl_path_rename_def
  by (rule io_ok_path_get_bind [OF os paths(1)];
      auto intro!: io_ok_with_file io_ok_path_get_bind [OF os paths(2)] io_ok_path_intros
        simp del: io_ok_res)+

lemma io_ok_path_filestat_get:
  assumes os: "p \<or> numbered_paths os lc" and path: "short_path p lc path"
  shows "io_ok p (impl_path_filestat_get os lc ctx dirfd dirflags path)"
proof -
  have "short_path p lc h \<Longrightarrow> io_ok p (from_nix (sys_fstatat os d h fl))" for d h fl
    using os by (intro io_ok_sys) (auto simp: numbered_paths_def short_path_def)
  then show ?thesis
    unfolding impl_path_filestat_get_def
    by (intro io_ok_path_get_bind [OF os path]) (auto intro!: io_ok_with_file io_ok_bind simp: Let_def)
qed

lemma io_ok_path_filestat_set_times:
  assumes os: "p \<or> numbered_paths os lc" and path: "short_path p lc path"
    and times: "p \<or> times_in_range os lc atim mtim"
  shows "io_ok p (impl_path_filestat_set_times os lc ctx dirfd dirflags path rights atim mtim flags)"
proof -
  have atime: "res_ok p (atime_spec os lc atim flags)"
    using times by (rule res_ok_atime_spec)
  show ?thesis
    unfolding impl_path_filestat_set_times_def
    by (intro io_ok_path_get_bind [OF os path])
      (use atime in \<open>auto simp: Let_def intro!: io_ok_with_file io_ok_mtime_bind [OF times]
         io_ok_bind res_ok_unwrap res_ok_ok_or\<close>)
qed

section \<open>Opening, renumbering and reading directories\<close>

lemma io_ok_determine_type [simp]: "io_ok p (determine_type_rights os fd)"
  unfolding determine_type_rights_def
  by (intro io_ok_bind) (auto intro!: io_ok_bind split: host_filetype.splits sock_type.splits)

lemma io_ok_fdentry_from [simp]: "io_ok p (fdentry_from os lc f)"
  unfolding fdentry_from_def determine_type_and_access_rights_def
  by (intro io_ok_on_fail io_ok_map io_ok_bind) (auto intro!: io_ok_bind)

lemma io_ok_open_entry [simp]: "io_ok p (open_entry os lc f)"
  unfolding open_entry_def
  by (intro io_ok_bind io_ok_on_fail) (auto intro!: io_ok_map)

lemma valid_open_error [simp]: "valid_err (fst (open_error os lc flags dir path err w))"
  by (auto simp: open_error_def split: option.splits sum.splits prod.splits)

lemma io_ok_path_open:
  assumes os: "p \<or> numbered_paths os lc" and path: "short_path p lc path"
  shows "io_ok p (impl_path_open os lc ctx dirfd dirflags path oflags rd wr nb ni fdflags)"
proof -
  have "io_ok p (\<lambda>w. case sys_openat os d h flags 438 w of
      (Inr new_fd, w') \<Rightarrow> open_entry os lc new_fd w'
    | (Inl err, w') \<Rightarrow> (case open_error os lc flags d h err w' of (e, w'') \<Rightarrow> (Err e, w'')))"
    for d h flags
    unfolding io_ok_def
  proof
    fix w
    obtain r w' where r: "sys_openat os d h flags 438 w = (r, w')" by force
    show "res_ok p (fst (case sys_openat os d h flags 438 w of
      (Inr new_fd, w') \<Rightarrow> open_entry os lc new_fd w'
    | (Inl err, w') \<Rightarrow> (case open_error os lc flags d h err w' of (e, w'') \<Rightarrow> (Err e, w''))))"
      using valid_open_error [of os lc flags d h] io_ok_open_entry [of p os lc] r
      by (cases r) (simp_all add: io_ok_def case_prod_beta)
  qed
  then show ?thesis
    unfolding impl_path_open_def Let_def
    by (intro io_ok_path_get_bind [OF os path]) (auto intro!: io_ok_with_file)
qed

lemma fd_renumber_ok:
  assumes "p \<or> numbered_calls os" "impl_fd_renumber os ctx from to w = ((r, ctx'), w')"
  shows "res_ok p r"
proof -
  have "res_ok p (fst (from_nix (sys_dup2 os f g) w))" for f g
    using numbered_has_number(4) [OF assms(1)] by (simp add: io_ok_def)
  then show ?thesis
    using assms(2)
    by (auto simp: impl_fd_renumber_def Let_def split: option.splits if_splits prod.splits res.splits)
      (metis fst_conv res_ok_simps(2,3))+
qed

text \<open>The entries stored fit into what is left of the buffer.\<close>

lemma dirent_from_host_Ok:
  assumes "dirent_from_host tgt h = Ok entry"
  shows "length (to_mem L_dirent tgt entry) = dirent_size"
    "\<not> big_endian tgt \<Longrightarrow> unat (d_namlen32 entry) = length (hd_name h)"
proof -
  have "length (d_pad32 entry) = 3" using assms by (auto simp: dirent_from_host_def Let_def split: if_splits)
  then show "length (to_mem L_dirent tgt entry) = dirent_size"
    by (simp add: pod_dirent.to_mem_length dirent_size_def)
  show "\<not> big_endian tgt \<Longrightarrow> unat (d_namlen32 entry) = length (hd_name h)"
    using assms
    by (auto simp: dirent_from_host_def Let_def enc_u32_def unat_of_nat split: if_splits)
qed

lemma dirent_from_host_ok [simp]: "res_ok p (dirent_from_host tgt h)"
  by (simp add: dirent_from_host_def Let_def)

lemma readdir_loop_ok:
  assumes "p \<or> \<not> big_endian tgt" "readdir_loop os tgt dir left stored w = ((r, stored'), w')"
  shows "res_ok p r \<and> length stored' \<le> length stored + left"
  using assms
proof (induction os tgt dir left stored w rule: readdir_loop.induct)
  case (1 os tgt dir left stored w)
  note run = 1(3) [unfolded readdir_loop.simps [of os tgt dir left stored w]]
  obtain res host_entry w1 where c: "sys_readdir_r os dir w = ((res, host_entry), w1)"
    by (metis prod.collapse)
  show ?case
  proof (cases "left = 0 \<or> res = -1 \<or> host_entry = None")
    case True
    then show ?thesis using run c by (auto split: if_splits)
  next
    case False
    then obtain h where h: "host_entry = Some h" by auto
    have ok: "res_ok p (dirent_from_host tgt h)" by simp
    show ?thesis
    proof (cases "dirent_from_host tgt h")
      case (Ok entry)
      let ?n = "unat (d_namlen32 entry)"
      show ?thesis
      proof (cases "dirent_size + ?n > left \<or> ?n > length (hd_name h)")
        case True
        then show ?thesis
          using run 1(2) c False h Ok dirent_from_host_Ok(2) [OF Ok]
          by (auto simp: Let_def split: if_splits)
      next
        case fits: False
        have "readdir_loop os tgt dir (left - (dirent_size + ?n))
            (stored @ to_mem L_dirent tgt entry @ take ?n (hd_name h)) w1 = ((r, stored'), w')"
          using run c False h Ok fits by (simp add: Let_def)
        then have "res_ok p r \<and> length stored' \<le>
            length (stored @ to_mem L_dirent tgt entry @ take ?n (hd_name h)) + (left - (dirent_size + ?n))"
          using 1(1) [OF _ c [symmetric] refl _ h Ok refl refl] 1(2) False fits by simp
        then show ?thesis
          using fits dirent_from_host_Ok(1) [OF Ok] by simp
      qed
    qed (use run c False h ok in auto)
  qed
qed

lemma fd_readdir_ok:
  assumes "p \<or> \<not> big_endian tgt" "impl_fd_readdir os tgt fe n cookie w = ((r, stored), w')"
  shows "res_ok p r" "length stored \<le> n" "\<And>k. r = Ok k \<Longrightarrow> k = length stored"
proof -
  show "res_ok p r" "length stored \<le> n"
    using assms(2) readdir_loop_ok [OF assms(1)]
    by (fastforce simp: impl_fd_readdir_def Let_def split: option.splits prod.splits)+
  show "k = length stored" if "r = Ok k" for k
    using assms(2) that
    by (auto simp: impl_fd_readdir_def Let_def map_ok_Ok_iff split: option.splits prod.splits)
qed

lemma open_entry_Ok:
  assumes "open_entry os lc f w = (Ok fe, w')"
  shows "fe_preopen_path fe = None" "fo_descriptor (fe_object fe) = File f"
    "\<exists>ty base inh. (ty, base, inh) \<in> set type_rights \<and> fe_rights_base fe AND NOT base = 0 \<and>
       fe_rights_inheriting fe AND NOT inh = 0"
proof -
  obtain ty base inh w1 fe0 where t: "determine_type_rights os f w = (Ok (ty, base, inh), w1)"
      and fe0: "fdentry_from os lc f w1 = (Ok fe0, w')"
      and fe: "fe = fe0\<lparr>fe_rights_base := fe_rights_base fe0 AND base,
        fe_rights_inheriting := fe_rights_inheriting fe0 AND inh\<rparr>"
    using assms by (auto simp: open_entry_def io_bind_Ok_iff io_map_Ok_iff)
  show "fe_preopen_path fe = None" using fdentry_from_Ok(2) [OF fe0] fe by simp
  show "fo_descriptor (fe_object fe) = File f"
    using fdentry_from_Ok(1) [OF fe0] fe by (metis fd_entry.select_convs(1) fd_entry.surjective
        fd_entry.update_convs(2,3) fd_object.select_convs(2))
  have "(x AND y) AND NOT y = 0" for x y :: u64 by (rule bit_word_eqI) (simp add: bit_simps)
  then show "\<exists>ty base inh. (ty, base, inh) \<in> set type_rights \<and> fe_rights_base fe AND NOT base = 0 \<and>
       fe_rights_inheriting fe AND NOT inh = 0"
    using determine_type_rights_Ok [OF t] fe by (intro exI [of _ ty] exI [of _ base] exI [of _ inh]) simp
qed

lemma path_open_Ok:
  assumes "impl_path_open os lc ctx dirfd dirflags path oflags rd wr nb ni fdflags w = (Ok fe, w')"
  shows "\<exists>f w1 w2. open_entry os lc f w1 = (Ok fe, w2)"
  using assms unfolding impl_path_open_def Let_def io_bind_Ok_iff with_file_Ok_iff split_paired_Ex
  by (elim exE conjE) (auto simp: with_file_Ok_iff split: prod.split_asm sum.split_asm)

end
