(* ===== verification/Hostcall_Laws.thy ===== *)
theory Hostcall_Laws
  imports Hostcalls_Path Hostcalls_Misc Unix_Laws
begin

text \<open>
  What every hostcall obeys: the guest's memory keeps its size, the context is left alone by all
  calls but four, the number returned is one WASI defines, and, on a platform that reports its
  errors with numbers, nothing panics.  The laws of the parts of a hostcall are proved once for
  any property of the state that only fixes the size of the memory and the context
  (\<open>store_frame\<close>); the hostcalls follow by taking their definitions apart.
\<close>

section \<open>Lawful steps\<close>

definition lawful :: "bool \<Rightarrow> ('w store \<Rightarrow> bool) \<Rightarrow> ('w, 'a) hc \<Rightarrow> bool" where
  "lawful p I m \<longleftrightarrow> (\<forall>s. I s \<longrightarrow> I (snd (m s)) \<and> res_ok p (fst (m s)))"

lemma lawful_bind:
  assumes "lawful p I m" "\<And>s x s'. I s \<Longrightarrow> m s = (Ok x, s') \<Longrightarrow> P x"
    and "\<And>x. P x \<Longrightarrow> lawful p I (f x)"
  shows "lawful p I (hc_bind m f)"
  unfolding lawful_def
proof (intro allI impI)
  fix s assume s: "I s"
  obtain r s' where m: "m s = (r, s')" by force
  then have "I s'" "res_ok p r" using assms(1) s by (auto simp: lawful_def dest: spec [of _ s])
  then show "I (snd (hc_bind m f s)) \<and> res_ok p (fst (hc_bind m f s))"
    using m assms(2) [OF s] assms(3) by (cases r) (auto simp: lawful_def)
qed

lemma lawful_then: "lawful p I m \<Longrightarrow> (\<And>x. lawful p I (f x)) \<Longrightarrow> lawful p I (hc_bind m f)"
  by (rule lawful_bind [where P = "\<lambda>_. True"]) simp_all

lemma lawful_res: "res_ok p r \<Longrightarrow> lawful p I (hc_res r)"
  by (simp add: lawful_def)

lemma lawful_ctx: "(\<And>s. I s \<Longrightarrow> res_ok p (f (st_ctx s))) \<Longrightarrow> lawful p I (hc_ctx f)"
  by (simp add: lawful_def)

lemma lawful_if:
  "(b \<Longrightarrow> lawful p I m) \<Longrightarrow> (\<not> b \<Longrightarrow> lawful p I m') \<Longrightarrow> lawful p I (if b then m else m')"
  by simp

lemma lawful_Let: "lawful p I (f e) \<Longrightarrow> lawful p I (let x = e in f x)"
  by simp

lemma lawful_case_prod: "(\<And>x y. q = (x, y) \<Longrightarrow> lawful p I (f x y)) \<Longrightarrow> lawful p I (case q of (x, y) \<Rightarrow> f x y)"
  by (cases q) simp

lemmas lawful_rules = lawful_then lawful_res lawful_if lawful_Let lawful_case_prod

text \<open>What a hostcall may return: success, an error WASI defines, or what else \<open>p\<close> allows.\<close>

definition ret_ok :: "bool \<Rightarrow> target \<Rightarrow> outcome \<Rightarrow> bool" where
  "ret_ok p tgt out = (case out of
     Ret e \<Rightarrow> dec_errno tgt e = WASI_ESUCCESS \<or> valid_err (dec_errno tgt e)
   | Panicked \<Rightarrow> p
   | Exited _ \<Rightarrow> True)"

definition obeys :: "bool \<Rightarrow> target \<Rightarrow> ('w store \<Rightarrow> bool) \<Rightarrow> ('w store \<Rightarrow> outcome \<times> 'w store) \<Rightarrow> bool" where
  "obeys p tgt I h \<longleftrightarrow> (\<forall>s. I s \<longrightarrow> I (snd (h s)) \<and> ret_ok p tgt (fst (h s)))"

lemma obeysD:
  assumes "obeys p tgt I h" "I s" "h s = (out, s')"
  shows "I s' \<and> ret_ok p tgt out"
  using assms by (auto simp: obeys_def dest: spec [of _ s])

lemma return_enc_errno_ok:
  assumes "p \<or> \<not> big_endian tgt" "e = WASI_ESUCCESS \<or> valid_err e"
  shows "ret_ok p tgt (return_enc_errno tgt e)"
proof -
  have "dec_errno tgt (enc_errno tgt e) = e" by (simp add: dec_scalar_def enc_scalar_def)
  moreover have "strerror e \<noteq> Panic"
    using assms(2) by (auto simp: strerror_Panic_iff valid_err_def wasi_const)
  ultimately show ?thesis
    using assms by (auto simp: ret_ok_def return_enc_errno_def Let_def enc_scalar_def)
qed

lemma obeys_hostcall:
  assumes "p \<or> \<not> big_endian tgt" "lawful p I m"
  shows "obeys p tgt I (hostcall tgt m)"
  unfolding obeys_def
proof (intro allI impI)
  fix s assume s: "I s"
  obtain r s' where m: "m s = (r, s')" by force
  then have "I s'" "res_ok p r" using assms(2) s by (auto simp: lawful_def dest: spec [of _ s])
  then show "I (snd (hostcall tgt m s)) \<and> ret_ok p tgt (fst (hostcall tgt m s))"
    using m return_enc_errno_ok [OF assms(1)]
    by (cases r) (auto simp: hostcall_def ret_ok_def)
qed

section \<open>Properties that fix the size of the memory\<close>

locale store_frame =
  fixes I :: "'w store \<Rightarrow> bool" and n :: nat
  assumes frame_len: "I s \<Longrightarrow> length (st_mem s) = n"
    and frame_world: "I s \<Longrightarrow> I (s\<lparr>st_world := w\<rparr>)"
    and frame_mem: "I s \<Longrightarrow> length mem = n \<Longrightarrow> I (s\<lparr>st_mem := mem\<rparr>)"
begin

lemma lawful_read: "(\<And>mem. length mem = n \<Longrightarrow> res_ok p (f mem)) \<Longrightarrow> lawful p I (hc_read f)"
  by (simp add: lawful_def frame_len)

lemma lawful_io: "io_ok p m \<Longrightarrow> lawful p I (hc_io m)"
  by (auto simp: lawful_def hc_io_def io_ok_def frame_world split: prod.splits) (metis fst_conv)

lemma lawful_with_ctx: "(\<And>ctx. io_ok p (f ctx)) \<Longrightarrow> lawful p I (hc_with_ctx f)"
  using lawful_io unfolding lawful_def hc_with_ctx_def by blast

lemma lawful_write:
  assumes "\<And>mem. length mem = n \<Longrightarrow> res_ok p (f mem)"
    and "\<And>mem mem'. length mem = n \<Longrightarrow> f mem = Ok mem' \<Longrightarrow> length mem' = n"
  shows "lawful p I (hc_write f)"
  unfolding lawful_def
proof (intro allI impI)
  fix s assume s: "I s"
  then have n: "length (st_mem s) = n" by (rule frame_len)
  then show "I (snd (hc_write f s)) \<and> res_ok p (fst (hc_write f s))"
    using assms(1) [OF n] assms(2) [OF n] s
    by (cases "f (st_mem s)") (auto simp: hc_write_def intro: frame_mem)
qed

lemma lawful_dec_path: "supported tgt \<Longrightarrow> lawful p I (dec_path tgt ptr len)"
  unfolding dec_path_def
  by (rule lawful_read) (auto simp: dec_slice_of_u8 path_from_slice_def intro!: res_ok_and_then)

end

text \<open>The memory has \<open>n\<close> bytes and the context satisfies \<open>Q\<close>.\<close>

definition frame :: "nat \<Rightarrow> (wasi_ctx \<Rightarrow> bool) \<Rightarrow> 'w store \<Rightarrow> bool" where
  "frame n Q s \<longleftrightarrow> length (st_mem s) = n \<and> Q (st_ctx s)"

interpretation fr: store_frame "frame n Q" n for n Q
  by unfold_locales (simp_all add: frame_def)

section \<open>Reading and writing the guest's memory\<close>

lemma res_ok_enc_pointee [simp]: "res_ok p (enc_pointee L tgt mem ptr x)"
  by (simp add: enc_pointee_eq)

lemma res_ok_dec_pointee [simp]: "res_ok p (dec_pointee L tgt mem ptr)"
  by (simp add: dec_pointee_eq)

lemma res_ok_enc_usize_byref: "p \<or> x < 2 ^ 32 \<Longrightarrow> res_ok p (enc_usize_byref tgt mem ptr x)"
  by (auto simp: enc_usize_byref_def enc_usize_cases intro!: res_ok_and_then)

lemma enc_usize_byref_length:
  "enc_usize_byref tgt mem ptr x = Ok mem' \<Longrightarrow> length mem' = length mem"
  by (auto simp: enc_usize_byref_def and_then_Ok_iff dest: pod_u32.enc_length [OF TrueI])

lemma enc_scalar_byref_length:
  "enc_scalar_byref L_u32 tgt mem ptr x = Ok mem' \<Longrightarrow> length mem' = length mem"
  "enc_scalar_byref L_u64 tgt mem ptr y = Ok mem' \<Longrightarrow> length mem' = length mem"
  by (auto simp: enc_scalar_byref_def dest: pod_u32.enc_length [OF TrueI] pod_u64.enc_length [OF TrueI])

lemma res_ok_enc_scalar_byref [simp]: "res_ok p (enc_scalar_byref L tgt mem ptr x)"
  by (simp add: enc_scalar_byref_def)

lemma enc_slice_u8_length:
  "enc_slice_of L_u8 tgt mem bs ptr = Ok mem' \<Longrightarrow> length mem' = length mem"
  by (auto simp: enc_slice_of_u8 in_bounds_def split: if_splits)

lemma res_ok_enc_slice_of [simp]: "res_ok p (enc_slice_of L tgt mem xs ptr)"
  by (auto simp: enc_slice_of_def dec_ptr_mut_eq dec_ptr_eq split: option.splits)

lemma res_ok_dec_slice_of [simp]: "supported tgt \<Longrightarrow> res_ok p (dec_slice_of L tgt mem ptr len)"
  by (auto simp: dec_slice_of_def check_slice_of_def dec_ptr_eq intro!: res_ok_and_then
      split: option.splits)

lemma res_ok_dec_slice_of_mut [simp]:
  "supported tgt \<Longrightarrow> res_ok p (dec_slice_of_mut L tgt mem ptr len)"
  by (auto simp: dec_slice_of_mut_def check_slice_of_def dec_ptr_mut_eq dec_ptr_eq
      intro!: res_ok_and_then split: option.splits)

lemma res_ok_dec_iovec_slice [simp]:
  "supported tgt \<Longrightarrow> res_ok p (dec_iovec_slice tgt mem ptr len)"
  by (auto simp: dec_iovec_slice_def dec_iovec_cases intro!: res_ok_and_then res_ok_collect)

text \<open>The buffers of a request lie in memory of size \<open>n\<close>.\<close>

definition iovs_in :: "nat \<Rightarrow> iovec list \<Rightarrow> bool" where
  "iovs_in n iovs \<longleftrightarrow> 8 * length iovs \<le> n \<and> list_all (\<lambda>v. iov_buf v + iov_buf_len v \<le> n) iovs"

lemma dec_iovec_slice_in:
  assumes "dec_iovec_slice tgt mem ptr len = Ok iovs"
  shows "iovs_in (length mem) iovs"
proof -
  obtain vs where vs: "dec_slice_of L_iovec tgt mem ptr len = Ok vs"
      "collect_res (dec_iovec tgt mem) vs = Ok iovs"
    using assms by (auto simp: dec_iovec_slice_def and_then_Ok_iff)
  have "8 * length vs \<le> length mem"
    using vs(1)
    by (auto simp: dec_slice_of_def check_slice_of_def and_then_Ok_iff map_ok_Ok_iff dec_ptr_eq
        slice_elems_def in_bounds_def usize_checked_mul_def L_iovec_def split: if_splits option.splits)
  moreover have "list_all (\<lambda>v. iov_buf v + iov_buf_len v \<le> length mem) iovs"
    using vs(2) unfolding collect_res_Ok_iff
    by (induction rule: list_all2_induct) (auto dest: dec_iovec_in_bounds)
  ultimately show ?thesis
    using collect_res_length [OF vs(2)] by (simp add: iovs_in_def)
qed

lemma scatter_length:
  "list_all (\<lambda>v. iov_buf v + iov_buf_len v \<le> length mem) iovs \<Longrightarrow>
     length (scatter iovs data mem) = length mem"
proof (induction iovs data mem rule: scatter.induct)
  case (2 v vs data mem)
  then show ?case by (auto simp: Let_def)
qed simp

section \<open>When nothing panics\<close>

text \<open>One call of the platform moves less than four gigabytes.\<close>

definition bounded_io :: "('w, 'z) os_scheme \<Rightarrow> bool" where
  "bounded_io os \<longleftrightarrow>
     (\<forall>f n off w bs w'. sys_read_at os f n off w = (Inr bs, w') \<longrightarrow> length bs < 2 ^ 32) \<and>
     (\<forall>f ns w bs w'. sys_read_vectored os f ns w = (Inr bs, w') \<longrightarrow> length bs < 2 ^ 32) \<and>
     (\<forall>ns w bs w'. sys_stdin_read_vectored os ns w = (Inr bs, w') \<longrightarrow> length bs < 2 ^ 32) \<and>
     (\<forall>f bs off w k w'. sys_write_at os f bs off w = (Inr k, w') \<longrightarrow> k < 2 ^ 32) \<and>
     (\<forall>f bufs w k w'. sys_write_vectored os f bufs w = (Inr k, w') \<longrightarrow> k < 2 ^ 32) \<and>
     (\<forall>bufs w k w'. sys_stdout_write_vectored os bufs w = (Inr k, w') \<longrightarrow> k < 2 ^ 32) \<and>
     (\<forall>bufs w k w'. sys_stderr_write_vectored os bufs w = (Inr k, w') \<longrightarrow> k < 2 ^ 32)"

lemma bounded_ioD:
  assumes "bounded_io os"
  shows "sys_read_at os f k off w = (Inr bs, w') \<Longrightarrow> length bs < 2 ^ 32"
    "sys_read_vectored os f ns w = (Inr bs, w') \<Longrightarrow> length bs < 2 ^ 32"
    "sys_stdin_read_vectored os ns w = (Inr bs, w') \<Longrightarrow> length bs < 2 ^ 32"
    "sys_write_at os f bs off w = (Inr k, w') \<Longrightarrow> k < 2 ^ 32"
    "sys_write_vectored os f bufs w = (Inr k, w') \<Longrightarrow> k < 2 ^ 32"
    "sys_stdout_write_vectored os bufs w = (Inr k, w') \<Longrightarrow> k < 2 ^ 32"
    "sys_stderr_write_vectored os bufs w = (Inr k, w') \<Longrightarrow> k < 2 ^ 32"
proof -
  note b = assms [unfolded bounded_io_def]
  show "sys_read_at os f k off w = (Inr bs, w') \<Longrightarrow> length bs < 2 ^ 32" using b by metis
  show "sys_read_vectored os f ns w = (Inr bs, w') \<Longrightarrow> length bs < 2 ^ 32" using b by metis
  show "sys_stdin_read_vectored os ns w = (Inr bs, w') \<Longrightarrow> length bs < 2 ^ 32" using b by metis
  show "sys_write_at os f bs off w = (Inr k, w') \<Longrightarrow> k < 2 ^ 32" using b by metis
  show "sys_write_vectored os f bufs w = (Inr k, w') \<Longrightarrow> k < 2 ^ 32" using b by metis
  show "sys_stdout_write_vectored os bufs w = (Inr k, w') \<Longrightarrow> k < 2 ^ 32" using b by metis
  show "sys_stderr_write_vectored os bufs w = (Inr k, w') \<Longrightarrow> k < 2 ^ 32" using b by metis
qed

text \<open>The strings of a context can be counted in 32 bits.\<close>

definition small_ctx :: "wasi_ctx \<Rightarrow> bool" where
  "small_ctx ctx \<longleftrightarrow> sum_list (map (\<lambda>a. length (with_nul a)) (args ctx)) < 2 ^ 32 \<and>
     length (env ctx) < 2 ^ 32 \<and>
     (\<forall>fd fe path. hm_get (fds ctx) fd = Some fe \<longrightarrow> fe_preopen_path fe = Some path \<longrightarrow>
        length path < 2 ^ 32)"

definition quiet ::
  "bool \<Rightarrow> ('w, 'z) os_scheme \<Rightarrow> 'y libc_stat_scheme \<Rightarrow> target \<Rightarrow> nat \<Rightarrow> (wasi_ctx \<Rightarrow> bool) \<Rightarrow> bool" where
  "quiet p os lc tgt n Q \<longleftrightarrow> supported tgt \<and>
     (p \<or> numbered os lc \<and> bounded_io os \<and> \<not> big_endian tgt \<and> \<not> trace_enabled tgt \<and>
       usize_bits tgt = 64 \<and> n < 2 ^ 32 \<and> (\<forall>ctx. Q ctx \<longrightarrow> small_ctx ctx))"

lemma quietD:
  assumes "quiet p os lc tgt n Q"
  shows "supported tgt" "p \<or> \<not> big_endian tgt" "p \<or> numbered_paths os lc" "p \<or> numbered_calls os"
    "p \<or> bounded_io os" "p \<or> \<not> trace_enabled tgt" "p \<or> usize_bits tgt = 64" "p \<or> n < 2 ^ 32"
    "Q ctx \<Longrightarrow> p \<or> small_ctx ctx"
  using assms by (auto simp: quiet_def numbered_def)

section \<open>Steps that end in a write\<close>

lemma lawful_enc_usize:
  "p \<or> x < 2 ^ 32 \<Longrightarrow> lawful p (frame n Q) (hc_write (\<lambda>mem. enc_usize_byref tgt mem ptr x))"
  by (intro fr.lawful_write) (auto intro: res_ok_enc_usize_byref dest: enc_usize_byref_length)

lemma lawful_enc_u64:
  "lawful p (frame n Q) (hc_write (\<lambda>mem. enc_scalar_byref L_u64 tgt mem ptr x))"
  by (intro fr.lawful_write) (auto dest: enc_scalar_byref_length)

lemma lawful_enc_u32:
  "lawful p (frame n Q) (hc_write (\<lambda>mem. enc_scalar_byref L_u32 tgt mem ptr x))"
  by (intro fr.lawful_write) (auto dest: enc_scalar_byref_length)

lemma lawful_enc_pointee:
  "length (to_mem L tgt x) = size_of L \<Longrightarrow>
     lawful p (frame n Q) (hc_write (\<lambda>mem. enc_pointee L tgt mem ptr x))"
  by (intro fr.lawful_write) (auto simp: enc_pointee_eq in_bounds_def split: if_splits)

lemma lawful_enc_fdstat:
  "lawful p (frame n Q) (hc_write (\<lambda>mem. enc_fdstat_byref tgt mem ptr fdstat))"
  unfolding enc_fdstat_byref_def by (intro lawful_enc_pointee) (simp add: pod_fdstat.to_mem_length)

lemma lawful_enc_filestat:
  "lawful p (frame n Q) (hc_write (\<lambda>mem. enc_filestat_byref tgt mem ptr fs))"
  unfolding enc_filestat_byref_def by (intro lawful_enc_pointee) (simp add: pod_filestat.to_mem_length)

lemma lawful_scatter:
  "iovs_in n iovs \<Longrightarrow> lawful p (frame n Q) (hc_write (\<lambda>mem. Ok (scatter iovs data mem)))"
  by (intro fr.lawful_write) (auto simp: scatter_length iovs_in_def)

lemma lawful_iovs:
  assumes "supported tgt" "\<And>iovs. iovs_in n iovs \<Longrightarrow> lawful p (frame n Q) (f iovs)"
  shows "lawful p (frame n Q) (hc_bind (hc_read (\<lambda>mem. dec_iovec_slice tgt mem ptr len)) f)"
  by (rule lawful_bind [where P = "iovs_in n"])
    (use assms in \<open>auto intro!: fr.lawful_read dest: dec_iovec_slice_in simp: frame_def\<close>)

lemma lawful_entry: "lawful p I (hc_entry fd rb ri)" "lawful p I (hc_entry_mut fd rb ri)"
  by (simp_all add: hc_entry_def hc_entry_mut_def lawful_ctx get_fd_entry_mut_eq)

lemma res_ok_entry_file [simp]: "res_ok p (entry_file fe)"
  by (simp add: entry_file_def split: descriptor.splits)

lemma res_ok_any_fd_entry [simp]: "res_ok p (any_fd_entry ctx fd)"
  by (cases "hm_get (fds ctx) fd") (simp_all add: any_fd_entry_def)

lemma res_ok_ok_or' [simp]: "valid_err e \<Longrightarrow> res_ok p (ok_or x e)"
  by (rule res_ok_ok_or)

lemmas lawful_intros = lawful_rules fr.lawful_io fr.lawful_with_ctx fr.lawful_dec_path
  lawful_enc_usize lawful_enc_u64 lawful_enc_u32 lawful_enc_fdstat lawful_enc_filestat lawful_entry
  lawful_ctx

section \<open>Hostcalls on descriptors\<close>

lemma res_ok_whence: "p \<or> \<not> trace_enabled tgt \<Longrightarrow>
    res_ok p (if trace_enabled tgt then whence_to_str wh else Ok [])"
  by (auto simp: whence_to_str_def)

lemma obeys_fd_sync:
  assumes q: "quiet p os lc tgt n Q"
  shows "obeys p tgt (frame n Q) (fd_datasync os tgt fd)"
    "obeys p tgt (frame n Q) (fd_sync os tgt fd)"
    "obeys p tgt (frame n Q) (fd_allocate os tgt fd offset len)"
    "obeys p tgt (frame n Q) (fd_advise os lc' tgt fd offset len advice)"
  unfolding fd_datasync_def fd_sync_def fd_allocate_def fd_advise_def
  by (rule obeys_hostcall [OF quietD(2) [OF q]]; intro lawful_intros; simp)+

lemma obeys_fd_seek:
  assumes q: "quiet p os lc tgt n Q"
  shows "obeys p tgt (frame n Q) (fd_seek os tgt fd offset wh ptr)"
    "obeys p tgt (frame n Q) (fd_tell os tgt fd ptr)"
  unfolding fd_seek_def fd_tell_def
  by (rule obeys_hostcall [OF quietD(2) [OF q]]; intro lawful_intros;
      simp add: io_ok_fd_calls [OF quietD(4) [OF q]] res_ok_whence [OF quietD(6) [OF q]])+

lemma obeys_fdstat:
  assumes q: "quiet p os lc tgt n Q"
  shows "obeys p tgt (frame n Q) (fd_fdstat_set_flags os lc tgt fd fdflags)"
    "obeys p tgt (frame n Q) (fd_filestat_get os lc tgt fd ptr)"
    "obeys p tgt (frame n Q) (fd_filestat_set_size os tgt fd size_new)"
  unfolding fd_fdstat_set_flags_def fd_filestat_get_def fd_filestat_set_size_def
  by (rule obeys_hostcall [OF quietD(2) [OF q]]; intro lawful_intros;
      simp add: io_ok_fd_calls [OF quietD(4) [OF q]])+

text \<open>The status is written back even for an unknown descriptor.\<close>

lemma lawful_case_option:
  "(\<And>y. x = Some y \<Longrightarrow> lawful p I (f y)) \<Longrightarrow> (x = None \<Longrightarrow> lawful p I m) \<Longrightarrow>
     lawful p I (case x of None \<Rightarrow> m | Some y \<Rightarrow> f y)"
  by (cases x) simp_all

lemma obeys_fdstat_get:
  assumes q: "quiet p os lc tgt n Q"
  shows "obeys p tgt (frame n Q) (fd_fdstat_get os lc tgt fd ptr)"
  unfolding fd_fdstat_get_def
  by (rule obeys_hostcall [OF quietD(2) [OF q]]; intro lawful_intros fr.lawful_read lawful_case_option;
      simp add: io_ok_fd_calls [OF quietD(4) [OF q]] dec_fdstat_byref_def)

lemma obeys_fd_filestat_set_times:
  assumes q: "quiet p os lc tgt n Q"
    and times: "p \<or> times_in_range os lc' (dec_timestamp tgt atim) (dec_timestamp tgt mtim)"
  shows "obeys p tgt (frame n Q) (fd_filestat_set_times os lc' tgt fd atim mtim flags)"
  unfolding fd_filestat_set_times_def
  by (rule obeys_hostcall [OF quietD(2) [OF q]]; intro lawful_intros;
      simp add: io_ok_fd_filestat_set_times [OF times])

section \<open>Reading and writing\<close>

lemma lawful_data_end:
  assumes "iovs_in n iovs" "p \<or> length data < 2 ^ 32"
  shows "lawful p (frame n Q) (hc_bind (hc_write (\<lambda>mem. Ok (scatter iovs data mem)))
    (\<lambda>_. hc_write (\<lambda>mem. enc_usize_byref tgt mem ptr (length data))))"
  using assms by (intro lawful_then lawful_scatter lawful_enc_usize)

text \<open>A platform call whose result can be counted in 32 bits.\<close>

lemma lawful_counted_io:
  assumes "\<And>x. P x \<Longrightarrow> lawful p (frame n Q) (f x)" "io_ok p m" "\<And>w x w'. m w = (Ok x, w') \<Longrightarrow> P x"
  shows "lawful p (frame n Q) (hc_bind (hc_io m) f)"
proof (rule lawful_bind [where P = P])
  show "lawful p (frame n Q) (hc_io m)" by (rule fr.lawful_io [OF assms(2)])
  show "\<And>s x s'. frame n Q s \<Longrightarrow> hc_io m s = (Ok x, s') \<Longrightarrow> P x"
    using assms(3) by (auto simp: hc_io_def split: prod.splits)
qed (rule assms(1))

lemma from_std_or_Ok: "from_std_or os e c w = (Ok x, w') \<longleftrightarrow> c w = (Inr x, w')"
  by (auto simp: from_std_or_def split: prod.splits sum.splits)

lemma res_ok_alloc:
  assumes "p \<or> usize_bits tgt = 64" "p \<or> n < 2 ^ 32" "iovs_in n iovs"
  shows "res_ok p (and_then (usize_sum tgt (map iov_buf_len iovs)) (vec_alloc tgt))"
proof (cases p)
  case True
  then show ?thesis by (auto simp: usize_sum_def vec_alloc_def)
next
  case False
  have "list_all (\<lambda>v. iov_buf_len v \<le> n) iovs"
    using assms(3) by (auto simp: iovs_in_def list_all_iff)
  then have "sum_list (map iov_buf_len iovs) \<le> length iovs * n"
    by (induction iovs) auto
  also have "\<dots> < 2 ^ 29 * 2 ^ 32"
    using False assms by (intro mult_strict_mono) (auto simp: iovs_in_def)
  finally show ?thesis
    using False assms(1) by (simp add: usize_sum_def vec_alloc_def)
qed

lemma lawful_pread_data:
  assumes q: "quiet p os lc tgt n Q" and iovs: "iovs_in n iovs"
  shows "lawful p (frame n Q) (hc_bind (hc_io (impl_fd_pread os file k off)) (\<lambda>data.
    let data = take k data in
    hc_bind (hc_write (\<lambda>mem. Ok (scatter iovs data mem)))
      (\<lambda>_. hc_write (\<lambda>mem. enc_usize_byref tgt mem ptr (length data)))))"
  unfolding Let_def
proof (rule lawful_counted_io [where P = "\<lambda>x. p \<or> length x < 2 ^ 32"])
  show "p \<or> length x < 2 ^ 32" if "impl_fd_pread os file k off w = (Ok x, w')" for w x w'
    using quietD(5) [OF q] that bounded_ioD(1) by (fastforce simp: impl_fd_pread_def from_std_or_Ok)
qed (rule lawful_data_end [OF iovs], auto)

lemma obeys_fd_pread:
  assumes q: "quiet p os lc tgt n Q"
  shows "obeys p tgt (frame n Q) (fd_pread os tgt fd iovs_ptr iovs_len offset nread)"
  unfolding fd_pread_def
  by (rule obeys_hostcall [OF quietD(2) [OF q]], rule lawful_iovs [OF quietD(1) [OF q]],
      (rule lawful_pread_data [OF q] lawful_then lawful_entry lawful_if lawful_Let lawful_res |
        assumption | simp add: res_ok_alloc [OF quietD(7,8) [OF q]])+)

text \<open>What the platform says it has written is stored for the guest.\<close>

lemma lawful_nwritten:
  assumes "p \<or> (\<forall>w k w'. m w = (Ok k, w') \<longrightarrow> k < 2 ^ 32)" "io_ok p m"
  shows "lawful p (frame n Q) (hc_bind (hc_io m) (\<lambda>k. hc_write (\<lambda>mem. enc_usize_byref tgt mem ptr k)))"
  by (rule lawful_counted_io [where P = "\<lambda>k. p \<or> k < 2 ^ 32"]) (use assms in \<open>auto intro: lawful_enc_usize\<close>)

lemma obeys_fd_pwrite:
  assumes q: "quiet p os lc tgt n Q"
  shows "obeys p tgt (frame n Q) (fd_pwrite os tgt fd iovs_ptr iovs_len offset nwritten)"
proof -
  have m: "p \<or> (\<forall>w k w'. impl_fd_pwrite os f buf off w = (Ok k, w') \<longrightarrow> k < 2 ^ 32)" for f buf off
    using quietD(5) [OF q] bounded_ioD(4) by (fastforce simp: impl_fd_pwrite_def from_std_or_Ok)
  show ?thesis
    unfolding fd_pwrite_def
    by (rule obeys_hostcall [OF quietD(2) [OF q]], rule lawful_iovs [OF quietD(1) [OF q]],
        (rule lawful_nwritten [OF m] lawful_then lawful_entry lawful_if lawful_Let fr.lawful_read
          lawful_res | simp add: res_ok_alloc [OF quietD(7,8) [OF q]])+)
qed

lemma lawful_case_descriptor:
  "(\<And>f. lawful p I (mf f)) \<Longrightarrow> lawful p I m0 \<Longrightarrow> lawful p I m1 \<Longrightarrow> lawful p I m2 \<Longrightarrow>
     lawful p I (case d of File f \<Rightarrow> mf f | Stdin \<Rightarrow> m0 | Stdout \<Rightarrow> m1 | Stderr \<Rightarrow> m2)"
  by (cases d) simp_all

lemma hc_io_Ok: "hc_io m s = (Ok x, s') \<Longrightarrow> \<exists>w w'. m w = (Ok x, w')"
  by (auto simp: hc_io_def split: prod.splits)

lemma obeys_fd_read:
  assumes q: "quiet p os lc tgt n Q"
  shows "obeys p tgt (frame n Q) (fd_read os tgt fd iovs_ptr iovs_len nread)"
proof -
  have io: "lawful p (frame n Q) (hc_bind (case d of
       File f \<Rightarrow> hc_io (from_std os (sys_read_vectored os f lens))
     | Stdin \<Rightarrow> hc_io (from_std os (sys_stdin_read_vectored os lens))
     | Stdout \<Rightarrow> hc_res (Err WASI_EBADF) | Stderr \<Rightarrow> hc_res (Err WASI_EBADF)) (\<lambda>data.
     let data = take (sum_list lens) data in
     hc_bind (hc_write (\<lambda>mem. Ok (scatter iovs data mem))) (\<lambda>_.
       hc_write (\<lambda>mem. enc_usize_byref tgt mem nread (length data)))))"
    if iovs: "iovs_in n iovs" for d lens iovs
  proof (rule lawful_bind [where P = "\<lambda>x. p \<or> length x < 2 ^ 32"])
    fix s s' :: "'a store" and x
    assume "(case d of
       File f \<Rightarrow> hc_io (from_std os (sys_read_vectored os f lens))
     | Stdin \<Rightarrow> hc_io (from_std os (sys_stdin_read_vectored os lens))
     | Stdout \<Rightarrow> hc_res (Err WASI_EBADF) | Stderr \<Rightarrow> hc_res (Err WASI_EBADF)) s = (Ok x, s')"
    then show "p \<or> length x < 2 ^ 32"
      using quietD(5) [OF q] bounded_ioD
      by (cases d) (fastforce simp: from_std_or_Ok dest!: hc_io_Ok)+
  next
    show "lawful p (frame n Q) (let data = take (sum_list lens) x in
        hc_bind (hc_write (\<lambda>mem. Ok (scatter iovs data mem))) (\<lambda>_.
          hc_write (\<lambda>mem. enc_usize_byref tgt mem nread (length data))))"
      if "p \<or> length x < 2 ^ 32" for x
      unfolding Let_def using that by (intro lawful_data_end [OF iovs]) auto
  qed (auto intro!: lawful_case_descriptor fr.lawful_io lawful_res)
  show ?thesis
    unfolding fd_read_def
    by (rule obeys_hostcall [OF quietD(2) [OF q]], rule lawful_iovs [OF quietD(1) [OF q]],
        rule lawful_then [OF lawful_entry(2)], rule lawful_Let, rule io)
qed

lemma obeys_fd_write:
  assumes q: "quiet p os lc tgt n Q"
  shows "obeys p tgt (frame n Q) (fd_write os tgt fd iovs_ptr iovs_len nwritten)"
proof -
  have io: "lawful p (frame n Q) (hc_bind (case d of
       File f \<Rightarrow> hc_io (from_std os (sys_write_vectored os f bufs))
     | Stdin \<Rightarrow> hc_res (Err WASI_EBADF)
     | Stdout \<Rightarrow> hc_io (from_std os (sys_stdout_write_vectored os bufs))
     | Stderr \<Rightarrow> hc_io (from_std os (sys_stderr_write_vectored os bufs))) (\<lambda>host_nwritten.
       hc_write (\<lambda>mem. enc_usize_byref tgt mem nwritten host_nwritten)))" for d bufs
  proof (rule lawful_bind [where P = "\<lambda>x. p \<or> x < 2 ^ 32"])
    fix s s' :: "'a store" and x
    assume "(case d of
       File f \<Rightarrow> hc_io (from_std os (sys_write_vectored os f bufs))
     | Stdin \<Rightarrow> hc_res (Err WASI_EBADF)
     | Stdout \<Rightarrow> hc_io (from_std os (sys_stdout_write_vectored os bufs))
     | Stderr \<Rightarrow> hc_io (from_std os (sys_stderr_write_vectored os bufs))) s = (Ok x, s')"
    then show "p \<or> x < 2 ^ 32"
      using quietD(5) [OF q] bounded_ioD
      by (cases d) (fastforce simp: from_std_or_Ok dest!: hc_io_Ok)+
  qed (auto intro!: lawful_case_descriptor fr.lawful_io lawful_res lawful_enc_usize)
  show ?thesis
    unfolding fd_write_def
    by (rule obeys_hostcall [OF quietD(2) [OF q]], rule lawful_iovs [OF quietD(1) [OF q]],
        rule lawful_then [OF lawful_entry(2)], rule lawful_then [OF fr.lawful_read], simp, rule io)
qed

end
