(* ===== verification/Path_Laws.thy ===== *)
theory Path_Laws
  imports Hostcall_Laws
begin

text \<open>
  The laws of the hostcalls that take a path, read a directory or change the table of descriptors.
  The four that change the table are stated for any property of the context that their changes
  keep (\<open>table_inv\<close>).
\<close>

section \<open>Paths from the guest\<close>

lemma lawful_path:
  assumes q: "quiet p os lc tgt n Q" and len: "p \<or> unat len < PATH_MAX lc"
    and f: "\<And>path. short_path p lc path \<Longrightarrow> lawful p (frame n Q) (f path)"
  shows "lawful p (frame n Q) (hc_bind (dec_path tgt ptr len) f)"
proof (rule lawful_bind [where P = "short_path p lc"])
  show "lawful p (frame n Q) (dec_path tgt ptr len)"
    by (rule fr.lawful_dec_path [OF quietD(1) [OF q]])
  fix s s' and path
  assume "dec_path tgt ptr len s = (Ok path, s')"
  then have "length path = unat (from_le tgt len)"
    using quietD(1) [OF q]
    by (auto simp: dec_path_def and_then_Ok_iff dec_slice_of_u8 in_bounds_def split: if_splits)
  then show "short_path p lc path"
    using len quietD(2) [OF q] by (auto simp: short_path_def)
qed (rule f)

lemma obeys_path_tree:
  assumes q: "quiet p os lc tgt n Q" and len: "p \<or> unat path_len < PATH_MAX lc"
  shows "obeys p tgt (frame n Q) (path_create_directory os lc tgt dirfd path_ptr path_len)"
    "obeys p tgt (frame n Q) (path_unlink_file os lc tgt dirfd path_ptr path_len)"
    "obeys p tgt (frame n Q) (path_remove_directory os lc tgt dirfd path_ptr path_len)"
    "obeys p tgt (frame n Q) (path_filestat_get os lc tgt dirfd dirflags path_ptr path_len ptr)"
  unfolding path_create_directory_def path_unlink_file_def path_remove_directory_def
    path_filestat_get_def
  by (rule obeys_hostcall [OF quietD(2) [OF q]], rule lawful_path [OF q len], intro lawful_intros;
      simp add: io_ok_path_calls [OF quietD(3) [OF q]] io_ok_path_filestat_get [OF quietD(3) [OF q]])+

lemma obeys_path_filestat_set_times:
  assumes q: "quiet p os lc tgt n Q" and len: "p \<or> unat path_len < PATH_MAX lc"
    and times: "p \<or> times_in_range os lc' (dec_timestamp tgt atim) (dec_timestamp tgt mtim)"
    and lc': "p \<or> numbered_paths os lc'" "PATH_MAX lc' = PATH_MAX lc"
  shows "obeys p tgt (frame n Q)
    (path_filestat_set_times os lc' tgt dirfd dirflags path_ptr path_len atim mtim flags)"
  unfolding path_filestat_set_times_def
  using io_ok_path_filestat_set_times [OF lc'(1) _ times] lc'(2)
  by (intro obeys_hostcall [OF quietD(2) [OF q]] lawful_path [OF q len] lawful_intros)
    (simp add: short_path_def)

lemma obeys_two_paths:
  assumes q: "quiet p os lc tgt n Q"
    and len: "p \<or> unat old_path_len < PATH_MAX lc" "p \<or> unat new_path_len < PATH_MAX lc"
  shows "obeys p tgt (frame n Q) (path_link os lc tgt old_dirfd old_flags old_path_ptr old_path_len
      new_dirfd new_path_ptr new_path_len)"
    "obeys p tgt (frame n Q) (path_rename os lc tgt old_dirfd old_path_ptr old_path_len
      new_dirfd new_path_ptr new_path_len)"
    "obeys p tgt (frame n Q) (path_symlink os lc tgt old_path_ptr old_path_len
      dirfd new_path_ptr new_path_len)"
  unfolding path_link_def path_rename_def path_symlink_def
  by (rule obeys_hostcall [OF quietD(2) [OF q]], rule lawful_path [OF q len(1)],
      rule lawful_path [OF q len(2)], intro lawful_intros;
      simp add: io_ok_path_calls [OF quietD(3) [OF q]] io_ok_two_paths [OF quietD(3) [OF q]])+

section \<open>Directories and links read into memory\<close>

text \<open>A slice the guest offers lies in memory.\<close>

lemma dec_slice_u8_mut_in:
  assumes "dec_slice_of_mut L_u8 tgt mem ptr len = Ok (a, k)"
  shows "a + k \<le> length mem" "\<not> big_endian tgt \<Longrightarrow> k < 2 ^ 32"
  using assms unat_bound [of len]
  by (auto simp: dec_slice_of_mut_def check_slice_of_def dec_ptr_mut_eq dec_ptr_eq in_bounds_def
      and_then_Ok_iff map_ok_Ok_iff usize_checked_mul_def dec_usize_def usize_try_from_def
      split: if_splits option.splits)

lemma lawful_slice_mut:
  assumes q: "quiet p os lc tgt n Q"
    and f: "\<And>a k. a + k \<le> n \<Longrightarrow> p \<or> k < 2 ^ 32 \<Longrightarrow> lawful p (frame n Q) (f (a, k))"
  shows "lawful p (frame n Q) (hc_bind (hc_read (\<lambda>mem. dec_slice_of_mut L_u8 tgt mem ptr len)) f)"
proof (rule lawful_bind [where P = "\<lambda>(a, k). a + k \<le> n \<and> (p \<or> k < 2 ^ 32)"])
  show "lawful p (frame n Q) (hc_read (\<lambda>mem. dec_slice_of_mut L_u8 tgt mem ptr len))"
    using quietD(1) [OF q] by (intro fr.lawful_read) simp
  fix s s' and x
  assume "frame n Q s" "hc_read (\<lambda>mem. dec_slice_of_mut L_u8 tgt mem ptr len) s = (Ok x, s')"
  then show "case x of (a, k) \<Rightarrow> a + k \<le> n \<and> (p \<or> k < 2 ^ 32)"
    using dec_slice_u8_mut_in quietD(2) [OF q] by (auto simp: frame_def split: prod.splits)
qed (use f in auto)

lemma lawful_overwrite:
  "a + length bs \<le> n \<Longrightarrow> lawful p (frame n Q) (hc_write (\<lambda>mem. Ok (overwrite mem a bs)))"
  by (intro fr.lawful_write) auto

lemma lawful_readdir:
  assumes q: "quiet p os lc tgt n Q" and ak: "a + k \<le> n" "p \<or> k < 2 ^ 32"
  shows "lawful p (frame n Q) (hc_bind (hc_readdir os tgt fe (a, k) cookie) (\<lambda>used.
    hc_write (\<lambda>mem. enc_usize_byref tgt mem ptr used)))"
proof -
  have run: "frame n Q (snd (hc_readdir os tgt fe (a, k) cookie s)) \<and>
      res_ok p (fst (hc_readdir os tgt fe (a, k) cookie s)) \<and>
      (\<forall>x. fst (hc_readdir os tgt fe (a, k) cookie s) = Ok x \<longrightarrow> x \<le> k)" if "frame n Q s" for s
  proof -
    obtain r stored w where r: "impl_fd_readdir os tgt fe k cookie (st_world s) = ((r, stored), w)"
      by (metis prod.collapse)
    show ?thesis
      using that ak fd_readdir_ok [OF quietD(2) [OF q] r]
      by (auto simp: hc_readdir_def r frame_def)
  qed
  show ?thesis
  proof (rule lawful_bind [where P = "\<lambda>x. x \<le> k"])
    show "lawful p (frame n Q) (hc_readdir os tgt fe (a, k) cookie)"
      using run by (simp add: lawful_def)
  next
    fix s s' and x
    assume "frame n Q s" "hc_readdir os tgt fe (a, k) cookie s = (Ok x, s')"
    then show "x \<le> k" using run [of s] by simp
  qed (use ak in \<open>auto intro!: lawful_enc_usize\<close>)
qed

lemma lawful_zero: "lawful p (frame n Q) (hc_write (\<lambda>mem. enc_usize_byref tgt mem ptr 0))"
  by (rule lawful_enc_usize) simp

lemma obeys_fd_readdir:
  assumes q: "quiet p os lc tgt n Q"
  shows "obeys p tgt (frame n Q) (fd_readdir os tgt fd buf buf_len cookie buf_used)"
proof -
  have "lawful p (frame n Q) (hc_bind (hc_readdir os tgt fe ak cookie) (\<lambda>used.
      hc_write (\<lambda>mem. enc_usize_byref tgt mem buf_used used)))"
    if "fst ak + snd ak \<le> n" "p \<or> snd ak < 2 ^ 32" for fe ak cookie
    using lawful_readdir [OF q, of "fst ak" "snd ak"] that by simp
  then show ?thesis
    unfolding fd_readdir_def
    by (intro obeys_hostcall [OF quietD(2) [OF q]] lawful_then [OF lawful_zero]
        lawful_then [OF lawful_entry(1)] lawful_slice_mut [OF q]) simp
qed

lemma path_readlink_Ok:
  assumes "impl_path_readlink os lc ctx dirfd path rights k w = (Ok (used, stored), w')"
  shows "used \<le> k" "length stored \<le> k"
  using assms
  by (auto simp: impl_path_readlink_def io_bind_Ok_iff with_file_Ok_iff split: if_splits)

lemma lawful_readlink:
  assumes q: "quiet p os lc tgt n Q" and path: "short_path p lc path"
    and ak: "a + k \<le> n" "p \<or> k < 2 ^ 32"
  shows "lawful p (frame n Q) (hc_bind
    (hc_with_ctx (\<lambda>ctx. impl_path_readlink os lc ctx dirfd path rights k)) (\<lambda>(used, stored).
    hc_bind (hc_write (\<lambda>mem. Ok (overwrite mem a stored))) (\<lambda>_.
      hc_write (\<lambda>mem. enc_usize_byref tgt mem ptr used))))"
proof (rule lawful_bind [where P = "\<lambda>(used, stored). used \<le> k \<and> length stored \<le> k"])
  show "lawful p (frame n Q) (hc_with_ctx (\<lambda>ctx. impl_path_readlink os lc ctx dirfd path rights k))"
    by (intro fr.lawful_with_ctx io_ok_path_calls [OF quietD(3) [OF q] path])
next
  fix s s' and x
  assume "hc_with_ctx (\<lambda>ctx. impl_path_readlink os lc ctx dirfd path rights k) s = (Ok x, s')"
  then show "case x of (used, stored) \<Rightarrow> used \<le> k \<and> length stored \<le> k"
    using path_readlink_Ok by (fastforce simp: hc_with_ctx_def dest!: hc_io_Ok)
qed (use ak in \<open>auto intro!: lawful_then lawful_overwrite lawful_enc_usize\<close>)

lemma obeys_path_readlink:
  assumes q: "quiet p os lc tgt n Q" and len: "p \<or> unat path_len < PATH_MAX lc"
  shows "obeys p tgt (frame n Q)
    (path_readlink os lc tgt dirfd path_ptr path_len buf_ptr buf_len buf_used)"
proof -
  have path: "hc_bind (hc_read (\<lambda>mem. and_then (dec_slice_of L_u8 tgt mem path_ptr path_len) path_from_vec)) f
      = hc_bind (dec_path tgt path_ptr path_len) f" for f :: "bytes \<Rightarrow> ('a, unit) hc"
    by (simp add: dec_path_def path_from_vec_def [abs_def] path_from_slice_def [abs_def])
  show ?thesis
    unfolding path_readlink_def path
    by (intro obeys_hostcall [OF quietD(2) [OF q]] lawful_then [OF lawful_zero]
        lawful_path [OF q len] lawful_slice_mut [OF q])
      (simp, intro lawful_readlink [OF q], auto)
qed

section \<open>Preopened directories\<close>

lemma preopen_name_ok:
  assumes "Q ctx \<Longrightarrow> p \<or> small_ctx ctx" "Q ctx"
  shows "res_ok p (preopen_name ctx fd)" "preopen_name ctx fd = Ok path \<Longrightarrow> p \<or> length path < 2 ^ 32"
  using assms
  by (auto simp: preopen_name_def path_from_host_def path_from_slice_def small_ctx_def get_fd_entry_Ok
      and_then_Ok_iff intro!: res_ok_and_then split: option.splits if_splits)

lemma lawful_preopen_name:
  assumes q: "quiet p os lc tgt n Q"
    and f: "\<And>path. p \<or> length path < 2 ^ 32 \<Longrightarrow> lawful p (frame n Q) (f path)"
  shows "lawful p (frame n Q) (hc_bind (hc_ctx (\<lambda>ctx. preopen_name ctx fd)) f)"
proof (rule lawful_bind [where P = "\<lambda>path. p \<or> length path < 2 ^ 32"])
  show "lawful p (frame n Q) (hc_ctx (\<lambda>ctx. preopen_name ctx fd))"
    using preopen_name_ok(1) [OF quietD(9) [OF q]] by (intro lawful_ctx) (simp add: frame_def)
next
  fix s s' and path
  assume "frame n Q s" "hc_ctx (\<lambda>ctx. preopen_name ctx fd) s = (Ok path, s')"
  then show "p \<or> length path < 2 ^ 32"
    using preopen_name_ok(2) [OF quietD(9) [OF q]] by (auto simp: frame_def)
qed (rule f)

lemma lawful_enc_prestat:
  assumes "p \<or> pr_name_len x < 2 ^ 32"
  shows "lawful p (frame n Q) (hc_write (\<lambda>mem. enc_prestat_byref tgt mem ptr x))"
  using assms
  by (intro fr.lawful_write)
    (auto simp: enc_prestat_byref_def enc_prestat_def enc_usize_cases and_then_Ok_iff map_ok_Ok_iff
      dest: pod_prestat.enc_length [OF TrueI] intro!: res_ok_and_then split: if_splits)

lemma obeys_prestat:
  assumes q: "quiet p os lc tgt n Q"
  shows "obeys p tgt (frame n Q) (fd_prestat_get tgt fd ptr)"
    "obeys p tgt (frame n Q) (fd_prestat_dir_name tgt fd ptr len)"
proof -
  show "obeys p tgt (frame n Q) (fd_prestat_get tgt fd ptr)"
    unfolding fd_prestat_get_def
    by (intro obeys_hostcall [OF quietD(2) [OF q]] lawful_preopen_name [OF q] lawful_enc_prestat) simp
  have "lawful p (frame n Q) (hc_write (\<lambda>mem. enc_slice_of L_u8 tgt mem path ptr))" for path
    by (intro fr.lawful_write) (auto dest: enc_slice_u8_length)
  then show "obeys p tgt (frame n Q) (fd_prestat_dir_name tgt fd ptr len)"
    unfolding fd_prestat_dir_name_def using quietD(1) [OF q]
    by (intro obeys_hostcall [OF quietD(2) [OF q]] lawful_preopen_name [OF q] lawful_rules) simp_all
qed

end
