(* ===== verification/Table_Laws.thy ===== *)
theory Table_Laws
  imports Path_Laws
begin

text \<open>
  The four hostcalls that change the context: \<^verbatim>\<open>fd_close\<close>, \<^verbatim>\<open>fd_renumber\<close>, \<^verbatim>\<open>fd_fdstat_set_rights\<close>
  and \<^verbatim>\<open>path_open\<close>.  What they do to the table is one of three things: add an entry that is not
  preopened and whose rights fit the type of its file, remove an entry, and narrow the rights of
  one.  A property of the context that these keep is kept by every hostcall.
\<close>

text \<open>An entry \<open>path_open\<close> makes.\<close>

definition opened_entry :: "fd_entry \<Rightarrow> bool" where
  "opened_entry fe \<longleftrightarrow> fe_preopen_path fe = None \<and> (\<exists>f. fo_descriptor (fe_object fe) = File f) \<and>
     (\<exists>ty base inh. (ty, base, inh) \<in> set type_rights \<and> fe_rights_base fe AND NOT base = 0 \<and>
       fe_rights_inheriting fe AND NOT inh = 0)"

definition fewer_rights :: "wasi_rights_t \<Rightarrow> wasi_rights_t \<Rightarrow> bool" where
  "fewer_rights r r' \<longleftrightarrow> r' AND r = r"

lemma path_open_opened:
  assumes "impl_path_open os lc ctx dirfd dirflags path oflags rd wr nb ni fdflags w = (Ok fe, w')"
  shows "opened_entry fe"
proof -
  obtain f w1 w2 where o: "open_entry os lc f w1 = (Ok fe, w2)"
    using path_open_Ok [OF assms] by blast
  show ?thesis using open_entry_Ok [OF o] by (simp add: opened_entry_def)
qed

locale table_inv =
  fixes Q :: "wasi_ctx \<Rightarrow> bool"
  assumes inv_open: "Q ctx \<Longrightarrow> opened_entry fe \<Longrightarrow> insert_fd_entry ctx fe = Ok (fd, ctx') \<Longrightarrow> Q ctx'"
    and inv_remove: "Q ctx \<Longrightarrow> Q (ctx\<lparr>fds := hm_remove fd (fds ctx)\<rparr>)"
    and inv_limit: "Q ctx \<Longrightarrow> hm_get (fds ctx) fd = Some fe \<Longrightarrow>
      fewer_rights rb (fe_rights_base fe) \<Longrightarrow> fewer_rights ri (fe_rights_inheriting fe) \<Longrightarrow>
      Q (put_fd_entry ctx fd (fe\<lparr>fe_rights_base := rb, fe_rights_inheriting := ri\<rparr>))"
begin

lemma obeys_fd_close:
  assumes q: "quiet p os lc tgt n Q"
  shows "obeys p tgt (frame n Q) (fd_close os tgt fd)"
  unfolding fd_close_def
  by (rule obeys_hostcall [OF quietD(2) [OF q]])
    (auto simp: lawful_def frame_def Let_def inv_remove split: option.splits)

lemma obeys_fd_renumber:
  assumes q: "quiet p os lc tgt n Q"
  shows "obeys p tgt (frame n Q) (fd_renumber os tgt from to)"
proof -
  have "Q ctx' \<and> res_ok p r"
    if "Q ctx" "impl_fd_renumber os ctx a b w = ((r, ctx'), w')" for ctx ctx' a b w w' r
    using that(1) fd_renumber_ok [OF quietD(4) [OF q] that(2)] that(2)
    by (auto simp: impl_fd_renumber_def Let_def inv_remove
        split: option.splits if_splits prod.splits res.splits)
  then show ?thesis
    unfolding fd_renumber_def
    by (intro obeys_hostcall [OF quietD(2) [OF q]])
      (fastforce simp: lawful_def frame_def split: prod.splits)
qed

lemma obeys_fd_fdstat_set_rights:
  assumes q: "quiet p os lc tgt n Q"
  shows "obeys p tgt (frame n Q) (fd_fdstat_set_rights tgt fd rb ri)"
  unfolding fd_fdstat_set_rights_def
  by (rule obeys_hostcall [OF quietD(2) [OF q]])
    (auto simp: lawful_def frame_def hc_bind_def any_fd_entry_def fewer_rights_def
      split: res.splits intro!: inv_limit elim: ok_or.elims)

lemma lawful_insert_entry:
  assumes "opened_entry fe"
  shows "lawful p (frame n Q) (hc_insert_entry os fe)"
  using insert_fd_entry_not_Panic inv_open [OF _ assms]
  by (auto simp: lawful_def frame_def hc_insert_entry_def split: res.splits prod.splits)
    (auto simp: insert_fd_entry_def split: option.splits)

lemma obeys_path_open:
  assumes q: "quiet p os lc tgt n Q" and len: "p \<or> unat path_len < PATH_MAX lc"
  shows "obeys p tgt (frame n Q) (path_open os lc tgt dirfd dirflags path_ptr path_len oflags
    rights_base rights_inheriting fdflags fd_out_ptr)"
proof -
  have "lawful p (frame n Q) (\<lambda>s. case hc_with_ctx (\<lambda>ctx. impl_path_open os lc ctx dirfd dirflags path
        oflags rd wr nb ni fdflags) s of
      (Ok fe, s1) \<Rightarrow> hc_bind (hc_insert_entry os fe) (\<lambda>guest_fd.
          hc_write (\<lambda>mem. enc_fd_byref tgt mem fd_out_ptr guest_fd)) s1
    | (Err e, s1) \<Rightarrow>
        hc_bind (hc_write (\<lambda>mem. enc_fd_byref tgt mem fd_out_ptr (- 1))) (\<lambda>_. hc_res (Err e)) s1
    | (Panic, s1) \<Rightarrow> (Panic, s1))" (is "lawful p _ (\<lambda>s. case ?m s of (Ok fe, s1) \<Rightarrow> ?ok fe s1
    | (Err e, s1) \<Rightarrow> ?err e s1 | (Panic, s1) \<Rightarrow> (Panic, s1))")
    if path: "short_path p lc path" for dirfd dirflags path oflags rd wr nb ni fdflags
    unfolding lawful_def
  proof (intro allI impI)
    fix s :: "'a store" assume s: "frame n Q s"
    obtain r s1 where r: "?m s = (r, s1)" by force
    have "lawful p (frame n Q) ?m"
      by (intro fr.lawful_with_ctx io_ok_path_open [OF quietD(3) [OF q] path])
    then have s1: "frame n Q s1" "res_ok p r" using s r by (auto simp: lawful_def dest: spec [of _ s])
    have ok: "lawful p (frame n Q) (?ok fe)" if "r = Ok fe" for fe
    proof -
      have "opened_entry fe"
        using r that by (auto simp: hc_with_ctx_def dest!: hc_io_Ok path_open_opened)
      then show ?thesis by (intro lawful_then lawful_insert_entry lawful_enc_u32)
    qed
    have err: "lawful p (frame n Q) (?err e)" if "r = Err e" for e
      using s1(2) that by (intro lawful_then lawful_enc_u32 lawful_res) simp
    show "frame n Q (snd (case ?m s of (Ok fe, s1) \<Rightarrow> ?ok fe s1
        | (Err e, s1) \<Rightarrow> ?err e s1 | (Panic, s1) \<Rightarrow> (Panic, s1))) \<and>
      res_ok p (fst (case ?m s of (Ok fe, s1) \<Rightarrow> ?ok fe s1
        | (Err e, s1) \<Rightarrow> ?err e s1 | (Panic, s1) \<Rightarrow> (Panic, s1)))"
      using s1 ok err r by (cases r) (auto simp: lawful_def)
  qed
  then show ?thesis
    unfolding path_open_def Let_def
    by (intro obeys_hostcall [OF quietD(2) [OF q]] lawful_path [OF q len])
qed

end

end
