(* ===== verification/Misc_Laws.thy ===== *)
theory Misc_Laws
  imports Path_Laws
begin

text \<open>The laws of the hostcalls on arguments, environment, clocks, polling and random bytes.\<close>

section \<open>Arguments and environment\<close>

lemma store_strings_length:
  "store_strings tgt ss buf off ptrs mem = (r, mem') \<Longrightarrow> length mem' = length mem"
  by (induction tgt ss buf off ptrs mem rule: store_strings.induct)
    (auto split: res.splits option.splits dest!: enc_slice_u8_length)

text \<open>The sum of the address of the buffer and the offset overflows only in a memory of 4 GiB.\<close>

lemma store_strings_ok:
  assumes "p \<or> length mem < 2 ^ 32" "p \<or> unat buf + unat off < 2 ^ 32"
    and "store_strings tgt ss buf off ptrs mem = (r, mem')"
  shows "res_ok p r"
  using assms
proof (induction tgt ss buf off ptrs mem rule: store_strings.induct)
  case (2 tgt s ss buf off ptrs mem)
  have add: "res_ok p (plain_add tgt buf off)"
    using 2(3) by (auto simp: plain_add_def)
  show ?case
  proof (cases "plain_add tgt buf off")
    case (Ok ptr)
    show ?thesis
    proof (cases "enc_slice_of L_u8 tgt mem (with_nul s) ptr")
      case (Ok mem1)
      note mem1 = Ok
      show ?thesis
      proof (cases "u32_try_from (length (with_nul s)) = None \<or>
          checked_add off (the (u32_try_from (length (with_nul s)))) = None")
        case True
        then show ?thesis using 2(4) \<open>plain_add tgt buf off = Ok ptr\<close> mem1
          by (auto split: option.splits)
      next
        case False
        then obtain k off' where k: "u32_try_from (length (with_nul s)) = Some k"
            and off': "checked_add off k = Some off'" by auto
        have "p \<or> unat buf + unat off' < 2 ^ 32"
        proof -
          have "unat ptr + length (with_nul s) \<le> length mem"
            using mem1 by (auto simp: enc_slice_of_u8 in_bounds_def split: if_splits)
          moreover have "unat k = length (with_nul s)"
            using k by (auto simp: u32_try_from_def unat_of_nat split: if_splits)
          moreover have "ptr = buf + off" using \<open>plain_add tgt buf off = Ok ptr\<close>
            by (auto simp: plain_add_def split: if_splits)
          then have "p \<or> unat ptr = unat buf + unat off"
            using 2(3) by (auto simp: unat_word_ariths)
          ultimately show ?thesis using checked_add_SomeD [OF off'] 2(2) by auto
        qed
        then show ?thesis
          using 2(1) [OF \<open>plain_add tgt buf off = Ok ptr\<close> mem1 k off'] 2(2,4)
            \<open>plain_add tgt buf off = Ok ptr\<close> mem1 k off' enc_slice_u8_length [OF mem1] by auto
      qed
    next
      case (Err e)
      then show ?thesis
        using 2(4) \<open>plain_add tgt buf off = Ok ptr\<close>
        by (auto simp: enc_slice_of_u8 split: if_splits)
    next
      case Panic
      then show ?thesis
        using res_ok_enc_slice_of [of False L_u8 tgt mem "with_nul s" ptr] by auto
    qed
  qed (use 2(4) add in auto)
qed auto

lemma lawful_store_strings:
  assumes q: "quiet p os lc tgt n Q"
  shows "lawful p (frame n Q) (hc_store_strings tgt strings buf)"
proof -
  have "p \<or> unat buf < 2 ^ 32" using unat_bound [of buf] by simp
  then show ?thesis
    using quietD(8) [OF q] store_strings_length store_strings_ok [where off = 0]
    by (auto simp: lawful_def frame_def hc_store_strings_def split: prod.splits) fastforce+
qed

lemma enc_slice_u32_length:
  "enc_slice_of L_u32 tgt mem xs ptr = Ok mem' \<Longrightarrow> length mem' = length mem"
  by (auto simp: enc_slice_of_def dec_ptr_mut_eq dec_ptr_eq in_bounds_def pod_u32.length_concat_to_mem
      usize_checked_mul_def split: if_splits option.splits)

lemma obeys_strings_get:
  assumes q: "quiet p os lc tgt n Q"
  shows "obeys p tgt (frame n Q) (args_get tgt ptr buf)"
    "obeys p tgt (frame n Q) (environ_get tgt ptr buf)"
proof -
  have w: "lawful p (frame n Q) (hc_write (\<lambda>mem. enc_slice_of L_u32 tgt mem xs ptr))" for xs
    by (intro fr.lawful_write) (auto dest: enc_slice_u32_length)
  show "obeys p tgt (frame n Q) (args_get tgt ptr buf)"
    "obeys p tgt (frame n Q) (environ_get tgt ptr buf)"
    unfolding args_get_def environ_get_def
    by (rule obeys_hostcall [OF quietD(2) [OF q]], rule lawful_then [OF lawful_store_strings [OF q]],
        rule w)+
qed

text \<open>A number read from the context that can be counted in 32 bits.\<close>

lemma lawful_ctx_bind:
  assumes q: "quiet p os lc tgt n Q"
    and g: "\<And>ctx. p \<or> small_ctx ctx \<Longrightarrow> res_ok p (g ctx) \<and> (\<forall>x. g ctx = Ok x \<longrightarrow> P x)"
    and f: "\<And>x. P x \<Longrightarrow> lawful p (frame n Q) (f x)"
  shows "lawful p (frame n Q) (hc_bind (hc_ctx g) f)"
  by (rule lawful_bind [where P = P])
    (use quietD(9) [OF q] g f in \<open>auto simp: lawful_def frame_def\<close>)

lemma length_le_sum: "length xs \<le> sum_list (map (\<lambda>a. length (with_nul a)) xs)"
  by (induction xs) (auto simp: with_nul_def)

lemma small_args: "small_ctx ctx \<Longrightarrow> length (args ctx) < 2 ^ 32"
  using length_le_sum [of "args ctx"] by (simp add: small_ctx_def)

lemma usize_sum_small:
  "supported tgt \<Longrightarrow> sum_list ns < 2 ^ 32 \<Longrightarrow> usize_sum tgt ns = Ok (sum_list ns)"
  using power_increasing [of 32 "usize_bits tgt" "2 :: nat"] by (simp add: usize_sum_def supported_def)

lemma obeys_sizes_get:
  assumes q: "quiet p os lc tgt n Q"
  shows "obeys p tgt (frame n Q) (args_sizes_get tgt ptr ptr')"
    "obeys p tgt (frame n Q) (environ_sizes_get tgt ptr ptr')"
proof -
  show "obeys p tgt (frame n Q) (args_sizes_get tgt ptr ptr')"
    unfolding args_sizes_get_def
  proof (intro obeys_hostcall [OF quietD(2) [OF q]]
      lawful_ctx_bind [OF q, where P = "\<lambda>k. p \<or> k < 2 ^ 32"] lawful_then lawful_enc_usize)
    show "res_ok p (usize_sum tgt (map (\<lambda>a. length (with_nul a)) (args ctx))) \<and>
        (\<forall>x. usize_sum tgt (map (\<lambda>a. length (with_nul a)) (args ctx)) = Ok x \<longrightarrow> p \<or> x < 2 ^ 32)"
      if "p \<or> small_ctx ctx" for ctx
      using that usize_sum_small [OF quietD(1) [OF q], of "map (\<lambda>a. length (with_nul a)) (args ctx)"]
      by (cases p) (auto simp: small_ctx_def usize_sum_def)
  qed (use small_args in auto)
  have u: "p \<or> unat x < 2 ^ 32" for x :: u32 using unat_bound [of x] by simp
  show "obeys p tgt (frame n Q) (environ_sizes_get tgt ptr ptr')"
    unfolding environ_sizes_get_def
    by (intro obeys_hostcall [OF quietD(2) [OF q]]
        lawful_ctx_bind [OF q, where P = "\<lambda>k. p \<or> k < 2 ^ 32"]
        lawful_ctx_bind [OF q, where P = "\<lambda>_. True"] lawful_then lawful_enc_usize u)
      (auto simp: small_ctx_def)
qed

section \<open>Clocks, random bytes, yielding\<close>

lemma res_ok_host_clock [simp]: "res_ok p (host_clock lc clock_id)"
  by (simp add: host_clock_def)

lemma io_ok_libc:
  "io_ok p (\<lambda>w. if b then (Err (last_error os w), w) else (r, w)) \<longleftrightarrow> b \<or> res_ok p r"
  by (auto simp: io_ok_def)

lemma io_ok_clocks [simp]:
  "io_ok p (impl_clock_res_get os lc clock_id)" "io_ok p (impl_clock_time_get os lc clock_id)"
proof -
  show "io_ok p (impl_clock_time_get os lc clock_id)"
    unfolding impl_clock_time_get_def
    by (intro io_ok_bind io_ok_call) (auto simp: io_ok_libc)
  have "res_ok p (and_then (now_ns ts) (\<lambda>r. if r = 0 then Err WASI_EINVAL else Ok r))" for ts
    by (rule res_ok_and_then) auto
  then show "io_ok p (impl_clock_res_get os lc clock_id)"
    unfolding impl_clock_res_get_def
    by (intro io_ok_bind io_ok_call) (auto simp: io_ok_libc)
qed

lemma obeys_clocks:
  assumes q: "quiet p os lc tgt n Q"
  shows "obeys p tgt (frame n Q) (clock_res_get os lc' tgt clock_id ptr)"
    "obeys p tgt (frame n Q) (clock_time_get os lc' tgt clock_id precision ptr)"
    "obeys p tgt (frame n Q) (sched_yield os tgt)"
  unfolding clock_res_get_def clock_time_get_def sched_yield_def
  by (rule obeys_hostcall [OF quietD(2) [OF q]]; intro lawful_intros; simp)+

lemma obeys_random_get:
  assumes q: "quiet p os lc tgt n Q"
  shows "obeys p tgt (frame n Q) (random_get os tgt ptr len)"
proof -
  have "lawful p (frame n Q) (hc_read (\<lambda>mem. dec_slice_of_mut L_u8 tgt mem ptr len))"
    using quietD(1) [OF q] by (intro fr.lawful_read) simp
  moreover have "lawful p (frame n Q) (hc_bind (hc_io (io_call (sys_fill_bytes os k))) (\<lambda>bs.
      hc_write (\<lambda>mem. Ok (overwrite mem a (take k bs)))))" if "a + k \<le> n" for a k
    by (intro lawful_then fr.lawful_io fr.lawful_write) (use that in auto)
  ultimately have "lawful p (frame n Q) (hc_bind
      (hc_read (\<lambda>mem. dec_slice_of_mut L_u8 tgt mem ptr len)) (\<lambda>(a, k).
      hc_bind (hc_io (io_call (sys_fill_bytes os k))) (\<lambda>bs.
        hc_write (\<lambda>mem. Ok (overwrite mem a (take k bs))))))"
    by (intro lawful_bind [where P = "\<lambda>(a, k). a + k \<le> n"])
      (auto simp: frame_def dest: dec_slice_u8_mut_in)
  then show ?thesis
    unfolding random_get_def by (intro obeys_hostcall [OF quietD(2) [OF q]])
qed

section \<open>Polling\<close>

text \<open>The laws of a hostcall that may not return.\<close>

definition obeys_if_returns ::
  "bool \<Rightarrow> target \<Rightarrow> ('w store \<Rightarrow> bool) \<Rightarrow> ('w store \<Rightarrow> (outcome \<times> 'w store) option) \<Rightarrow> bool" where
  "obeys_if_returns p tgt I h \<longleftrightarrow>
     (\<forall>s out s'. I s \<longrightarrow> h s = Some (out, s') \<longrightarrow> I s' \<and> ret_ok p tgt out)"

lemma poll_wait_result:
  assumes "poll_wait os pfds timeout w = Some y"
  shows "fst y \<noteq> Panic \<and> (\<forall>e. fst y = Err e \<longrightarrow> valid_err e)"
  using assms
  by (rule poll_wait.raw_induct [rotated]) (auto split: prod.splits sum.splits if_splits)

lemma length_map_filter: "length (List.map_filter f xs) \<le> length xs"
  by (simp add: List.map_filter_def)

lemma fd_events_length:
  "poll_oneoff_handle_fd_event os lc tgt evs w = (out, w') \<Longrightarrow> length out \<le> length evs"
  by (induction os lc tgt evs w arbitrary: out w' rule: poll_oneoff_handle_fd_event.induct)
    (fastforce split: prod.splits option.splits)+

definition pads_ok :: "event32 list \<Rightarrow> bool" where
  "pads_ok evs \<longleftrightarrow> list_all (\<lambda>e. length (ev_rw_pad32 e) = 3) evs"

lemma fd_events_pads:
  "poll_oneoff_handle_fd_event os lc tgt evs w = (out, w') \<Longrightarrow> pads_ok out"
  by (induction os lc tgt evs w arbitrary: out w' rule: poll_oneoff_handle_fd_event.induct)
    (fastforce simp: pads_ok_def enc_event_def split: prod.splits option.splits)+

lemma timeout_event_fits:
  assumes "t = min_by_delay (List.map_filter f input)"
  shows "length (poll_oneoff_handle_timeout_event tgt t) \<le> length input"
    "pads_ok (poll_oneoff_handle_timeout_event tgt t)"
proof -
  have "input \<noteq> []" if "t = Some x" for x
    using assms that by (auto simp: List.map_filter_def)
  then show "length (poll_oneoff_handle_timeout_event tgt t) \<le> length input"
    by (cases t) (auto simp: poll_oneoff_handle_timeout_event_def Suc_le_eq)
  show "pads_ok (poll_oneoff_handle_timeout_event tgt t)"
    by (cases t) (auto simp: poll_oneoff_handle_timeout_event_def pads_ok_def enc_event_def)
qed

lemma poll_events_fit:
  assumes "impl_poll_oneoff os lc tgt input w = Some (r, w')"
  shows "r \<noteq> Panic \<and> (\<forall>e. r = Err e \<longrightarrow> valid_err e) \<and>
    (\<forall>evs. r = Ok evs \<longrightarrow> length evs \<le> length input \<and> pads_ok evs)"
proof -
  define timeout where "timeout = min_by_delay (List.map_filter (clock_event os w) input)"
  define fevs where "fevs = List.map_filter fd_event input"
  show ?thesis
  proof (cases "fevs = [] \<and> timeout = None")
    case True
    then show ?thesis
      using assms by (auto simp: impl_poll_oneoff_def Let_def timeout_def fevs_def pads_ok_def)
  next
    case False
    let ?t = "case timeout of None \<Rightarrow> - 1 | Some t \<Rightarrow> int (min (ce_delay t) C_INT_MAX)"
    let ?wait = "poll_wait os (map (\<lambda>ev. (fev_fd ev, poll_flags lc ev)) fevs) ?t w"
    obtain r1 w1 where wait: "?wait = Some (r1, w1)"
      using assms False
      by (cases ?wait) (auto simp: impl_poll_oneoff_def Let_def timeout_def fevs_def)
    have r1: "r1 \<noteq> Panic" "\<And>e. r1 = Err e \<Longrightarrow> valid_err e"
      using poll_wait_result [OF wait] by simp_all
    show ?thesis
    proof (cases r1)
      case (Ok x)
      obtain ready revents where x: "x = (ready, revents)" by force
      obtain out w2 where out: "poll_oneoff_handle_fd_event os lc tgt
          (take ready (zip fevs revents)) w1 = (out, w2)" by force
      have "length out \<le> length input" "pads_ok out"
        using fd_events_length [OF out] fd_events_pads [OF out] length_map_filter [of fd_event input]
        by (auto simp: fevs_def)
      then show ?thesis
        using assms False wait Ok x out timeout_event_fits [OF timeout_def, of tgt]
        by (auto simp: impl_poll_oneoff_def Let_def timeout_def [symmetric] fevs_def [symmetric]
            split: if_splits)
    qed (use assms False wait r1 in \<open>auto simp: impl_poll_oneoff_def Let_def
        timeout_def [symmetric] fevs_def [symmetric]\<close>)
  qed
qed

lemma dec_slice_event_in:
  assumes "dec_slice_of_mut L_event tgt mem ptr len = Ok (a, k)"
  shows "a + 32 * k \<le> length mem" "dec_usize tgt len = Ok k"
  using assms
  by (auto simp: dec_slice_of_mut_def check_slice_of_def dec_ptr_mut_eq dec_ptr_eq in_bounds_def
      and_then_Ok_iff map_ok_Ok_iff usize_checked_mul_def L_event_def split: if_splits option.splits)

lemma lawful_store_events:
  assumes "a + 32 * k \<le> n" "length evs \<le> k" "pads_ok evs"
  shows "lawful p (frame n Q) (hc_write (store_events tgt (a, k) evs))"
proof -
  have "length (concat (map (to_mem L_event tgt) evs)) = 32 * length evs"
    using assms(3) pod_event.length_concat_to_mem [of evs tgt]
    by (auto simp: pads_ok_def list_all_iff L_event_def)
  then show ?thesis
    using assms by (intro fr.lawful_write) (auto simp: store_events_def)
qed

lemma dec_slice_count:
  "dec_slice_of L tgt mem ptr len = Ok xs \<Longrightarrow> dec_usize tgt len = Ok (length xs)"
  by (auto simp: dec_slice_of_def check_slice_of_def slice_elems_def and_then_Ok_iff map_ok_Ok_iff
      split: if_splits option.splits)

text \<open>What \<^verbatim>\<open>poll_oneoff\<close> does before it calls the platform.\<close>

definition poll_start ::
  "target \<Rightarrow> u32 \<Rightarrow> u32 \<Rightarrow> u32 \<Rightarrow> u32 \<Rightarrow> ('w, subscription res list \<times> (nat \<times> usize)) hc" where
  "poll_start tgt input output nsubscriptions nevents =
     hc_bind (hc_write (\<lambda>mem. enc_pointee L_u32 tgt mem nevents 0)) (\<lambda>_.
     hc_bind (hc_read (\<lambda>mem. dec_slice_of L_subscription tgt mem input nsubscriptions)) (\<lambda>subs.
     hc_bind (hc_read (\<lambda>mem. dec_slice_of_mut L_event tgt mem output nsubscriptions)) (\<lambda>out.
       hc_res (Ok (map (dec_subscription tgt) subs, out)))))"

lemma lawful_enc_u32_pointee:
  "lawful p (frame n Q) (hc_write (\<lambda>mem. enc_pointee L_u32 tgt mem ptr x))"
  by (intro lawful_enc_pointee pod_u32.to_mem_length TrueI)

lemma poll_start_laws:
  assumes q: "quiet p os lc tgt n Q" and s: "frame n Q s"
    and r: "poll_start tgt input output nsubs nevents s = (r, s')"
  shows "frame n Q s'" "res_ok p r"
    "\<And>subs a k. r = Ok (subs, (a, k)) \<Longrightarrow> a + 32 * k \<le> n \<and> length subs = k"
proof -
  have "lawful p (frame n Q) (poll_start tgt input output nsubs nevents)"
    unfolding poll_start_def using quietD(1) [OF q]
    by (intro lawful_then lawful_enc_u32_pointee fr.lawful_read lawful_res) simp_all
  then show "frame n Q s'" "res_ok p r" using s r by (auto simp: lawful_def dest: spec [of _ s])
  show "a + 32 * k \<le> n \<and> length subs = k" if ok: "r = Ok (subs, (a, k))" for subs a k
  proof -
    have "\<exists>subs32. dec_slice_of L_subscription tgt (st_mem s') input nsubs = Ok subs32 \<and>
        dec_slice_of_mut L_event tgt (st_mem s') output nsubs = Ok (a, k) \<and> length subs = length subs32"
      using r [unfolded ok poll_start_def hc_bind_Ok_iff] by (elim exE conjE) auto
    then obtain subs32 where d: "dec_slice_of L_subscription tgt (st_mem s') input nsubs = Ok subs32"
        "dec_slice_of_mut L_event tgt (st_mem s') output nsubs = Ok (a, k)" "length subs = length subs32"
      by blast
    then show ?thesis
      using dec_slice_event_in [OF d(2)] dec_slice_count [OF d(1)] \<open>frame n Q s'\<close>
      by (simp add: frame_def)
  qed
qed

lemma obeys_poll_oneoff:
  assumes q: "quiet p os lc tgt n Q"
  shows "obeys_if_returns p tgt (frame n Q)
    (poll_oneoff os lc' tgt input output nsubscriptions nevents)"
  unfolding obeys_if_returns_def
proof (intro allI impI)
  fix s out s'
  assume s: "frame n Q s"
    and run: "poll_oneoff os lc' tgt input output nsubscriptions nevents s = Some (out, s')"
  obtain r s1 where r: "poll_start tgt input output nsubscriptions nevents s = (r, s1)" by force
  note start = poll_start_laws [OF q s r] and run = run [unfolded poll_oneoff_def, folded poll_start_def]
  show "frame n Q s' \<and> ret_ok p tgt out"
  proof (cases r)
    case (Ok x)
    obtain subs a k where x: "x = (subs, (a, k))" by (cases x) auto
    obtain r2 w where poll: "impl_poll_oneoff os lc' tgt subs (st_world s1) = Some (r2, w)"
      using run r Ok x by (auto split: option.splits)
    have "lawful p (frame n Q) (hc_bind (hc_res r2) (\<lambda>events.
        hc_bind (hc_write (store_events tgt (a, k) events)) (\<lambda>_.
          hc_write (\<lambda>mem. enc_pointee L_u32 tgt mem nevents (of_nat (length events))))))"
    proof (rule lawful_bind [where P = "\<lambda>evs. length evs \<le> k \<and> pads_ok evs"])
      show "lawful p (frame n Q) (hc_res r2)"
        using poll_events_fit [OF poll] by (intro lawful_res) (cases r2; simp)
    qed (use poll_events_fit [OF poll] start(3) Ok x in
        \<open>auto intro!: lawful_then lawful_store_events lawful_enc_u32_pointee\<close>)
    then have "obeys p tgt (frame n Q) (hostcall tgt (hc_bind (hc_res r2) (\<lambda>events.
        hc_bind (hc_write (store_events tgt (a, k) events)) (\<lambda>_.
          hc_write (\<lambda>mem. enc_pointee L_u32 tgt mem nevents (of_nat (length events)))))))"
      by (rule obeys_hostcall [OF quietD(2) [OF q]])
    moreover have "frame n Q (s1\<lparr>st_world := w\<rparr>)" by (rule fr.frame_world [OF start(1)])
    moreover have "hostcall tgt (hc_bind (hc_res r2) (\<lambda>events.
        hc_bind (hc_write (store_events tgt (a, k) events)) (\<lambda>_.
          hc_write (\<lambda>mem. enc_pointee L_u32 tgt mem nevents (of_nat (length events))))))
        (s1\<lparr>st_world := w\<rparr>) = (out, s')"
      using run r Ok x poll by simp
    ultimately show ?thesis by (rule obeysD)
  qed (use run r start return_enc_errno_ok [OF quietD(2) [OF q]] in \<open>auto simp: ret_ok_def\<close>)
qed

end
