(* ===== verification/Wasi_System.thy ===== *)
theory Wasi_System
  imports Table_Laws Misc_Laws
begin

text \<open>
  The library as a guest sees it: one datatype of calls, their dispatch to the hostcalls, and the
  steps of a running guest, which calls the library, writes its memory and lets the world go on.
\<close>

section \<open>Calls\<close>

datatype (plugins only: size) call =
    Args_get u32 u32 | Args_sizes_get u32 u32
  | Environ_get u32 u32 | Environ_sizes_get u32 u32
  | Clock_res_get wasi_clockid_t u32 | Clock_time_get wasi_clockid_t wasi_timestamp_t u32
  | Fd_advise wasi_fd_t wasi_filesize_t wasi_filesize_t wasi_advice_t
  | Fd_allocate wasi_fd_t wasi_filesize_t wasi_filesize_t
  | Fd_close wasi_fd_t | Fd_datasync wasi_fd_t | Fd_sync wasi_fd_t
  | Fd_fdstat_get wasi_fd_t u32 | Fd_fdstat_set_flags wasi_fd_t wasi_fdflags_t
  | Fd_fdstat_set_rights wasi_fd_t wasi_rights_t wasi_rights_t
  | Fd_filestat_get wasi_fd_t u32 | Fd_filestat_set_size wasi_fd_t wasi_filesize_t
  | Fd_filestat_set_times wasi_fd_t wasi_timestamp_t wasi_timestamp_t wasi_fstflags_t
  | Fd_pread wasi_fd_t u32 u32 wasi_filesize_t u32 | Fd_pwrite wasi_fd_t u32 u32 wasi_filesize_t u32
  | Fd_read wasi_fd_t u32 u32 u32 | Fd_write wasi_fd_t u32 u32 u32
  | Fd_prestat_get wasi_fd_t u32 | Fd_prestat_dir_name wasi_fd_t u32 u32
  | Fd_readdir wasi_fd_t u32 u32 wasi_dircookie_t u32
  | Fd_renumber wasi_fd_t wasi_fd_t
  | Fd_seek wasi_fd_t wasi_filedelta_t wasi_whence_t u32 | Fd_tell wasi_fd_t u32
  | Path_create_directory wasi_fd_t u32 u32
  | Path_filestat_get wasi_fd_t wasi_lookupflags_t u32 u32 u32
  | Path_filestat_set_times wasi_fd_t wasi_lookupflags_t u32 u32 wasi_timestamp_t wasi_timestamp_t
      wasi_fstflags_t
  | Path_link wasi_fd_t wasi_lookupflags_t u32 u32 wasi_fd_t u32 u32
  | Path_open wasi_fd_t wasi_lookupflags_t u32 u32 wasi_oflags_t wasi_rights_t wasi_rights_t
      wasi_fdflags_t u32
  | Path_readlink wasi_fd_t u32 u32 u32 u32 u32
  | Path_remove_directory wasi_fd_t u32 u32 | Path_unlink_file wasi_fd_t u32 u32
  | Path_rename wasi_fd_t u32 u32 wasi_fd_t u32 u32
  | Path_symlink u32 u32 wasi_fd_t u32 u32
  | Poll_oneoff u32 u32 u32 u32
  | Proc_exit wasi_exitcode_t | Proc_raise wasi_signal_t
  | Random_get u32 u32 | Sched_yield
  | Sock_recv wasi_fd_t u32 u32 wasi_riflags_t u32 u32 | Sock_send wasi_fd_t u32 u32 wasi_siflags_t u32
  | Sock_shutdown wasi_fd_t wasi_sdflags_t

text \<open>A call that does not return is \<open>None\<close>; only \<^verbatim>\<open>poll_oneoff\<close> can do that.\<close>

primrec run ::
  "('w, 'z) os_scheme \<Rightarrow> 'y libc_misc_scheme \<Rightarrow> target \<Rightarrow> call \<Rightarrow> 'w store \<Rightarrow>
     (outcome \<times> 'w store) option" where
  "run os lc tgt (Args_get a b) s = Some (args_get tgt a b s)"
| "run os lc tgt (Args_sizes_get a b) s = Some (args_sizes_get tgt a b s)"
| "run os lc tgt (Environ_get a b) s = Some (environ_get tgt a b s)"
| "run os lc tgt (Environ_sizes_get a b) s = Some (environ_sizes_get tgt a b s)"
| "run os lc tgt (Clock_res_get c a) s = Some (clock_res_get os lc tgt c a s)"
| "run os lc tgt (Clock_time_get c t a) s = Some (clock_time_get os lc tgt c t a s)"
| "run os lc tgt (Fd_advise fd a b c) s = Some (fd_advise os lc tgt fd a b c s)"
| "run os lc tgt (Fd_allocate fd a b) s = Some (fd_allocate os tgt fd a b s)"
| "run os lc tgt (Fd_close fd) s = Some (fd_close os tgt fd s)"
| "run os lc tgt (Fd_datasync fd) s = Some (fd_datasync os tgt fd s)"
| "run os lc tgt (Fd_sync fd) s = Some (fd_sync os tgt fd s)"
| "run os lc tgt (Fd_fdstat_get fd a) s = Some (fd_fdstat_get os lc tgt fd a s)"
| "run os lc tgt (Fd_fdstat_set_flags fd a) s = Some (fd_fdstat_set_flags os lc tgt fd a s)"
| "run os lc tgt (Fd_fdstat_set_rights fd a b) s = Some (fd_fdstat_set_rights tgt fd a b s)"
| "run os lc tgt (Fd_filestat_get fd a) s = Some (fd_filestat_get os lc tgt fd a s)"
| "run os lc tgt (Fd_filestat_set_size fd a) s = Some (fd_filestat_set_size os tgt fd a s)"
| "run os lc tgt (Fd_filestat_set_times fd a b c) s = Some (fd_filestat_set_times os lc tgt fd a b c s)"
| "run os lc tgt (Fd_pread fd a b c d) s = Some (fd_pread os tgt fd a b c d s)"
| "run os lc tgt (Fd_pwrite fd a b c d) s = Some (fd_pwrite os tgt fd a b c d s)"
| "run os lc tgt (Fd_read fd a b c) s = Some (fd_read os tgt fd a b c s)"
| "run os lc tgt (Fd_write fd a b c) s = Some (fd_write os tgt fd a b c s)"
| "run os lc tgt (Fd_prestat_get fd a) s = Some (fd_prestat_get tgt fd a s)"
| "run os lc tgt (Fd_prestat_dir_name fd a b) s = Some (fd_prestat_dir_name tgt fd a b s)"
| "run os lc tgt (Fd_readdir fd a b c d) s = Some (fd_readdir os tgt fd a b c d s)"
| "run os lc tgt (Fd_renumber fd fd') s = Some (fd_renumber os tgt fd fd' s)"
| "run os lc tgt (Fd_seek fd a b c) s = Some (fd_seek os tgt fd a b c s)"
| "run os lc tgt (Fd_tell fd a) s = Some (fd_tell os tgt fd a s)"
| "run os lc tgt (Path_create_directory fd a b) s = Some (path_create_directory os lc tgt fd a b s)"
| "run os lc tgt (Path_filestat_get fd fl a b c) s = Some (path_filestat_get os lc tgt fd fl a b c s)"
| "run os lc tgt (Path_filestat_set_times fd fl a b t u g) s =
     Some (path_filestat_set_times os lc tgt fd fl a b t u g s)"
| "run os lc tgt (Path_link fd fl a b fd' c d) s = Some (path_link os lc tgt fd fl a b fd' c d s)"
| "run os lc tgt (Path_open fd fl a b o1 r i ff c) s = Some (path_open os lc tgt fd fl a b o1 r i ff c s)"
| "run os lc tgt (Path_readlink fd a b c d e) s = Some (path_readlink os lc tgt fd a b c d e s)"
| "run os lc tgt (Path_remove_directory fd a b) s = Some (path_remove_directory os lc tgt fd a b s)"
| "run os lc tgt (Path_unlink_file fd a b) s = Some (path_unlink_file os lc tgt fd a b s)"
| "run os lc tgt (Path_rename fd a b fd' c d) s = Some (path_rename os lc tgt fd a b fd' c d s)"
| "run os lc tgt (Path_symlink a b fd c d) s = Some (path_symlink os lc tgt a b fd c d s)"
| "run os lc tgt (Poll_oneoff a b c d) s = poll_oneoff os lc tgt a b c d s"
| "run os lc tgt (Proc_exit c) s = Some (proc_exit tgt c s)"
| "run os lc tgt (Proc_raise g) s = Some (proc_raise g s)"
| "run os lc tgt (Random_get a b) s = Some (random_get os tgt a b s)"
| "run os lc tgt Sched_yield s = Some (sched_yield os tgt s)"
| "run os lc tgt (Sock_recv fd a b c d e) s = Some (sock_recv fd a b c d e s)"
| "run os lc tgt (Sock_send fd a b c d) s = Some (sock_send fd a b c d s)"
| "run os lc tgt (Sock_shutdown fd a) s = Some (sock_shutdown fd a s)"

text \<open>The calls whose bodies are \<^verbatim>\<open>unimplemented!\<close>.\<close>

definition implemented :: "call \<Rightarrow> bool" where [simp]:
  "implemented c = (case c of
     Proc_raise g \<Rightarrow> False
   | Sock_recv fd a b c d e \<Rightarrow> False
   | Sock_send fd a b c d \<Rightarrow> False
   | Sock_shutdown fd a \<Rightarrow> False
   | _ \<Rightarrow> True)"

text \<open>
  Paths shorter than the platform's limit, and times \<^verbatim>\<open>nix\<close> can represent: what a guest has to
  keep to for a hostcall not to panic.
\<close>

definition guest_paths :: "call \<Rightarrow> u32 list" where [simp]:
  "guest_paths c = (case c of
     Path_create_directory fd a b \<Rightarrow> [b]
   | Path_filestat_get fd fl a b c \<Rightarrow> [b]
   | Path_filestat_set_times fd fl a b t u g \<Rightarrow> [b]
   | Path_link fd fl a b fd' c d \<Rightarrow> [b, d]
   | Path_open fd fl a b o1 r i ff c \<Rightarrow> [b]
   | Path_readlink fd a b c d e \<Rightarrow> [b]
   | Path_remove_directory fd a b \<Rightarrow> [b]
   | Path_unlink_file fd a b \<Rightarrow> [b]
   | Path_rename fd a b fd' c d \<Rightarrow> [b, d]
   | Path_symlink a b fd c d \<Rightarrow> [b, d]
   | _ \<Rightarrow> [])"

definition guest_times :: "call \<Rightarrow> (wasi_timestamp_t \<times> wasi_timestamp_t) option" where [simp]:
  "guest_times c = (case c of
     Fd_filestat_set_times fd t u g \<Rightarrow> Some (t, u)
   | Path_filestat_set_times fd fl a b t u g \<Rightarrow> Some (t, u)
   | _ \<Rightarrow> None)"

definition tame :: "('w, 'z) os_scheme \<Rightarrow> 'y libc_misc_scheme \<Rightarrow> call \<Rightarrow> bool" where
  "tame os lc c \<longleftrightarrow> implemented c \<and> list_all (\<lambda>n. unat n < PATH_MAX lc) (guest_paths c) \<and>
     (case guest_times c of None \<Rightarrow> True | Some (t, u) \<Rightarrow> times_in_range os lc t u)"

section \<open>Every hostcall obeys\<close>

text \<open>The four that change the table, and the rest.\<close>

definition changes_table :: "call \<Rightarrow> bool" where [simp]:
  "changes_table c = (case c of
     Fd_close fd \<Rightarrow> True
   | Fd_renumber fd fd' \<Rightarrow> True
   | Fd_fdstat_set_rights fd a b \<Rightarrow> True
   | Path_open fd fl a b o1 r i ff c \<Rightarrow> True
   | _ \<Rightarrow> False)"

lemma obeys_run:
  assumes "c = d" "\<And>s. run os lc tgt d s = Some (h s)" "obeys p tgt I h"
  shows "obeys_if_returns p tgt I (run os lc tgt c)"
  using assms by (auto simp: obeys_if_returns_def dest: obeysD)

text \<open>The raw values of the guest are the decoded ones where panics are excluded.\<close>

lemma tameD:
  assumes "p \<or> tame os lc c" "p \<or> \<not> big_endian tgt"
  shows "n \<in> set (guest_paths c) \<Longrightarrow> p \<or> unat n < PATH_MAX lc"
    and "guest_times c = Some (t, u) \<Longrightarrow>
      p \<or> times_in_range os lc (dec_timestamp tgt t) (dec_timestamp tgt u)"
    and "p \<or> implemented c"
  using assms by (auto simp: tame_def list_all_iff dec_scalar_def)

lemma run_keeps_frame:
  assumes q: "quiet p os lc tgt n Q" and c: "p \<or> tame os lc c" "\<not> changes_table c"
  shows "obeys_if_returns p tgt (frame n Q) (run os lc tgt c)"
proof -
  note t = tameD [OF c(1) quietD(2) [OF q]]
  note fd = obeys_fd_sync [OF q] obeys_fd_seek [OF q] obeys_fdstat [OF q] obeys_fdstat_get [OF q]
    obeys_fd_pread [OF q] obeys_fd_pwrite [OF q] obeys_fd_read [OF q] obeys_fd_write [OF q]
    obeys_fd_readdir [OF q] obeys_prestat [OF q]
  note misc = obeys_strings_get [OF q] obeys_sizes_get [OF q] obeys_clocks [OF q]
    obeys_random_get [OF q]
  note paths = obeys_path_tree [OF q t(1)] obeys_path_readlink [OF q t(1)]
  note two_paths = obeys_two_paths [OF q t(1) t(1)]
  note times = obeys_fd_filestat_set_times [OF q t(2)]
    obeys_path_filestat_set_times [OF q t(1) t(2) quietD(3) [OF q] refl]
  show ?thesis
  proof (cases c)
    case (Poll_oneoff i o1 ns ne)
    then show ?thesis using obeys_poll_oneoff [OF q, of lc i o1 ns ne]
      by (simp add: obeys_if_returns_def)
  next
    case (Proc_exit x)
    then show ?thesis by (auto simp: obeys_if_returns_def proc_exit_def ret_ok_def)
  next
    case (Proc_raise x)
    then show ?thesis using t(3) by (auto simp: obeys_if_returns_def proc_raise_def ret_ok_def)
  next
    case (Sock_recv a b x d e f)
    then show ?thesis using t(3) by (auto simp: obeys_if_returns_def sock_recv_def ret_ok_def)
  next
    case (Sock_send a b x d e)
    then show ?thesis using t(3) by (auto simp: obeys_if_returns_def sock_send_def ret_ok_def)
  next
    case (Sock_shutdown a b)
    then show ?thesis using t(3) by (auto simp: obeys_if_returns_def sock_shutdown_def ret_ok_def)
  qed ((use c(2) in \<open>simp; fail\<close>) |
    (rule obeys_run, assumption, rule run.simps, rule fd misc paths two_paths times; simp))+
qed

context table_inv
begin

lemma run_keeps:
  assumes q: "quiet p os lc tgt n Q" and c: "p \<or> tame os lc c"
    and s: "frame n Q s" and r: "run os lc tgt c s = Some (out, s')"
  shows "frame n Q s' \<and> ret_ok p tgt out"
proof (cases "changes_table c")
  case True
  note t = tameD [OF c quietD(2) [OF q]]
  show ?thesis
    using True r s t obeysD [OF obeys_fd_close [OF q] s] obeysD [OF obeys_fd_renumber [OF q] s]
      obeysD [OF obeys_fd_fdstat_set_rights [OF q] s] obeysD [OF obeys_path_open [OF q] s]
    by (cases c) simp_all
next
  case False
  then show ?thesis
    using run_keeps_frame [OF q c] s r by (auto simp: obeys_if_returns_def)
qed

end

section \<open>What a hostcall does to the context\<close>

inductive table_change :: "wasi_ctx \<Rightarrow> wasi_ctx \<Rightarrow> bool" where
  unchanged: "table_change ctx ctx"
| opened: "opened_entry fe \<Longrightarrow> insert_fd_entry ctx fe = Ok (fd, ctx') \<Longrightarrow> table_change ctx ctx'"
| removed: "table_change ctx (ctx\<lparr>fds := hm_remove fd (fds ctx)\<rparr>)"
| limited: "hm_get (fds ctx) fd = Some fe \<Longrightarrow> fewer_rights rb (fe_rights_base fe) \<Longrightarrow>
    fewer_rights ri (fe_rights_inheriting fe) \<Longrightarrow>
    table_change ctx (put_fd_entry ctx fd (fe\<lparr>fe_rights_base := rb, fe_rights_inheriting := ri\<rparr>))"

lemma snd_hostcall [simp]: "snd (hostcall tgt m s) = snd (m s)"
  by (auto simp: hostcall_def split: prod.splits res.splits)

lemma fd_close_change: "table_change (st_ctx s) (st_ctx (snd (fd_close os tgt fd s)))"
  by (auto simp: fd_close_def Let_def intro: table_change.intros split: option.splits)

lemma fd_renumber_change: "table_change (st_ctx s) (st_ctx (snd (fd_renumber os tgt from to s)))"
  by (auto simp: fd_renumber_def impl_fd_renumber_def Let_def intro: table_change.intros
      split: option.splits prod.splits res.splits if_splits)

lemma set_rights_change:
  "table_change (st_ctx s) (st_ctx (snd (fd_fdstat_set_rights tgt fd rb ri s)))"
  by (cases "hm_get (fds (st_ctx s)) (dec_fd tgt fd)")
    (auto simp: fd_fdstat_set_rights_def any_fd_entry_def hc_bind_def fewer_rights_def
      intro: table_change.intros)

text \<open>A step leaves the context alone, or changes it in one of these ways.\<close>

definition same_ctx :: "('w, 'a) hc \<Rightarrow> bool" where
  "same_ctx m \<longleftrightarrow> (\<forall>s. st_ctx (snd (m s)) = st_ctx s)"

lemma same_ctx_simps [simp]:
  "same_ctx (hc_res r)" "same_ctx (hc_read g)" "same_ctx (hc_write w)" "same_ctx (hc_io m)"
  "same_ctx (hc_with_ctx h)" "same_ctx (dec_path tgt ptr len)"
  by (auto simp: same_ctx_def hc_write_def hc_io_def hc_with_ctx_def dec_path_def
      split: res.splits prod.splits)

lemma same_ctxD: "same_ctx m \<Longrightarrow> m s = (r, s') \<Longrightarrow> st_ctx s' = st_ctx s"
  by (auto simp: same_ctx_def dest: spec [of _ s])

lemma change_then_same:
  assumes "table_change ctx (st_ctx (snd (m s)))" "\<And>x. same_ctx (f x)"
  shows "table_change ctx (st_ctx (snd (hc_bind m f s)))"
  using assms by (auto simp: hc_bind_def same_ctx_def split: prod.splits res.splits)

lemma same_then_change:
  assumes "same_ctx m" "\<And>x s. table_change (st_ctx s) (st_ctx (snd (f x s)))"
  shows "table_change (st_ctx s) (st_ctx (snd (hc_bind m f s)))"
proof -
  obtain r s' where m: "m s = (r, s')" by force
  then have "st_ctx s' = st_ctx s" using assms(1) by (rule same_ctxD [rotated])
  then show ?thesis using assms(2) [of s'] m by (cases r) (auto intro: unchanged)
qed

lemma hc_with_ctx_Ok:
  assumes "hc_with_ctx f s = (Ok x, s')"
  shows "\<exists>ctx w w'. f ctx w = (Ok x, w')"
  using assms hc_io_Ok unfolding hc_with_ctx_def by metis

lemma insert_entry_change:
  assumes "opened_entry fe"
  shows "table_change (st_ctx s) (st_ctx (snd (hc_insert_entry os fe s)))"
  using opened [OF assms, of "st_ctx s"]
  by (auto simp: hc_insert_entry_def intro: unchanged split: res.splits prod.splits)

lemma path_open_change:
  "table_change (st_ctx s) (st_ctx (snd (path_open os lc tgt dirfd dirflags path_ptr path_len oflags
    rights_base rights_inheriting fdflags fd_out_ptr s)))"
proof -
  have "table_change (st_ctx s) (st_ctx (snd (case hc_with_ctx (\<lambda>ctx. impl_path_open os lc ctx dirfd
        dirflags path oflags rd wr nb ni fdflags) s of
      (Ok fe, s1) \<Rightarrow> hc_bind (hc_insert_entry os fe) (\<lambda>guest_fd.
          hc_write (\<lambda>mem. enc_fd_byref tgt mem fd_out_ptr guest_fd)) s1
    | (Err e, s1) \<Rightarrow>
        hc_bind (hc_write (\<lambda>mem. enc_fd_byref tgt mem fd_out_ptr (- 1))) (\<lambda>_. hc_res (Err e)) s1
    | (Panic, s1) \<Rightarrow> (Panic, s1))))" for s dirfd dirflags path oflags rd wr nb ni fdflags
  proof -
    obtain r s1 where r: "hc_with_ctx (\<lambda>ctx. impl_path_open os lc ctx dirfd
        dirflags path oflags rd wr nb ni fdflags) s = (r, s1)" by force
    have s1: "st_ctx s1 = st_ctx s" by (rule same_ctxD [OF same_ctx_simps(5) r])
    show ?thesis
    proof (cases r)
      case (Ok fe)
      obtain ctx w w' where "impl_path_open os lc ctx dirfd dirflags path oflags rd wr nb ni fdflags w
          = (Ok fe, w')"
        using hc_with_ctx_Ok [OF r [unfolded Ok]] by blast
      then have "opened_entry fe" by (rule path_open_opened)
      then have "table_change (st_ctx s1) (st_ctx (snd (hc_bind (hc_insert_entry os fe) (\<lambda>guest_fd.
          hc_write (\<lambda>mem. enc_fd_byref tgt mem fd_out_ptr guest_fd)) s1)))"
        by (intro change_then_same insert_entry_change) simp_all
      then show ?thesis using r Ok s1 by simp
    next
      case (Err e)
      have "table_change (st_ctx s1) (st_ctx (snd (hc_bind
          (hc_write (\<lambda>mem. enc_fd_byref tgt mem fd_out_ptr (- 1))) (\<lambda>_. hc_res (Err e)) s1)))"
        by (rule same_then_change) (simp_all add: unchanged)
      then show ?thesis using r Err s1 by simp
    qed (use r s1 in \<open>simp add: unchanged\<close>)
  qed
  then show ?thesis
    unfolding path_open_def Let_def snd_hostcall by (intro same_then_change) simp_all
qed

lemma run_other_keeps:
  assumes "supported tgt" "run os lc tgt c s = Some (out, s')" "\<not> changes_table c"
  shows "st_ctx s' = st_ctx s"
proof -
  let ?I = "frame (length (st_mem s)) ((=) (st_ctx s))"
  have "quiet True os lc tgt (length (st_mem s)) ((=) (st_ctx s))" using assms(1) by (simp add: quiet_def)
  then have "obeys_if_returns True tgt ?I (run os lc tgt c)"
    by (rule run_keeps_frame) (use assms(3) in simp_all)
  moreover have "?I s" by (simp add: frame_def)
  ultimately have "?I s'" using assms(2) unfolding obeys_if_returns_def by blast
  then show ?thesis by (simp add: frame_def)
qed

lemma run_changes:
  assumes "supported tgt" "run os lc tgt c s = Some (out, s')"
  shows "table_change (st_ctx s) (st_ctx s')"
proof (cases "changes_table c")
  case True
  then show ?thesis
  proof (cases c)
    case (Fd_close fd)
    then have "s' = snd (fd_close os tgt fd s)" using assms(2) by simp
    then show ?thesis by (simp add: fd_close_change)
  next
    case (Fd_renumber fd fd')
    then have "s' = snd (fd_renumber os tgt fd fd' s)" using assms(2) by simp
    then show ?thesis by (simp add: fd_renumber_change)
  next
    case (Fd_fdstat_set_rights fd a b)
    then have "s' = snd (fd_fdstat_set_rights tgt fd a b s)" using assms(2) by simp
    then show ?thesis by (simp add: set_rights_change)
  next
    case (Path_open fd fl a b o1 r i ff d)
    then have "s' = snd (path_open os lc tgt fd fl a b o1 r i ff d s)" using assms(2) by simp
    then show ?thesis by (simp add: path_open_change)
  qed simp_all
next
  case False
  then show ?thesis using run_other_keeps [OF assms] by (simp add: unchanged)
qed

end
