(* ===== verification/Guest_Runs.thy ===== *)
theory Guest_Runs
  imports Wasi_System
begin

text \<open>
  What holds along every run of a guest, whatever it calls and whatever the platform does: the
  steps of a guest, the properties of the context that every step keeps, and the properties of one
  call that do not depend on which call it is.
\<close>

section \<open>Steps of a guest\<close>

text \<open>
  Between two calls the guest writes its memory or lets it grow, and the world changes.  A call
  that panics or exits ends the run.
\<close>

inductive guest_step ::
  "('w, 'z) os_scheme \<Rightarrow> 'y libc_misc_scheme \<Rightarrow> target \<Rightarrow> 'w store \<Rightarrow> 'w store \<Rightarrow> bool"
  for os lc tgt where
  calls: "run os lc tgt c s = Some (Ret e, s') \<Longrightarrow> guest_step os lc tgt s s'"
| computes: "length (st_mem s) \<le> length mem \<Longrightarrow> guest_step os lc tgt s (s\<lparr>st_mem := mem\<rparr>)"
| waits: "guest_step os lc tgt s (s\<lparr>st_world := w\<rparr>)"

inductive_cases guest_stepE: "guest_step os lc tgt s s'"

abbreviation guest_run ::
  "('w, 'z) os_scheme \<Rightarrow> 'y libc_misc_scheme \<Rightarrow> target \<Rightarrow> 'w store \<Rightarrow> 'w store \<Rightarrow> bool" where
  "guest_run os lc tgt \<equiv> (guest_step os lc tgt)\<^sup>*\<^sup>*"

context table_inv
begin

lemma change_keeps: "table_change ctx ctx' \<Longrightarrow> Q ctx \<Longrightarrow> Q ctx'"
  by (induction rule: table_change.induct) (auto intro: inv_open inv_remove inv_limit)

lemma step_keeps:
  assumes "supported tgt" "guest_step os lc tgt s s'" "Q (st_ctx s)"
  shows "Q (st_ctx s')"
  using assms(2)
  by (rule guest_stepE) (use assms(3) change_keeps [OF run_changes [OF assms(1)]] in auto)

lemma guest_run_keeps:
  assumes "guest_run os lc tgt s s'" "supported tgt" "Q (st_ctx s)"
  shows "Q (st_ctx s')"
  using assms by (induction rule: rtranclp_induct) (auto intro: step_keeps)

end

section \<open>Properties of the context that all steps keep\<close>

definition same_strings :: "wasi_ctx \<Rightarrow> wasi_ctx \<Rightarrow> bool" where
  "same_strings ctx ctx' \<longleftrightarrow> args ctx' = args ctx \<and> env ctx' = env ctx"

lemma insert_fd_entry_Ok:
  "insert_fd_entry ctx fe = Ok (fd, ctx') \<longleftrightarrow>
     next_free_fd (fds ctx) 3 = Some fd \<and> ctx' = ctx\<lparr>fds := hm_insert fd fe (fds ctx)\<rparr>"
  by (auto simp: insert_fd_entry_def split: option.splits)

interpretation strings: table_inv "same_strings ctx" for ctx
  by unfold_locales (auto simp: same_strings_def insert_fd_entry_Ok put_fd_entry_def)

interpretation distinct_keys: table_inv "\<lambda>ctx. hm_inv (fds ctx)"
  by unfold_locales (auto simp: insert_fd_entry_Ok put_fd_entry_def hm.inv_insert hm.inv_remove)

text \<open>Every preopened directory is one of those there were at the start, with the same path.\<close>

definition preopens_from :: "wasi_ctx \<Rightarrow> wasi_ctx \<Rightarrow> bool" where
  "preopens_from ctx ctx' \<longleftrightarrow> (\<forall>fd fe. hm_get (fds ctx') fd = Some fe \<longrightarrow> fe_preopen_path fe \<noteq> None \<longrightarrow>
     (\<exists>fe0. hm_get (fds ctx) fd = Some fe0 \<and> fe_preopen_path fe0 = fe_preopen_path fe \<and>
        fe_object fe0 = fe_object fe))"

interpretation preopens: table_inv "preopens_from ctx" for ctx
proof unfold_locales
  fix ctx1 fe fd ctx2
  assume "preopens_from ctx ctx1" "opened_entry fe" "insert_fd_entry ctx1 fe = Ok (fd, ctx2)"
  then show "preopens_from ctx ctx2"
    by (auto simp: preopens_from_def insert_fd_entry_Ok opened_entry_def update_conv')
next
  fix ctx1 fd fe rb ri
  assume "preopens_from ctx ctx1" "hm_get (fds ctx1) fd = Some fe"
  then show "preopens_from ctx
      (put_fd_entry ctx1 fd (fe\<lparr>fe_rights_base := rb, fe_rights_inheriting := ri\<rparr>))"
    by (auto simp: preopens_from_def put_fd_entry_def update_conv')
qed (auto simp: preopens_from_def delete_conv')

text \<open>The rights of every descriptor are rights of one type of file.\<close>

definition fitting_rights :: "fd_entry \<Rightarrow> bool" where
  "fitting_rights fe \<longleftrightarrow> (\<exists>ty base inh. (ty, base, inh) \<in> set type_rights \<and>
     fe_rights_base fe AND NOT base = 0 \<and> fe_rights_inheriting fe AND NOT inh = 0)"

definition rights_fit :: "wasi_ctx \<Rightarrow> bool" where
  "rights_fit ctx \<longleftrightarrow> (\<forall>fd fe. hm_get (fds ctx) fd = Some fe \<longrightarrow> fitting_rights fe)"

lemma fewer_rights_trans:
  "fewer_rights r r' \<Longrightarrow> r' AND NOT b = 0 \<Longrightarrow> r AND NOT b = 0"
proof -
  assume r: "fewer_rights r r'" and b: "r' AND NOT b = 0"
  have "(r' AND r) AND NOT b = r AND (r' AND NOT b)" by (simp add: ac_simps)
  then show "r AND NOT b = 0" using r b by (simp add: fewer_rights_def)
qed

lemma fitting_fewer:
  "fitting_rights fe \<Longrightarrow> fewer_rights rb (fe_rights_base fe) \<Longrightarrow>
     fewer_rights ri (fe_rights_inheriting fe) \<Longrightarrow>
     fitting_rights (fe\<lparr>fe_rights_base := rb, fe_rights_inheriting := ri\<rparr>)"
  unfolding fitting_rights_def by (auto intro: fewer_rights_trans)

interpretation rights: table_inv rights_fit
proof unfold_locales
  fix ctx fe fd ctx'
  assume "rights_fit ctx" "opened_entry fe" "insert_fd_entry ctx fe = Ok (fd, ctx')"
  then show "rights_fit ctx'"
    by (auto simp: rights_fit_def insert_fd_entry_Ok opened_entry_def fitting_rights_def update_conv')
next
  fix ctx fd fe rb ri
  assume "rights_fit ctx" "hm_get (fds ctx) fd = Some fe"
    "fewer_rights rb (fe_rights_base fe)" "fewer_rights ri (fe_rights_inheriting fe)"
  then show "rights_fit (put_fd_entry ctx fd (fe\<lparr>fe_rights_base := rb, fe_rights_inheriting := ri\<rparr>))"
    using fitting_fewer by (auto simp: rights_fit_def put_fd_entry_def update_conv')
qed (auto simp: rights_fit_def delete_conv')

interpretation small: table_inv small_ctx
  by unfold_locales (auto simp: small_ctx_def insert_fd_entry_Ok opened_entry_def put_fd_entry_def
      update_conv' delete_conv' split: if_splits)

section \<open>Startup\<close>

lemma new_entry_fits:
  assumes "(ty, base0, inh) \<in> set type_rights" "base = limit_access lc flags base0"
  shows "fitting_rights (new_entry d (ty, base, inh))"
  using assms limit_access_subset by (fastforce simp: fitting_rights_def new_entry_def)

lemma determined_fits:
  assumes "io_map (new_entry d) (determine_type_and_access_rights os lc f) w = (Ok fe, w')"
  shows "fitting_rights fe"
proof -
  obtain ty base inh where t: "determine_type_and_access_rights os lc f w = (Ok (ty, base, inh), w')"
      and fe: "fe = new_entry d (ty, base, inh)"
    using assms by (auto simp: io_map_Ok_iff)
  show ?thesis
    using determine_rights_Ok [OF t] new_entry_fits [of ty _ inh base lc _ d] fe by metis
qed

text \<open>An entry of a standard stream or of a file that is not preopened.\<close>

definition std_entry :: "fd_entry \<Rightarrow> bool" where
  "std_entry fe \<longleftrightarrow> fitting_rights fe \<and> fe_preopen_path fe = None"

definition yields :: "(fd_entry \<Rightarrow> bool) \<Rightarrow> ('w, fd_entry) io \<Rightarrow> bool" where
  "yields P e \<longleftrightarrow> (\<forall>w fe w'. e w = (Ok fe, w') \<longrightarrow> P fe)"

definition table_all :: "(fd_entry \<Rightarrow> bool) \<Rightarrow> fd_table \<Rightarrow> bool" where
  "table_all P m \<longleftrightarrow> (\<forall>k fe. hm_get m k = Some fe \<longrightarrow> P fe)"

lemma table_all_insert: "table_all P m \<Longrightarrow> P fe \<Longrightarrow> table_all P (hm_insert k fe m)"
  by (auto simp: table_all_def update_conv')

lemma determined_std:
  assumes "io_map (new_entry d) (determine_type_and_access_rights os lc f) w = (Ok fe, w')"
  shows "std_entry fe"
  using determined_fits [OF assms] assms by (auto simp: std_entry_def io_map_Ok_iff new_entry_def)

lemma fdentry_from_std: "fdentry_from os lc f w = (Ok fe, w') \<Longrightarrow> std_entry fe"
  unfolding fdentry_from_def by (auto dest: determined_std)

lemma duplicate_std:
  "yields std_entry (duplicate_stdin os lc)" "yields std_entry (duplicate_stdout os lc)"
  "yields std_entry (duplicate_stderr os lc)"
  unfolding yields_def duplicate_stdin_def duplicate_stdout_def duplicate_stderr_def
  by (blast intro: determined_std)+

text \<open>The table of a builder: exactly the standard descriptors, none of them preopened.\<close>

definition std_table :: "fd_table \<Rightarrow> bool" where
  "std_table m \<longleftrightarrow> (\<forall>k. hm_get m k \<noteq> None \<longleftrightarrow> k \<in> {0, 1, 2}) \<and> table_all std_entry m"

lemma insert_std_Ok:
  assumes "yields std_entry e" "insert_std os k e b w = (Ok b', w')" "table_all std_entry (b_fds b)"
  shows "table_all std_entry (b_fds b')" "dom (hm_get (b_fds b')) = insert k (dom (hm_get (b_fds b)))"
proof -
  obtain fe w1 where "e w = (Ok fe, w1)" "b' = b\<lparr>b_fds := hm_insert k fe (b_fds b)\<rparr>"
    using assms(2) by (auto simp: insert_std_def io_bind_Ok_iff replace_entry_def)
  then show "table_all std_entry (b_fds b')" "dom (hm_get (b_fds b')) = insert k (dom (hm_get (b_fds b)))"
    using assms(1,3) by (auto simp: yields_def update_conv' intro: table_all_insert)
qed

lemma std_table_iff: "std_table m \<longleftrightarrow> dom (hm_get m) = {0, 1, 2} \<and> table_all std_entry m"
  by (auto simp: std_table_def)

lemma three_std:
  assumes "yields std_entry e0" "yields std_entry e1" "yields std_entry e2"
    and i: "insert_std os 0 e0 b w = (Ok b1, w1)" "insert_std os 1 e1 b1 w1 = (Ok b2, w2)"
      "insert_std os 2 e2 b2 w2 = (Ok b', w')"
    and b: "table_all std_entry (b_fds b)" "dom (hm_get (b_fds b)) \<subseteq> {0, 1, 2}"
  shows "std_table (b_fds b')"
proof -
  note s1 = insert_std_Ok [OF assms(1) i(1) b(1)]
  note s2 = insert_std_Ok [OF assms(2) i(2) s1(1)]
  note s3 = insert_std_Ok [OF assms(3) i(3) s2(1)]
  show ?thesis using s1(2) s2(2) s3 b(2) by (auto simp: std_table_iff)
qed

lemma builder_new_std: "builder_new os lc w = (Ok b, w') \<Longrightarrow> std_table (b_fds b)"
proof -
  assume b: "builder_new os lc w = (Ok b, w')"
  let ?null = "io_bind (dev_null os) (fdentry_from os lc)"
  have null: "yields std_entry ?null"
    by (auto simp: yields_def io_bind_Ok_iff dest: fdentry_from_std)
  obtain b1 w1 b2 w2 where i:
      "insert_std os 0 ?null \<lparr>b_fds = [], b_preopens = [], b_args = [], b_env = []\<rparr> w = (Ok b1, w1)"
      "insert_std os 1 ?null b1 w1 = (Ok b2, w2)" "insert_std os 2 ?null b2 w2 = (Ok b, w')"
    using b by (auto simp: builder_new_def Let_def io_bind_Ok_iff [where f = "\<lambda>b. f b" for f])
  show ?thesis by (rule three_std [OF null null null i]) (simp_all add: table_all_def)
qed

lemma inherit_stdio_std:
  assumes "inherit_stdio os lc b w = (Ok b', w')" "std_table (b_fds b)"
  shows "std_table (b_fds b')"
proof -
  obtain b1 w1 b2 w2 where i: "insert_std os 0 (duplicate_stdin os lc) b w = (Ok b1, w1)"
      "insert_std os 1 (duplicate_stdout os lc) b1 w1 = (Ok b2, w2)"
      "insert_std os 2 (duplicate_stderr os lc) b2 w2 = (Ok b', w')"
    using assms(1) by (auto simp: inherit_stdio_def io_bind_Ok_iff)
  show ?thesis
    by (rule three_std [OF duplicate_std i]) (use assms(2) in \<open>simp_all add: std_table_iff\<close>)
qed

text \<open>A builder as the public methods of \<^verbatim>\<open>WasiCtxBuilder\<close> make it.\<close>

inductive made_builder ::
  "('w, 'z) nix_os_scheme \<Rightarrow> 'y libc_scheme \<Rightarrow> wasi_ctx_builder \<Rightarrow> bool" for os lc where
  made_new: "builder_new os lc w = (Ok b, w') \<Longrightarrow> made_builder os lc b"
| made_args: "made_builder os lc b \<Longrightarrow> builder_args os b xs w = (Ok b', w') \<Longrightarrow> made_builder os lc b'"
| made_arg: "made_builder os lc b \<Longrightarrow> builder_arg os b x w = (Ok b', w') \<Longrightarrow> made_builder os lc b'"
| made_stdio: "made_builder os lc b \<Longrightarrow> inherit_stdio os lc b w = (Ok b', w') \<Longrightarrow> made_builder os lc b'"
| made_inherit_env: "made_builder os lc b \<Longrightarrow> inherit_env os b w = (Ok b', w') \<Longrightarrow> made_builder os lc b'"
| made_env: "made_builder os lc b \<Longrightarrow> builder_env os b k v w = (Ok b', w') \<Longrightarrow> made_builder os lc b'"
| made_envs: "made_builder os lc b \<Longrightarrow> builder_envs os b kvs w = (Ok b', w') \<Longrightarrow> made_builder os lc b'"
| made_preopened: "made_builder os lc b \<Longrightarrow> preopened_dir os b dir path w = (b', w') \<Longrightarrow>
    made_builder os lc b'"

lemma made_builder_std: "made_builder os lc b \<Longrightarrow> std_table (b_fds b)"
proof (induction rule: made_builder.induct)
  case (made_stdio b w b' w')
  then show ?case by (blast intro: inherit_stdio_std)
qed (auto dest: builder_new_std simp: builder_args_def builder_arg_def inherit_env_def builder_env_def
    builder_envs_def preopened_dir_def map_ok_Ok_iff and_then_Ok_iff)

text \<open>The entries of a context: fitting rights, and a preopened one is a directory of the builder.\<close>

definition built_entry :: "(bytes \<times> raw_fd) list \<Rightarrow> fd_entry \<Rightarrow> bool" where
  "built_entry dirs fe \<longleftrightarrow> fitting_rights fe \<and> (\<forall>path. fe_preopen_path fe = Some path \<longrightarrow>
     (\<exists>dir. (path, dir) \<in> set dirs \<and> fo_descriptor (fe_object fe) = File dir))"

lemma build_preopens_entries:
  "build_preopens os lc tgt dirs fd m w = (Ok m', w') \<Longrightarrow> set dirs \<subseteq> set all_dirs \<Longrightarrow>
     table_all (built_entry all_dirs) m \<Longrightarrow> table_all (built_entry all_dirs) m'"
proof (induction os lc tgt dirs fd m arbitrary: w rule: build_preopens.induct)
  case (2 os lc tgt guest_path dir dirs fd m)
  obtain k w1 fe w2 next_fd w3 where fe: "fdentry_from os lc dir w1 = (Ok fe, w2)"
      and rest: "build_preopens os lc tgt dirs next_fd
        (hm_insert k (fe\<lparr>fe_preopen_path := Some guest_path\<rparr>) m) w3 = (Ok m', w')"
    using 2(2) by (auto simp: Let_def io_bind_Ok_iff)
  have "fo_descriptor (fe_object fe) = File dir"
    using fdentry_from_Ok(1) [OF fe] by (metis fd_object.select_convs(2))
  then have "built_entry all_dirs (fe\<lparr>fe_preopen_path := Some guest_path\<rparr>)"
    using fdentry_from_std [OF fe] 2(3) by (auto simp: std_entry_def built_entry_def fitting_rights_def)
  then show ?case using 2(1) [OF refl refl rest] 2(3,4) by (simp add: table_all_insert)
qed simp

lemma build_entries:
  assumes "build os lc tgt po eo b w = (Ok ctx, w')" "std_table (b_fds b)"
  shows "table_all (built_entry (po (b_preopens b))) (fds ctx)"
proof -
  obtain m where m: "build_preopens os lc tgt (po (b_preopens b)) 3 (b_fds b) w = (Ok m, w')"
      "fds ctx = m"
    using assms(1) by (auto simp: build_def io_map_Ok_iff)
  have "table_all (built_entry (po (b_preopens b))) (b_fds b)"
    using assms(2) by (auto simp: std_table_iff table_all_def std_entry_def built_entry_def)
  then show ?thesis using build_preopens_entries [OF m(1) order_refl] m(2) by simp
qed

section \<open>One call, whichever it is\<close>

lemma return_not_Exited [simp]: "return_enc_errno tgt e \<noteq> Exited rval"
  by (simp add: return_enc_errno_def Let_def)

lemma hostcall_not_Exited [simp]: "hostcall tgt m s \<noteq> (Exited rval, s')"
  by (auto simp: hostcall_def split: prod.splits res.splits)

lemma poll_not_Exited: "poll_oneoff os lc tgt i out ns ne s \<noteq> Some (Exited rval, s')"
  by (auto simp: poll_oneoff_def split: prod.splits res.splits option.splits)

lemmas hostcall_defs = args_get_def args_sizes_get_def environ_get_def environ_sizes_get_def
  clock_res_get_def clock_time_get_def fd_advise_def fd_allocate_def fd_close_def fd_datasync_def
  fd_sync_def fd_fdstat_get_def fd_fdstat_set_flags_def fd_fdstat_set_rights_def fd_filestat_get_def
  fd_filestat_set_size_def fd_filestat_set_times_def fd_pread_def fd_pwrite_def fd_read_def
  fd_write_def fd_prestat_get_def fd_prestat_dir_name_def fd_readdir_def fd_renumber_def fd_seek_def
  fd_tell_def path_create_directory_def path_filestat_get_def path_filestat_set_times_def
  path_link_def path_open_def path_readlink_def path_remove_directory_def path_unlink_file_def
  path_rename_def path_symlink_def random_get_def sched_yield_def

lemma run_Exited:
  assumes "run os lc tgt c s = Some (Exited rval, s')"
  shows "\<exists>raw. c = Proc_exit raw \<and> rval = dec_exitcode tgt raw"
  using assms
  by (cases c) (simp_all add: hostcall_defs poll_not_Exited proc_exit_def proc_raise_def
      sock_recv_def sock_send_def sock_shutdown_def)

lemma insert_fd_entry_fresh: "insert_fd_entry ctx fe = Ok (k, ctx') \<Longrightarrow> hm_get (fds ctx) k = None"
  by (auto simp: insert_fd_entry_Ok hm.keys_def dest!: next_free_fd_Some(2))


text \<open>
  C5. Whatever the guest calls with whatever arguments, and whatever the platform answers: the
  guest's memory keeps its size, the program's arguments and environment are unchanged, and the
  number returned is, once decoded, success or one of the 76 errors WASI defines.
\<close>

theorem any_call_is_sound:
  assumes "supported tgt" "run os lc tgt c s = Some (out, s')"
  shows "length (st_mem s') = length (st_mem s) \<and>
    args (st_ctx s') = args (st_ctx s) \<and> env (st_ctx s') = env (st_ctx s) \<and>
    (case out of
       Ret e \<Rightarrow> dec_errno tgt e = WASI_ESUCCESS \<or> 0 < unat (dec_errno tgt e) \<and> unat (dec_errno tgt e) \<le> 76
     | Panicked \<Rightarrow> True
     | Exited rval \<Rightarrow> \<exists>raw. c = Proc_exit raw \<and> rval = dec_exitcode tgt raw)"
proof -
  have "quiet True os lc tgt (length (st_mem s)) (same_strings (st_ctx s))"
    using assms(1) by (simp add: quiet_def)
  then have f: "frame (length (st_mem s)) (same_strings (st_ctx s)) s' \<and> ret_ok True tgt out"
    by (rule strings.run_keeps [OF _ _ _ assms(2)]) (simp_all add: frame_def same_strings_def)
  have "\<exists>raw. c = Proc_exit raw \<and> rval = dec_exitcode tgt raw" if "out = Exited rval" for rval
    using run_Exited [OF assms(2) [unfolded that]] .
  then show ?thesis
    using f by (cases out) (auto simp: frame_def same_strings_def ret_ok_def valid_err_def)
qed

definition idle_store :: "unit store" where
  "idle_store = \<lparr>st_ctx = \<lparr>fds = [(0, some_entry), (4, some_entry)], args = [[65]], env = []\<rparr>,
     st_mem = replicate 64 0, st_world = ()\<rparr>"

lemma any_call_is_sound_witness:
  "\<exists>out s'. run idle_os linux_consts tgt_le (Fd_close 4) idle_store = Some (out, s') \<and>
     length (st_mem s') = 64 \<and> args (st_ctx s') = [[65]]"
proof -
  obtain out s' where r: "run idle_os linux_consts tgt_le (Fd_close 4) idle_store = Some (out, s')"
    by (cases "fd_close idle_os tgt_le 4 idle_store") simp
  have "supported tgt_le" by (simp add: supported_def)
  then show ?thesis using any_call_is_sound [OF _ r] r by (auto simp: idle_store_def)
qed


lemma numbered_idle: "numbered idle_os linux_consts"
  by (simp add: numbered_def numbered_calls_def numbered_paths_def numbered_names_def has_number_def idle_defs
      linux_consts_def)

lemma bounded_idle: "bounded_io idle_os"
  by (simp add: bounded_io_def idle_defs)

lemma small_idle: "small_ctx (st_ctx idle_store)"
  by (simp add: small_ctx_def idle_store_def with_nul_def some_entry_def new_entry_def)


text \<open>
  C28. Only four calls change the context: every other one leaves the arguments, the environment and
  the whole table of descriptors as they were.
\<close>

theorem other_calls_keep_context:
  assumes "supported tgt" "run os lc tgt c s = Some (out, s')"
    and "\<And>fd. c \<noteq> Fd_close fd" "\<And>from to. c \<noteq> Fd_renumber from to"
    and "\<And>fd rb ri. c \<noteq> Fd_fdstat_set_rights fd rb ri"
    and "\<And>fd fl a n oflags rb ri ff out. c \<noteq> Path_open fd fl a n oflags rb ri ff out"
  shows "st_ctx s' = st_ctx s"
proof -
  have "(\<exists>fd. c = Fd_close fd) \<or> (\<exists>from to. c = Fd_renumber from to) \<or>
      (\<exists>fd rb ri. c = Fd_fdstat_set_rights fd rb ri) \<or>
      (\<exists>fd fl a n oflags rb ri ff out. c = Path_open fd fl a n oflags rb ri ff out)"
    if "changes_table c"
    using that by (cases c) simp_all
  then have "\<not> changes_table c" using assms(3-6) by meson
  then show ?thesis using run_other_keeps [OF assms(1,2)] by simp
qed

lemma other_calls_keep_context_witness:
  "\<exists>out s'. run idle_os linux_consts tgt_le (Fd_seek 4 8 0 16) idle_store = Some (out, s') \<and>
     st_ctx s' = st_ctx idle_store"
proof -
  obtain out s' where r: "run idle_os linux_consts tgt_le (Fd_seek 4 8 0 16) idle_store = Some (out, s')"
    by (cases "fd_seek idle_os tgt_le 4 8 0 16 idle_store") simp
  have "st_ctx s' = st_ctx idle_store"
    by (rule other_calls_keep_context [OF _ r]) (simp_all add: supported_def)
  then show ?thesis using r by blast
qed



section \<open>Whole runs\<close>

text \<open>
  C3. From a context that any sequence of builder methods made, and however long the guest runs:
  every descriptor in its table has at most the rights of some type of file, a preopened one is a
  directory the embedder gave the builder, under the path it gave for it, and the arguments and
  the environment are those of the builder.
\<close>

theorem guest_run_stays_inside:
  assumes "made_builder os lc b" "build os lc tgt po eo b w = (Ok ctx, w')" "supported tgt"
    and "guest_run os lc tgt \<lparr>st_ctx = ctx, st_mem = mem, st_world = w'\<rparr> s"
  shows "(\<forall>fd fe. hm_get (fds (st_ctx s)) fd = Some fe \<longrightarrow>
      (\<exists>ty base inh. (ty, base, inh) \<in> set type_rights \<and>
        fe_rights_base fe AND NOT base = 0 \<and> fe_rights_inheriting fe AND NOT inh = 0) \<and>
      (\<forall>path. fe_preopen_path fe = Some path \<longrightarrow>
        (\<exists>dir. (path, dir) \<in> set (po (b_preopens b)) \<and> fo_descriptor (fe_object fe) = File dir))) \<and>
    args (st_ctx s) = b_args b \<and> env (st_ctx s) = map env_string (eo (b_env b))"
proof -
  have built: "table_all (built_entry (po (b_preopens b))) (fds ctx)"
    using build_entries [OF assms(2) made_builder_std [OF assms(1)]] .
  then have "rights_fit ctx" by (auto simp: table_all_def built_entry_def rights_fit_def)
  then have fit: "rights_fit (st_ctx s)"
    by (intro rights.guest_run_keeps [OF assms(4,3)]) simp
  have pre: "preopens_from ctx (st_ctx s)"
    by (intro preopens.guest_run_keeps [OF assms(4,3)]) (simp add: preopens_from_def)
  have "same_strings ctx (st_ctx s)"
    by (intro strings.guest_run_keeps [OF assms(4,3)]) (simp add: same_strings_def)
  moreover have "args ctx = b_args b" "env ctx = map env_string (eo (b_env b))"
    using assms(2) by (auto simp: build_def io_map_Ok_iff)
  moreover have "\<exists>dir. (path, dir) \<in> set (po (b_preopens b)) \<and> fo_descriptor (fe_object fe) = File dir"
    if fe: "hm_get (fds (st_ctx s)) fd = Some fe" "fe_preopen_path fe = Some path" for fd fe path
  proof -
    obtain fe0 where "hm_get (fds ctx) fd = Some fe0" "fe_preopen_path fe0 = Some path"
        "fe_object fe0 = fe_object fe"
      using pre fe by (force simp: preopens_from_def)
    then show ?thesis using built by (force simp: table_all_def built_entry_def)
  qed
  ultimately show ?thesis using fit by (simp add: rights_fit_def fitting_rights_def same_strings_def)
qed

text \<open>A platform on which every path opens as descriptor 9, a directory.\<close>

definition open_os :: "'w os" where
  "open_os = dir_os\<lparr>sys_open := \<lambda>_ w. (Inr 9, w)\<rparr>"

lemma open_os_sys [simp]:
  "sys_open open_os p w = (Inr 9, w)" "sys_close open_os fd w = w"
  "sys_metadata open_os fd w = (Inr \<lparr>md_file_type = Ft_dir, md_len = 0\<rparr>, w)"
  "sys_fcntl_getfl open_os fd w = (Inr 2, w)"
  by (simp_all add: open_os_def dir_os_def idle_defs)

lemma open_os_entry: "\<exists>fe. fdentry_from open_os linux_consts fd w = (Ok fe, w)"
  using good_dir_from [of open_os w fd linux_consts] by (auto simp: good_dir_def)

lemma open_os_builder: "\<exists>b. builder_new open_os linux_consts w = (Ok b, w) \<and> b_preopens b = []"
proof -
  obtain fe where fe: "fdentry_from open_os linux_consts 9 w = (Ok fe, w)"
    using open_os_entry [of 9 w] by (elim exE)
  have "drop_fd_entry open_os fe w = w"
    by (simp add: drop_fd_object_def split: descriptor.splits)
  then show ?thesis
    using fe by (simp add: builder_new_def insert_std_def replace_entry_def dev_null_def from_std_or_def
        Let_def io_bind_def io_on_fail_def)
qed

lemma guest_run_stays_inside_witness:
  "\<exists>b ctx s fe. build open_os linux_consts tgt_le rev id b () = (Ok ctx, ()) \<and>
     guest_run open_os linux_consts tgt_le \<lparr>st_ctx = ctx, st_mem = [0, 0], st_world = ()\<rparr> s \<and>
     hm_get (fds (st_ctx s)) 3 = Some fe \<and> fe_preopen_path fe = Some [46] \<and>
     fo_descriptor (fe_object fe) = File 7"
proof -
  obtain b0 where b0: "builder_new open_os linux_consts () = (Ok b0, ())" "b_preopens b0 = []"
    using open_os_builder [of "()"] by (elim exE conjE)
  let ?b = "b0\<lparr>b_preopens := [([46 :: u8], 7)]\<rparr>"
  have pd: "preopened_dir open_os b0 7 [46] () = (?b, ())"
    by (simp add: preopened_dir_def b0(2))
  have made: "made_builder (open_os :: unit os) linux_consts ?b"
    by (rule made_preopened [OF made_new [OF b0(1)] pd])
  let ?dirs = "rev (b_preopens ?b)"
  have good: "list_all (\<lambda>d. good_dir open_os () (snd d)) ?dirs"
    by (simp add: good_dir_def)
  have keys: "hm_get (b_fds ?b) k \<noteq> None \<longleftrightarrow> k \<in> {0, 1, 2}" for k
    using made_builder_std [OF made] by (simp add: std_table_def)
  obtain m where m: "build_preopens open_os linux_consts tgt_le ?dirs 3 (b_fds ?b) () = (Ok m, ())"
      and pre: "\<forall>i < length ?dirs. is_preopen m (3 + of_nat i) (?dirs ! i)"
    using build_preopens_consecutive [OF good, of "b_fds ?b" 3 linux_consts tgt_le] keys unat_less_3
    by auto
  define ctx where "ctx = \<lparr>fds = m, args = b_args ?b, env = map env_string (id (b_env ?b))\<rparr>"
  have ctx: "build open_os linux_consts tgt_le rev id ?b () = (Ok ctx, ())"
    using m by (simp add: build_def io_map_def ctx_def)
  let ?s = "\<lambda>mem. \<lparr>st_ctx = ctx, st_mem = mem, st_world = ()\<rparr>"
  have step: "guest_step open_os linux_consts tgt_le (?s [0, 0]) (?s [1, 0, 0])"
    using guest_step.computes [of "?s [0, 0]" "[1, 0, 0]"] by simp
  have run: "guest_run open_os linux_consts tgt_le (?s [0, 0]) (?s [1, 0, 0])"
    using step by (rule r_into_rtranclp)
  obtain fe where fe: "hm_get (fds ctx) 3 = Some fe" "fe_preopen_path fe = Some [46]"
    using pre by (auto simp: is_preopen_def ctx_def)
  have sup: "supported tgt_le" by (simp add: supported_def)
  note inside = guest_run_stays_inside [OF made ctx sup run, THEN conjunct1, rule_format]
  have get: "hm_get (fds (st_ctx (?s [1, 0, 0]))) 3 = Some fe" using fe(1) by simp
  have "\<exists>dir. ([46], dir) \<in> set ?dirs \<and> fo_descriptor (fe_object fe) = File dir"
    by (rule inside [THEN conjunct2, rule_format, OF get fe(2)])
  then have "fo_descriptor (fe_object fe) = File 7" by simp
  with get fe(2) ctx run show ?thesis
    by (intro exI conjI)
qed

end
