(* ===== verification/C_Layout.thy ===== *)
theory C_Layout
  imports Prelude
begin

text \<open>
  The memory layout Rust gives to a \<^verbatim>\<open>repr(C)\<close> type: each field of a struct at the next offset
  its alignment allows, the fields of a union at offset 0, and the size rounded up to a multiple of
  the alignment.  Where the size of a pointer and the alignment of a 64-bit integer depend on the
  target they are fields of \<open>abi\<close>.
\<close>

named_theorems ctype_simps

section \<open>Types\<close>

datatype prim = I8 | U8 | I16 | U16 | I32 | U32 | I64 | U64 | Usize | Ptr

datatype ctype =
    Scalar prim
  | Array ctype nat
  | Struct "(string \<times> ctype) list"
  | Union "(string \<times> ctype) list"

record abi =
  usize_bytes :: nat
  align_64 :: nat

definition valid_abi :: "abi \<Rightarrow> bool" where
  "valid_abi abi \<longleftrightarrow> usize_bytes abi \<in> {4, 8} \<and> align_64 abi \<in> {4, 8}"

fun prim_size :: "abi \<Rightarrow> prim \<Rightarrow> nat" where
  "prim_size abi p = (case p of
     I8 \<Rightarrow> 1 | U8 \<Rightarrow> 1 | I16 \<Rightarrow> 2 | U16 \<Rightarrow> 2 | I32 \<Rightarrow> 4 | U32 \<Rightarrow> 4 | I64 \<Rightarrow> 8 | U64 \<Rightarrow> 8
   | Usize \<Rightarrow> usize_bytes abi | Ptr \<Rightarrow> usize_bytes abi)"

fun prim_align :: "abi \<Rightarrow> prim \<Rightarrow> nat" where
  "prim_align abi p = (if p \<in> {I64, U64} then align_64 abi else prim_size abi p)"

section \<open>Alignment, size and offsets\<close>

definition round_up :: "nat \<Rightarrow> nat \<Rightarrow> nat" where
  "round_up n a = (n + a - 1) div a * a"

fun c_align :: "abi \<Rightarrow> ctype \<Rightarrow> nat" and fields_align :: "abi \<Rightarrow> (string \<times> ctype) list \<Rightarrow> nat" where
  "c_align abi (Scalar p) = prim_align abi p"
| "c_align abi (Array t n) = c_align abi t"
| "c_align abi (Struct fs) = fields_align abi fs"
| "c_align abi (Union fs) = fields_align abi fs"
| "fields_align abi [] = 1"
| "fields_align abi ((f, t) # fs) = max (c_align abi t) (fields_align abi fs)"

fun c_size :: "abi \<Rightarrow> ctype \<Rightarrow> nat"
  and struct_end :: "abi \<Rightarrow> nat \<Rightarrow> (string \<times> ctype) list \<Rightarrow> nat"
  and union_end :: "abi \<Rightarrow> (string \<times> ctype) list \<Rightarrow> nat" where
  "c_size abi (Scalar p) = prim_size abi p"
| "c_size abi (Array t n) = c_size abi t * n"
| "c_size abi (Struct fs) = round_up (struct_end abi 0 fs) (fields_align abi fs)"
| "c_size abi (Union fs) = round_up (union_end abi fs) (fields_align abi fs)"
| "struct_end abi off [] = off"
| "struct_end abi off ((f, t) # fs) =
     struct_end abi (round_up off (c_align abi t) + c_size abi t) fs"
| "union_end abi [] = 0"
| "union_end abi ((f, t) # fs) = max (c_size abi t) (union_end abi fs)"

fun struct_offsets :: "abi \<Rightarrow> nat \<Rightarrow> (string \<times> ctype) list \<Rightarrow> (string \<times> nat) list" where
  "struct_offsets abi off [] = []"
| "struct_offsets abi off ((f, t) # fs) =
     (let o_f = round_up off (c_align abi t) in (f, o_f) # struct_offsets abi (o_f + c_size abi t) fs)"

fun offset_of :: "abi \<Rightarrow> ctype \<Rightarrow> string \<Rightarrow> nat option" where
  "offset_of abi (Struct fs) f = map_of (struct_offsets abi 0 fs) f"
| "offset_of abi (Union fs) f = (if f \<in> fst ` set fs then Some 0 else None)"
| "offset_of abi (Scalar p) f = None"
| "offset_of abi (Array t n) f = None"

end
