(* ===== verification/Wasm32_Abi.thy ===== *)
theory Wasm32_Abi
  imports C_Layout Wasi_Types
begin

text \<open>
  \<^verbatim>\<open>src/wasm32.rs\<close> as the types, the constants and the layout tests declare it: the
  representation of WASI values in the guest's memory.  The names are those of the source with the
  prefix \<open>w32_\<close> and without leading underscores; a test is the conjunction of its assertions.
\<close>

named_theorems limit_simps
named_theorems w32_const_lists

section \<open>Type aliases\<close>

definition w32_char :: ctype where [ctype_simps]: "w32_char = Scalar I8"
definition w32_schar :: ctype where [ctype_simps]: "w32_schar = Scalar I8"
definition w32_uchar :: ctype where [ctype_simps]: "w32_uchar = Scalar U8"
definition w32_short :: ctype where [ctype_simps]: "w32_short = Scalar I16"
definition w32_ushort :: ctype where [ctype_simps]: "w32_ushort = Scalar U16"
definition w32_int :: ctype where [ctype_simps]: "w32_int = Scalar I32"
definition w32_uint :: ctype where [ctype_simps]: "w32_uint = Scalar U32"
definition w32_long :: ctype where [ctype_simps]: "w32_long = Scalar I32"
definition w32_ulong :: ctype where [ctype_simps]: "w32_ulong = Scalar U32"
definition w32_longlong :: ctype where [ctype_simps]: "w32_longlong = Scalar I64"
definition w32_ulonglong :: ctype where [ctype_simps]: "w32_ulonglong = Scalar U64"
definition w32_int8_t :: ctype where [ctype_simps]: "w32_int8_t = Scalar I8"
definition w32_uint8_t :: ctype where [ctype_simps]: "w32_uint8_t = Scalar U8"
definition w32_int16_t :: ctype where [ctype_simps]: "w32_int16_t = Scalar I16"
definition w32_uint16_t :: ctype where [ctype_simps]: "w32_uint16_t = Scalar U16"
definition w32_int32_t :: ctype where [ctype_simps]: "w32_int32_t = Scalar I32"
definition w32_uint32_t :: ctype where [ctype_simps]: "w32_uint32_t = Scalar U32"
definition w32_int64_t :: ctype where [ctype_simps]: "w32_int64_t = Scalar I64"
definition w32_uint64_t :: ctype where [ctype_simps]: "w32_uint64_t = Scalar U64"
definition w32_intmax_t :: ctype where [ctype_simps]: "w32_intmax_t = Scalar I64"
definition w32_uintmax_t :: ctype where [ctype_simps]: "w32_uintmax_t = Scalar U64"
definition w32_int_least8_t :: ctype where [ctype_simps]: "w32_int_least8_t = Scalar I8"
definition w32_int_least16_t :: ctype where [ctype_simps]: "w32_int_least16_t = Scalar I16"
definition w32_int_least32_t :: ctype where [ctype_simps]: "w32_int_least32_t = Scalar I32"
definition w32_int_least64_t :: ctype where [ctype_simps]: "w32_int_least64_t = Scalar I64"
definition w32_uint_least8_t :: ctype where [ctype_simps]: "w32_uint_least8_t = Scalar U8"
definition w32_uint_least16_t :: ctype where [ctype_simps]: "w32_uint_least16_t = Scalar U16"
definition w32_uint_least32_t :: ctype where [ctype_simps]: "w32_uint_least32_t = Scalar U32"
definition w32_uint_least64_t :: ctype where [ctype_simps]: "w32_uint_least64_t = Scalar U64"
definition w32_int_fast8_t :: ctype where [ctype_simps]: "w32_int_fast8_t = Scalar I8"
definition w32_int_fast16_t :: ctype where [ctype_simps]: "w32_int_fast16_t = Scalar I32"
definition w32_int_fast32_t :: ctype where [ctype_simps]: "w32_int_fast32_t = Scalar I32"
definition w32_int_fast64_t :: ctype where [ctype_simps]: "w32_int_fast64_t = Scalar I64"
definition w32_uint_fast8_t :: ctype where [ctype_simps]: "w32_uint_fast8_t = Scalar U8"
definition w32_uint_fast16_t :: ctype where [ctype_simps]: "w32_uint_fast16_t = Scalar U32"
definition w32_uint_fast32_t :: ctype where [ctype_simps]: "w32_uint_fast32_t = Scalar U32"
definition w32_uint_fast64_t :: ctype where [ctype_simps]: "w32_uint_fast64_t = Scalar U64"
definition w32_size_t :: ctype where [ctype_simps]: "w32_size_t = w32_ulong"
definition w32_intptr_t :: ctype where [ctype_simps]: "w32_intptr_t = w32_long"
definition w32_uintptr_t :: ctype where [ctype_simps]: "w32_uintptr_t = w32_ulong"
definition w32_wchar_t :: ctype where [ctype_simps]: "w32_wchar_t = Scalar I32"
definition w32_dev_t :: ctype where [ctype_simps]: "w32_dev_t = Scalar U64"
definition w32_uid_t :: ctype where [ctype_simps]: "w32_uid_t = Scalar U32"
definition w32_gid_t :: ctype where [ctype_simps]: "w32_gid_t = Scalar U32"
definition w32_ino_t :: ctype where [ctype_simps]: "w32_ino_t = Scalar U64"
definition w32_ino64_t :: ctype where [ctype_simps]: "w32_ino64_t = Scalar U64"
definition w32_mode_t :: ctype where [ctype_simps]: "w32_mode_t = Scalar U32"
definition w32_nlink_t :: ctype where [ctype_simps]: "w32_nlink_t = Scalar U64"
definition w32_off_t :: ctype where [ctype_simps]: "w32_off_t = Scalar I64"
definition w32_off64_t :: ctype where [ctype_simps]: "w32_off64_t = Scalar I64"
definition w32_pid_t :: ctype where [ctype_simps]: "w32_pid_t = Scalar I32"
definition w32_clock_t :: ctype where [ctype_simps]: "w32_clock_t = Scalar I64"
definition w32_rlim_t :: ctype where [ctype_simps]: "w32_rlim_t = Scalar U64"
definition w32_rlim64_t :: ctype where [ctype_simps]: "w32_rlim64_t = Scalar U64"
definition w32_id_t :: ctype where [ctype_simps]: "w32_id_t = Scalar U32"
definition w32_time_t :: ctype where [ctype_simps]: "w32_time_t = Scalar I64"
definition w32_useconds_t :: ctype where [ctype_simps]: "w32_useconds_t = Scalar U32"
definition w32_suseconds_t :: ctype where [ctype_simps]: "w32_suseconds_t = Scalar I64"
definition w32_daddr_t :: ctype where [ctype_simps]: "w32_daddr_t = Scalar I32"
definition w32_key_t :: ctype where [ctype_simps]: "w32_key_t = Scalar I32"
definition w32_clockid_t :: ctype where [ctype_simps]: "w32_clockid_t = Scalar I32"
definition w32_timer_t :: ctype where [ctype_simps]: "w32_timer_t = w32_uintptr_t"
definition w32_blksize_t :: ctype where [ctype_simps]: "w32_blksize_t = Scalar I64"
definition w32_blkcnt_t :: ctype where [ctype_simps]: "w32_blkcnt_t = Scalar I64"
definition w32_blkcnt64_t :: ctype where [ctype_simps]: "w32_blkcnt64_t = Scalar I64"
definition w32_fsblkcnt_t :: ctype where [ctype_simps]: "w32_fsblkcnt_t = Scalar U64"
definition w32_fsblkcnt64_t :: ctype where [ctype_simps]: "w32_fsblkcnt64_t = Scalar U64"
definition w32_fsfilcnt_t :: ctype where [ctype_simps]: "w32_fsfilcnt_t = Scalar U64"
definition w32_fsfilcnt64_t :: ctype where [ctype_simps]: "w32_fsfilcnt64_t = Scalar U64"
definition w32_fsword_t :: ctype where [ctype_simps]: "w32_fsword_t = Scalar I64"
definition w32_ssize_t :: ctype where [ctype_simps]: "w32_ssize_t = Scalar I32"
definition w32_loff_t :: ctype where [ctype_simps]: "w32_loff_t = w32_off64_t"
definition w32_caddr_t :: ctype where [ctype_simps]: "w32_caddr_t = w32_uintptr_t"
definition w32_socklen_t :: ctype where [ctype_simps]: "w32_socklen_t = Scalar U32"
definition w32_sig_atomic_t :: ctype where [ctype_simps]: "w32_sig_atomic_t = Scalar I32"
definition w32_wasi_advice_t :: ctype where [ctype_simps]: "w32_wasi_advice_t = Scalar U8"
definition w32_wasi_clockid_t :: ctype where [ctype_simps]: "w32_wasi_clockid_t = Scalar U32"
definition w32_wasi_device_t :: ctype where [ctype_simps]: "w32_wasi_device_t = Scalar U64"
definition w32_wasi_dircookie_t :: ctype where [ctype_simps]: "w32_wasi_dircookie_t = Scalar U64"
definition w32_wasi_errno_t :: ctype where [ctype_simps]: "w32_wasi_errno_t = Scalar U16"
definition w32_wasi_eventrwflags_t :: ctype where [ctype_simps]: "w32_wasi_eventrwflags_t = Scalar U16"
definition w32_wasi_eventtype_t :: ctype where [ctype_simps]: "w32_wasi_eventtype_t = Scalar U8"
definition w32_wasi_exitcode_t :: ctype where [ctype_simps]: "w32_wasi_exitcode_t = Scalar U32"
definition w32_wasi_fd_t :: ctype where [ctype_simps]: "w32_wasi_fd_t = Scalar U32"
definition w32_wasi_fdflags_t :: ctype where [ctype_simps]: "w32_wasi_fdflags_t = Scalar U16"
definition w32_wasi_fdsflags_t :: ctype where [ctype_simps]: "w32_wasi_fdsflags_t = Scalar U16"
definition w32_wasi_filedelta_t :: ctype where [ctype_simps]: "w32_wasi_filedelta_t = Scalar I64"
definition w32_wasi_filesize_t :: ctype where [ctype_simps]: "w32_wasi_filesize_t = Scalar U64"
definition w32_wasi_filetype_t :: ctype where [ctype_simps]: "w32_wasi_filetype_t = Scalar U8"
definition w32_wasi_preopentype_t :: ctype where [ctype_simps]: "w32_wasi_preopentype_t = Scalar U8"
definition w32_wasi_fstflags_t :: ctype where [ctype_simps]: "w32_wasi_fstflags_t = Scalar U16"
definition w32_wasi_inode_t :: ctype where [ctype_simps]: "w32_wasi_inode_t = Scalar U64"
definition w32_wasi_linkcount_t :: ctype where [ctype_simps]: "w32_wasi_linkcount_t = Scalar U32"
definition w32_wasi_lookupflags_t :: ctype where [ctype_simps]: "w32_wasi_lookupflags_t = Scalar U32"
definition w32_wasi_oflags_t :: ctype where [ctype_simps]: "w32_wasi_oflags_t = Scalar U16"
definition w32_wasi_riflags_t :: ctype where [ctype_simps]: "w32_wasi_riflags_t = Scalar U16"
definition w32_wasi_rights_t :: ctype where [ctype_simps]: "w32_wasi_rights_t = Scalar U64"
definition w32_wasi_roflags_t :: ctype where [ctype_simps]: "w32_wasi_roflags_t = Scalar U16"
definition w32_wasi_sdflags_t :: ctype where [ctype_simps]: "w32_wasi_sdflags_t = Scalar U8"
definition w32_wasi_siflags_t :: ctype where [ctype_simps]: "w32_wasi_siflags_t = Scalar U16"
definition w32_wasi_signal_t :: ctype where [ctype_simps]: "w32_wasi_signal_t = Scalar U8"
definition w32_wasi_subclockflags_t :: ctype where [ctype_simps]: "w32_wasi_subclockflags_t = Scalar U16"
definition w32_wasi_timestamp_t :: ctype where [ctype_simps]: "w32_wasi_timestamp_t = Scalar U64"
definition w32_wasi_userdata_t :: ctype where [ctype_simps]: "w32_wasi_userdata_t = Scalar U64"
definition w32_wasi_whence_t :: ctype where [ctype_simps]: "w32_wasi_whence_t = Scalar U8"

section \<open>Structs and unions\<close>

definition w32_fsid_t :: ctype where [ctype_simps]:
  "w32_fsid_t = Struct
    [(''__val'', Array (Scalar I32) 2)]"

definition w32_wasi_dirent_t :: ctype where [ctype_simps]:
  "w32_wasi_dirent_t = Struct
    [(''d_next'', w32_wasi_dircookie_t),
     (''d_ino'', w32_wasi_inode_t),
     (''d_namlen'', Scalar U32),
     (''d_type'', w32_wasi_filetype_t),
     (''__bindgen_padding_0'', Array (Scalar U8) 3)]"

definition w32_wasi_event_t___wasi_event_u___wasi_event_u_fd_readwrite_t :: ctype where [ctype_simps]:
  "w32_wasi_event_t___wasi_event_u___wasi_event_u_fd_readwrite_t = Struct
    [(''nbytes'', w32_wasi_filesize_t),
     (''flags'', w32_wasi_eventrwflags_t),
     (''__bindgen_padding_0'', Array (Scalar U16) 3)]"

definition w32_wasi_prestat_t___wasi_prestat_u___wasi_prestat_u_dir_t :: ctype where [ctype_simps]:
  "w32_wasi_prestat_t___wasi_prestat_u___wasi_prestat_u_dir_t = Struct
    [(''pr_name_len'', w32_size_t)]"

definition w32_wasi_event_t__bindgen_ty_1__bindgen_ty_1 :: ctype where [ctype_simps]:
  "w32_wasi_event_t__bindgen_ty_1__bindgen_ty_1 = Struct
    [(''nbytes'', w32_wasi_filesize_t),
     (''flags'', w32_wasi_eventrwflags_t),
     (''__bindgen_padding_0'', Array (Scalar U16) 3)]"

definition w32_wasi_event_t__bindgen_ty_1__bindgen_ty_2 :: ctype where [ctype_simps]:
  "w32_wasi_event_t__bindgen_ty_1__bindgen_ty_2 = Struct
    [(''signal'', w32_wasi_signal_t),
     (''exitcode'', w32_wasi_exitcode_t)]"

definition w32_wasi_fdstat_t :: ctype where [ctype_simps]:
  "w32_wasi_fdstat_t = Struct
    [(''fs_filetype'', w32_wasi_filetype_t),
     (''fs_flags'', w32_wasi_fdflags_t),
     (''__bindgen_padding_0'', Scalar U32),
     (''fs_rights_base'', w32_wasi_rights_t),
     (''fs_rights_inheriting'', w32_wasi_rights_t)]"

definition w32_wasi_filestat_t :: ctype where [ctype_simps]:
  "w32_wasi_filestat_t = Struct
    [(''st_dev'', w32_wasi_device_t),
     (''st_ino'', w32_wasi_inode_t),
     (''st_filetype'', w32_wasi_filetype_t),
     (''st_nlink'', w32_wasi_linkcount_t),
     (''st_size'', w32_wasi_filesize_t),
     (''st_atim'', w32_wasi_timestamp_t),
     (''st_mtim'', w32_wasi_timestamp_t),
     (''st_ctim'', w32_wasi_timestamp_t)]"

definition w32_wasi_ciovec_t :: ctype where [ctype_simps]:
  "w32_wasi_ciovec_t = Struct
    [(''buf'', w32_uintptr_t),
     (''buf_len'', w32_size_t)]"

definition w32_wasi_iovec_t :: ctype where [ctype_simps]:
  "w32_wasi_iovec_t = Struct
    [(''buf'', w32_uintptr_t),
     (''buf_len'', w32_size_t)]"

definition w32_wasi_subscription_t___wasi_subscription_u___wasi_subscription_u_clock_t :: ctype where [ctype_simps]:
  "w32_wasi_subscription_t___wasi_subscription_u___wasi_subscription_u_clock_t = Struct
    [(''identifier'', w32_wasi_userdata_t),
     (''clock_id'', w32_wasi_clockid_t),
     (''__bindgen_padding_0'', Scalar U32),
     (''timeout'', w32_wasi_timestamp_t),
     (''precision'', w32_wasi_timestamp_t),
     (''flags'', w32_wasi_subclockflags_t),
     (''__bindgen_padding_1'', Array (Scalar U16) 3)]"

definition w32_wasi_subscription_t___wasi_subscription_u___wasi_subscription_u_fd_readwrite_t :: ctype where [ctype_simps]:
  "w32_wasi_subscription_t___wasi_subscription_u___wasi_subscription_u_fd_readwrite_t = Struct
    [(''fd'', w32_wasi_fd_t)]"

definition w32_wasi_event_t___wasi_event_u :: ctype where [ctype_simps]:
  "w32_wasi_event_t___wasi_event_u = Union
    [(''fd_readwrite'', w32_wasi_event_t___wasi_event_u___wasi_event_u_fd_readwrite_t),
     (''_bindgen_union_align'', Array (Scalar U64) 2)]"

definition w32_wasi_prestat_t___wasi_prestat_u :: ctype where [ctype_simps]:
  "w32_wasi_prestat_t___wasi_prestat_u = Union
    [(''dir'', w32_wasi_prestat_t___wasi_prestat_u___wasi_prestat_u_dir_t)]"

definition w32_wasi_event_t__bindgen_ty_1 :: ctype where [ctype_simps]:
  "w32_wasi_event_t__bindgen_ty_1 = Union
    [(''fd_readwrite'', w32_wasi_event_t__bindgen_ty_1__bindgen_ty_1),
     (''_bindgen_union_align'', Array (Scalar U64) 2)]"

definition w32_wasi_subscription_t___wasi_subscription_u :: ctype where [ctype_simps]:
  "w32_wasi_subscription_t___wasi_subscription_u = Union
    [(''clock'', w32_wasi_subscription_t___wasi_subscription_u___wasi_subscription_u_clock_t),
     (''fd_readwrite'', w32_wasi_subscription_t___wasi_subscription_u___wasi_subscription_u_fd_readwrite_t),
     (''_bindgen_union_align'', Array (Scalar U64) 5)]"

definition w32_wasi_event_t :: ctype where [ctype_simps]:
  "w32_wasi_event_t = Struct
    [(''userdata'', w32_wasi_userdata_t),
     (''error'', w32_wasi_errno_t),
     (''type_'', w32_wasi_eventtype_t),
     (''__bindgen_padding_0'', Scalar U32),
     (''u'', w32_wasi_event_t___wasi_event_u)]"

definition w32_wasi_prestat_t :: ctype where [ctype_simps]:
  "w32_wasi_prestat_t = Struct
    [(''pr_type'', w32_wasi_preopentype_t),
     (''u'', w32_wasi_prestat_t___wasi_prestat_u)]"

definition w32_wasi_subscription_t :: ctype where [ctype_simps]:
  "w32_wasi_subscription_t = Struct
    [(''userdata'', w32_wasi_userdata_t),
     (''type_'', w32_wasi_eventtype_t),
     (''__bindgen_padding_0'', Scalar U32),
     (''u'', w32_wasi_subscription_t___wasi_subscription_u)]"

section \<open>The layout tests\<close>

definition w32_bindgen_test_layout_fsid_t :: "abi \<Rightarrow> bool" where [ctype_simps]:
  "w32_bindgen_test_layout_fsid_t abi \<longleftrightarrow>
     c_size abi w32_fsid_t = 8 \<and>
     c_align abi w32_fsid_t = 4 \<and>
     offset_of abi w32_fsid_t ''__val'' = Some 0"

definition w32_bindgen_test_layout_wasi_dirent_t :: "abi \<Rightarrow> bool" where [ctype_simps]:
  "w32_bindgen_test_layout_wasi_dirent_t abi \<longleftrightarrow>
     c_size abi w32_wasi_dirent_t = 24 \<and>
     offset_of abi w32_wasi_dirent_t ''d_next'' = Some 0 \<and>
     offset_of abi w32_wasi_dirent_t ''d_ino'' = Some 8 \<and>
     offset_of abi w32_wasi_dirent_t ''d_namlen'' = Some 16 \<and>
     offset_of abi w32_wasi_dirent_t ''d_type'' = Some 20"

definition w32_bindgen_test_layout___wasi_event_t___wasi_event_u___wasi_event_u_fd_readwrite_t :: "abi \<Rightarrow> bool" where [ctype_simps]:
  "w32_bindgen_test_layout___wasi_event_t___wasi_event_u___wasi_event_u_fd_readwrite_t abi \<longleftrightarrow>
     c_size abi w32_wasi_event_t___wasi_event_u___wasi_event_u_fd_readwrite_t = 16 \<and>
     c_align abi w32_wasi_event_t___wasi_event_u___wasi_event_u_fd_readwrite_t = 8 \<and>
     offset_of abi w32_wasi_event_t___wasi_event_u___wasi_event_u_fd_readwrite_t ''nbytes'' = Some 0 \<and>
     offset_of abi w32_wasi_event_t___wasi_event_u___wasi_event_u_fd_readwrite_t ''flags'' = Some 8"

definition w32_bindgen_test_layout___wasi_event_t___wasi_event_u :: "abi \<Rightarrow> bool" where [ctype_simps]:
  "w32_bindgen_test_layout___wasi_event_t___wasi_event_u abi \<longleftrightarrow>
     c_size abi w32_wasi_event_t___wasi_event_u = 16 \<and>
     c_align abi w32_wasi_event_t___wasi_event_u = 8 \<and>
     offset_of abi w32_wasi_event_t___wasi_event_u ''fd_readwrite'' = Some 0"

definition w32_bindgen_test_layout___wasi_event_t :: "abi \<Rightarrow> bool" where [ctype_simps]:
  "w32_bindgen_test_layout___wasi_event_t abi \<longleftrightarrow>
     c_size abi w32_wasi_event_t = 32 \<and>
     c_align abi w32_wasi_event_t = 8 \<and>
     offset_of abi w32_wasi_event_t ''userdata'' = Some 0 \<and>
     offset_of abi w32_wasi_event_t ''error'' = Some 8 \<and>
     offset_of abi w32_wasi_event_t ''type_'' = Some 10 \<and>
     offset_of abi w32_wasi_event_t ''u'' = Some 16"

definition w32_bindgen_test_layout___wasi_prestat_t___wasi_prestat_u___wasi_prestat_u_dir_t :: "abi \<Rightarrow> bool" where [ctype_simps]:
  "w32_bindgen_test_layout___wasi_prestat_t___wasi_prestat_u___wasi_prestat_u_dir_t abi \<longleftrightarrow>
     c_size abi w32_wasi_prestat_t___wasi_prestat_u___wasi_prestat_u_dir_t = 4 \<and>
     c_align abi w32_wasi_prestat_t___wasi_prestat_u___wasi_prestat_u_dir_t = 4 \<and>
     offset_of abi w32_wasi_prestat_t___wasi_prestat_u___wasi_prestat_u_dir_t ''pr_name_len'' = Some 0"

definition w32_bindgen_test_layout___wasi_prestat_t___wasi_prestat_u :: "abi \<Rightarrow> bool" where [ctype_simps]:
  "w32_bindgen_test_layout___wasi_prestat_t___wasi_prestat_u abi \<longleftrightarrow>
     c_size abi w32_wasi_prestat_t___wasi_prestat_u = 4 \<and>
     c_align abi w32_wasi_prestat_t___wasi_prestat_u = 4 \<and>
     offset_of abi w32_wasi_prestat_t___wasi_prestat_u ''dir'' = Some 0"

definition w32_bindgen_test_layout___wasi_prestat_t :: "abi \<Rightarrow> bool" where [ctype_simps]:
  "w32_bindgen_test_layout___wasi_prestat_t abi \<longleftrightarrow>
     c_size abi w32_wasi_prestat_t = 8 \<and>
     c_align abi w32_wasi_prestat_t = 4 \<and>
     offset_of abi w32_wasi_prestat_t ''pr_type'' = Some 0 \<and>
     offset_of abi w32_wasi_prestat_t ''u'' = Some 4"

definition w32_bindgen_test_layout_wasi_event_t__bindgen_ty_1__bindgen_ty_1 :: "abi \<Rightarrow> bool" where [ctype_simps]:
  "w32_bindgen_test_layout_wasi_event_t__bindgen_ty_1__bindgen_ty_1 abi \<longleftrightarrow>
     c_size abi w32_wasi_event_t__bindgen_ty_1__bindgen_ty_1 = 16 \<and>
     offset_of abi w32_wasi_event_t__bindgen_ty_1__bindgen_ty_1 ''nbytes'' = Some 0 \<and>
     offset_of abi w32_wasi_event_t__bindgen_ty_1__bindgen_ty_1 ''flags'' = Some 8"

definition w32_bindgen_test_layout_wasi_event_t__bindgen_ty_1__bindgen_ty_2 :: "abi \<Rightarrow> bool" where [ctype_simps]:
  "w32_bindgen_test_layout_wasi_event_t__bindgen_ty_1__bindgen_ty_2 abi \<longleftrightarrow>
     c_size abi w32_wasi_event_t__bindgen_ty_1__bindgen_ty_2 = 8 \<and>
     c_align abi w32_wasi_event_t__bindgen_ty_1__bindgen_ty_2 = 4 \<and>
     offset_of abi w32_wasi_event_t__bindgen_ty_1__bindgen_ty_2 ''signal'' = Some 0 \<and>
     offset_of abi w32_wasi_event_t__bindgen_ty_1__bindgen_ty_2 ''exitcode'' = Some 4"

definition w32_bindgen_test_layout_wasi_event_t__bindgen_ty_1 :: "abi \<Rightarrow> bool" where [ctype_simps]:
  "w32_bindgen_test_layout_wasi_event_t__bindgen_ty_1 abi \<longleftrightarrow>
     c_size abi w32_wasi_event_t__bindgen_ty_1 = 16 \<and>
     offset_of abi w32_wasi_event_t__bindgen_ty_1 ''fd_readwrite'' = Some 0"

definition w32_bindgen_test_layout_wasi_event_t :: "abi \<Rightarrow> bool" where [ctype_simps]:
  "w32_bindgen_test_layout_wasi_event_t abi \<longleftrightarrow>
     c_size abi w32_wasi_event_t = 32 \<and>
     offset_of abi w32_wasi_event_t ''userdata'' = Some 0 \<and>
     offset_of abi w32_wasi_event_t ''error'' = Some 8 \<and>
     offset_of abi w32_wasi_event_t ''type_'' = Some 10"

definition w32_bindgen_test_layout_wasi_fdstat_t :: "abi \<Rightarrow> bool" where [ctype_simps]:
  "w32_bindgen_test_layout_wasi_fdstat_t abi \<longleftrightarrow>
     c_size abi w32_wasi_fdstat_t = 24 \<and>
     offset_of abi w32_wasi_fdstat_t ''fs_filetype'' = Some 0 \<and>
     offset_of abi w32_wasi_fdstat_t ''fs_flags'' = Some 2 \<and>
     offset_of abi w32_wasi_fdstat_t ''fs_rights_base'' = Some 8 \<and>
     offset_of abi w32_wasi_fdstat_t ''fs_rights_inheriting'' = Some 16"

definition w32_bindgen_test_layout_wasi_filestat_t :: "abi \<Rightarrow> bool" where [ctype_simps]:
  "w32_bindgen_test_layout_wasi_filestat_t abi \<longleftrightarrow>
     c_size abi w32_wasi_filestat_t = 56 \<and>
     offset_of abi w32_wasi_filestat_t ''st_dev'' = Some 0 \<and>
     offset_of abi w32_wasi_filestat_t ''st_ino'' = Some 8 \<and>
     offset_of abi w32_wasi_filestat_t ''st_filetype'' = Some 16 \<and>
     offset_of abi w32_wasi_filestat_t ''st_nlink'' = Some 20 \<and>
     offset_of abi w32_wasi_filestat_t ''st_size'' = Some 24 \<and>
     offset_of abi w32_wasi_filestat_t ''st_atim'' = Some 32 \<and>
     offset_of abi w32_wasi_filestat_t ''st_mtim'' = Some 40 \<and>
     offset_of abi w32_wasi_filestat_t ''st_ctim'' = Some 48"

definition w32_bindgen_test_layout_wasi_ciovec_t :: "abi \<Rightarrow> bool" where [ctype_simps]:
  "w32_bindgen_test_layout_wasi_ciovec_t abi \<longleftrightarrow>
     c_size abi w32_wasi_ciovec_t = 8 \<and>
     c_align abi w32_wasi_ciovec_t = 4 \<and>
     offset_of abi w32_wasi_ciovec_t ''buf'' = Some 0 \<and>
     offset_of abi w32_wasi_ciovec_t ''buf_len'' = Some 4"

definition w32_bindgen_test_layout_wasi_iovec_t :: "abi \<Rightarrow> bool" where [ctype_simps]:
  "w32_bindgen_test_layout_wasi_iovec_t abi \<longleftrightarrow>
     c_size abi w32_wasi_iovec_t = 8 \<and>
     c_align abi w32_wasi_iovec_t = 4 \<and>
     offset_of abi w32_wasi_iovec_t ''buf'' = Some 0 \<and>
     offset_of abi w32_wasi_iovec_t ''buf_len'' = Some 4"

definition w32_bindgen_test_layout___wasi_subscription_t___wasi_subscription_u___wasi_subscription_u_clock_t :: "abi \<Rightarrow> bool" where [ctype_simps]:
  "w32_bindgen_test_layout___wasi_subscription_t___wasi_subscription_u___wasi_subscription_u_clock_t abi \<longleftrightarrow>
     c_size abi w32_wasi_subscription_t___wasi_subscription_u___wasi_subscription_u_clock_t = 40 \<and>
     c_align abi w32_wasi_subscription_t___wasi_subscription_u___wasi_subscription_u_clock_t = 8 \<and>
     offset_of abi w32_wasi_subscription_t___wasi_subscription_u___wasi_subscription_u_clock_t ''identifier'' = Some 0 \<and>
     offset_of abi w32_wasi_subscription_t___wasi_subscription_u___wasi_subscription_u_clock_t ''clock_id'' = Some 8 \<and>
     offset_of abi w32_wasi_subscription_t___wasi_subscription_u___wasi_subscription_u_clock_t ''timeout'' = Some 16 \<and>
     offset_of abi w32_wasi_subscription_t___wasi_subscription_u___wasi_subscription_u_clock_t ''precision'' = Some 24 \<and>
     offset_of abi w32_wasi_subscription_t___wasi_subscription_u___wasi_subscription_u_clock_t ''flags'' = Some 32"

definition w32_bindgen_test_layout___wasi_subscription_t___wasi_subscription_u___wasi_subscription_u_fd_readwrite_t :: "abi \<Rightarrow> bool" where [ctype_simps]:
  "w32_bindgen_test_layout___wasi_subscription_t___wasi_subscription_u___wasi_subscription_u_fd_readwrite_t abi \<longleftrightarrow>
     c_size abi w32_wasi_subscription_t___wasi_subscription_u___wasi_subscription_u_fd_readwrite_t = 4 \<and>
     c_align abi w32_wasi_subscription_t___wasi_subscription_u___wasi_subscription_u_fd_readwrite_t = 4 \<and>
     offset_of abi w32_wasi_subscription_t___wasi_subscription_u___wasi_subscription_u_fd_readwrite_t ''fd'' = Some 0"

definition w32_bindgen_test_layout___wasi_subscription_t___wasi_subscription_u :: "abi \<Rightarrow> bool" where [ctype_simps]:
  "w32_bindgen_test_layout___wasi_subscription_t___wasi_subscription_u abi \<longleftrightarrow>
     c_size abi w32_wasi_subscription_t___wasi_subscription_u = 40 \<and>
     c_align abi w32_wasi_subscription_t___wasi_subscription_u = 8 \<and>
     offset_of abi w32_wasi_subscription_t___wasi_subscription_u ''clock'' = Some 0 \<and>
     offset_of abi w32_wasi_subscription_t___wasi_subscription_u ''fd_readwrite'' = Some 0"

definition w32_bindgen_test_layout___wasi_subscription_t :: "abi \<Rightarrow> bool" where [ctype_simps]:
  "w32_bindgen_test_layout___wasi_subscription_t abi \<longleftrightarrow>
     c_size abi w32_wasi_subscription_t = 56 \<and>
     c_align abi w32_wasi_subscription_t = 8 \<and>
     offset_of abi w32_wasi_subscription_t ''userdata'' = Some 0 \<and>
     offset_of abi w32_wasi_subscription_t ''type_'' = Some 8 \<and>
     offset_of abi w32_wasi_subscription_t ''u'' = Some 16"

section \<open>Limits of the C types\<close>

definition w32_INT8_MIN :: "32 word" where [limit_simps]: "w32_INT8_MIN = -128"
definition w32_INT16_MIN :: "32 word" where [limit_simps]: "w32_INT16_MIN = -32768"
definition w32_INT32_MIN :: "32 word" where [limit_simps]: "w32_INT32_MIN = -2147483648"
definition w32_INT8_MAX :: u32 where [limit_simps]: "w32_INT8_MAX = 127"
definition w32_INT16_MAX :: u32 where [limit_simps]: "w32_INT16_MAX = 32767"
definition w32_INT32_MAX :: u32 where [limit_simps]: "w32_INT32_MAX = 2147483647"
definition w32_UINT8_MAX :: u32 where [limit_simps]: "w32_UINT8_MAX = 255"
definition w32_UINT16_MAX :: u32 where [limit_simps]: "w32_UINT16_MAX = 65535"
definition w32_UINT32_MAX :: u32 where [limit_simps]: "w32_UINT32_MAX = 4294967295"
definition w32_INT_LEAST8_MIN :: "32 word" where [limit_simps]: "w32_INT_LEAST8_MIN = -128"
definition w32_INT_LEAST16_MIN :: "32 word" where [limit_simps]: "w32_INT_LEAST16_MIN = -32768"
definition w32_INT_LEAST32_MIN :: "32 word" where [limit_simps]: "w32_INT_LEAST32_MIN = -2147483648"
definition w32_INT_LEAST8_MAX :: u32 where [limit_simps]: "w32_INT_LEAST8_MAX = 127"
definition w32_INT_LEAST16_MAX :: u32 where [limit_simps]: "w32_INT_LEAST16_MAX = 32767"
definition w32_INT_LEAST32_MAX :: u32 where [limit_simps]: "w32_INT_LEAST32_MAX = 2147483647"
definition w32_UINT_LEAST8_MAX :: u32 where [limit_simps]: "w32_UINT_LEAST8_MAX = 255"
definition w32_UINT_LEAST16_MAX :: u32 where [limit_simps]: "w32_UINT_LEAST16_MAX = 65535"
definition w32_UINT_LEAST32_MAX :: u32 where [limit_simps]: "w32_UINT_LEAST32_MAX = 4294967295"
definition w32_INT_FAST8_MIN :: "32 word" where [limit_simps]: "w32_INT_FAST8_MIN = -128"
definition w32_INT_FAST16_MIN :: "32 word" where [limit_simps]: "w32_INT_FAST16_MIN = -2147483648"
definition w32_INT_FAST32_MIN :: "32 word" where [limit_simps]: "w32_INT_FAST32_MIN = -2147483648"
definition w32_INT_FAST8_MAX :: u32 where [limit_simps]: "w32_INT_FAST8_MAX = 127"
definition w32_INT_FAST16_MAX :: u32 where [limit_simps]: "w32_INT_FAST16_MAX = 2147483647"
definition w32_INT_FAST32_MAX :: u32 where [limit_simps]: "w32_INT_FAST32_MAX = 2147483647"
definition w32_UINT_FAST8_MAX :: u32 where [limit_simps]: "w32_UINT_FAST8_MAX = 255"
definition w32_UINT_FAST16_MAX :: u32 where [limit_simps]: "w32_UINT_FAST16_MAX = 4294967295"
definition w32_UINT_FAST32_MAX :: u32 where [limit_simps]: "w32_UINT_FAST32_MAX = 4294967295"
definition w32_INTPTR_MIN :: "32 word" where [limit_simps]: "w32_INTPTR_MIN = -2147483648"
definition w32_INTPTR_MAX :: u32 where [limit_simps]: "w32_INTPTR_MAX = 2147483647"
definition w32_UINTPTR_MAX :: u32 where [limit_simps]: "w32_UINTPTR_MAX = 4294967295"
definition w32_PTRDIFF_MIN :: "32 word" where [limit_simps]: "w32_PTRDIFF_MIN = -2147483648"
definition w32_PTRDIFF_MAX :: u32 where [limit_simps]: "w32_PTRDIFF_MAX = 2147483647"
definition w32_SIG_ATOMIC_MIN :: "32 word" where [limit_simps]: "w32_SIG_ATOMIC_MIN = -2147483648"
definition w32_SIG_ATOMIC_MAX :: u32 where [limit_simps]: "w32_SIG_ATOMIC_MAX = 2147483647"
definition w32_SIZE_MAX :: u32 where [limit_simps]: "w32_SIZE_MAX = 4294967295"
definition w32_WINT_MIN :: "32 word" where [limit_simps]: "w32_WINT_MIN = -2147483648"
definition w32_WINT_MAX :: "32 word" where [limit_simps]: "w32_WINT_MAX = 2147483647"

section \<open>The constants\<close>

definition w32_advice_consts :: "(string \<times> wasi_advice_t) list" where [w32_const_lists]:
  "w32_advice_consts =
    [(''__WASI_ADVICE_NORMAL'', 0),
     (''__WASI_ADVICE_SEQUENTIAL'', 1),
     (''__WASI_ADVICE_RANDOM'', 2),
     (''__WASI_ADVICE_WILLNEED'', 3),
     (''__WASI_ADVICE_DONTNEED'', 4),
     (''__WASI_ADVICE_NOREUSE'', 5)]"

definition w32_clockid_consts :: "(string \<times> wasi_clockid_t) list" where [w32_const_lists]:
  "w32_clockid_consts =
    [(''__WASI_CLOCK_REALTIME'', 0),
     (''__WASI_CLOCK_MONOTONIC'', 1),
     (''__WASI_CLOCK_PROCESS_CPUTIME_ID'', 2),
     (''__WASI_CLOCK_THREAD_CPUTIME_ID'', 3)]"

definition w32_dircookie_consts :: "(string \<times> wasi_dircookie_t) list" where [w32_const_lists]:
  "w32_dircookie_consts =
    [(''__WASI_DIRCOOKIE_START'', 0)]"

definition w32_errno_consts :: "(string \<times> wasi_errno_t) list" where [w32_const_lists]:
  "w32_errno_consts =
    [(''__WASI_ESUCCESS'', 0),
     (''__WASI_E2BIG'', 1),
     (''__WASI_EACCES'', 2),
     (''__WASI_EADDRINUSE'', 3),
     (''__WASI_EADDRNOTAVAIL'', 4),
     (''__WASI_EAFNOSUPPORT'', 5),
     (''__WASI_EAGAIN'', 6),
     (''__WASI_EALREADY'', 7),
     (''__WASI_EBADF'', 8),
     (''__WASI_EBADMSG'', 9),
     (''__WASI_EBUSY'', 10),
     (''__WASI_ECANCELED'', 11),
     (''__WASI_ECHILD'', 12),
     (''__WASI_ECONNABORTED'', 13),
     (''__WASI_ECONNREFUSED'', 14),
     (''__WASI_ECONNRESET'', 15),
     (''__WASI_EDEADLK'', 16),
     (''__WASI_EDESTADDRREQ'', 17),
     (''__WASI_EDOM'', 18),
     (''__WASI_EDQUOT'', 19),
     (''__WASI_EEXIST'', 20),
     (''__WASI_EFAULT'', 21),
     (''__WASI_EFBIG'', 22),
     (''__WASI_EHOSTUNREACH'', 23),
     (''__WASI_EIDRM'', 24),
     (''__WASI_EILSEQ'', 25),
     (''__WASI_EINPROGRESS'', 26),
     (''__WASI_EINTR'', 27),
     (''__WASI_EINVAL'', 28),
     (''__WASI_EIO'', 29),
     (''__WASI_EISCONN'', 30),
     (''__WASI_EISDIR'', 31),
     (''__WASI_ELOOP'', 32),
     (''__WASI_EMFILE'', 33),
     (''__WASI_EMLINK'', 34),
     (''__WASI_EMSGSIZE'', 35),
     (''__WASI_EMULTIHOP'', 36),
     (''__WASI_ENAMETOOLONG'', 37),
     (''__WASI_ENETDOWN'', 38),
     (''__WASI_ENETRESET'', 39),
     (''__WASI_ENETUNREACH'', 40),
     (''__WASI_ENFILE'', 41),
     (''__WASI_ENOBUFS'', 42),
     (''__WASI_ENODEV'', 43),
     (''__WASI_ENOENT'', 44),
     (''__WASI_ENOEXEC'', 45),
     (''__WASI_ENOLCK'', 46),
     (''__WASI_ENOLINK'', 47),
     (''__WASI_ENOMEM'', 48),
     (''__WASI_ENOMSG'', 49),
     (''__WASI_ENOPROTOOPT'', 50),
     (''__WASI_ENOSPC'', 51),
     (''__WASI_ENOSYS'', 52),
     (''__WASI_ENOTCONN'', 53),
     (''__WASI_ENOTDIR'', 54),
     (''__WASI_ENOTEMPTY'', 55),
     (''__WASI_ENOTRECOVERABLE'', 56),
     (''__WASI_ENOTSOCK'', 57),
     (''__WASI_ENOTSUP'', 58),
     (''__WASI_ENOTTY'', 59),
     (''__WASI_ENXIO'', 60),
     (''__WASI_EOVERFLOW'', 61),
     (''__WASI_EOWNERDEAD'', 62),
     (''__WASI_EPERM'', 63),
     (''__WASI_EPIPE'', 64),
     (''__WASI_EPROTO'', 65),
     (''__WASI_EPROTONOSUPPORT'', 66),
     (''__WASI_EPROTOTYPE'', 67),
     (''__WASI_ERANGE'', 68),
     (''__WASI_EROFS'', 69),
     (''__WASI_ESPIPE'', 70),
     (''__WASI_ESRCH'', 71),
     (''__WASI_ESTALE'', 72),
     (''__WASI_ETIMEDOUT'', 73),
     (''__WASI_ETXTBSY'', 74),
     (''__WASI_EXDEV'', 75),
     (''__WASI_ENOTCAPABLE'', 76)]"

definition w32_eventrwflags_consts :: "(string \<times> wasi_eventrwflags_t) list" where [w32_const_lists]:
  "w32_eventrwflags_consts =
    [(''__WASI_EVENT_FD_READWRITE_HANGUP'', 1)]"

definition w32_eventtype_consts :: "(string \<times> wasi_eventtype_t) list" where [w32_const_lists]:
  "w32_eventtype_consts =
    [(''__WASI_EVENTTYPE_CLOCK'', 0),
     (''__WASI_EVENTTYPE_FD_READ'', 1),
     (''__WASI_EVENTTYPE_FD_WRITE'', 2)]"

definition w32_fdflags_consts :: "(string \<times> wasi_fdflags_t) list" where [w32_const_lists]:
  "w32_fdflags_consts =
    [(''__WASI_FDFLAG_APPEND'', 1),
     (''__WASI_FDFLAG_DSYNC'', 2),
     (''__WASI_FDFLAG_NONBLOCK'', 4),
     (''__WASI_FDFLAG_RSYNC'', 8),
     (''__WASI_FDFLAG_SYNC'', 16)]"

definition w32_preopentype_consts :: "(string \<times> wasi_preopentype_t) list" where [w32_const_lists]:
  "w32_preopentype_consts =
    [(''__WASI_PREOPENTYPE_DIR'', 0)]"

definition w32_filetype_consts :: "(string \<times> wasi_filetype_t) list" where [w32_const_lists]:
  "w32_filetype_consts =
    [(''__WASI_FILETYPE_UNKNOWN'', 0),
     (''__WASI_FILETYPE_BLOCK_DEVICE'', 1),
     (''__WASI_FILETYPE_CHARACTER_DEVICE'', 2),
     (''__WASI_FILETYPE_DIRECTORY'', 3),
     (''__WASI_FILETYPE_REGULAR_FILE'', 4),
     (''__WASI_FILETYPE_SOCKET_DGRAM'', 5),
     (''__WASI_FILETYPE_SOCKET_STREAM'', 6),
     (''__WASI_FILETYPE_SYMBOLIC_LINK'', 7)]"

definition w32_fstflags_consts :: "(string \<times> wasi_fstflags_t) list" where [w32_const_lists]:
  "w32_fstflags_consts =
    [(''__WASI_FILESTAT_SET_ATIM'', 1),
     (''__WASI_FILESTAT_SET_ATIM_NOW'', 2),
     (''__WASI_FILESTAT_SET_MTIM'', 4),
     (''__WASI_FILESTAT_SET_MTIM_NOW'', 8)]"

definition w32_lookupflags_consts :: "(string \<times> wasi_lookupflags_t) list" where [w32_const_lists]:
  "w32_lookupflags_consts =
    [(''__WASI_LOOKUP_SYMLINK_FOLLOW'', 1)]"

definition w32_oflags_consts :: "(string \<times> wasi_oflags_t) list" where [w32_const_lists]:
  "w32_oflags_consts =
    [(''__WASI_O_CREAT'', 1),
     (''__WASI_O_DIRECTORY'', 2),
     (''__WASI_O_EXCL'', 4),
     (''__WASI_O_TRUNC'', 8)]"

definition w32_riflags_consts :: "(string \<times> wasi_riflags_t) list" where [w32_const_lists]:
  "w32_riflags_consts =
    [(''__WASI_SOCK_RECV_PEEK'', 1),
     (''__WASI_SOCK_RECV_WAITALL'', 2)]"

definition w32_rights_consts :: "(string \<times> wasi_rights_t) list" where [w32_const_lists]:
  "w32_rights_consts =
    [(''__WASI_RIGHT_FD_DATASYNC'', 1),
     (''__WASI_RIGHT_FD_READ'', 2),
     (''__WASI_RIGHT_FD_SEEK'', 4),
     (''__WASI_RIGHT_FD_FDSTAT_SET_FLAGS'', 8),
     (''__WASI_RIGHT_FD_SYNC'', 16),
     (''__WASI_RIGHT_FD_TELL'', 32),
     (''__WASI_RIGHT_FD_WRITE'', 64),
     (''__WASI_RIGHT_FD_ADVISE'', 128),
     (''__WASI_RIGHT_FD_ALLOCATE'', 256),
     (''__WASI_RIGHT_PATH_CREATE_DIRECTORY'', 512),
     (''__WASI_RIGHT_PATH_CREATE_FILE'', 1024),
     (''__WASI_RIGHT_PATH_LINK_SOURCE'', 2048),
     (''__WASI_RIGHT_PATH_LINK_TARGET'', 4096),
     (''__WASI_RIGHT_PATH_OPEN'', 8192),
     (''__WASI_RIGHT_FD_READDIR'', 16384),
     (''__WASI_RIGHT_PATH_READLINK'', 32768),
     (''__WASI_RIGHT_PATH_RENAME_SOURCE'', 65536),
     (''__WASI_RIGHT_PATH_RENAME_TARGET'', 131072),
     (''__WASI_RIGHT_PATH_FILESTAT_GET'', 262144),
     (''__WASI_RIGHT_PATH_FILESTAT_SET_SIZE'', 524288),
     (''__WASI_RIGHT_PATH_FILESTAT_SET_TIMES'', 1048576),
     (''__WASI_RIGHT_FD_FILESTAT_GET'', 2097152),
     (''__WASI_RIGHT_FD_FILESTAT_SET_SIZE'', 4194304),
     (''__WASI_RIGHT_FD_FILESTAT_SET_TIMES'', 8388608),
     (''__WASI_RIGHT_PATH_SYMLINK'', 16777216),
     (''__WASI_RIGHT_PATH_REMOVE_DIRECTORY'', 33554432),
     (''__WASI_RIGHT_PATH_UNLINK_FILE'', 67108864),
     (''__WASI_RIGHT_POLL_FD_READWRITE'', 134217728),
     (''__WASI_RIGHT_SOCK_SHUTDOWN'', 268435456)]"

definition w32_roflags_consts :: "(string \<times> wasi_roflags_t) list" where [w32_const_lists]:
  "w32_roflags_consts =
    [(''__WASI_SOCK_RECV_DATA_TRUNCATED'', 1)]"

definition w32_sdflags_consts :: "(string \<times> wasi_sdflags_t) list" where [w32_const_lists]:
  "w32_sdflags_consts =
    [(''__WASI_SHUT_RD'', 1),
     (''__WASI_SHUT_WR'', 2)]"

definition w32_signal_consts :: "(string \<times> wasi_signal_t) list" where [w32_const_lists]:
  "w32_signal_consts =
    [(''__WASI_SIGHUP'', 1),
     (''__WASI_SIGINT'', 2),
     (''__WASI_SIGQUIT'', 3),
     (''__WASI_SIGILL'', 4),
     (''__WASI_SIGTRAP'', 5),
     (''__WASI_SIGABRT'', 6),
     (''__WASI_SIGBUS'', 7),
     (''__WASI_SIGFPE'', 8),
     (''__WASI_SIGKILL'', 9),
     (''__WASI_SIGUSR1'', 10),
     (''__WASI_SIGSEGV'', 11),
     (''__WASI_SIGUSR2'', 12),
     (''__WASI_SIGPIPE'', 13),
     (''__WASI_SIGALRM'', 14),
     (''__WASI_SIGTERM'', 15),
     (''__WASI_SIGCHLD'', 16),
     (''__WASI_SIGCONT'', 17),
     (''__WASI_SIGSTOP'', 18),
     (''__WASI_SIGTSTP'', 19),
     (''__WASI_SIGTTIN'', 20),
     (''__WASI_SIGTTOU'', 21),
     (''__WASI_SIGURG'', 22),
     (''__WASI_SIGXCPU'', 23),
     (''__WASI_SIGXFSZ'', 24),
     (''__WASI_SIGVTALRM'', 25),
     (''__WASI_SIGPROF'', 26),
     (''__WASI_SIGWINCH'', 27),
     (''__WASI_SIGPOLL'', 28),
     (''__WASI_SIGPWR'', 29),
     (''__WASI_SIGSYS'', 30)]"

definition w32_subclockflags_consts :: "(string \<times> wasi_subclockflags_t) list" where [w32_const_lists]:
  "w32_subclockflags_consts =
    [(''__WASI_SUBSCRIPTION_CLOCK_ABSTIME'', 1)]"

definition w32_whence_consts :: "(string \<times> wasi_whence_t) list" where [w32_const_lists]:
  "w32_whence_consts =
    [(''__WASI_WHENCE_CUR'', 0),
     (''__WASI_WHENCE_END'', 1),
     (''__WASI_WHENCE_SET'', 2)]"

end
