(* ===== verification/Host_Abi.thy ===== *)
theory Host_Abi
  imports Wasm32_Abi
begin

text \<open>
  \<^verbatim>\<open>src/host.rs\<close> as its types and layout tests declare it: the host's representation of WASI values,
  with the prefix \<open>host_\<close>, and the constants that no other code uses.
\<close>

section \<open>Type aliases\<close>

definition host_wasi_advice_t :: ctype where [ctype_simps]: "host_wasi_advice_t = Scalar U8"
definition host_wasi_clockid_t :: ctype where [ctype_simps]: "host_wasi_clockid_t = Scalar U32"
definition host_wasi_device_t :: ctype where [ctype_simps]: "host_wasi_device_t = Scalar U64"
definition host_wasi_dircookie_t :: ctype where [ctype_simps]: "host_wasi_dircookie_t = Scalar U64"
definition host_wasi_errno_t :: ctype where [ctype_simps]: "host_wasi_errno_t = Scalar U16"
definition host_wasi_eventrwflags_t :: ctype where [ctype_simps]: "host_wasi_eventrwflags_t = Scalar U16"
definition host_wasi_eventtype_t :: ctype where [ctype_simps]: "host_wasi_eventtype_t = Scalar U8"
definition host_wasi_exitcode_t :: ctype where [ctype_simps]: "host_wasi_exitcode_t = Scalar U32"
definition host_wasi_fd_t :: ctype where [ctype_simps]: "host_wasi_fd_t = Scalar U32"
definition host_wasi_fdflags_t :: ctype where [ctype_simps]: "host_wasi_fdflags_t = Scalar U16"
definition host_wasi_filedelta_t :: ctype where [ctype_simps]: "host_wasi_filedelta_t = Scalar I64"
definition host_wasi_filesize_t :: ctype where [ctype_simps]: "host_wasi_filesize_t = Scalar U64"
definition host_wasi_filetype_t :: ctype where [ctype_simps]: "host_wasi_filetype_t = Scalar U8"
definition host_wasi_fstflags_t :: ctype where [ctype_simps]: "host_wasi_fstflags_t = Scalar U16"
definition host_wasi_inode_t :: ctype where [ctype_simps]: "host_wasi_inode_t = Scalar U64"
definition host_wasi_linkcount_t :: ctype where [ctype_simps]: "host_wasi_linkcount_t = Scalar U32"
definition host_wasi_lookupflags_t :: ctype where [ctype_simps]: "host_wasi_lookupflags_t = Scalar U32"
definition host_wasi_oflags_t :: ctype where [ctype_simps]: "host_wasi_oflags_t = Scalar U16"
definition host_wasi_riflags_t :: ctype where [ctype_simps]: "host_wasi_riflags_t = Scalar U16"
definition host_wasi_rights_t :: ctype where [ctype_simps]: "host_wasi_rights_t = Scalar U64"
definition host_wasi_roflags_t :: ctype where [ctype_simps]: "host_wasi_roflags_t = Scalar U16"
definition host_wasi_sdflags_t :: ctype where [ctype_simps]: "host_wasi_sdflags_t = Scalar U8"
definition host_wasi_siflags_t :: ctype where [ctype_simps]: "host_wasi_siflags_t = Scalar U16"
definition host_wasi_signal_t :: ctype where [ctype_simps]: "host_wasi_signal_t = Scalar U8"
definition host_wasi_subclockflags_t :: ctype where [ctype_simps]: "host_wasi_subclockflags_t = Scalar U16"
definition host_wasi_timestamp_t :: ctype where [ctype_simps]: "host_wasi_timestamp_t = Scalar U64"
definition host_wasi_userdata_t :: ctype where [ctype_simps]: "host_wasi_userdata_t = Scalar U64"
definition host_wasi_whence_t :: ctype where [ctype_simps]: "host_wasi_whence_t = Scalar U8"
definition host_wasi_preopentype_t :: ctype where [ctype_simps]: "host_wasi_preopentype_t = Scalar U8"

section \<open>Structs and unions\<close>

definition host_wasi_dirent_t :: ctype where [ctype_simps]:
  "host_wasi_dirent_t = Struct
    [(''d_next'', host_wasi_dircookie_t),
     (''d_ino'', host_wasi_inode_t),
     (''d_namlen'', Scalar U32),
     (''d_type'', host_wasi_filetype_t)]"

definition host_wasi_event_t___wasi_event_u___wasi_event_u_fd_readwrite_t :: ctype where [ctype_simps]:
  "host_wasi_event_t___wasi_event_u___wasi_event_u_fd_readwrite_t = Struct
    [(''nbytes'', host_wasi_filesize_t),
     (''flags'', host_wasi_eventrwflags_t)]"

definition host_wasi_prestat_t___wasi_prestat_u___wasi_prestat_u_dir_t :: ctype where [ctype_simps]:
  "host_wasi_prestat_t___wasi_prestat_u___wasi_prestat_u_dir_t = Struct
    [(''pr_name_len'', Scalar Usize)]"

definition host_wasi_fdstat_t :: ctype where [ctype_simps]:
  "host_wasi_fdstat_t = Struct
    [(''fs_filetype'', host_wasi_filetype_t),
     (''fs_flags'', host_wasi_fdflags_t),
     (''fs_rights_base'', host_wasi_rights_t),
     (''fs_rights_inheriting'', host_wasi_rights_t)]"

definition host_wasi_filestat_t :: ctype where [ctype_simps]:
  "host_wasi_filestat_t = Struct
    [(''st_dev'', host_wasi_device_t),
     (''st_ino'', host_wasi_inode_t),
     (''st_filetype'', host_wasi_filetype_t),
     (''st_nlink'', host_wasi_linkcount_t),
     (''st_size'', host_wasi_filesize_t),
     (''st_atim'', host_wasi_timestamp_t),
     (''st_mtim'', host_wasi_timestamp_t),
     (''st_ctim'', host_wasi_timestamp_t)]"

definition host_wasi_ciovec_t :: ctype where [ctype_simps]:
  "host_wasi_ciovec_t = Struct
    [(''buf'', Scalar Ptr),
     (''buf_len'', Scalar Usize)]"

definition host_wasi_iovec_t :: ctype where [ctype_simps]:
  "host_wasi_iovec_t = Struct
    [(''buf'', Scalar Ptr),
     (''buf_len'', Scalar Usize)]"

definition host_wasi_subscription_t___wasi_subscription_u___wasi_subscription_u_clock_t :: ctype where [ctype_simps]:
  "host_wasi_subscription_t___wasi_subscription_u___wasi_subscription_u_clock_t = Struct
    [(''identifier'', host_wasi_userdata_t),
     (''clock_id'', host_wasi_clockid_t),
     (''timeout'', host_wasi_timestamp_t),
     (''precision'', host_wasi_timestamp_t),
     (''flags'', host_wasi_subclockflags_t)]"

definition host_wasi_subscription_t___wasi_subscription_u___wasi_subscription_u_fd_readwrite_t :: ctype where [ctype_simps]:
  "host_wasi_subscription_t___wasi_subscription_u___wasi_subscription_u_fd_readwrite_t = Struct
    [(''fd'', host_wasi_fd_t)]"

definition host_wasi_event_t___wasi_event_u :: ctype where [ctype_simps]:
  "host_wasi_event_t___wasi_event_u = Union
    [(''fd_readwrite'', host_wasi_event_t___wasi_event_u___wasi_event_u_fd_readwrite_t),
     (''_bindgen_union_align'', Array (Scalar U64) 2)]"

definition host_wasi_prestat_t___wasi_prestat_u :: ctype where [ctype_simps]:
  "host_wasi_prestat_t___wasi_prestat_u = Union
    [(''dir'', host_wasi_prestat_t___wasi_prestat_u___wasi_prestat_u_dir_t),
     (''_bindgen_union_align'', Scalar U64)]"

definition host_wasi_subscription_t___wasi_subscription_u :: ctype where [ctype_simps]:
  "host_wasi_subscription_t___wasi_subscription_u = Union
    [(''clock'', host_wasi_subscription_t___wasi_subscription_u___wasi_subscription_u_clock_t),
     (''fd_readwrite'', host_wasi_subscription_t___wasi_subscription_u___wasi_subscription_u_fd_readwrite_t),
     (''_bindgen_union_align'', Array (Scalar U64) 5)]"

definition host_wasi_event_t :: ctype where [ctype_simps]:
  "host_wasi_event_t = Struct
    [(''userdata'', host_wasi_userdata_t),
     (''error'', host_wasi_errno_t),
     (''type_'', host_wasi_eventtype_t),
     (''u'', host_wasi_event_t___wasi_event_u)]"

definition host_wasi_prestat_t :: ctype where [ctype_simps]:
  "host_wasi_prestat_t = Struct
    [(''pr_type'', host_wasi_preopentype_t),
     (''u'', host_wasi_prestat_t___wasi_prestat_u)]"

definition host_wasi_subscription_t :: ctype where [ctype_simps]:
  "host_wasi_subscription_t = Struct
    [(''userdata'', host_wasi_userdata_t),
     (''type_'', host_wasi_eventtype_t),
     (''u'', host_wasi_subscription_t___wasi_subscription_u)]"

section \<open>The layout tests\<close>

definition host_bindgen_test_layout___wasi_dirent_t :: "abi \<Rightarrow> bool" where [ctype_simps]:
  "host_bindgen_test_layout___wasi_dirent_t abi \<longleftrightarrow>
     c_size abi host_wasi_dirent_t = 24 \<and>
     c_align abi host_wasi_dirent_t = 8 \<and>
     offset_of abi host_wasi_dirent_t ''d_next'' = Some 0 \<and>
     offset_of abi host_wasi_dirent_t ''d_ino'' = Some 8 \<and>
     offset_of abi host_wasi_dirent_t ''d_namlen'' = Some 16 \<and>
     offset_of abi host_wasi_dirent_t ''d_type'' = Some 20"

definition host_bindgen_test_layout___wasi_subscription_t___wasi_subscription_u___wasi_subscription_u_fd_readwrite_t :: "abi \<Rightarrow> bool" where [ctype_simps]:
  "host_bindgen_test_layout___wasi_subscription_t___wasi_subscription_u___wasi_subscription_u_fd_readwrite_t abi \<longleftrightarrow>
     c_size abi host_wasi_subscription_t___wasi_subscription_u___wasi_subscription_u_fd_readwrite_t = 4 \<and>
     c_align abi host_wasi_subscription_t___wasi_subscription_u___wasi_subscription_u_fd_readwrite_t = 4 \<and>
     offset_of abi host_wasi_subscription_t___wasi_subscription_u___wasi_subscription_u_fd_readwrite_t ''fd'' = Some 0"

definition host_bindgen_test_layout___wasi_subscription_t___wasi_subscription_u :: "abi \<Rightarrow> bool" where [ctype_simps]:
  "host_bindgen_test_layout___wasi_subscription_t___wasi_subscription_u abi \<longleftrightarrow>
     c_size abi host_wasi_subscription_t___wasi_subscription_u = 40 \<and>
     c_align abi host_wasi_subscription_t___wasi_subscription_u = 8 \<and>
     offset_of abi host_wasi_subscription_t___wasi_subscription_u ''clock'' = Some 0 \<and>
     offset_of abi host_wasi_subscription_t___wasi_subscription_u ''fd_readwrite'' = Some 0"

definition host_bindgen_test_layout___wasi_subscription_t :: "abi \<Rightarrow> bool" where [ctype_simps]:
  "host_bindgen_test_layout___wasi_subscription_t abi \<longleftrightarrow>
     c_size abi host_wasi_subscription_t = 56 \<and>
     c_align abi host_wasi_subscription_t = 8 \<and>
     offset_of abi host_wasi_subscription_t ''userdata'' = Some 0 \<and>
     offset_of abi host_wasi_subscription_t ''type_'' = Some 8 \<and>
     offset_of abi host_wasi_subscription_t ''u'' = Some 16"

definition host_bindgen_test_layout___wasi_subscription_t___wasi_subscription_u___wasi_subscription_u_clock_t :: "abi \<Rightarrow> bool" where [ctype_simps]:
  "host_bindgen_test_layout___wasi_subscription_t___wasi_subscription_u___wasi_subscription_u_clock_t abi \<longleftrightarrow>
     c_size abi host_wasi_subscription_t___wasi_subscription_u___wasi_subscription_u_clock_t = 40 \<and>
     c_align abi host_wasi_subscription_t___wasi_subscription_u___wasi_subscription_u_clock_t = 8 \<and>
     offset_of abi host_wasi_subscription_t___wasi_subscription_u___wasi_subscription_u_clock_t ''identifier'' = Some 0 \<and>
     offset_of abi host_wasi_subscription_t___wasi_subscription_u___wasi_subscription_u_clock_t ''clock_id'' = Some 8 \<and>
     offset_of abi host_wasi_subscription_t___wasi_subscription_u___wasi_subscription_u_clock_t ''timeout'' = Some 16 \<and>
     offset_of abi host_wasi_subscription_t___wasi_subscription_u___wasi_subscription_u_clock_t ''precision'' = Some 24 \<and>
     offset_of abi host_wasi_subscription_t___wasi_subscription_u___wasi_subscription_u_clock_t ''flags'' = Some 32"

definition host_bindgen_test_layout___wasi_iovec_t :: "abi \<Rightarrow> bool" where [ctype_simps]:
  "host_bindgen_test_layout___wasi_iovec_t abi \<longleftrightarrow>
     c_size abi host_wasi_iovec_t = 16 \<and>
     c_align abi host_wasi_iovec_t = 8 \<and>
     offset_of abi host_wasi_iovec_t ''buf'' = Some 0 \<and>
     offset_of abi host_wasi_iovec_t ''buf_len'' = Some 8"

definition host_bindgen_test_layout___wasi_ciovec_t :: "abi \<Rightarrow> bool" where [ctype_simps]:
  "host_bindgen_test_layout___wasi_ciovec_t abi \<longleftrightarrow>
     c_size abi host_wasi_ciovec_t = 16 \<and>
     c_align abi host_wasi_ciovec_t = 8 \<and>
     offset_of abi host_wasi_ciovec_t ''buf'' = Some 0 \<and>
     offset_of abi host_wasi_ciovec_t ''buf_len'' = Some 8"

definition host_bindgen_test_layout___wasi_filestat_t :: "abi \<Rightarrow> bool" where [ctype_simps]:
  "host_bindgen_test_layout___wasi_filestat_t abi \<longleftrightarrow>
     c_size abi host_wasi_filestat_t = 56 \<and>
     c_align abi host_wasi_filestat_t = 8 \<and>
     offset_of abi host_wasi_filestat_t ''st_dev'' = Some 0 \<and>
     offset_of abi host_wasi_filestat_t ''st_ino'' = Some 8 \<and>
     offset_of abi host_wasi_filestat_t ''st_filetype'' = Some 16 \<and>
     offset_of abi host_wasi_filestat_t ''st_nlink'' = Some 20 \<and>
     offset_of abi host_wasi_filestat_t ''st_size'' = Some 24 \<and>
     offset_of abi host_wasi_filestat_t ''st_atim'' = Some 32 \<and>
     offset_of abi host_wasi_filestat_t ''st_mtim'' = Some 40 \<and>
     offset_of abi host_wasi_filestat_t ''st_ctim'' = Some 48"

definition host_bindgen_test_layout___wasi_fdstat_t :: "abi \<Rightarrow> bool" where [ctype_simps]:
  "host_bindgen_test_layout___wasi_fdstat_t abi \<longleftrightarrow>
     c_size abi host_wasi_fdstat_t = 24 \<and>
     c_align abi host_wasi_fdstat_t = 8 \<and>
     offset_of abi host_wasi_fdstat_t ''fs_filetype'' = Some 0 \<and>
     offset_of abi host_wasi_fdstat_t ''fs_flags'' = Some 2 \<and>
     offset_of abi host_wasi_fdstat_t ''fs_rights_base'' = Some 8 \<and>
     offset_of abi host_wasi_fdstat_t ''fs_rights_inheriting'' = Some 16"

definition host_bindgen_test_layout___wasi_prestat_t :: "abi \<Rightarrow> bool" where [ctype_simps]:
  "host_bindgen_test_layout___wasi_prestat_t abi \<longleftrightarrow>
     c_size abi host_wasi_prestat_t = 16 \<and>
     c_align abi host_wasi_prestat_t = 8 \<and>
     offset_of abi host_wasi_prestat_t ''pr_type'' = Some 0 \<and>
     offset_of abi host_wasi_prestat_t ''u'' = Some 8"

definition host_bindgen_test_layout___wasi_prestat_t___wasi_prestat_u___wasi_prestat_u_dir_t :: "abi \<Rightarrow> bool" where [ctype_simps]:
  "host_bindgen_test_layout___wasi_prestat_t___wasi_prestat_u___wasi_prestat_u_dir_t abi \<longleftrightarrow>
     c_size abi host_wasi_prestat_t___wasi_prestat_u___wasi_prestat_u_dir_t = 8 \<and>
     c_align abi host_wasi_prestat_t___wasi_prestat_u___wasi_prestat_u_dir_t = 8 \<and>
     offset_of abi host_wasi_prestat_t___wasi_prestat_u___wasi_prestat_u_dir_t ''pr_name_len'' = Some 0"

definition host_bindgen_test_layout___wasi_prestat_t___wasi_prestat_u :: "abi \<Rightarrow> bool" where [ctype_simps]:
  "host_bindgen_test_layout___wasi_prestat_t___wasi_prestat_u abi \<longleftrightarrow>
     c_size abi host_wasi_prestat_t___wasi_prestat_u = 8 \<and>
     c_align abi host_wasi_prestat_t___wasi_prestat_u = 8 \<and>
     offset_of abi host_wasi_prestat_t___wasi_prestat_u ''dir'' = Some 0"

definition host_bindgen_test_layout___wasi_event_t___wasi_event_u___wasi_event_u_fd_readwrite_t :: "abi \<Rightarrow> bool" where [ctype_simps]:
  "host_bindgen_test_layout___wasi_event_t___wasi_event_u___wasi_event_u_fd_readwrite_t abi \<longleftrightarrow>
     c_size abi host_wasi_event_t___wasi_event_u___wasi_event_u_fd_readwrite_t = 16 \<and>
     c_align abi host_wasi_event_t___wasi_event_u___wasi_event_u_fd_readwrite_t = 8 \<and>
     offset_of abi host_wasi_event_t___wasi_event_u___wasi_event_u_fd_readwrite_t ''nbytes'' = Some 0 \<and>
     offset_of abi host_wasi_event_t___wasi_event_u___wasi_event_u_fd_readwrite_t ''flags'' = Some 8"

definition host_bindgen_test_layout___wasi_event_t___wasi_event_u :: "abi \<Rightarrow> bool" where [ctype_simps]:
  "host_bindgen_test_layout___wasi_event_t___wasi_event_u abi \<longleftrightarrow>
     c_size abi host_wasi_event_t___wasi_event_u = 16 \<and>
     c_align abi host_wasi_event_t___wasi_event_u = 8 \<and>
     offset_of abi host_wasi_event_t___wasi_event_u ''fd_readwrite'' = Some 0"

definition host_bindgen_test_layout___wasi_event_t :: "abi \<Rightarrow> bool" where [ctype_simps]:
  "host_bindgen_test_layout___wasi_event_t abi \<longleftrightarrow>
     c_size abi host_wasi_event_t = 32 \<and>
     c_align abi host_wasi_event_t = 8 \<and>
     offset_of abi host_wasi_event_t ''userdata'' = Some 0 \<and>
     offset_of abi host_wasi_event_t ''error'' = Some 8 \<and>
     offset_of abi host_wasi_event_t ''type_'' = Some 10 \<and>
     offset_of abi host_wasi_event_t ''u'' = Some 16"

section \<open>Constants that only \<^verbatim>\<open>host.rs\<close> names\<close>

definition host_riflags_consts :: "(string \<times> wasi_riflags_t) list" where [w32_const_lists]:
  "host_riflags_consts =
    [(''__WASI_SOCK_RECV_PEEK'', 1),
     (''__WASI_SOCK_RECV_WAITALL'', 2)]"

definition host_roflags_consts :: "(string \<times> wasi_roflags_t) list" where [w32_const_lists]:
  "host_roflags_consts =
    [(''__WASI_SOCK_RECV_DATA_TRUNCATED'', 1)]"

definition host_sdflags_consts :: "(string \<times> wasi_sdflags_t) list" where [w32_const_lists]:
  "host_sdflags_consts =
    [(''__WASI_SHUT_RD'', 1),
     (''__WASI_SHUT_WR'', 2)]"

definition host_signal_consts :: "(string \<times> wasi_signal_t) list" where [w32_const_lists]:
  "host_signal_consts =
    [(''__WASI_SIGHUP'', 1),
     (''__WASI_SIGINT'', 2),
     (''__WASI_SIGQUIT'', 3),
     (''__WASI_SIGILL'', 4),
     (''__WASI_SIGTRAP'', 5),
     (''__WASI_SIGABRT'', 6),
     (''__WASI_SIGBUS'', 7),
     (''__WASI_SIGFPE'', 8),
     (''__WASI_SIGKILL'', 9),
     (''__WASI_SIGUSR1'', 10),
     (''__WASI_SIGSEGV'', 11),
     (''__WASI_SIGUSR2'', 12),
     (''__WASI_SIGPIPE'', 13),
     (''__WASI_SIGALRM'', 14),
     (''__WASI_SIGTERM'', 15),
     (''__WASI_SIGCHLD'', 16),
     (''__WASI_SIGCONT'', 17),
     (''__WASI_SIGSTOP'', 18),
     (''__WASI_SIGTSTP'', 19),
     (''__WASI_SIGTTIN'', 20),
     (''__WASI_SIGTTOU'', 21),
     (''__WASI_SIGURG'', 22),
     (''__WASI_SIGXCPU'', 23),
     (''__WASI_SIGXFSZ'', 24),
     (''__WASI_SIGVTALRM'', 25),
     (''__WASI_SIGPROF'', 26),
     (''__WASI_SIGWINCH'', 27),
     (''__WASI_SIGPOLL'', 28),
     (''__WASI_SIGPWR'', 29),
     (''__WASI_SIGSYS'', 30)]"

end
