(* ===== verification/Abi_Laws.thy ===== *)
theory Abi_Laws
  imports Host_Abi Guest_Memory
begin

text \<open>
  What the declarations of \<^verbatim>\<open>src/wasm32.rs\<close> and \<^verbatim>\<open>src/host.rs\<close> promise: the layout tests pass, the
  bytes the codec of guest memory reads and writes are the fields of the declared structs, and the
  two files agree on every constant.
\<close>

section \<open>Layouts\<close>

lemmas layout_eval = round_up_def

definition abi_x86_64 :: abi where
  "abi_x86_64 = \<lparr>usize_bytes = 8, align_64 = 8\<rparr>"

text \<open>
  C39. Every assertion of the layout tests holds: those of \<^verbatim>\<open>wasm32.rs\<close> on any host that aligns
  64-bit integers to 8 bytes, whatever the size of its pointers, and those of \<^verbatim>\<open>host.rs\<close> on one
  whose pointers have 8 bytes too.
\<close>

theorem layout_tests_pass:
  assumes "align_64 abi = 8"
  shows "w32_bindgen_test_layout_fsid_t abi \<and>
    w32_bindgen_test_layout_wasi_dirent_t abi \<and>
    w32_bindgen_test_layout___wasi_event_t___wasi_event_u___wasi_event_u_fd_readwrite_t abi \<and>
    w32_bindgen_test_layout___wasi_event_t___wasi_event_u abi \<and>
    w32_bindgen_test_layout___wasi_event_t abi \<and>
    w32_bindgen_test_layout___wasi_prestat_t___wasi_prestat_u___wasi_prestat_u_dir_t abi \<and>
    w32_bindgen_test_layout___wasi_prestat_t___wasi_prestat_u abi \<and>
    w32_bindgen_test_layout___wasi_prestat_t abi \<and>
    w32_bindgen_test_layout_wasi_event_t__bindgen_ty_1__bindgen_ty_1 abi \<and>
    w32_bindgen_test_layout_wasi_event_t__bindgen_ty_1__bindgen_ty_2 abi \<and>
    w32_bindgen_test_layout_wasi_event_t__bindgen_ty_1 abi \<and>
    w32_bindgen_test_layout_wasi_event_t abi \<and>
    w32_bindgen_test_layout_wasi_fdstat_t abi \<and>
    w32_bindgen_test_layout_wasi_filestat_t abi \<and>
    w32_bindgen_test_layout_wasi_ciovec_t abi \<and>
    w32_bindgen_test_layout_wasi_iovec_t abi \<and>
    w32_bindgen_test_layout___wasi_subscription_t___wasi_subscription_u___wasi_subscription_u_clock_t abi \<and>
    w32_bindgen_test_layout___wasi_subscription_t___wasi_subscription_u___wasi_subscription_u_fd_readwrite_t abi \<and>
    w32_bindgen_test_layout___wasi_subscription_t___wasi_subscription_u abi \<and>
    w32_bindgen_test_layout___wasi_subscription_t abi \<and>
    (usize_bytes abi = 8 \<longrightarrow>
    host_bindgen_test_layout___wasi_dirent_t abi \<and>
    host_bindgen_test_layout___wasi_subscription_t___wasi_subscription_u___wasi_subscription_u_fd_readwrite_t abi \<and>
    host_bindgen_test_layout___wasi_subscription_t___wasi_subscription_u abi \<and>
    host_bindgen_test_layout___wasi_subscription_t abi \<and>
    host_bindgen_test_layout___wasi_subscription_t___wasi_subscription_u___wasi_subscription_u_clock_t abi \<and>
    host_bindgen_test_layout___wasi_iovec_t abi \<and>
    host_bindgen_test_layout___wasi_ciovec_t abi \<and>
    host_bindgen_test_layout___wasi_filestat_t abi \<and>
    host_bindgen_test_layout___wasi_fdstat_t abi \<and>
    host_bindgen_test_layout___wasi_prestat_t abi \<and>
    host_bindgen_test_layout___wasi_prestat_t___wasi_prestat_u___wasi_prestat_u_dir_t abi \<and>
    host_bindgen_test_layout___wasi_prestat_t___wasi_prestat_u abi \<and>
    host_bindgen_test_layout___wasi_event_t___wasi_event_u___wasi_event_u_fd_readwrite_t abi \<and>
    host_bindgen_test_layout___wasi_event_t___wasi_event_u abi \<and>
    host_bindgen_test_layout___wasi_event_t abi)"
  using assms by (intro conjI impI) (simp_all add: ctype_simps layout_eval)

lemma layout_tests_pass_witness:
  "w32_bindgen_test_layout___wasi_subscription_t abi_x86_64 \<and>
   host_bindgen_test_layout___wasi_subscription_t abi_x86_64"
proof -
  have "align_64 abi_x86_64 = 8" "usize_bytes abi_x86_64 = 8" by (simp_all add: abi_x86_64_def)
  then show ?thesis using layout_tests_pass [of abi_x86_64] by blast
qed

text \<open>
  The bytes of a field in a block of memory that holds a struct: the offsets of a struct or union
  and of its members in turn, down the names, add up.
\<close>

fun field_type :: "ctype \<Rightarrow> string \<Rightarrow> ctype option" where
  "field_type (Struct fs) f = map_of fs f"
| "field_type (Union fs) f = map_of fs f"
| "field_type t f = None"

fun nested_offset :: "abi \<Rightarrow> ctype \<Rightarrow> string list \<Rightarrow> nat option" where
  "nested_offset abi t [] = Some 0"
| "nested_offset abi t (f # fs) = (case field_type t f of
     None \<Rightarrow> None
   | Some t' \<Rightarrow> (case (offset_of abi t f, nested_offset abi t' fs) of
       (Some a, Some b) \<Rightarrow> Some (a + b) | _ \<Rightarrow> None))"

definition field_bytes :: "abi \<Rightarrow> ctype \<Rightarrow> string list \<Rightarrow> nat \<Rightarrow> bytes \<Rightarrow> bytes" where
  "field_bytes abi t fs n bs =
     (case nested_offset abi t fs of None \<Rightarrow> [] | Some off \<Rightarrow> slice_at bs off n)"

lemma slice_slice: "k + n \<le> m \<Longrightarrow> slice_at (slice_at bs a m) k n = slice_at bs (a + k) n"
  by (simp add: slice_at_def drop_take add.commute [of a k] min_def)

lemma upt_3: "[0..<3] = [0, 1, 2 :: nat]"
  by (simp add: upt_rec)

lemmas field_simps' = ctype_simps layout_eval field_bytes_def

text \<open>The offsets \<^verbatim>\<open>repr(C)\<close> gives the fields, computed once per struct.\<close>

lemma filestat_fields:
  assumes "align_64 abi = 8"
  shows "field_bytes abi w32_wasi_filestat_t [''st_dev''] n bs = slice_at bs 0 n"
    "field_bytes abi w32_wasi_filestat_t [''st_ino''] n bs = slice_at bs 8 n"
    "field_bytes abi w32_wasi_filestat_t [''st_filetype''] n bs = slice_at bs 16 n"
    "field_bytes abi w32_wasi_filestat_t [''st_nlink''] n bs = slice_at bs 20 n"
    "field_bytes abi w32_wasi_filestat_t [''st_size''] n bs = slice_at bs 24 n"
    "field_bytes abi w32_wasi_filestat_t [''st_atim''] n bs = slice_at bs 32 n"
    "field_bytes abi w32_wasi_filestat_t [''st_mtim''] n bs = slice_at bs 40 n"
    "field_bytes abi w32_wasi_filestat_t [''st_ctim''] n bs = slice_at bs 48 n"
  using assms by (simp_all add: field_simps' numeral_2_eq_2 [symmetric])

lemma fdstat_fields:
  assumes "align_64 abi = 8"
  shows "field_bytes abi w32_wasi_fdstat_t [''fs_filetype''] n bs = slice_at bs 0 n"
    "field_bytes abi w32_wasi_fdstat_t [''fs_flags''] n bs = slice_at bs 2 n"
    "field_bytes abi w32_wasi_fdstat_t [''__bindgen_padding_0''] n bs = slice_at bs 4 n"
    "field_bytes abi w32_wasi_fdstat_t [''fs_rights_base''] n bs = slice_at bs 8 n"
    "field_bytes abi w32_wasi_fdstat_t [''fs_rights_inheriting''] n bs = slice_at bs 16 n"
  using assms by (simp_all add: field_simps' numeral_2_eq_2 [symmetric])

lemma prestat_fields:
  assumes "align_64 abi = 8"
  shows "field_bytes abi w32_wasi_prestat_t [''pr_type''] n bs = slice_at bs 0 n"
    "field_bytes abi w32_wasi_prestat_t [''u'', ''dir'', ''pr_name_len''] n bs = slice_at bs 4 n"
  using assms by (simp_all add: field_simps' numeral_2_eq_2 [symmetric])

lemma iovec_fields:
  assumes "align_64 abi = 8"
  shows "field_bytes abi w32_wasi_iovec_t [''buf''] n bs = slice_at bs 0 n"
    "field_bytes abi w32_wasi_iovec_t [''buf_len''] n bs = slice_at bs 4 n"
  using assms by (simp_all add: field_simps' numeral_2_eq_2 [symmetric])

lemma dirent_fields:
  assumes "align_64 abi = 8"
  shows "field_bytes abi w32_wasi_dirent_t [''d_next''] n bs = slice_at bs 0 n"
    "field_bytes abi w32_wasi_dirent_t [''d_ino''] n bs = slice_at bs 8 n"
    "field_bytes abi w32_wasi_dirent_t [''d_namlen''] n bs = slice_at bs 16 n"
    "field_bytes abi w32_wasi_dirent_t [''d_type''] n bs = slice_at bs 20 n"
    "field_bytes abi w32_wasi_dirent_t [''__bindgen_padding_0''] n bs = slice_at bs 21 n"
  using assms by (simp_all add: field_simps' numeral_2_eq_2 [symmetric])

lemma event_fields:
  assumes "align_64 abi = 8"
  shows "field_bytes abi w32_wasi_event_t [''userdata''] n bs = slice_at bs 0 n"
    "field_bytes abi w32_wasi_event_t [''error''] n bs = slice_at bs 8 n"
    "field_bytes abi w32_wasi_event_t [''type_''] n bs = slice_at bs 10 n"
    "field_bytes abi w32_wasi_event_t [''__bindgen_padding_0''] n bs = slice_at bs 12 n"
    "field_bytes abi w32_wasi_event_t [''u'', ''fd_readwrite'', ''nbytes''] n bs = slice_at bs 16 n"
    "field_bytes abi w32_wasi_event_t [''u'', ''fd_readwrite'', ''flags''] n bs = slice_at bs 24 n"
    "field_bytes abi w32_wasi_event_t [''u'', ''fd_readwrite'', ''__bindgen_padding_0''] n bs = slice_at bs 26 n"
  using assms by (simp_all add: field_simps' numeral_2_eq_2 [symmetric])

lemma subscription_fields:
  assumes "align_64 abi = 8"
  shows "field_bytes abi w32_wasi_subscription_t [''userdata''] n bs = slice_at bs 0 n"
    "field_bytes abi w32_wasi_subscription_t [''type_''] n bs = slice_at bs 8 n"
    "field_bytes abi w32_wasi_subscription_t [''__bindgen_padding_0''] n bs = slice_at bs 12 n"
    "field_bytes abi w32_wasi_subscription_t [''u''] n bs = slice_at bs 16 n"
    "field_bytes abi w32_wasi_subscription_t [''u'', ''clock'', ''identifier''] n bs = slice_at bs 16 n"
    "field_bytes abi w32_wasi_subscription_t [''u'', ''clock'', ''clock_id''] n bs = slice_at bs 24 n"
    "field_bytes abi w32_wasi_subscription_t [''u'', ''clock'', ''timeout''] n bs = slice_at bs 32 n"
    "field_bytes abi w32_wasi_subscription_t [''u'', ''clock'', ''precision''] n bs = slice_at bs 40 n"
    "field_bytes abi w32_wasi_subscription_t [''u'', ''clock'', ''flags''] n bs = slice_at bs 48 n"
    "field_bytes abi w32_wasi_subscription_t [''u'', ''fd_readwrite'', ''fd''] n bs = slice_at bs 16 n"
  using assms by (simp_all add: field_simps' numeral_2_eq_2 [symmetric])

text \<open>
  C38. The codec of guest memory agrees with the declared structs: it uses the size and alignment
  that \<^verbatim>\<open>repr(C)\<close> gives them, and every field of every struct, those inside the unions and the declared
  padding included, is read from and stored at the offset \<^verbatim>\<open>repr(C)\<close> gives it, in the host's byte
  order.
\<close>

theorem codec_matches_layout:
  assumes "align_64 abi = 8"
  shows "size_of L_filestat = c_size abi w32_wasi_filestat_t \<and>
    align_of L_filestat = c_align abi w32_wasi_filestat_t \<and>
    size_of L_fdstat = c_size abi w32_wasi_fdstat_t \<and>
    align_of L_fdstat = c_align abi w32_wasi_fdstat_t \<and>
    size_of L_prestat = c_size abi w32_wasi_prestat_t \<and>
    align_of L_prestat = c_align abi w32_wasi_prestat_t \<and>
    size_of L_iovec = c_size abi w32_wasi_iovec_t \<and>
    align_of L_iovec = c_align abi w32_wasi_iovec_t \<and>
    size_of L_iovec = c_size abi w32_wasi_ciovec_t \<and>
    align_of L_iovec = c_align abi w32_wasi_ciovec_t \<and>
    size_of L_dirent = c_size abi w32_wasi_dirent_t \<and>
    align_of L_dirent = c_align abi w32_wasi_dirent_t \<and>
    size_of L_event = c_size abi w32_wasi_event_t \<and>
    align_of L_event = c_align abi w32_wasi_event_t \<and>
    size_of L_subscription = c_size abi w32_wasi_subscription_t \<and>
    align_of L_subscription = c_align abi w32_wasi_subscription_t \<and>
    st_dev32 (of_mem L_filestat tgt bs) = of_ne tgt (field_bytes abi w32_wasi_filestat_t [''st_dev''] 8 bs) \<and>
    st_ino32 (of_mem L_filestat tgt bs) = of_ne tgt (field_bytes abi w32_wasi_filestat_t [''st_ino''] 8 bs) \<and>
    st_filetype32 (of_mem L_filestat tgt bs) = of_ne tgt (field_bytes abi w32_wasi_filestat_t [''st_filetype''] 1 bs) \<and>
    st_nlink32 (of_mem L_filestat tgt bs) = of_ne tgt (field_bytes abi w32_wasi_filestat_t [''st_nlink''] 4 bs) \<and>
    st_size32 (of_mem L_filestat tgt bs) = of_ne tgt (field_bytes abi w32_wasi_filestat_t [''st_size''] 8 bs) \<and>
    st_atim32 (of_mem L_filestat tgt bs) = of_ne tgt (field_bytes abi w32_wasi_filestat_t [''st_atim''] 8 bs) \<and>
    st_mtim32 (of_mem L_filestat tgt bs) = of_ne tgt (field_bytes abi w32_wasi_filestat_t [''st_mtim''] 8 bs) \<and>
    st_ctim32 (of_mem L_filestat tgt bs) = of_ne tgt (field_bytes abi w32_wasi_filestat_t [''st_ctim''] 8 bs) \<and>
    fs_filetype32 (of_mem L_fdstat tgt bs) = of_ne tgt (field_bytes abi w32_wasi_fdstat_t [''fs_filetype''] 1 bs) \<and>
    fs_flags32 (of_mem L_fdstat tgt bs) = of_ne tgt (field_bytes abi w32_wasi_fdstat_t [''fs_flags''] 2 bs) \<and>
    fs_pad32 (of_mem L_fdstat tgt bs) = of_ne tgt (field_bytes abi w32_wasi_fdstat_t [''__bindgen_padding_0''] 4 bs) \<and>
    fs_rights_base32 (of_mem L_fdstat tgt bs) = of_ne tgt (field_bytes abi w32_wasi_fdstat_t [''fs_rights_base''] 8 bs) \<and>
    fs_rights_inheriting32 (of_mem L_fdstat tgt bs) = of_ne tgt (field_bytes abi w32_wasi_fdstat_t [''fs_rights_inheriting''] 8 bs) \<and>
    pr_type32 (of_mem L_prestat tgt bs) = of_ne tgt (field_bytes abi w32_wasi_prestat_t [''pr_type''] 1 bs) \<and>
    pr_name_len32 (of_mem L_prestat tgt bs) = of_ne tgt (field_bytes abi w32_wasi_prestat_t [''u'', ''dir'', ''pr_name_len''] 4 bs) \<and>
    buf32 (of_mem L_iovec tgt bs) = of_ne tgt (field_bytes abi w32_wasi_iovec_t [''buf''] 4 bs) \<and>
    buf_len32 (of_mem L_iovec tgt bs) = of_ne tgt (field_bytes abi w32_wasi_iovec_t [''buf_len''] 4 bs) \<and>
    d_next32 (of_mem L_dirent tgt bs) = of_ne tgt (field_bytes abi w32_wasi_dirent_t [''d_next''] 8 bs) \<and>
    d_ino32 (of_mem L_dirent tgt bs) = of_ne tgt (field_bytes abi w32_wasi_dirent_t [''d_ino''] 8 bs) \<and>
    d_namlen32 (of_mem L_dirent tgt bs) = of_ne tgt (field_bytes abi w32_wasi_dirent_t [''d_namlen''] 4 bs) \<and>
    d_type32 (of_mem L_dirent tgt bs) = of_ne tgt (field_bytes abi w32_wasi_dirent_t [''d_type''] 1 bs) \<and>
    d_pad32 (of_mem L_dirent tgt bs) = field_bytes abi w32_wasi_dirent_t [''__bindgen_padding_0''] 3 bs \<and>
    ev_userdata32 (of_mem L_event tgt bs) = of_ne tgt (field_bytes abi w32_wasi_event_t [''userdata''] 8 bs) \<and>
    ev_error32 (of_mem L_event tgt bs) = of_ne tgt (field_bytes abi w32_wasi_event_t [''error''] 2 bs) \<and>
    ev_type32 (of_mem L_event tgt bs) = of_ne tgt (field_bytes abi w32_wasi_event_t [''type_''] 1 bs) \<and>
    ev_pad32 (of_mem L_event tgt bs) = of_ne tgt (field_bytes abi w32_wasi_event_t [''__bindgen_padding_0''] 4 bs) \<and>
    ev_nbytes32 (of_mem L_event tgt bs) = of_ne tgt (field_bytes abi w32_wasi_event_t [''u'', ''fd_readwrite'', ''nbytes''] 8 bs) \<and>
    ev_flags32 (of_mem L_event tgt bs) = of_ne tgt (field_bytes abi w32_wasi_event_t [''u'', ''fd_readwrite'', ''flags''] 2 bs) \<and>
    ev_rw_pad32 (of_mem L_event tgt bs) =
      map (\<lambda>i. of_ne tgt (slice_at (field_bytes abi w32_wasi_event_t [''u'', ''fd_readwrite'', ''__bindgen_padding_0''] 6 bs) (2 * i) 2)) [0..<3] \<and>
    su_userdata32 (of_mem L_subscription tgt bs) = of_ne tgt (field_bytes abi w32_wasi_subscription_t [''userdata''] 8 bs) \<and>
    su_type32 (of_mem L_subscription tgt bs) = of_ne tgt (field_bytes abi w32_wasi_subscription_t [''type_''] 1 bs) \<and>
    su_pad32 (of_mem L_subscription tgt bs) = of_ne tgt (field_bytes abi w32_wasi_subscription_t [''__bindgen_padding_0''] 4 bs) \<and>
    su_u32 (of_mem L_subscription tgt bs) = field_bytes abi w32_wasi_subscription_t [''u''] 40 bs \<and>
    sc_identifier (u_clock32 tgt (su_u32 (of_mem L_subscription tgt bs))) =
      of_ne tgt (field_bytes abi w32_wasi_subscription_t [''u'', ''clock'', ''identifier''] 8 bs) \<and>
    sc_clock_id (u_clock32 tgt (su_u32 (of_mem L_subscription tgt bs))) =
      of_ne tgt (field_bytes abi w32_wasi_subscription_t [''u'', ''clock'', ''clock_id''] 4 bs) \<and>
    sc_timeout (u_clock32 tgt (su_u32 (of_mem L_subscription tgt bs))) =
      of_ne tgt (field_bytes abi w32_wasi_subscription_t [''u'', ''clock'', ''timeout''] 8 bs) \<and>
    sc_precision (u_clock32 tgt (su_u32 (of_mem L_subscription tgt bs))) =
      of_ne tgt (field_bytes abi w32_wasi_subscription_t [''u'', ''clock'', ''precision''] 8 bs) \<and>
    sc_flags (u_clock32 tgt (su_u32 (of_mem L_subscription tgt bs))) =
      of_ne tgt (field_bytes abi w32_wasi_subscription_t [''u'', ''clock'', ''flags''] 2 bs) \<and>
    u_fd_readwrite32 tgt (su_u32 (of_mem L_subscription tgt bs)) =
      of_ne tgt (field_bytes abi w32_wasi_subscription_t [''u'', ''fd_readwrite'', ''fd''] 4 bs) \<and>
    field_bytes abi w32_wasi_filestat_t [''st_dev''] 8 (to_mem L_filestat tgt x_st) = ne_bytes tgt 8 (st_dev32 x_st) \<and>
    field_bytes abi w32_wasi_filestat_t [''st_ino''] 8 (to_mem L_filestat tgt x_st) = ne_bytes tgt 8 (st_ino32 x_st) \<and>
    field_bytes abi w32_wasi_filestat_t [''st_filetype''] 1 (to_mem L_filestat tgt x_st) = ne_bytes tgt 1 (st_filetype32 x_st) \<and>
    field_bytes abi w32_wasi_filestat_t [''st_nlink''] 4 (to_mem L_filestat tgt x_st) = ne_bytes tgt 4 (st_nlink32 x_st) \<and>
    field_bytes abi w32_wasi_filestat_t [''st_size''] 8 (to_mem L_filestat tgt x_st) = ne_bytes tgt 8 (st_size32 x_st) \<and>
    field_bytes abi w32_wasi_filestat_t [''st_atim''] 8 (to_mem L_filestat tgt x_st) = ne_bytes tgt 8 (st_atim32 x_st) \<and>
    field_bytes abi w32_wasi_filestat_t [''st_mtim''] 8 (to_mem L_filestat tgt x_st) = ne_bytes tgt 8 (st_mtim32 x_st) \<and>
    field_bytes abi w32_wasi_filestat_t [''st_ctim''] 8 (to_mem L_filestat tgt x_st) = ne_bytes tgt 8 (st_ctim32 x_st) \<and>
    field_bytes abi w32_wasi_fdstat_t [''fs_filetype''] 1 (to_mem L_fdstat tgt x_fs) = ne_bytes tgt 1 (fs_filetype32 x_fs) \<and>
    field_bytes abi w32_wasi_fdstat_t [''fs_flags''] 2 (to_mem L_fdstat tgt x_fs) = ne_bytes tgt 2 (fs_flags32 x_fs) \<and>
    field_bytes abi w32_wasi_fdstat_t [''__bindgen_padding_0''] 4 (to_mem L_fdstat tgt x_fs) = ne_bytes tgt 4 (fs_pad32 x_fs) \<and>
    field_bytes abi w32_wasi_fdstat_t [''fs_rights_base''] 8 (to_mem L_fdstat tgt x_fs) = ne_bytes tgt 8 (fs_rights_base32 x_fs) \<and>
    field_bytes abi w32_wasi_fdstat_t [''fs_rights_inheriting''] 8 (to_mem L_fdstat tgt x_fs) = ne_bytes tgt 8 (fs_rights_inheriting32 x_fs) \<and>
    field_bytes abi w32_wasi_prestat_t [''pr_type''] 1 (to_mem L_prestat tgt x_pr) = ne_bytes tgt 1 (pr_type32 x_pr) \<and>
    field_bytes abi w32_wasi_prestat_t [''u'', ''dir'', ''pr_name_len''] 4 (to_mem L_prestat tgt x_pr) = ne_bytes tgt 4 (pr_name_len32 x_pr) \<and>
    field_bytes abi w32_wasi_iovec_t [''buf''] 4 (to_mem L_iovec tgt x_io) = ne_bytes tgt 4 (buf32 x_io) \<and>
    field_bytes abi w32_wasi_iovec_t [''buf_len''] 4 (to_mem L_iovec tgt x_io) = ne_bytes tgt 4 (buf_len32 x_io) \<and>
    (length (d_pad32 x_d) = 3 \<longrightarrow>
    field_bytes abi w32_wasi_dirent_t [''d_next''] 8 (to_mem L_dirent tgt x_d) = ne_bytes tgt 8 (d_next32 x_d) \<and>
    field_bytes abi w32_wasi_dirent_t [''d_ino''] 8 (to_mem L_dirent tgt x_d) = ne_bytes tgt 8 (d_ino32 x_d) \<and>
    field_bytes abi w32_wasi_dirent_t [''d_namlen''] 4 (to_mem L_dirent tgt x_d) = ne_bytes tgt 4 (d_namlen32 x_d) \<and>
    field_bytes abi w32_wasi_dirent_t [''d_type''] 1 (to_mem L_dirent tgt x_d) = ne_bytes tgt 1 (d_type32 x_d) \<and>
    field_bytes abi w32_wasi_dirent_t [''__bindgen_padding_0''] 3 (to_mem L_dirent tgt x_d) = d_pad32 x_d) \<and>
    (length (ev_rw_pad32 x_ev) = 3 \<longrightarrow>
    field_bytes abi w32_wasi_event_t [''userdata''] 8 (to_mem L_event tgt x_ev) = ne_bytes tgt 8 (ev_userdata32 x_ev) \<and>
    field_bytes abi w32_wasi_event_t [''error''] 2 (to_mem L_event tgt x_ev) = ne_bytes tgt 2 (ev_error32 x_ev) \<and>
    field_bytes abi w32_wasi_event_t [''type_''] 1 (to_mem L_event tgt x_ev) = ne_bytes tgt 1 (ev_type32 x_ev) \<and>
    field_bytes abi w32_wasi_event_t [''__bindgen_padding_0''] 4 (to_mem L_event tgt x_ev) = ne_bytes tgt 4 (ev_pad32 x_ev) \<and>
    field_bytes abi w32_wasi_event_t [''u'', ''fd_readwrite'', ''nbytes''] 8 (to_mem L_event tgt x_ev) = ne_bytes tgt 8 (ev_nbytes32 x_ev) \<and>
    field_bytes abi w32_wasi_event_t [''u'', ''fd_readwrite'', ''flags''] 2 (to_mem L_event tgt x_ev) = ne_bytes tgt 2 (ev_flags32 x_ev) \<and>
    field_bytes abi w32_wasi_event_t [''u'', ''fd_readwrite'', ''__bindgen_padding_0''] 6 (to_mem L_event tgt x_ev)
      = concat (map (ne_bytes tgt 2) (ev_rw_pad32 x_ev))) \<and>
    (length (su_u32 x_su) = 40 \<longrightarrow>
    field_bytes abi w32_wasi_subscription_t [''userdata''] 8 (to_mem L_subscription tgt x_su) = ne_bytes tgt 8 (su_userdata32 x_su) \<and>
    field_bytes abi w32_wasi_subscription_t [''type_''] 1 (to_mem L_subscription tgt x_su) = ne_bytes tgt 1 (su_type32 x_su) \<and>
    field_bytes abi w32_wasi_subscription_t [''__bindgen_padding_0''] 4 (to_mem L_subscription tgt x_su) = ne_bytes tgt 4 (su_pad32 x_su) \<and>
    field_bytes abi w32_wasi_subscription_t [''u''] 40 (to_mem L_subscription tgt x_su) = su_u32 x_su)"
proof -
  note fields = filestat_fields [OF assms] fdstat_fields [OF assms] prestat_fields [OF assms]
    iovec_fields [OF assms] dirent_fields [OF assms] event_fields [OF assms]
    subscription_fields [OF assms]
  show ?thesis
    by (intro conjI impI;
      ((use assms in \<open>simp add: ctype_simps layout_simps layout_eval; fail\<close>) |
       (simp add: fields layout_simps u_clock32_def u_fd_readwrite32_def slice_slice upt_3; fail) |
       (simp add: fields layout_simps slice_at_def; fail) |
       (simp add: fields layout_simps slice_at_def, auto dest!: event_pad_cases)))
qed

lemma codec_matches_layout_witness:
  "field_bytes abi_x86_64 w32_wasi_event_t [''u'', ''fd_readwrite'', ''flags''] 2
     (to_mem L_event tgt_le \<lparr>ev_userdata32 = 1, ev_error32 = 2, ev_type32 = 0, ev_pad32 = 0,
        ev_nbytes32 = 3, ev_flags32 = 5, ev_rw_pad32 = [0, 0, 0]\<rparr>) = [5, 0]"
proof -
  have "align_64 abi_x86_64 = 8" by (simp add: abi_x86_64_def)
  from codec_matches_layout [OF this, of tgt_le]
  have "field_bytes abi_x86_64 w32_wasi_event_t [''u'', ''fd_readwrite'', ''flags''] 2
      (to_mem L_event tgt_le x) = ne_bytes tgt_le 2 (ev_flags32 x)" if "length (ev_rw_pad32 x) = 3" for x
    using that by blast
  moreover have "ne_bytes tgt_le 2 (5 :: u16) = [5, 0]" by code_simp
  ultimately show ?thesis by simp
qed

section \<open>Constants\<close>

text \<open>
  The two files define the same constants with the same values, name by name: all 183 of them.
\<close>

lemma constants_agree:
  "w32_advice_consts =
      [(''__WASI_ADVICE_NORMAL'', WASI_ADVICE_NORMAL),
       (''__WASI_ADVICE_SEQUENTIAL'', WASI_ADVICE_SEQUENTIAL),
       (''__WASI_ADVICE_RANDOM'', WASI_ADVICE_RANDOM),
       (''__WASI_ADVICE_WILLNEED'', WASI_ADVICE_WILLNEED),
       (''__WASI_ADVICE_DONTNEED'', WASI_ADVICE_DONTNEED),
       (''__WASI_ADVICE_NOREUSE'', WASI_ADVICE_NOREUSE)] \<and>
    w32_clockid_consts =
      [(''__WASI_CLOCK_REALTIME'', WASI_CLOCK_REALTIME),
       (''__WASI_CLOCK_MONOTONIC'', WASI_CLOCK_MONOTONIC),
       (''__WASI_CLOCK_PROCESS_CPUTIME_ID'', WASI_CLOCK_PROCESS_CPUTIME_ID),
       (''__WASI_CLOCK_THREAD_CPUTIME_ID'', WASI_CLOCK_THREAD_CPUTIME_ID)] \<and>
    w32_dircookie_consts =
      [(''__WASI_DIRCOOKIE_START'', WASI_DIRCOOKIE_START)] \<and>
    w32_errno_consts =
      [(''__WASI_ESUCCESS'', WASI_ESUCCESS),
       (''__WASI_E2BIG'', WASI_E2BIG),
       (''__WASI_EACCES'', WASI_EACCES),
       (''__WASI_EADDRINUSE'', WASI_EADDRINUSE),
       (''__WASI_EADDRNOTAVAIL'', WASI_EADDRNOTAVAIL),
       (''__WASI_EAFNOSUPPORT'', WASI_EAFNOSUPPORT),
       (''__WASI_EAGAIN'', WASI_EAGAIN),
       (''__WASI_EALREADY'', WASI_EALREADY),
       (''__WASI_EBADF'', WASI_EBADF),
       (''__WASI_EBADMSG'', WASI_EBADMSG),
       (''__WASI_EBUSY'', WASI_EBUSY),
       (''__WASI_ECANCELED'', WASI_ECANCELED),
       (''__WASI_ECHILD'', WASI_ECHILD),
       (''__WASI_ECONNABORTED'', WASI_ECONNABORTED),
       (''__WASI_ECONNREFUSED'', WASI_ECONNREFUSED),
       (''__WASI_ECONNRESET'', WASI_ECONNRESET),
       (''__WASI_EDEADLK'', WASI_EDEADLK),
       (''__WASI_EDESTADDRREQ'', WASI_EDESTADDRREQ),
       (''__WASI_EDOM'', WASI_EDOM),
       (''__WASI_EDQUOT'', WASI_EDQUOT),
       (''__WASI_EEXIST'', WASI_EEXIST),
       (''__WASI_EFAULT'', WASI_EFAULT),
       (''__WASI_EFBIG'', WASI_EFBIG),
       (''__WASI_EHOSTUNREACH'', WASI_EHOSTUNREACH),
       (''__WASI_EIDRM'', WASI_EIDRM),
       (''__WASI_EILSEQ'', WASI_EILSEQ),
       (''__WASI_EINPROGRESS'', WASI_EINPROGRESS),
       (''__WASI_EINTR'', WASI_EINTR),
       (''__WASI_EINVAL'', WASI_EINVAL),
       (''__WASI_EIO'', WASI_EIO),
       (''__WASI_EISCONN'', WASI_EISCONN),
       (''__WASI_EISDIR'', WASI_EISDIR),
       (''__WASI_ELOOP'', WASI_ELOOP),
       (''__WASI_EMFILE'', WASI_EMFILE),
       (''__WASI_EMLINK'', WASI_EMLINK),
       (''__WASI_EMSGSIZE'', WASI_EMSGSIZE),
       (''__WASI_EMULTIHOP'', WASI_EMULTIHOP),
       (''__WASI_ENAMETOOLONG'', WASI_ENAMETOOLONG),
       (''__WASI_ENETDOWN'', WASI_ENETDOWN),
       (''__WASI_ENETRESET'', WASI_ENETRESET),
       (''__WASI_ENETUNREACH'', WASI_ENETUNREACH),
       (''__WASI_ENFILE'', WASI_ENFILE),
       (''__WASI_ENOBUFS'', WASI_ENOBUFS),
       (''__WASI_ENODEV'', WASI_ENODEV),
       (''__WASI_ENOENT'', WASI_ENOENT),
       (''__WASI_ENOEXEC'', WASI_ENOEXEC),
       (''__WASI_ENOLCK'', WASI_ENOLCK),
       (''__WASI_ENOLINK'', WASI_ENOLINK),
       (''__WASI_ENOMEM'', WASI_ENOMEM),
       (''__WASI_ENOMSG'', WASI_ENOMSG),
       (''__WASI_ENOPROTOOPT'', WASI_ENOPROTOOPT),
       (''__WASI_ENOSPC'', WASI_ENOSPC),
       (''__WASI_ENOSYS'', WASI_ENOSYS),
       (''__WASI_ENOTCONN'', WASI_ENOTCONN),
       (''__WASI_ENOTDIR'', WASI_ENOTDIR),
       (''__WASI_ENOTEMPTY'', WASI_ENOTEMPTY),
       (''__WASI_ENOTRECOVERABLE'', WASI_ENOTRECOVERABLE),
       (''__WASI_ENOTSOCK'', WASI_ENOTSOCK),
       (''__WASI_ENOTSUP'', WASI_ENOTSUP),
       (''__WASI_ENOTTY'', WASI_ENOTTY),
       (''__WASI_ENXIO'', WASI_ENXIO),
       (''__WASI_EOVERFLOW'', WASI_EOVERFLOW),
       (''__WASI_EOWNERDEAD'', WASI_EOWNERDEAD),
       (''__WASI_EPERM'', WASI_EPERM),
       (''__WASI_EPIPE'', WASI_EPIPE),
       (''__WASI_EPROTO'', WASI_EPROTO),
       (''__WASI_EPROTONOSUPPORT'', WASI_EPROTONOSUPPORT),
       (''__WASI_EPROTOTYPE'', WASI_EPROTOTYPE),
       (''__WASI_ERANGE'', WASI_ERANGE),
       (''__WASI_EROFS'', WASI_EROFS),
       (''__WASI_ESPIPE'', WASI_ESPIPE),
       (''__WASI_ESRCH'', WASI_ESRCH),
       (''__WASI_ESTALE'', WASI_ESTALE),
       (''__WASI_ETIMEDOUT'', WASI_ETIMEDOUT),
       (''__WASI_ETXTBSY'', WASI_ETXTBSY),
       (''__WASI_EXDEV'', WASI_EXDEV),
       (''__WASI_ENOTCAPABLE'', WASI_ENOTCAPABLE)] \<and>
    w32_eventrwflags_consts =
      [(''__WASI_EVENT_FD_READWRITE_HANGUP'', WASI_EVENT_FD_READWRITE_HANGUP)] \<and>
    w32_eventtype_consts =
      [(''__WASI_EVENTTYPE_CLOCK'', WASI_EVENTTYPE_CLOCK),
       (''__WASI_EVENTTYPE_FD_READ'', WASI_EVENTTYPE_FD_READ),
       (''__WASI_EVENTTYPE_FD_WRITE'', WASI_EVENTTYPE_FD_WRITE)] \<and>
    w32_fdflags_consts =
      [(''__WASI_FDFLAG_APPEND'', WASI_FDFLAG_APPEND),
       (''__WASI_FDFLAG_DSYNC'', WASI_FDFLAG_DSYNC),
       (''__WASI_FDFLAG_NONBLOCK'', WASI_FDFLAG_NONBLOCK),
       (''__WASI_FDFLAG_RSYNC'', WASI_FDFLAG_RSYNC),
       (''__WASI_FDFLAG_SYNC'', WASI_FDFLAG_SYNC)] \<and>
    w32_preopentype_consts =
      [(''__WASI_PREOPENTYPE_DIR'', WASI_PREOPENTYPE_DIR)] \<and>
    w32_filetype_consts =
      [(''__WASI_FILETYPE_UNKNOWN'', WASI_FILETYPE_UNKNOWN),
       (''__WASI_FILETYPE_BLOCK_DEVICE'', WASI_FILETYPE_BLOCK_DEVICE),
       (''__WASI_FILETYPE_CHARACTER_DEVICE'', WASI_FILETYPE_CHARACTER_DEVICE),
       (''__WASI_FILETYPE_DIRECTORY'', WASI_FILETYPE_DIRECTORY),
       (''__WASI_FILETYPE_REGULAR_FILE'', WASI_FILETYPE_REGULAR_FILE),
       (''__WASI_FILETYPE_SOCKET_DGRAM'', WASI_FILETYPE_SOCKET_DGRAM),
       (''__WASI_FILETYPE_SOCKET_STREAM'', WASI_FILETYPE_SOCKET_STREAM),
       (''__WASI_FILETYPE_SYMBOLIC_LINK'', WASI_FILETYPE_SYMBOLIC_LINK)] \<and>
    w32_fstflags_consts =
      [(''__WASI_FILESTAT_SET_ATIM'', WASI_FILESTAT_SET_ATIM),
       (''__WASI_FILESTAT_SET_ATIM_NOW'', WASI_FILESTAT_SET_ATIM_NOW),
       (''__WASI_FILESTAT_SET_MTIM'', WASI_FILESTAT_SET_MTIM),
       (''__WASI_FILESTAT_SET_MTIM_NOW'', WASI_FILESTAT_SET_MTIM_NOW)] \<and>
    w32_lookupflags_consts =
      [(''__WASI_LOOKUP_SYMLINK_FOLLOW'', WASI_LOOKUP_SYMLINK_FOLLOW)] \<and>
    w32_oflags_consts =
      [(''__WASI_O_CREAT'', WASI_O_CREAT),
       (''__WASI_O_DIRECTORY'', WASI_O_DIRECTORY),
       (''__WASI_O_EXCL'', WASI_O_EXCL),
       (''__WASI_O_TRUNC'', WASI_O_TRUNC)] \<and>
    w32_riflags_consts = host_riflags_consts \<and>
    w32_rights_consts =
      [(''__WASI_RIGHT_FD_DATASYNC'', WASI_RIGHT_FD_DATASYNC),
       (''__WASI_RIGHT_FD_READ'', WASI_RIGHT_FD_READ),
       (''__WASI_RIGHT_FD_SEEK'', WASI_RIGHT_FD_SEEK),
       (''__WASI_RIGHT_FD_FDSTAT_SET_FLAGS'', WASI_RIGHT_FD_FDSTAT_SET_FLAGS),
       (''__WASI_RIGHT_FD_SYNC'', WASI_RIGHT_FD_SYNC),
       (''__WASI_RIGHT_FD_TELL'', WASI_RIGHT_FD_TELL),
       (''__WASI_RIGHT_FD_WRITE'', WASI_RIGHT_FD_WRITE),
       (''__WASI_RIGHT_FD_ADVISE'', WASI_RIGHT_FD_ADVISE),
       (''__WASI_RIGHT_FD_ALLOCATE'', WASI_RIGHT_FD_ALLOCATE),
       (''__WASI_RIGHT_PATH_CREATE_DIRECTORY'', WASI_RIGHT_PATH_CREATE_DIRECTORY),
       (''__WASI_RIGHT_PATH_CREATE_FILE'', WASI_RIGHT_PATH_CREATE_FILE),
       (''__WASI_RIGHT_PATH_LINK_SOURCE'', WASI_RIGHT_PATH_LINK_SOURCE),
       (''__WASI_RIGHT_PATH_LINK_TARGET'', WASI_RIGHT_PATH_LINK_TARGET),
       (''__WASI_RIGHT_PATH_OPEN'', WASI_RIGHT_PATH_OPEN),
       (''__WASI_RIGHT_FD_READDIR'', WASI_RIGHT_FD_READDIR),
       (''__WASI_RIGHT_PATH_READLINK'', WASI_RIGHT_PATH_READLINK),
       (''__WASI_RIGHT_PATH_RENAME_SOURCE'', WASI_RIGHT_PATH_RENAME_SOURCE),
       (''__WASI_RIGHT_PATH_RENAME_TARGET'', WASI_RIGHT_PATH_RENAME_TARGET),
       (''__WASI_RIGHT_PATH_FILESTAT_GET'', WASI_RIGHT_PATH_FILESTAT_GET),
       (''__WASI_RIGHT_PATH_FILESTAT_SET_SIZE'', WASI_RIGHT_PATH_FILESTAT_SET_SIZE),
       (''__WASI_RIGHT_PATH_FILESTAT_SET_TIMES'', WASI_RIGHT_PATH_FILESTAT_SET_TIMES),
       (''__WASI_RIGHT_FD_FILESTAT_GET'', WASI_RIGHT_FD_FILESTAT_GET),
       (''__WASI_RIGHT_FD_FILESTAT_SET_SIZE'', WASI_RIGHT_FD_FILESTAT_SET_SIZE),
       (''__WASI_RIGHT_FD_FILESTAT_SET_TIMES'', WASI_RIGHT_FD_FILESTAT_SET_TIMES),
       (''__WASI_RIGHT_PATH_SYMLINK'', WASI_RIGHT_PATH_SYMLINK),
       (''__WASI_RIGHT_PATH_REMOVE_DIRECTORY'', WASI_RIGHT_PATH_REMOVE_DIRECTORY),
       (''__WASI_RIGHT_PATH_UNLINK_FILE'', WASI_RIGHT_PATH_UNLINK_FILE),
       (''__WASI_RIGHT_POLL_FD_READWRITE'', WASI_RIGHT_POLL_FD_READWRITE),
       (''__WASI_RIGHT_SOCK_SHUTDOWN'', WASI_RIGHT_SOCK_SHUTDOWN)] \<and>
    w32_roflags_consts = host_roflags_consts \<and>
    w32_sdflags_consts = host_sdflags_consts \<and>
    w32_signal_consts = host_signal_consts \<and>
    w32_subclockflags_consts =
      [(''__WASI_SUBSCRIPTION_CLOCK_ABSTIME'', WASI_SUBSCRIPTION_CLOCK_ABSTIME)] \<and>
    w32_whence_consts =
      [(''__WASI_WHENCE_CUR'', WASI_WHENCE_CUR),
       (''__WASI_WHENCE_END'', WASI_WHENCE_END),
       (''__WASI_WHENCE_SET'', WASI_WHENCE_SET)]"
  by (simp_all add: w32_const_lists wasi_const)

text \<open>The smallest and the largest value of a scalar type of the guest.\<close>

definition prim_min :: "prim \<Rightarrow> int" where
  "prim_min p = (case p of I8 \<Rightarrow> - (2 ^ 7) | I16 \<Rightarrow> - (2 ^ 15) | I32 \<Rightarrow> - (2 ^ 31) | I64 \<Rightarrow> - (2 ^ 63)
     | _ \<Rightarrow> 0)"

definition prim_max :: "prim \<Rightarrow> int" where
  "prim_max p = (case p of I8 \<Rightarrow> 2 ^ 7 - 1 | U8 \<Rightarrow> 2 ^ 8 - 1 | I16 \<Rightarrow> 2 ^ 15 - 1 | U16 \<Rightarrow> 2 ^ 16 - 1
     | I32 \<Rightarrow> 2 ^ 31 - 1 | U32 \<Rightarrow> 2 ^ 32 - 1 | I64 \<Rightarrow> 2 ^ 63 - 1 | U64 \<Rightarrow> 2 ^ 64 - 1
     | Usize \<Rightarrow> 2 ^ 32 - 1 | Ptr \<Rightarrow> 2 ^ 32 - 1)"

definition has_limits :: "ctype \<Rightarrow> 32 word option \<Rightarrow> u32 \<Rightarrow> bool" where
  "has_limits t lo hi \<longleftrightarrow> (\<exists>p. t = Scalar p \<and>
     (case lo of None \<Rightarrow> prim_min p = 0 | Some l \<Rightarrow> sint l = prim_min p) \<and> uint hi = prim_max p)"

text \<open>
  Each limit constant of \<^verbatim>\<open>wasm32.rs\<close> is the smallest or largest value of the type alias it is
  named after.
\<close>

theorem limits_fit_types:
  "has_limits w32_int8_t (Some w32_INT8_MIN) w32_INT8_MAX \<and>
   has_limits w32_int16_t (Some w32_INT16_MIN) w32_INT16_MAX \<and>
   has_limits w32_int32_t (Some w32_INT32_MIN) w32_INT32_MAX \<and>
   has_limits w32_uint8_t None w32_UINT8_MAX \<and>
   has_limits w32_uint16_t None w32_UINT16_MAX \<and>
   has_limits w32_uint32_t None w32_UINT32_MAX \<and>
   has_limits w32_int_least8_t (Some w32_INT_LEAST8_MIN) w32_INT_LEAST8_MAX \<and>
   has_limits w32_int_least16_t (Some w32_INT_LEAST16_MIN) w32_INT_LEAST16_MAX \<and>
   has_limits w32_int_least32_t (Some w32_INT_LEAST32_MIN) w32_INT_LEAST32_MAX \<and>
   has_limits w32_uint_least8_t None w32_UINT_LEAST8_MAX \<and>
   has_limits w32_uint_least16_t None w32_UINT_LEAST16_MAX \<and>
   has_limits w32_uint_least32_t None w32_UINT_LEAST32_MAX \<and>
   has_limits w32_int_fast8_t (Some w32_INT_FAST8_MIN) w32_INT_FAST8_MAX \<and>
   has_limits w32_int_fast16_t (Some w32_INT_FAST16_MIN) w32_INT_FAST16_MAX \<and>
   has_limits w32_int_fast32_t (Some w32_INT_FAST32_MIN) w32_INT_FAST32_MAX \<and>
   has_limits w32_uint_fast8_t None w32_UINT_FAST8_MAX \<and>
   has_limits w32_uint_fast16_t None w32_UINT_FAST16_MAX \<and>
   has_limits w32_uint_fast32_t None w32_UINT_FAST32_MAX \<and>
   has_limits w32_intptr_t (Some w32_INTPTR_MIN) w32_INTPTR_MAX \<and>
   has_limits w32_intptr_t (Some w32_PTRDIFF_MIN) w32_PTRDIFF_MAX \<and>
   has_limits w32_uintptr_t None w32_UINTPTR_MAX \<and>
   has_limits w32_size_t None w32_SIZE_MAX \<and>
   has_limits w32_sig_atomic_t (Some w32_SIG_ATOMIC_MIN) w32_SIG_ATOMIC_MAX"
  by (simp add: has_limits_def ctype_simps limit_simps prim_min_def prim_max_def)

end
