(* ===== verification/Data_Transfer.thy ===== *)
theory Data_Transfer
  imports Table_Laws
begin

text \<open>
  What the calls that move data do with the guest's memory: a read fills the guest's buffers in
  order and stores the count, a write hands over exactly the bytes of the buffers.
\<close>

section \<open>Buffers\<close>

text \<open>No two of the buffers overlap.\<close>

fun apart :: "iovec list \<Rightarrow> bool" where
  "apart [] = True"
| "apart (v # vs) \<longleftrightarrow> apart vs \<and> list_all (\<lambda>u.
     iov_buf v + iov_buf_len v \<le> iov_buf u \<or> iov_buf u + iov_buf_len u \<le> iov_buf v) vs"

definition beside :: "nat \<Rightarrow> nat \<Rightarrow> iovec list \<Rightarrow> bool" where
  "beside a n vs \<longleftrightarrow> list_all (\<lambda>v. a + n \<le> iov_buf v \<or> iov_buf v + iov_buf_len v \<le> a) vs"

abbreviation bufs_in :: "memory \<Rightarrow> iovec list \<Rightarrow> bool" where
  "bufs_in mem \<equiv> list_all (\<lambda>v. iov_buf v + iov_buf_len v \<le> length mem)"

lemma scatter_beside:
  "bufs_in mem vs \<Longrightarrow> beside a n vs \<Longrightarrow> a + n \<le> length mem \<Longrightarrow>
     slice_at (scatter vs data mem) a n = slice_at mem a n"
proof (induction vs data mem rule: scatter.induct)
  case (2 v vs data mem)
  let ?k = "min (iov_buf_len v) (length data)"
  have "slice_at (overwrite mem (iov_buf v) (take ?k data)) a n = slice_at mem a n"
    using 2(2-4) by (intro slice_overwrite_disjoint) (auto simp: beside_def)
  then show ?case using 2 by (auto simp: Let_def beside_def)
qed simp

lemma gather_Cons: "gather mem (v # vs) = slice_at mem (iov_buf v) (iov_buf_len v) @ gather mem vs"
  by (simp add: gather_def iovec_to_host_def)

lemma scatter_Nil [simp]: "scatter vs [] mem = mem"
  by (cases vs) simp_all

lemma scatter_gather:
  "bufs_in mem vs \<Longrightarrow> apart vs \<Longrightarrow> length data \<le> sum_list (map iov_buf_len vs) \<Longrightarrow>
     take (length data) (gather (scatter vs data mem) vs) = data"
proof (induction vs data mem rule: scatter.induct)
  case (2 v vs data mem)
  show ?case
  proof (cases "data = []")
    case False
    let ?k = "min (iov_buf_len v) (length data)"
    let ?mem = "overwrite mem (iov_buf v) (take ?k data)"
    let ?out = "scatter vs (drop ?k data) ?mem"
    have len: "length ?mem = length mem" using 2(2) by (intro length_overwrite) auto
    have out: "length ?out = length mem" using 2(2) len by (subst scatter_length) auto
    have "slice_at ?out (iov_buf v) (iov_buf_len v) = slice_at ?mem (iov_buf v) (iov_buf_len v)"
      using 2(2,3) len by (intro scatter_beside) (auto simp: beside_def list_all_iff)
    moreover have "slice_at ?mem (iov_buf v) ?k = take ?k data"
      using 2(2) by (intro slice_overwrite_same') auto
    ultimately have first: "take ?k (slice_at ?out (iov_buf v) (iov_buf_len v)) = take ?k data"
      by (simp add: slice_at_def min_def split: if_splits)
    have rest: "take (length (drop ?k data)) (gather ?out vs) = drop ?k data"
      using 2(1) [OF False refl] 2(2-4) len by auto
    have outlen: "length (slice_at ?out (iov_buf v) (iov_buf_len v)) = iov_buf_len v"
      using 2(2) out by simp
    show ?thesis
    proof (cases "length data \<le> iov_buf_len v")
      case True
      then show ?thesis using first outlen False by (simp add: gather_Cons Let_def min_absorb2)
    next
      case big: False
      then have k: "?k = iov_buf_len v" by simp
      have "slice_at ?out (iov_buf v) (iov_buf_len v) = take (iov_buf_len v) data"
        using first outlen k by simp
      then show ?thesis
        using rest outlen k big False by (simp add: gather_Cons Let_def)
    qed
  qed simp
qed simp

section \<open>Reading\<close>

lemma from_std_or_Inr [simp]: "c w = (Inr x, w') \<Longrightarrow> from_std_or os e c w = (Ok x, w')"
  by (simp add: from_std_or_Ok)

lemma hc_io_Ok_apply [simp]: "m (st_world s) = (Ok x, w) \<Longrightarrow> hc_io m s = (Ok x, s\<lparr>st_world := w\<rparr>)"
  by (simp add: hc_io_def)

text \<open>A count is stored as the guest reads it on a little-endian host.\<close>

lemma enc_usize_byref_Ok:
  assumes "unat ptr mod 4 = 0" "in_bounds tgt mem ptr 4" "k < 2 ^ 32"
  shows "enc_usize_byref tgt mem ptr k = Ok (overwrite mem (unat ptr) (ne_bytes tgt 4 (of_nat k :: u32)))"
  using assms by (simp add: enc_usize_byref_def enc_usize_cases enc_pointee_eq L_u32_def)

lemma hostcall_Ok [simp]:
  "m s = (Ok (), s') \<Longrightarrow> hostcall tgt m s = (return_enc_errno tgt WASI_ESUCCESS, s')"
  by (simp add: hostcall_def)

lemma hostcall_Err: "m s = (Err e, s') \<Longrightarrow> hostcall tgt m s = (return_enc_errno tgt e, s')"
  by (simp add: hostcall_def)

lemma hc_step: "m s = (Ok x, s1) \<Longrightarrow> f x s1 = r \<Longrightarrow> hc_bind m f s = r"
  by simp

lemma hc_write_Ok [simp]: "f (st_mem s) = Ok mem \<Longrightarrow> hc_write f s = (Ok (), s\<lparr>st_mem := mem\<rparr>)"
  by (simp add: hc_write_def)

lemma hc_entry_apply [simp]:
  "hc_entry fd base inh s = (get_fd_entry (st_ctx s) fd base inh, s)"
  "hc_entry_mut fd base inh s = (get_fd_entry (st_ctx s) fd base inh, s)"
  by (simp_all add: hc_entry_def hc_entry_mut_def get_fd_entry_mut_eq)

lemma iovs_bufs_in: "dec_iovec_slice tgt mem ptr len = Ok iovs \<Longrightarrow> bufs_in mem iovs"
  by (auto dest: dec_iovec_slice_in simp: iovs_in_def)

text \<open>The memory after the data and then its count have been stored.\<close>

definition filled :: "target \<Rightarrow> iovec list \<Rightarrow> bytes \<Rightarrow> u32 \<Rightarrow> memory \<Rightarrow> memory" where
  "filled tgt iovs data ptr mem =
     overwrite (scatter iovs data mem) (unat ptr) (ne_bytes tgt 4 (of_nat (length data) :: u32))"

lemma filled_laws:
  assumes "bufs_in mem iovs" "apart iovs" "length data \<le> sum_list (map iov_buf_len iovs)"
    and "in_bounds tgt mem ptr 4" "beside (unat ptr) 4 iovs"
  shows "take (length data) (gather (filled tgt iovs data ptr mem) iovs) = data"
    "slice_at (filled tgt iovs data ptr mem) (unat ptr) 4 = ne_bytes tgt 4 (of_nat (length data) :: u32)"
    "\<And>a n. beside a n iovs \<Longrightarrow> a + n \<le> unat ptr \<or> unat ptr + 4 \<le> a \<Longrightarrow> a + n \<le> length mem \<Longrightarrow>
       slice_at (filled tgt iovs data ptr mem) a n = slice_at mem a n"
proof -
  let ?m1 = "scatter iovs data mem"
  have len: "length ?m1 = length mem" using assms(1) by (rule scatter_length)
  have ptr: "unat ptr + 4 \<le> length mem" using assms(4) by (simp add: in_bounds_def)
  have "iovec_to_host (filled tgt iovs data ptr mem) v = iovec_to_host ?m1 v" if "v \<in> set iovs" for v
    unfolding filled_def iovec_to_host_def
    using assms(1,5) that len ptr
    by (intro slice_overwrite_disjoint) (fastforce simp: beside_def list_all_iff)+
  then have "gather (filled tgt iovs data ptr mem) iovs = gather ?m1 iovs"
    by (simp add: gather_def cong: map_cong)
  then show "take (length data) (gather (filled tgt iovs data ptr mem) iovs) = data"
    using scatter_gather [OF assms(1-3)] by simp
  show "slice_at (filled tgt iovs data ptr mem) (unat ptr) 4 = ne_bytes tgt 4 (of_nat (length data) :: u32)"
    using len ptr by (simp add: filled_def)
  show "slice_at (filled tgt iovs data ptr mem) a n = slice_at mem a n"
    if "beside a n iovs" "a + n \<le> unat ptr \<or> unat ptr + 4 \<le> a" "a + n \<le> length mem" for a n
    using that len ptr scatter_beside [OF assms(1) that(1,3)]
    by (simp add: filled_def slice_overwrite_disjoint)
qed

lemma hc_store_read:
  assumes "in_bounds tgt (st_mem s) ptr 4" "unat ptr mod 4 = 0" "length data < 2 ^ 32"
    and "bufs_in (st_mem s) iovs"
  shows "hc_bind (hc_write (\<lambda>mem. Ok (scatter iovs data mem)))
      (\<lambda>_. hc_write (\<lambda>mem. enc_usize_byref tgt mem ptr (length data))) s =
    (Ok (), s\<lparr>st_mem := filled tgt iovs data ptr (st_mem s)\<rparr>)"
proof -
  have in_b: "in_bounds tgt (scatter iovs data (st_mem s)) ptr 4"
    using assms(1) in_bounds_length [OF scatter_length [OF assms(4)]] by simp
  have e: "enc_usize_byref tgt (scatter iovs data (st_mem s)) ptr (length data) =
      Ok (filled tgt iovs data ptr (st_mem s))"
    unfolding filled_def by (rule enc_usize_byref_Ok [OF assms(2) in_b assms(3)])
  have "hc_write (\<lambda>mem. Ok (scatter iovs data mem)) s = (Ok (), s\<lparr>st_mem := scatter iovs data (st_mem s)\<rparr>)"
    by (simp add: hc_write_def)
  moreover have "hc_write (\<lambda>mem. enc_usize_byref tgt mem ptr (length data))
      (s\<lparr>st_mem := scatter iovs data (st_mem s)\<rparr>) = (Ok (), s\<lparr>st_mem := filled tgt iovs data ptr (st_mem s)\<rparr>)"
    by (simp add: hc_write_def e)
  ultimately show ?thesis by (rule hc_step)
qed

text \<open>
  C11. A read that the platform completes fills the guest's buffers in order with the data, stores
  its length, and changes no other byte of the memory; the context is unchanged.
\<close>

theorem fd_read_fills_buffers:
  assumes "dec_iovec_slice tgt (st_mem s) iovs_ptr iovs_len = Ok iovs" "apart iovs"
    and "get_fd_entry (st_ctx s) (dec_fd tgt fd) WASI_RIGHT_FD_READ 0 = Ok fe"
    and "fo_descriptor (fe_object fe) = File f"
    and "sys_read_vectored os f (map iov_buf_len iovs) (st_world s) = (Inr data, w)"
    and "length data \<le> sum_list (map iov_buf_len iovs)" "length data < 2 ^ 32"
    and "in_bounds tgt (st_mem s) nread 4" "unat nread mod 4 = 0" "beside (unat nread) 4 iovs"
  shows "\<exists>mem. fd_read os tgt fd iovs_ptr iovs_len nread s =
      (return_enc_errno tgt WASI_ESUCCESS, s\<lparr>st_world := w, st_mem := mem\<rparr>) \<and>
    take (length data) (concat (map (\<lambda>v. slice_at mem (iov_buf v) (iov_buf_len v)) iovs)) = data \<and>
    slice_at mem (unat nread) 4 = ne_bytes tgt 4 (of_nat (length data) :: u32) \<and>
    (\<forall>a n. beside a n iovs \<and> (a + n \<le> unat nread \<or> unat nread + 4 \<le> a) \<and>
       a + n \<le> length (st_mem s) \<longrightarrow> slice_at mem a n = slice_at (st_mem s) a n)"
proof -
  let ?mem = "filled tgt iovs data nread (st_mem s)"
  have bufs: "bufs_in (st_mem s) iovs" using assms(1) by (rule iovs_bufs_in)
  have "fd_read os tgt fd iovs_ptr iovs_len nread s =
      (return_enc_errno tgt WASI_ESUCCESS, s\<lparr>st_world := w, st_mem := ?mem\<rparr>)"
    unfolding fd_read_def
  proof (rule hostcall_Ok, rule hc_step, simp add: assms(1), rule hc_step, simp add: assms(3),
      unfold Let_def, rule hc_step)
    show "(case fo_descriptor (fe_object fe) of
         File f \<Rightarrow> hc_io (from_std os (sys_read_vectored os f (map iov_buf_len iovs)))
       | Stdin \<Rightarrow> hc_io (from_std os (sys_stdin_read_vectored os (map iov_buf_len iovs)))
       | _ \<Rightarrow> hc_res (Err WASI_EBADF)) s = (Ok data, s\<lparr>st_world := w\<rparr>)"
      using assms(4,5) by simp
    show "hc_bind (hc_write (\<lambda>mem. Ok (scatter iovs (take (sum_list (map iov_buf_len iovs)) data) mem)))
        (\<lambda>_. hc_write (\<lambda>mem. enc_usize_byref tgt mem nread
          (length (take (sum_list (map iov_buf_len iovs)) data)))) (s\<lparr>st_world := w\<rparr>) =
      (Ok (), s\<lparr>st_world := w, st_mem := ?mem\<rparr>)"
      using hc_store_read [of tgt "s\<lparr>st_world := w\<rparr>" nread data iovs] assms(6-9) bufs by simp
  qed
  moreover note filled_laws [OF bufs assms(2,6,8,10), unfolded gather_def iovec_to_host_def]
  ultimately show ?thesis by (intro exI [of _ ?mem] conjI allI impI) auto
qed

text \<open>A platform whose reads give three bytes and whose writes take everything.\<close>

definition data_os :: "bytes os" where
  "data_os = idle_os\<lparr>sys_read_vectored := \<lambda>_ _ w. (Inr [7, 8, 9], w),
     sys_write_vectored := \<lambda>_ bufs w. (Inr (length (concat bufs)), w @ concat bufs),
     sys_write_at := \<lambda>_ bs _ w. (Inr (length bs), w @ bs)\<rparr>"

text \<open>Two buffers, two bytes at 28 and four at 32, described at 0; the count goes to 16.\<close>

definition data_store :: "wasi_rights_t \<Rightarrow> bytes store" where
  "data_store rights = \<lparr>st_ctx = \<lparr>fds = [(4, some_entry\<lparr>fe_rights_base := rights\<rparr>)], args = [], env = []\<rparr>,
     st_mem = [28, 0, 0, 0, 2, 0, 0, 0, 32, 0, 0, 0, 4, 0, 0, 0] @ replicate 12 0 @ [1, 2, 3, 4, 5, 6, 7, 8],
     st_world = []\<rparr>"

abbreviation data_iovs :: "iovec list" where
  "data_iovs \<equiv> [\<lparr>iov_buf = 28, iov_buf_len = 2\<rparr>, \<lparr>iov_buf = 32, iov_buf_len = 4\<rparr>]"

lemma data_store_iovs [simp]:
  "dec_iovec_slice tgt_le (st_mem (data_store r)) 0 2 = Ok data_iovs"
  by (simp add: dec_iovec_slice_def dec_slice_of_def check_slice_of_def L_iovec_def data_store_def
      usize_checked_mul_def dec_ptr_eq in_bounds_def slice_elems_def slice_at_def of_ne_def
      dec_iovec_cases upt_rec)

lemma data_store_simps [simp]:
  "in_bounds tgt_le (st_mem (data_store r)) 16 4" "beside 16 4 data_iovs" "apart data_iovs"
  "st_world (data_store r) = []"
  by (simp_all add: data_store_def in_bounds_def beside_def)

lemma data_store_entry:
  "NOT r AND base = 0 \<Longrightarrow> get_fd_entry (st_ctx (data_store r)) 4 base 0 =
     Ok (some_entry\<lparr>fe_rights_base := r\<rparr>)"
  by (simp add: get_fd_entry_def validate_rights_def data_store_def)

lemma fo_some_entry [simp]: "fe_object (some_entry) = \<lparr>fo_file_type = WASI_FILETYPE_REGULAR_FILE,
    fo_descriptor = File 7, fo_needs_close = True\<rparr>"
  by (simp add: some_entry_def new_entry_def)

lemma fd_read_fills_buffers_witness:
  "\<exists>mem. fd_read data_os tgt_le 4 0 2 16 (data_store 2) =
      (return_enc_errno tgt_le WASI_ESUCCESS, (data_store 2)\<lparr>st_world := [], st_mem := mem\<rparr>) \<and>
    take 3 (slice_at mem 28 2 @ slice_at mem 32 4) = [7, 8, 9]"
proof -
  have "get_fd_entry (st_ctx (data_store 2)) (dec_fd tgt_le 4) WASI_RIGHT_FD_READ 0 =
      Ok (some_entry\<lparr>fe_rights_base := 2\<rparr>)"
    by (simp add: dec_scalar_def wasi_const data_store_entry)
  moreover have "sys_read_vectored data_os 7 (map iov_buf_len data_iovs) (st_world (data_store 2)) =
      (Inr [7, 8, 9], [])"
    by (simp add: data_os_def)
  ultimately obtain mem where mem: "fd_read data_os tgt_le 4 0 2 16 (data_store 2) =
      (return_enc_errno tgt_le WASI_ESUCCESS, (data_store 2)\<lparr>st_world := [], st_mem := mem\<rparr>)"
    "take (length [7, 8, 9]) (concat (map (\<lambda>v. slice_at mem (iov_buf v) (iov_buf_len v)) data_iovs)) =
      [7, 8, 9]"
    using fd_read_fills_buffers [of tgt_le "data_store 2" 0 2 data_iovs 4
        "some_entry\<lparr>fe_rights_base := 2\<rparr>" 7 data_os "[7, 8, 9]" "[]" 16] by auto
  then show ?thesis by (intro exI [of _ mem]) (simp add: numeral_3_eq_3)
qed

section \<open>Writing\<close>

lemma hc_store_count:
  assumes "in_bounds tgt (st_mem s) ptr 4" "unat ptr mod 4 = 0" "k < 2 ^ 32"
  shows "hc_write (\<lambda>mem. enc_usize_byref tgt mem ptr k) s =
    (Ok (), s\<lparr>st_mem := overwrite (st_mem s) (unat ptr) (ne_bytes tgt 4 (of_nat k :: u32))\<rparr>)"
  by (simp add: hc_write_def enc_usize_byref_Ok [OF assms(2,1,3)])

text \<open>
  C12. A write hands the platform exactly the bytes of the guest's buffers, in order, and stores the
  number of bytes the platform took; nothing else of the memory or the context changes.
\<close>

theorem fd_write_passes_bytes:
  assumes "dec_iovec_slice tgt (st_mem s) iovs_ptr iovs_len = Ok iovs"
    and "get_fd_entry (st_ctx s) (dec_fd tgt fd) WASI_RIGHT_FD_WRITE 0 = Ok fe"
    and "fo_descriptor (fe_object fe) = File f"
    and "sys_write_vectored os f (map (\<lambda>v. slice_at (st_mem s) (iov_buf v) (iov_buf_len v)) iovs)
      (st_world s) = (Inr k, w)"
    and "k < 2 ^ 32" "in_bounds tgt (st_mem s) nwritten 4" "unat nwritten mod 4 = 0"
  shows "fd_write os tgt fd iovs_ptr iovs_len nwritten s =
    (return_enc_errno tgt WASI_ESUCCESS, s\<lparr>st_world := w,
       st_mem := overwrite (st_mem s) (unat nwritten) (ne_bytes tgt 4 (of_nat k :: u32))\<rparr>)"
  unfolding fd_write_def
proof (rule hostcall_Ok, rule hc_step, simp add: assms(1), rule hc_step, simp add: assms(2),
    rule hc_step, simp, rule hc_step)
  show "(case fo_descriptor (fe_object fe) of
       File f \<Rightarrow> hc_io (from_std os (sys_write_vectored os f (map (iovec_to_host (st_mem s)) iovs)))
     | Stdin \<Rightarrow> hc_res (Err WASI_EBADF)
     | Stdout \<Rightarrow> hc_io (from_std os (sys_stdout_write_vectored os (map (iovec_to_host (st_mem s)) iovs)))
     | Stderr \<Rightarrow> hc_io (from_std os (sys_stderr_write_vectored os (map (iovec_to_host (st_mem s)) iovs)))) s =
     (Ok k, s\<lparr>st_world := w\<rparr>)"
    using assms(3,4) by (simp add: iovec_to_host_def [abs_def])
  show "hc_write (\<lambda>mem. enc_usize_byref tgt mem nwritten k) (s\<lparr>st_world := w\<rparr>) =
      (Ok (), s\<lparr>st_world := w,
       st_mem := overwrite (st_mem s) (unat nwritten) (ne_bytes tgt 4 (of_nat k :: u32))\<rparr>)"
    using hc_store_count [of tgt "s\<lparr>st_world := w\<rparr>" nwritten k] assms(5-7) by simp
qed

lemma fd_write_passes_bytes_witness:
  "\<exists>s'. fd_write data_os tgt_le 4 0 2 16 (data_store 64) = (return_enc_errno tgt_le WASI_ESUCCESS, s') \<and>
     st_world s' = [1, 2, 5, 6, 7, 8]"
proof -
  have "get_fd_entry (st_ctx (data_store 64)) (dec_fd tgt_le 4) WASI_RIGHT_FD_WRITE 0 =
      Ok (some_entry\<lparr>fe_rights_base := 64\<rparr>)"
    by (simp add: dec_scalar_def wasi_const data_store_entry)
  moreover have "sys_write_vectored data_os 7
      (map (\<lambda>v. slice_at (st_mem (data_store 64)) (iov_buf v) (iov_buf_len v)) data_iovs)
      (st_world (data_store 64)) = (Inr 6, [1, 2, 5, 6, 7, 8])"
    by (simp add: data_os_def) (simp add: data_store_def slice_at_def)
  ultimately show ?thesis
    using fd_write_passes_bytes [of tgt_le "data_store 64" 0 2 data_iovs 4
        "some_entry\<lparr>fe_rights_base := 64\<rparr>" 7 data_os 6 "[1, 2, 5, 6, 7, 8]" 16] by auto
qed

lemma one_right:
  "get_fd_entry ctx fd WASI_RIGHT_FD_READ 0 = (case hm_get (fds ctx) fd of
     None \<Rightarrow> Err WASI_EBADF
   | Some fe \<Rightarrow> if fe_rights_base fe AND WASI_RIGHT_FD_READ \<noteq> 0 then Ok fe else Err WASI_ENOTCAPABLE)"
proof -
  have e: "x AND 2 = 0 \<longleftrightarrow> \<not> bit x 1" for x :: u64
    using and_exp_eq_0_iff_not_bit [of x 1] by simp
  have "2 AND NOT b = 0 \<longleftrightarrow> b AND 2 \<noteq> 0" for b :: u64
    unfolding and.commute [of 2 "NOT b"] e by (simp add: bit_not_iff)
  then show ?thesis
    by (auto simp: get_fd_entry_def validate_rights_cases wasi_const split: option.splits)
qed

lemma fd_pwrite_succeeds:
  assumes "dec_iovec_slice tgt (st_mem s) iovs_ptr iovs_len = Ok iovs"
    and "get_fd_entry (st_ctx s) (dec_fd tgt fd) WASI_RIGHT_FD_READ 0 = Ok fe"
    and "fo_descriptor (fe_object fe) = File f"
    and "unat (dec_filesize tgt offset) < 2 ^ 63"
    and "sum_list (map iov_buf_len iovs) < 2 ^ (usize_bits tgt - 1)"
    and "sys_write_at os f (concat (map (\<lambda>v. slice_at (st_mem s) (iov_buf v) (iov_buf_len v)) iovs))
      (dec_filesize tgt offset) (st_world s) = (Inr k, w)"
    and "k < 2 ^ 32" "in_bounds tgt (st_mem s) nwritten 4" "unat nwritten mod 4 = 0"
  shows "fd_pwrite os tgt fd iovs_ptr iovs_len offset nwritten s =
    (return_enc_errno tgt WASI_ESUCCESS, s\<lparr>st_world := w,
       st_mem := overwrite (st_mem s) (unat nwritten) (ne_bytes tgt 4 (of_nat k :: u32))\<rparr>)"
  unfolding fd_pwrite_def
proof (rule hostcall_Ok, rule hc_step, simp add: assms(1), rule hc_step, simp add: assms(2),
    rule hc_step)
  show "hc_res (entry_file fe) s = (Ok f, s)" using assms(3) by (simp add: entry_file_def)
  have small: "\<not> I64_MAX < unat (dec_filesize tgt offset)" using assms(4) by (simp add: I64_MAX_def)
  have "(2::nat) ^ (usize_bits tgt - 1) \<le> 2 ^ usize_bits tgt" by simp
  then have "sum_list (map iov_buf_len iovs) < 2 ^ usize_bits tgt" using assms(5) by linarith
  then have alloc: "and_then (usize_sum tgt (map iov_buf_len iovs)) (vec_alloc tgt) =
      Ok (sum_list (map iov_buf_len iovs))"
    using assms(5) by (simp add: usize_sum_def vec_alloc_def)
  have io: "hc_io (impl_fd_pwrite os f (gather (st_mem s) iovs) (dec_filesize tgt offset)) s =
      (Ok k, s\<lparr>st_world := w\<rparr>)"
    using assms(6) by (simp add: impl_fd_pwrite_def gather_def iovec_to_host_def [abs_def])
  have count: "hc_write (\<lambda>mem. enc_usize_byref tgt mem nwritten k) (s\<lparr>st_world := w\<rparr>) =
      (Ok (), s\<lparr>st_world := w,
       st_mem := overwrite (st_mem s) (unat nwritten) (ne_bytes tgt 4 (of_nat k :: u32))\<rparr>)"
    using hc_store_count [of tgt "s\<lparr>st_world := w\<rparr>" nwritten k] assms(7-9) by simp
  show "(let offset = dec_filesize tgt offset in
     if unat offset > I64_MAX then hc_res (Err WASI_EIO)
     else
       hc_bind (hc_res (and_then (usize_sum tgt (map iov_buf_len iovs)) (vec_alloc tgt))) (\<lambda>_.
       hc_bind (hc_read (\<lambda>mem. Ok (gather mem iovs))) (\<lambda>buf.
       hc_bind (hc_io (impl_fd_pwrite os f buf offset)) (\<lambda>host_nwritten.
         hc_write (\<lambda>mem. enc_usize_byref tgt mem nwritten host_nwritten))))) s =
    (Ok (), s\<lparr>st_world := w,
       st_mem := overwrite (st_mem s) (unat nwritten) (ne_bytes tgt 4 (of_nat k :: u32))\<rparr>)"
    unfolding Let_def if_not_P [OF small]
    by (rule hc_step, simp add: alloc, rule hc_step, simp, rule hc_step, rule io, rule count)
qed

text \<open>
  C34. A positioned write is guarded by the right to read, and by that alone: a descriptor with
  \<^verbatim>\<open>FD_READ\<close>, whether it has \<^verbatim>\<open>FD_WRITE\<close> or not, has its file written, with the bytes of the guest's
  buffers at the given offset; one without \<^verbatim>\<open>FD_READ\<close> is refused with \<^verbatim>\<open>ENOTCAPABLE\<close>, even with
  \<^verbatim>\<open>FD_WRITE\<close>, and nothing changes.
\<close>

theorem fd_pwrite_checks_read_right:
  assumes "dec_iovec_slice tgt (st_mem s) iovs_ptr iovs_len = Ok iovs"
    and "hm_get (fds (st_ctx s)) (dec_fd tgt fd) = Some fe"
    and "fo_descriptor (fe_object fe) = File f"
    and "unat (dec_filesize tgt offset) < 2 ^ 63"
    and "sum_list (map iov_buf_len iovs) < 2 ^ (usize_bits tgt - 1)"
    and "sys_write_at os f (concat (map (\<lambda>v. slice_at (st_mem s) (iov_buf v) (iov_buf_len v)) iovs))
      (dec_filesize tgt offset) (st_world s) = (Inr k, w)"
    and "k < 2 ^ 32" "in_bounds tgt (st_mem s) nwritten 4" "unat nwritten mod 4 = 0"
  shows "fd_pwrite os tgt fd iovs_ptr iovs_len offset nwritten s =
    (if fe_rights_base fe AND WASI_RIGHT_FD_READ \<noteq> 0
     then (return_enc_errno tgt WASI_ESUCCESS, s\<lparr>st_world := w,
       st_mem := overwrite (st_mem s) (unat nwritten) (ne_bytes tgt 4 (of_nat k :: u32))\<rparr>)
     else (return_enc_errno tgt WASI_ENOTCAPABLE, s))"
proof (cases "fe_rights_base fe AND WASI_RIGHT_FD_READ = 0")
  case True
  have "fd_pwrite os tgt fd iovs_ptr iovs_len offset nwritten s =
      (return_enc_errno tgt WASI_ENOTCAPABLE, s)"
    unfolding fd_pwrite_def
    by (rule hostcall_Err, rule hc_step, simp add: assms(1))
      (simp add: hc_bind_def hc_entry_def one_right assms(2) True)
  then show ?thesis using True by simp
next
  case False
  then have "get_fd_entry (st_ctx s) (dec_fd tgt fd) WASI_RIGHT_FD_READ 0 = Ok fe"
    by (simp add: one_right assms(2))
  then show ?thesis using fd_pwrite_succeeds [OF assms(1) _ assms(3-9)] False by simp
qed

text \<open>Once with \<^verbatim>\<open>FD_READ\<close> alone and once with \<^verbatim>\<open>FD_WRITE\<close> alone.\<close>

lemma fd_pwrite_checks_read_right_witness:
  "\<exists>s'. fd_pwrite data_os tgt_le 4 0 2 100 16 (data_store 2) = (return_enc_errno tgt_le WASI_ESUCCESS, s') \<and>
     st_world s' = [1, 2, 5, 6, 7, 8] \<and>
     fd_pwrite data_os tgt_le 4 0 2 100 16 (data_store 64) =
       (return_enc_errno tgt_le WASI_ENOTCAPABLE, data_store 64)"
proof -
  have g: "hm_get (fds (st_ctx (data_store b))) (dec_fd tgt_le 4) = Some (some_entry\<lparr>fe_rights_base := b\<rparr>)" for b
    by (simp add: dec_scalar_def data_store_def)
  have w: "sys_write_at data_os 7 (concat (map (\<lambda>v. slice_at (st_mem (data_store b))
      (iov_buf v) (iov_buf_len v)) data_iovs)) (dec_filesize tgt_le 100) (st_world (data_store b)) =
      (Inr 6, [1, 2, 5, 6, 7, 8])" for b
    by (simp add: data_os_def) (simp add: data_store_def slice_at_def)
  have "(2 :: u64) AND 2 \<noteq> 0" "(64 :: u64) AND 2 = 0" by simp_all
  then show ?thesis
    using fd_pwrite_checks_read_right [OF data_store_iovs g [of 2] _ _ _ w [of 2], where nwritten = 16]
      fd_pwrite_checks_read_right [OF data_store_iovs g [of 64] _ _ _ w [of 64], where nwritten = 16]
    by (auto simp: dec_scalar_def wasi_const)
qed

end
