(* ===== verification/Capabilities.thy ===== *)
theory Capabilities
  imports Guest_Runs
begin

text \<open>
  The abstract specification of the descriptor table: a capability machine.  A capability is a
  file with two sets of rights and, for a preopened directory, its guest path; the machine grants
  a capability under the lowest free number, revokes one or narrows one.  \<open>caps_of\<close> maps a context
  to its state, and every hostcall and every run of a guest is a step and a run of the machine.
\<close>

section \<open>The machine\<close>

record cap =
  cap_object :: fd_object
  cap_base :: "nat set"
  cap_inheriting :: "nat set"
  cap_path :: "bytes option"

type_synonym caps = "wasi_fd_t \<Rightarrow> cap option"

definition lowest_free :: "caps \<Rightarrow> wasi_fd_t \<Rightarrow> bool" where
  "lowest_free cs fd \<longleftrightarrow> 3 \<le> unat fd \<and> cs fd = None \<and>
     (\<forall>k. 3 \<le> unat k \<and> unat k < unat fd \<longrightarrow> cs k \<noteq> None)"

text \<open>What closing and narrowing promise: the number reported and the new state.\<close>

definition close_cap :: "wasi_fd_t \<Rightarrow> caps \<Rightarrow> wasi_errno_t \<times> caps" where
  "close_cap fd cs = (case cs fd of
     None \<Rightarrow> (WASI_EBADF, cs)
   | Some c \<Rightarrow> if cap_path c \<noteq> None then (WASI_ENOTSUP, cs) else (WASI_ESUCCESS, cs(fd := None)))"

definition narrow_cap :: "wasi_fd_t \<Rightarrow> nat set \<Rightarrow> nat set \<Rightarrow> caps \<Rightarrow> wasi_errno_t \<times> caps" where
  "narrow_cap fd B I cs = (case cs fd of
     None \<Rightarrow> (WASI_EBADF, cs)
   | Some c \<Rightarrow>
       if B \<subseteq> cap_base c \<and> I \<subseteq> cap_inheriting c
       then (WASI_ESUCCESS, cs(fd \<mapsto> c\<lparr>cap_base := B, cap_inheriting := I\<rparr>))
       else (WASI_ENOTCAPABLE, cs))"

text \<open>A capability that can be granted: an open file with rights of some type of file.\<close>

definition rights_set :: "wasi_rights_t \<Rightarrow> nat set" where
  "rights_set r = {i. bit r i}"

definition grantable :: "cap \<Rightarrow> bool" where
  "grantable c \<longleftrightarrow> cap_path c = None \<and> (\<exists>f. fo_descriptor (cap_object c) = File f) \<and>
     (\<exists>ty base inh. (ty, base, inh) \<in> set type_rights \<and> cap_base c \<subseteq> rights_set base \<and>
        cap_inheriting c \<subseteq> rights_set inh)"

inductive cap_step :: "caps \<Rightarrow> caps \<Rightarrow> bool" where
  idle: "cap_step cs cs"
| grant: "lowest_free cs fd \<Longrightarrow> grantable c \<Longrightarrow> cap_step cs (cs(fd \<mapsto> c))"
| revoke: "cap_step cs (cs(fd := None))"
| narrow: "cs fd = Some c \<Longrightarrow> B \<subseteq> cap_base c \<Longrightarrow> I \<subseteq> cap_inheriting c \<Longrightarrow>
    cap_step cs (cs(fd \<mapsto> c\<lparr>cap_base := B, cap_inheriting := I\<rparr>))"

section \<open>Abstraction\<close>

definition cap_of :: "fd_entry \<Rightarrow> cap" where
  "cap_of fe = \<lparr>cap_object = fe_object fe, cap_base = rights_set (fe_rights_base fe),
     cap_inheriting = rights_set (fe_rights_inheriting fe), cap_path = fe_preopen_path fe\<rparr>"

definition caps_of :: "wasi_ctx \<Rightarrow> caps" where
  "caps_of ctx = (\<lambda>fd. map_option cap_of (hm_get (fds ctx) fd))"

lemma caps_of_simps [simp]:
  "caps_of (ctx\<lparr>fds := hm_insert fd fe (fds ctx)\<rparr>) = (caps_of ctx)(fd \<mapsto> cap_of fe)"
  "caps_of (ctx\<lparr>fds := hm_remove fd (fds ctx)\<rparr>) = (caps_of ctx)(fd := None)"
  "caps_of (put_fd_entry ctx fd fe) = (caps_of ctx)(fd \<mapsto> cap_of fe)"
  by (auto simp: caps_of_def put_fd_entry_def update_conv' delete_conv' fun_eq_iff)

lemma caps_of_apply: "caps_of ctx fd = map_option cap_of (hm_get (fds ctx) fd)"
  by (simp add: caps_of_def)

lemma cap_of_sel [simp]:
  "cap_object (cap_of fe) = fe_object fe" "cap_path (cap_of fe) = fe_preopen_path fe"
  "cap_base (cap_of fe) = rights_set (fe_rights_base fe)"
  "cap_inheriting (cap_of fe) = rights_set (fe_rights_inheriting fe)"
  by (simp_all add: cap_of_def)

lemma cap_of_limited:
  "cap_of (fe\<lparr>fe_rights_base := rb, fe_rights_inheriting := ri\<rparr>) =
     (cap_of fe)\<lparr>cap_base := rights_set rb, cap_inheriting := rights_set ri\<rparr>"
  by (simp add: cap_of_def)

lemma rights_set_subset:
  "rights_set r \<subseteq> rights_set r' \<longleftrightarrow> r' AND r = r"
  "rights_set r \<subseteq> rights_set r' \<longleftrightarrow> r AND NOT r' = 0"
proof -
  have len: "bit r n \<Longrightarrow> n < 64" for n using bit_imp_le_length [of r n] by simp
  show "rights_set r \<subseteq> rights_set r' \<longleftrightarrow> r' AND r = r"
    using len by (auto simp: rights_set_def bit_eq_iff bit_and_iff)
  show "rights_set r \<subseteq> rights_set r' \<longleftrightarrow> r AND NOT r' = 0"
    using len by (auto simp: rights_set_def bit_eq_iff bit_simps)
qed

lemma lowest_free_next:
  assumes "next_free_fd (fds ctx) 3 = Some fd"
  shows "lowest_free (caps_of ctx) fd"
proof -
  have "unat (3 :: wasi_fd_t) = 3" by simp
  then show ?thesis
    using next_free_fd_Some [OF assms]
    by (auto simp: lowest_free_def caps_of_apply hm.keys_def)
qed

lemma grantable_opened: "opened_entry fe \<Longrightarrow> grantable (cap_of fe)"
  by (auto simp: opened_entry_def grantable_def rights_set_subset(2))

lemma table_change_cap_step: "table_change ctx ctx' \<Longrightarrow> cap_step (caps_of ctx) (caps_of ctx')"
proof (induction rule: table_change.induct)
  case (opened fe ctx fd ctx')
  then have free: "next_free_fd (fds ctx) 3 = Some fd"
    and ctx': "ctx' = ctx\<lparr>fds := hm_insert fd fe (fds ctx)\<rparr>"
    by (simp_all add: insert_fd_entry_Ok)
  show ?case
    unfolding ctx' caps_of_simps
    by (rule cap_step.grant [OF lowest_free_next [OF free] grantable_opened [OF opened(1)]])
next
  case (limited ctx fd fe rb ri)
  then show ?case
    unfolding caps_of_simps cap_of_limited
    by (intro cap_step.narrow) (simp_all add: caps_of_apply rights_set_subset(1) fewer_rights_def)
next
  case (removed ctx fd)
  show ?case unfolding caps_of_simps by (rule cap_step.revoke)
qed (rule cap_step.idle)

section \<open>Simulation\<close>

text \<open>The interface of a simulation: a concrete step is a run of the abstract machine.\<close>

locale simulation =
  fixes cstep :: "'c \<Rightarrow> 'c \<Rightarrow> bool" and astep :: "'a \<Rightarrow> 'a \<Rightarrow> bool" and abst :: "'c \<Rightarrow> 'a"
  assumes step: "cstep s s' \<Longrightarrow> astep\<^sup>*\<^sup>* (abst s) (abst s')"
begin

lemma runs: "cstep\<^sup>*\<^sup>* s s' \<Longrightarrow> astep\<^sup>*\<^sup>* (abst s) (abst s')"
  by (induction rule: rtranclp_induct) (auto dest: step)

text \<open>An invariant of the abstract machine holds of every state the concrete one reaches.\<close>

lemma invariant:
  assumes "cstep\<^sup>*\<^sup>* s s'" "P (abst s)" "\<And>a a'. P a \<Longrightarrow> astep a a' \<Longrightarrow> P a'"
  shows "P (abst s')"
  using runs [OF assms(1)] assms(2,3) by (induction rule: rtranclp_induct) auto

end

lemma guest_step_cap_step:
  assumes "supported tgt" "guest_step os lc tgt s s'"
  shows "cap_step (caps_of (st_ctx s)) (caps_of (st_ctx s'))"
  using assms(2)
proof (cases rule: guest_step.cases)
  case (calls c e)
  then show ?thesis using run_changes [OF assms(1)] table_change_cap_step by blast
qed (simp_all add: cap_step.idle)

text \<open>The guest on a supported target; an unsupported one takes no step.\<close>

interpretation guest: simulation "\<lambda>s s'. supported tgt \<and> guest_step os lc tgt s s'" cap_step
    "\<lambda>s. caps_of (st_ctx s)" for os :: "('w, 'z) os_scheme" and lc :: "'y libc_misc_scheme" and tgt
  by unfold_locales (blast dest: guest_step_cap_step)

text \<open>What a run cannot do to a capability: its file and its path stay, its rights only shrink.\<close>

definition below :: "cap option \<Rightarrow> cap option \<Rightarrow> bool" where
  "below c' c \<longleftrightarrow> (case c' of None \<Rightarrow> True | Some d' \<Rightarrow>
     (case c of None \<Rightarrow> cap_path d' = None
      | Some d \<Rightarrow> cap_path d' = None \<or> cap_path d' = cap_path d \<and> cap_object d' = cap_object d \<and>
          cap_base d' \<subseteq> cap_base d \<and> cap_inheriting d' \<subseteq> cap_inheriting d))"

lemma below_step:
  assumes "\<forall>fd. below (cs fd) (cs0 fd)" "cap_step cs cs'"
  shows "\<forall>fd. below (cs' fd) (cs0 fd)"
  using assms(2)
proof (cases rule: cap_step.cases)
  case (narrow fd c B I)
  have "below (cs fd) (cs0 fd)" using assms(1) by blast
  then show ?thesis using assms(1) narrow by (auto simp: below_def split: option.splits)
qed (use assms(1) in \<open>auto simp: below_def grantable_def split: option.splits\<close>)

section \<open>Properties\<close>

text \<open>
  C19. \<^verbatim>\<open>fd_close\<close> and \<^verbatim>\<open>fd_fdstat_set_rights\<close> are the two operations of the capability machine:
  what they report and what they make of the table is what closing and narrowing a capability are
  specified to, on every branch (\<^verbatim>\<open>EBADF\<close>, \<^verbatim>\<open>ENOTSUP\<close> for a preopened directory, \<^verbatim>\<open>ENOTCAPABLE\<close> for
  a right that is not held).
\<close>

theorem close_and_narrow_refine:
  "(fst (fd_close os tgt fd s), caps_of (st_ctx (snd (fd_close os tgt fd s)))) =
     map_prod (return_enc_errno tgt) id (close_cap (dec_fd tgt fd) (caps_of (st_ctx s))) \<and>
   (fst (fd_fdstat_set_rights tgt fd rb ri s), caps_of (st_ctx (snd (fd_fdstat_set_rights tgt fd rb ri s)))) =
     map_prod (return_enc_errno tgt) id
       (narrow_cap (dec_fd tgt fd) (rights_set rb) (rights_set ri) (caps_of (st_ctx s)))"
proof
  show "(fst (fd_close os tgt fd s), caps_of (st_ctx (snd (fd_close os tgt fd s)))) =
     map_prod (return_enc_errno tgt) id (close_cap (dec_fd tgt fd) (caps_of (st_ctx s)))"
    by (cases "hm_get (fds (st_ctx s)) (dec_fd tgt fd)")
      (simp_all add: fd_close_def hostcall_def close_cap_def caps_of_apply Let_def)
  show "(fst (fd_fdstat_set_rights tgt fd rb ri s),
        caps_of (st_ctx (snd (fd_fdstat_set_rights tgt fd rb ri s)))) =
     map_prod (return_enc_errno tgt) id
       (narrow_cap (dec_fd tgt fd) (rights_set rb) (rights_set ri) (caps_of (st_ctx s)))"
    by (cases "hm_get (fds (st_ctx s)) (dec_fd tgt fd)")
      (simp_all add: fd_fdstat_set_rights_def hostcall_def narrow_cap_def caps_of_apply hc_bind_def
        any_fd_entry_def rights_set_subset(1) cap_of_limited)
qed

text \<open>
  C2. Whatever a guest does, its table of descriptors moves as the capability machine does: it
  gets capabilities of open files under the lowest free number only, and loses or narrows them;
  so a descriptor that is preopened after the run was so before, with the same directory and path
  and at least the same rights.
\<close>

theorem guest_run_refines_capabilities:
  assumes "supported tgt" "guest_run os lc tgt s s'"
  shows "cap_step\<^sup>*\<^sup>* (caps_of (st_ctx s)) (caps_of (st_ctx s')) \<and>
    (\<forall>fd c'. caps_of (st_ctx s') fd = Some c' \<and> cap_path c' \<noteq> None \<longrightarrow>
      (\<exists>c. caps_of (st_ctx s) fd = Some c \<and> cap_path c = cap_path c' \<and> cap_object c = cap_object c' \<and>
         cap_base c' \<subseteq> cap_base c \<and> cap_inheriting c' \<subseteq> cap_inheriting c))"
proof
  have run: "(\<lambda>s s'. supported tgt \<and> guest_step os lc tgt s s')\<^sup>*\<^sup>* s s'"
    using assms by simp
  show "cap_step\<^sup>*\<^sup>* (caps_of (st_ctx s)) (caps_of (st_ctx s'))"
    by (rule guest.runs [OF run])
  have "\<forall>fd. below (caps_of (st_ctx s') fd) (caps_of (st_ctx s) fd)"
  proof (rule guest.invariant [OF run, where P = "\<lambda>cs. \<forall>fd. below (cs fd) (caps_of (st_ctx s) fd)"])
    show "\<forall>fd. below (caps_of (st_ctx s) fd) (caps_of (st_ctx s) fd)"
      by (simp add: below_def split: option.splits)
  qed (rule below_step)
  then show "\<forall>fd c'. caps_of (st_ctx s') fd = Some c' \<and> cap_path c' \<noteq> None \<longrightarrow>
      (\<exists>c. caps_of (st_ctx s) fd = Some c \<and> cap_path c = cap_path c' \<and> cap_object c = cap_object c' \<and>
         cap_base c' \<subseteq> cap_base c \<and> cap_inheriting c' \<subseteq> cap_inheriting c)"
    by (fastforce simp: below_def split: option.splits)
qed

lemma guest_run_refines_capabilities_witness:
  "\<exists>s'. guest_run (idle_os :: unit os) linux_consts tgt_le idle_store s' \<and> caps_of (st_ctx s') 4 = None \<and>
     cap_step\<^sup>*\<^sup>* (caps_of (st_ctx idle_store)) (caps_of (st_ctx s'))"
proof -
  obtain out s' where r: "fd_close (idle_os :: unit os) tgt_le 4 idle_store = (out, s')" by force
  have sup: "supported tgt_le" by (simp add: supported_def)
  have spec: "close_cap 4 (caps_of (st_ctx idle_store)) =
      (WASI_ESUCCESS, (caps_of (st_ctx idle_store))(4 := None))"
    by (simp add: close_cap_def caps_of_apply idle_store_def some_entry_def new_entry_def)
  have "dec_fd tgt_le 4 = 4" by (simp add: dec_scalar_def)
  then have "out = return_enc_errno tgt_le WASI_ESUCCESS" "caps_of (st_ctx s') 4 = None"
    using close_and_narrow_refine [of "idle_os :: unit os" tgt_le 4 idle_store] r spec by simp_all
  moreover have "return_enc_errno tgt_le WASI_ESUCCESS = Ret (enc_errno tgt_le WASI_ESUCCESS)"
    by (simp add: return_enc_errno_def)
  ultimately have "guest_run idle_os linux_consts tgt_le idle_store s'"
    using r by (intro r_into_rtranclp guest_step.calls [where c = "Fd_close 4"]) simp
  then show ?thesis
    using guest_run_refines_capabilities [OF sup] \<open>caps_of (st_ctx s') 4 = None\<close> by blast
qed

end
