(* ===== verification/Mediation.thy ===== *)
theory Mediation
  imports Guest_Runs
begin

text \<open>
  Which right each hostcall asks for, and that it asks before anything else: without the right on
  the descriptor the call fails, and neither the platform nor the context is touched, nor any byte
  of the guest's memory but those of the one number that three of the calls store beforehand.
\<close>

section \<open>The right a call needs\<close>

text \<open>
  The descriptor, decoded, and the base rights it has to have.  The calls that are not listed look
  at no descriptor, or do not check a right.
\<close>

definition needed_right :: "target \<Rightarrow> call \<Rightarrow> (wasi_fd_t \<times> wasi_rights_t) option" where
  "needed_right tgt c = (case c of
     Fd_advise fd a b x \<Rightarrow> Some (dec_fd tgt fd, WASI_RIGHT_FD_ADVISE)
   | Fd_allocate fd a b \<Rightarrow> Some (dec_fd tgt fd, WASI_RIGHT_FD_ALLOCATE)
   | Fd_datasync fd \<Rightarrow> Some (dec_fd tgt fd, WASI_RIGHT_FD_DATASYNC)
   | Fd_sync fd \<Rightarrow> Some (dec_fd tgt fd, WASI_RIGHT_FD_SYNC)
   | Fd_filestat_set_size fd n \<Rightarrow> Some (dec_fd tgt fd, WASI_RIGHT_FD_FILESTAT_SET_SIZE)
   | Fd_filestat_set_times fd t u g \<Rightarrow> Some (dec_fd tgt fd, WASI_RIGHT_FD_FILESTAT_SET_TIMES)
   | Fd_pread fd a b x d \<Rightarrow> Some (dec_fd tgt fd, WASI_RIGHT_FD_READ)
   | Fd_pwrite fd a b x d \<Rightarrow> Some (dec_fd tgt fd, WASI_RIGHT_FD_READ)
   | Fd_read fd a b x \<Rightarrow> Some (dec_fd tgt fd, WASI_RIGHT_FD_READ)
   | Fd_write fd a b x \<Rightarrow> Some (dec_fd tgt fd, WASI_RIGHT_FD_WRITE)
   | Fd_prestat_get fd a \<Rightarrow> Some (dec_fd tgt fd, WASI_RIGHT_PATH_OPEN)
   | Fd_prestat_dir_name fd a b \<Rightarrow> Some (dec_fd tgt fd, WASI_RIGHT_PATH_OPEN)
   | Fd_readdir fd a b x d \<Rightarrow> Some (dec_fd tgt fd, WASI_RIGHT_FD_READDIR)
   | Fd_seek fd off wh a \<Rightarrow> Some (dec_fd tgt fd,
       if dec_filedelta tgt off = 0 \<and> dec_whence tgt wh = WASI_WHENCE_CUR then WASI_RIGHT_FD_TELL
       else WASI_RIGHT_FD_SEEK OR WASI_RIGHT_FD_TELL)
   | Fd_tell fd a \<Rightarrow> Some (dec_fd tgt fd, WASI_RIGHT_FD_TELL)
   | Path_create_directory fd a b \<Rightarrow> Some (dec_fd tgt fd,
       WASI_RIGHT_PATH_OPEN OR WASI_RIGHT_PATH_CREATE_DIRECTORY)
   | Path_filestat_get fd fl a b x \<Rightarrow> Some (dec_fd tgt fd, WASI_RIGHT_PATH_FILESTAT_GET)
   | Path_filestat_set_times fd fl a b t u g \<Rightarrow>
       Some (dec_fd tgt fd, WASI_RIGHT_PATH_FILESTAT_SET_TIMES)
   | Path_link fd fl a b fd' x d \<Rightarrow> Some (dec_fd tgt fd, WASI_RIGHT_PATH_LINK_SOURCE)
   | Path_open fd fl a b o1 r i ff x \<Rightarrow> Some (dec_fd tgt fd, WASI_RIGHT_PATH_OPEN)
   | Path_readlink fd a b x d e \<Rightarrow> Some (dec_fd tgt fd, WASI_RIGHT_PATH_READLINK)
   | Path_remove_directory fd a b \<Rightarrow> Some (dec_fd tgt fd, WASI_RIGHT_PATH_REMOVE_DIRECTORY)
   | Path_unlink_file fd a b \<Rightarrow> Some (dec_fd tgt fd, WASI_RIGHT_PATH_UNLINK_FILE)
   | Path_rename fd a b fd' x d \<Rightarrow> Some (dec_fd tgt fd, WASI_RIGHT_PATH_RENAME_SOURCE)
   | Path_symlink a b fd x d \<Rightarrow> Some (dec_fd tgt fd, WASI_RIGHT_PATH_SYMLINK)
   | _ \<Rightarrow> None)"

text \<open>The descriptor is not open, or lacks one of the rights.\<close>

definition lacks :: "wasi_fd_t \<Rightarrow> wasi_rights_t \<Rightarrow> wasi_ctx \<Rightarrow> bool" where
  "lacks fd r ctx \<longleftrightarrow> (\<forall>fe. hm_get (fds ctx) fd = Some fe \<longrightarrow> r AND NOT (fe_rights_base fe) \<noteq> 0)"

section \<open>Steps that touch nothing\<close>

text \<open>
  Where \<open>L\<close> holds of the context, the step leaves it and the platform alone, changes no byte of the
  memory outside \<open>W\<close>, and reports an error WASI defines if it fails, panicking only where \<open>p\<close> allows
  it; \<open>stuck\<close> if it always fails, \<open>harmless\<close> if it need not.
\<close>

definition same_outside :: "nat set \<Rightarrow> memory \<Rightarrow> memory \<Rightarrow> bool" where
  "same_outside W m m' \<longleftrightarrow> length m' = length m \<and> (\<forall>i < length m. i \<notin> W \<longrightarrow> m' ! i = m ! i)"

lemma same_outside_refl [simp]: "same_outside W m m"
  by (simp add: same_outside_def)

lemma same_outside_trans: "same_outside W m m1 \<Longrightarrow> same_outside W m1 m2 \<Longrightarrow> same_outside W m m2"
  by (simp add: same_outside_def)

lemma same_outside_pointee:
  assumes "enc_pointee L tgt mem ptr x = Ok mem'" "length (to_mem L tgt x) = size_of L"
  shows "same_outside {unat ptr..<unat ptr + size_of L} mem mem'"
  using assms by (auto simp: enc_pointee_eq in_bounds_def same_outside_def nth_overwrite split: if_splits)

lemma same_outside_usize:
  "enc_usize_byref tgt mem ptr x = Ok mem' \<Longrightarrow> same_outside {unat ptr..<unat ptr + 4} mem mem'"
  using same_outside_pointee [of L_u32 tgt mem ptr _ mem']
  by (auto simp: enc_usize_byref_def and_then_Ok_iff L_u32_def)

lemma same_outside_fd:
  "enc_fd_byref tgt mem ptr x = Ok mem' \<Longrightarrow> same_outside {unat ptr..<unat ptr + 4} mem mem'"
  using same_outside_pointee [of L_u32 tgt mem ptr _ mem'] by (auto simp: enc_scalar_byref_def L_u32_def)

definition untouched ::
  "bool \<Rightarrow> nat set \<Rightarrow> bool \<Rightarrow> 'w store \<Rightarrow> 'a res \<Rightarrow> 'w store \<Rightarrow> bool" where
  "untouched p W b s r s' \<longleftrightarrow> st_ctx s' = st_ctx s \<and> st_world s' = st_world s \<and>
     same_outside W (st_mem s) (st_mem s') \<and> res_ok p r \<and> (b \<or> (\<forall>x. r \<noteq> Ok x))"

definition confined ::
  "bool \<Rightarrow> nat set \<Rightarrow> bool \<Rightarrow> (wasi_ctx \<Rightarrow> bool) \<Rightarrow> ('w, 'a) hc \<Rightarrow> bool" where
  "confined p W b L m \<longleftrightarrow> (\<forall>s. L (st_ctx s) \<longrightarrow> untouched p W b s (fst (m s)) (snd (m s)))"

abbreviation harmless :: "bool \<Rightarrow> nat set \<Rightarrow> (wasi_ctx \<Rightarrow> bool) \<Rightarrow> ('w, 'a) hc \<Rightarrow> bool" where
  "harmless p W \<equiv> confined p W True"

abbreviation stuck :: "bool \<Rightarrow> nat set \<Rightarrow> (wasi_ctx \<Rightarrow> bool) \<Rightarrow> ('w, 'a) hc \<Rightarrow> bool" where
  "stuck p W \<equiv> confined p W False"

lemma confinedD:
  "confined p W b L m \<Longrightarrow> L (st_ctx s) \<Longrightarrow> untouched p W b s (fst (m s)) (snd (m s))"
  by (simp add: confined_def)

lemma untouched_simps [simp]:
  "untouched p W b s (Ok x) s' \<longleftrightarrow> b \<and> st_ctx s' = st_ctx s \<and> st_world s' = st_world s \<and>
     same_outside W (st_mem s) (st_mem s')"
  "untouched p W b s (Err e) s' \<longleftrightarrow> valid_err e \<and> st_ctx s' = st_ctx s \<and> st_world s' = st_world s \<and>
     same_outside W (st_mem s) (st_mem s')"
  "untouched p W b s Panic s' \<longleftrightarrow> p \<and> st_ctx s' = st_ctx s \<and> st_world s' = st_world s \<and>
     same_outside W (st_mem s) (st_mem s')"
  by (auto simp: untouched_def)

lemma stuck_bind: "stuck p W L m \<Longrightarrow> stuck p W L (hc_bind m f)"
  unfolding confined_def [of _ _ _ _ "hc_bind m f"]
proof (intro allI impI)
  fix s :: "'a store" assume m: "stuck p W L m" "L (st_ctx s)"
  obtain r s1 where r: "m s = (r, s1)" by force
  then show "untouched p W False s (fst (hc_bind m f s)) (snd (hc_bind m f s))"
    using confinedD [OF m] by (cases r) simp_all
qed

lemma confined_bind:
  assumes "harmless p W L m" "\<And>x. confined p W b L (f x)"
  shows "confined p W b L (hc_bind m f)"
  unfolding confined_def
proof (intro allI impI)
  fix s :: "'a store" assume s: "L (st_ctx s)"
  obtain r s1 where r: "m s = (r, s1)" by force
  note same = confinedD [OF assms(1) s, unfolded r fst_conv snd_conv]
  show "untouched p W b s (fst (hc_bind m f s)) (snd (hc_bind m f s))"
  proof (cases r)
    case (Ok x)
    then have "untouched p W b s1 (fst (f x s1)) (snd (f x s1))"
      using same s by (intro confinedD [OF assms(2)]) simp
    then show ?thesis using same r Ok by (auto simp: untouched_def intro: same_outside_trans)
  qed (use same r in simp_all)
qed

lemma harmless_steps:
  "(\<And>mem. res_ok p (g mem)) \<Longrightarrow> harmless p W L (hc_read g)"
  "res_ok p r \<Longrightarrow> harmless p W L (hc_res r)"
  "valid_err e \<Longrightarrow> stuck p W L (hc_res (Err e))"
  by (simp_all add: confined_def untouched_def)

lemma harmless_write:
  assumes "\<And>mem. res_ok p (f mem)" "\<And>mem mem'. f mem = Ok mem' \<Longrightarrow> same_outside W mem mem'"
  shows "harmless p W L (hc_write f)"
  unfolding confined_def
proof (intro allI impI)
  fix s :: "'a store"
  show "untouched p W True s (fst (hc_write f s)) (snd (hc_write f s))"
    using assms(1) [of "st_mem s"] assms(2) [of "st_mem s"]
    by (cases "f (st_mem s)") (simp_all add: hc_write_def)
qed

lemma harmless_dec_path: "supported tgt \<Longrightarrow> harmless p W L (dec_path tgt ptr len)"
  unfolding dec_path_def
  by (intro harmless_steps(1) res_ok_and_then) (auto simp: path_from_slice_def)

lemma stuck_ctx:
  assumes "\<And>ctx. L ctx \<Longrightarrow> \<exists>e. g ctx = Err e \<and> valid_err e"
  shows "stuck p W L (hc_ctx g)"
  unfolding confined_def using assms by force

lemma get_fd_entry_lacks:
  assumes "lacks fd r ctx" "r AND base = r"
  shows "\<exists>e. get_fd_entry ctx fd base inh = Err e \<and> valid_err e"
proof (cases "get_fd_entry ctx fd base inh")
  case (Ok fe)
  then have fe: "hm_get (fds ctx) fd = Some fe" "base AND NOT (fe_rights_base fe) = 0"
    by (simp_all add: get_fd_entry_Ok)
  have "r AND NOT (fe_rights_base fe) = r AND (base AND NOT (fe_rights_base fe))"
    using assms(2) by (metis and.assoc)
  then show ?thesis using assms(1) fe by (simp add: lacks_def)
next
  case (Err e)
  then show ?thesis using res_ok_get_fd_entry [of True ctx fd base inh] by simp
qed simp

lemma stuck_entry:
  assumes "r AND base = r"
  shows "stuck p W (lacks fd r) (hc_entry fd base inh)" "stuck p W (lacks fd r) (hc_entry_mut fd base inh)"
  unfolding hc_entry_def hc_entry_mut_def get_fd_entry_mut_eq
  using get_fd_entry_lacks [OF _ assms] by (intro stuck_ctx; blast)+

text \<open>The same for the steps below the hostcalls.\<close>

definition io_stuck :: "(wasi_ctx \<Rightarrow> bool) \<Rightarrow> (wasi_ctx \<Rightarrow> ('w, 'a) io) \<Rightarrow> bool" where
  "io_stuck L f \<longleftrightarrow> (\<forall>ctx w. L ctx \<longrightarrow> (\<exists>e. f ctx w = (Err e, w) \<and> valid_err e))"

lemma io_stuck_bind: "io_stuck L m \<Longrightarrow> io_stuck L (\<lambda>ctx. io_bind (m ctx) (f ctx))"
  unfolding io_stuck_def by (metis io_bind_simps(2))

lemma io_stuck_apply:
  assumes "io_stuck L f" "L (st_ctx s)"
  shows "\<exists>e. hc_with_ctx f s = (Err e, s) \<and> valid_err e"
proof -
  obtain e where "f (st_ctx s) (st_world s) = (Err e, st_world s)" "valid_err e"
    using assms unfolding io_stuck_def by meson
  then show ?thesis by (intro exI [of _ e]) (simp add: hc_with_ctx_def hc_io_def)
qed

lemma stuck_with_ctx:
  assumes "io_stuck L f"
  shows "stuck p W L (hc_with_ctx f)"
  unfolding confined_def
proof (intro allI impI)
  fix s :: "'a store" assume L: "L (st_ctx s)"
  obtain e where "hc_with_ctx f s = (Err e, s)" "valid_err e"
    using io_stuck_apply [OF assms L] by (elim exE conjE)
  then show "untouched p W False s (fst (hc_with_ctx f s)) (snd (hc_with_ctx f s))" by simp
qed

lemma io_stuck_path_get:
  assumes "r AND base = r"
  shows "io_stuck (lacks fd r) (\<lambda>ctx. path_get os lc ctx fd fl path base inh nf)"
  unfolding io_stuck_def
proof (intro allI impI)
  fix ctx and w :: 'a assume "lacks fd r ctx"
  then obtain e where "get_fd_entry ctx fd base inh = Err e" "valid_err e"
    using get_fd_entry_lacks assms by blast
  then show "\<exists>e. path_get os lc ctx fd fl path base inh nf w = (Err e, w) \<and> valid_err e"
    by (simp add: path_get_def)
qed

lemmas stuck_path = stuck_with_ctx [OF io_stuck_bind [OF io_stuck_path_get]]

text \<open>An opening that fails stores the number of no descriptor.\<close>

lemma stuck_open:
  assumes "io_stuck L f" "\<And>mem. res_ok p (w mem)" "\<And>mem mem'. w mem = Ok mem' \<Longrightarrow> same_outside W mem mem'"
  shows "stuck p W L (\<lambda>s. case hc_with_ctx f s of
      (Ok fe, s1) \<Rightarrow> g fe s1
    | (Err e, s1) \<Rightarrow> hc_bind (hc_write w) (\<lambda>_. hc_res (Err e)) s1
    | (Panic, s1) \<Rightarrow> (Panic, s1))"
  unfolding confined_def
proof (intro allI impI)
  fix s :: "'a store" assume L: "L (st_ctx s)"
  obtain e where e: "hc_with_ctx f s = (Err e, s)" "valid_err e"
    using io_stuck_apply [OF assms(1) L] by (elim exE conjE)
  have m: "stuck p W L (hc_bind (hc_write w) (\<lambda>_. hc_res (Err e)))"
    by (intro confined_bind harmless_write harmless_steps assms(2,3) e(2))
  show "untouched p W False s
      (fst (case hc_with_ctx f s of
          (Ok fe, s1) \<Rightarrow> g fe s1
        | (Err e, s1) \<Rightarrow> hc_bind (hc_write w) (\<lambda>_. hc_res (Err e)) s1
        | (Panic, s1) \<Rightarrow> (Panic, s1)))
      (snd (case hc_with_ctx f s of
          (Ok fe, s1) \<Rightarrow> g fe s1
        | (Err e, s1) \<Rightarrow> hc_bind (hc_write w) (\<lambda>_. hc_res (Err e)) s1
        | (Panic, s1) \<Rightarrow> (Panic, s1)))"
    unfolding e(1) prod.case res.case by (rule confinedD [OF m L])
qed

section \<open>Every listed call is stuck\<close>

lemma return_err_not_success:
  assumes "valid_err e"
  shows "return_enc_errno tgt e \<noteq> Ret (enc_errno tgt WASI_ESUCCESS)"
proof -
  have "dec_errno tgt (enc_errno tgt e) = e" for e by (simp add: dec_scalar_def enc_scalar_def)
  then have "enc_errno tgt e \<noteq> enc_errno tgt WASI_ESUCCESS"
    using assms by (metis valid_err_def WASI_ESUCCESS_def unat_0 less_irrefl)
  then show ?thesis by (simp add: return_enc_errno_def Let_def)
qed

text \<open>
  A hostcall whose step is stuck returns an error and touches nothing but the bytes \<open>W\<close> of the
  guest's memory.  With tracing the name of the error, or of the argument, is looked up for the log,
  which panics on values without one.
\<close>

definition no_effect ::
  "target \<Rightarrow> nat set \<Rightarrow> 'w store \<Rightarrow> outcome \<Rightarrow> 'w store \<Rightarrow> bool" where
  "no_effect tgt W s out s' \<longleftrightarrow> st_ctx s' = st_ctx s \<and> st_world s' = st_world s \<and>
     same_outside W (st_mem s) (st_mem s') \<and>
     ((\<exists>e. valid_err e \<and> out = Ret (enc_errno tgt e)) \<or> trace_enabled tgt \<and> out = Panicked)"

definition refused ::
  "target \<Rightarrow> nat set \<Rightarrow> (wasi_ctx \<Rightarrow> bool) \<Rightarrow> ('w store \<Rightarrow> outcome \<times> 'w store) \<Rightarrow> bool" where
  "refused tgt W L h \<longleftrightarrow> (\<forall>s out s'. L (st_ctx s) \<longrightarrow> h s = (out, s') \<longrightarrow> no_effect tgt W s out s')"

lemma return_err_cases:
  "valid_err e \<Longrightarrow> (\<exists>e'. valid_err e' \<and> return_enc_errno tgt e = Ret (enc_errno tgt e')) \<or>
     trace_enabled tgt \<and> return_enc_errno tgt e = Panicked"
  by (auto simp: return_enc_errno_def Let_def)

lemma refused_hostcall: "stuck (trace_enabled tgt) W L m \<Longrightarrow> refused tgt W L (hostcall tgt m)"
  unfolding refused_def
proof (intro allI impI)
  fix s :: "'a store" and out s'
  assume m: "stuck (trace_enabled tgt) W L m" "L (st_ctx s)" "hostcall tgt m s = (out, s')"
  obtain r s1 where r: "m s = (r, s1)" by force
  note same = confinedD [OF m(1,2), unfolded r fst_conv snd_conv]
  show "no_effect tgt W s out s'"
    using m(3) r same return_err_cases [of _ tgt]
    by (cases r) (auto simp: hostcall_def no_effect_def)
qed

lemma refusedD:
  assumes "refused tgt W L h" "L (st_ctx s)" "h s = (out, s')"
  shows "no_effect tgt W s out s'"
  using assms(1) [unfolded refused_def, rule_format, OF assms(2,3)] .

lemmas refuse = refused_hostcall [OF stuck_bind [OF stuck_entry(1)]]

lemma refused_fd_calls:
  "refused tgt W (lacks (dec_fd tgt fd) WASI_RIGHT_FD_ADVISE) (fd_advise os lc tgt fd a b x)"
  "refused tgt W (lacks (dec_fd tgt fd) WASI_RIGHT_FD_ALLOCATE) (fd_allocate os tgt fd a b)"
  "refused tgt W (lacks (dec_fd tgt fd) WASI_RIGHT_FD_DATASYNC) (fd_datasync os tgt fd)"
  "refused tgt W (lacks (dec_fd tgt fd) WASI_RIGHT_FD_SYNC) (fd_sync os tgt fd)"
  "refused tgt W (lacks (dec_fd tgt fd) WASI_RIGHT_FD_FILESTAT_SET_SIZE) (fd_filestat_set_size os tgt fd n)"
  "refused tgt W (lacks (dec_fd tgt fd) WASI_RIGHT_FD_FILESTAT_SET_TIMES)
     (fd_filestat_set_times os lc tgt fd t u g)"
  "refused tgt W (lacks (dec_fd tgt fd) WASI_RIGHT_FD_TELL) (fd_tell os tgt fd p)"
  unfolding fd_advise_def fd_allocate_def fd_datasync_def fd_sync_def fd_filestat_set_size_def
    fd_filestat_set_times_def fd_tell_def
  by (rule refuse, simp)+

lemma refused_fd_seek:
  "refused tgt W (lacks (dec_fd tgt fd)
      (if dec_filedelta tgt off = 0 \<and> dec_whence tgt wh = WASI_WHENCE_CUR then WASI_RIGHT_FD_TELL
       else WASI_RIGHT_FD_SEEK OR WASI_RIGHT_FD_TELL)) (fd_seek os tgt fd off wh p)"
  unfolding fd_seek_def Let_def
  by (intro refused_hostcall confined_bind [OF harmless_steps(2)] stuck_bind stuck_entry)
    (simp_all add: res_ok_whence)

lemma refused_data_calls:
  assumes "supported tgt"
  shows "refused tgt W (lacks (dec_fd tgt fd) WASI_RIGHT_FD_READ) (fd_pread os tgt fd a b x d)"
    "refused tgt W (lacks (dec_fd tgt fd) WASI_RIGHT_FD_READ) (fd_pwrite os tgt fd a b x d)"
    "refused tgt W (lacks (dec_fd tgt fd) WASI_RIGHT_FD_READ) (fd_read os tgt fd a b d)"
    "refused tgt W (lacks (dec_fd tgt fd) WASI_RIGHT_FD_WRITE) (fd_write os tgt fd a b d)"
  unfolding fd_pread_def fd_pwrite_def fd_read_def fd_write_def
  by (intro refused_hostcall confined_bind [OF harmless_steps(1)] stuck_bind stuck_entry
      res_ok_dec_iovec_slice assms and.idem)+

lemma refused_fd_readdir:
  "refused tgt {unat d..<unat d + 4} (lacks (dec_fd tgt fd) WASI_RIGHT_FD_READDIR)
     (fd_readdir os tgt fd a b x d)"
  unfolding fd_readdir_def
  by (intro refused_hostcall confined_bind [OF harmless_write] stuck_bind stuck_entry
      res_ok_enc_usize_byref and.idem same_outside_usize) simp_all

lemma stuck_preopen: "stuck p W (lacks fd WASI_RIGHT_PATH_OPEN) (hc_ctx (\<lambda>ctx. preopen_name ctx fd))"
proof (rule stuck_ctx)
  fix ctx assume "lacks fd WASI_RIGHT_PATH_OPEN ctx"
  then obtain e where "get_fd_entry ctx fd WASI_RIGHT_PATH_OPEN 0 = Err e" "valid_err e"
    using get_fd_entry_lacks [OF _ and.idem] by blast
  then show "\<exists>e. preopen_name ctx fd = Err e \<and> valid_err e" by (simp add: preopen_name_def)
qed

lemma refused_prestat:
  "refused tgt W (lacks (dec_fd tgt fd) WASI_RIGHT_PATH_OPEN) (fd_prestat_get tgt fd a)"
  "refused tgt W (lacks (dec_fd tgt fd) WASI_RIGHT_PATH_OPEN) (fd_prestat_dir_name tgt fd a b)"
  unfolding fd_prestat_get_def fd_prestat_dir_name_def
  by (intro refused_hostcall stuck_bind stuck_preopen)+

lemmas refuse_path = refused_hostcall [OF confined_bind [OF harmless_dec_path stuck_path]]

lemma refused_path_calls:
  assumes "supported tgt"
  shows "refused tgt W (lacks (dec_fd tgt fd) (WASI_RIGHT_PATH_OPEN OR WASI_RIGHT_PATH_CREATE_DIRECTORY))
      (path_create_directory os lc tgt fd a b)"
    "refused tgt W (lacks (dec_fd tgt fd) WASI_RIGHT_PATH_REMOVE_DIRECTORY)
      (path_remove_directory os lc tgt fd a b)"
    "refused tgt W (lacks (dec_fd tgt fd) WASI_RIGHT_PATH_UNLINK_FILE) (path_unlink_file os lc tgt fd a b)"
    "refused tgt W (lacks (dec_fd tgt fd) WASI_RIGHT_PATH_FILESTAT_SET_TIMES)
      (path_filestat_set_times os lm tgt fd fl a b t u g)"
  unfolding path_create_directory_def path_remove_directory_def path_unlink_file_def
    path_filestat_set_times_def impl_path_create_directory_def impl_path_remove_directory_def
    impl_path_unlink_file_def impl_path_filestat_set_times_def
  by (rule refuse_path, rule assms, simp)+

lemma refused_two_paths:
  assumes "supported tgt"
  shows "refused tgt W (lacks (dec_fd tgt fd) WASI_RIGHT_PATH_LINK_SOURCE)
      (path_link os lc tgt fd fl a b fd' x d)"
    "refused tgt W (lacks (dec_fd tgt fd) WASI_RIGHT_PATH_RENAME_SOURCE)
      (path_rename os lc tgt fd a b fd' x d)"
    "refused tgt W (lacks (dec_fd tgt fd) WASI_RIGHT_PATH_SYMLINK) (path_symlink os lc tgt a b fd x d)"
  unfolding path_link_def path_rename_def path_symlink_def impl_path_link_def impl_path_rename_def
    impl_path_symlink_def
  by (intro refused_hostcall confined_bind [OF harmless_dec_path] assms stuck_path and.idem)+

lemma refused_path_filestat_get:
  "supported tgt \<Longrightarrow> refused tgt W (lacks (dec_fd tgt fd) WASI_RIGHT_PATH_FILESTAT_GET)
     (path_filestat_get os lc tgt fd fl a b x)"
  unfolding path_filestat_get_def impl_path_filestat_get_def
  by (intro refused_hostcall confined_bind [OF harmless_dec_path] stuck_bind stuck_path and.idem)

lemma refused_path_readlink:
  assumes "supported tgt"
  shows "refused tgt {unat e..<unat e + 4} (lacks (dec_fd tgt fd) WASI_RIGHT_PATH_READLINK)
     (path_readlink os lc tgt fd a b x d e)"
  unfolding path_readlink_def impl_path_readlink_def case_prod_beta
  by (intro refused_hostcall confined_bind [OF harmless_write] confined_bind [OF harmless_steps(1)]
      stuck_bind stuck_path and.idem res_ok_and_then res_ok_enc_usize_byref same_outside_usize)
    (auto simp: assms path_from_vec_def)

lemma refused_path_open:
  assumes "supported tgt"
  shows "refused tgt {unat x..<unat x + 4} (lacks (dec_fd tgt fd) WASI_RIGHT_PATH_OPEN)
     (path_open os lc tgt fd fl a b o1 r i ff x)"
proof -
  have sub: "WASI_RIGHT_PATH_OPEN AND open_needed_base lc fs WASI_RIGHT_PATH_OPEN =
      WASI_RIGHT_PATH_OPEN" for fs
    by (simp add: open_needed_base_def bit.conj_disj_distrib)
  show ?thesis
    unfolding path_open_def Let_def
    by (intro refused_hostcall confined_bind [OF harmless_dec_path] assms stuck_open same_outside_fd)
      (simp_all add: impl_path_open_def Let_def io_stuck_bind [OF io_stuck_path_get [OF sub]])
qed

section \<open>Complete mediation\<close>

text \<open>
  The bytes a refused call may have written: the place of its result, which \<^verbatim>\<open>fd_readdir\<close> and
  \<^verbatim>\<open>path_readlink\<close> set to 0 at the start and \<^verbatim>\<open>path_open\<close> to -1 when it fails.
\<close>

definition result_slot :: "call \<Rightarrow> nat set" where
  "result_slot c = (case c of
     Fd_readdir fd a b x d \<Rightarrow> {unat d..<unat d + 4}
   | Path_open fd fl a b o1 r i ff x \<Rightarrow> {unat x..<unat x + 4}
   | Path_readlink fd a b x d e \<Rightarrow> {unat e..<unat e + 4}
   | _ \<Rightarrow> {})"



end
