(* ===== verification/Opening.thy ===== *)
theory Opening
  imports Capabilities Mediation Data_Transfer
begin

text \<open>
  What \<^verbatim>\<open>path_open\<close> does to the table and to the guest's memory, and what it makes of the rights the
  guest asks for.
\<close>

section \<open>The step of the call\<close>

text \<open>The part of the call after the path was decoded, for the rights that are asked for.\<close>

definition open_step ::
  "('w, 'z) os_scheme \<Rightarrow> target \<Rightarrow> (wasi_ctx \<Rightarrow> ('w, fd_entry) io) \<Rightarrow> u32 \<Rightarrow>
     ('w, unit) hc" where
  "open_step os tgt attempt fd_out_ptr = (\<lambda>s.
     case hc_with_ctx attempt s of
       (Ok fe, s1) \<Rightarrow>
         hc_bind (hc_insert_entry os fe) (\<lambda>guest_fd.
           hc_write (\<lambda>mem. enc_fd_byref tgt mem fd_out_ptr guest_fd)) s1
     | (Err e, s1) \<Rightarrow>
         hc_bind (hc_write (\<lambda>mem. enc_fd_byref tgt mem fd_out_ptr (- 1))) (\<lambda>_. hc_res (Err e)) s1
     | (Panic, s1) \<Rightarrow> (Panic, s1))"

lemma path_open_step:
  "path_open os lc tgt dirfd dirflags path_ptr path_len oflags rb ri fdflags fd_out_ptr =
     hostcall tgt (hc_bind (dec_path tgt path_ptr path_len) (\<lambda>path.
       open_step os tgt (\<lambda>ctx. impl_path_open os lc ctx (dec_fd tgt dirfd)
         (dec_lookupflags tgt dirflags) path (dec_oflags tgt oflags) (open_read (dec_rights tgt rb))
         (open_write (dec_rights tgt rb)) WASI_RIGHT_PATH_OPEN (dec_rights tgt rb OR dec_rights tgt ri)
         (dec_fdflags tgt fdflags)) fd_out_ptr))"
  by (simp add: path_open_def open_step_def [abs_def] Let_def)

lemma hc_with_ctx_apply:
  "f (st_ctx s) (st_world s) = (r, w) \<Longrightarrow> hc_with_ctx f s = (r, s\<lparr>st_world := w\<rparr>)"
  by (simp add: hc_with_ctx_def hc_io_def)

text \<open>What a guest finds at an address where a number was stored.\<close>

definition stored_fd :: "target \<Rightarrow> memory \<Rightarrow> u32 \<Rightarrow> wasi_fd_t \<Rightarrow> bool" where
  "stored_fd tgt mem ptr fd \<longleftrightarrow> slice_at mem (unat ptr) 4 = ne_bytes tgt 4 (enc_fd tgt fd)"

lemma enc_fd_byref_Ok:
  assumes "in_bounds tgt mem ptr 4" "unat ptr mod 4 = 0"
  shows "enc_fd_byref tgt mem ptr fd =
    Ok (overwrite mem (unat ptr) (ne_bytes tgt 4 (enc_fd tgt fd)))"
  using assms by (simp add: enc_scalar_byref_def enc_pointee_eq L_u32_def)

lemma stored_overwrite:
  assumes "in_bounds tgt mem ptr 4"
  shows "stored_fd tgt (overwrite mem (unat ptr) (ne_bytes tgt 4 (enc_fd tgt fd))) ptr fd"
  using assms by (simp add: stored_fd_def in_bounds_def)

lemma swap_zero: "swap_bytes 0 = 0"
proof -
  have "le_bytes n (0 :: 'a :: len word) = replicate n 0" for n by (induction n) simp_all
  moreover have "of_le (replicate n 0) = (0 :: 'a :: len word)" for n by (induction n) simp_all
  ultimately show ?thesis by (simp add: swap_bytes_def)
qed

lemma to_le_0: "to_le tgt 0 = 0" and from_le_0: "from_le tgt 0 = 0"
  by (simp_all add: to_le_def from_le_def swap_zero)

section \<open>Granting\<close>

text \<open>The outcomes of the step, when there is room for the number.\<close>

definition granted :: "target \<Rightarrow> u32 \<Rightarrow> 'w store \<Rightarrow> 'w store \<Rightarrow> bool" where
  "granted tgt ptr s s' \<longleftrightarrow> (\<exists>fd c. lowest_free (caps_of (st_ctx s)) fd \<and> grantable c \<and>
     caps_of (st_ctx s') = (caps_of (st_ctx s))(fd \<mapsto> c) \<and> stored_fd tgt (st_mem s') ptr fd)"

lemma open_step_Ok:
  assumes "attempt (st_ctx s) (st_world s) = (Ok fe, w)" "next_free_fd (fds (st_ctx s)) 3 = Some fd"
    and "in_bounds tgt (st_mem s) ptr 4" "unat ptr mod 4 = 0"
  shows "open_step os tgt attempt ptr s = (Ok (), s\<lparr>st_world := w,
    st_ctx := (st_ctx s)\<lparr>fds := hm_insert fd fe (fds (st_ctx s))\<rparr>,
    st_mem := overwrite (st_mem s) (unat ptr) (ne_bytes tgt 4 (enc_fd tgt fd))\<rparr>)"
proof -
  have "hc_insert_entry os fe (s\<lparr>st_world := w\<rparr>) =
      (Ok fd, s\<lparr>st_world := w, st_ctx := (st_ctx s)\<lparr>fds := hm_insert fd fe (fds (st_ctx s))\<rparr>\<rparr>)"
    using assms(2) by (simp add: hc_insert_entry_def insert_fd_entry_def)
  moreover have "hc_with_ctx attempt s = (Ok fe, s\<lparr>st_world := w\<rparr>)"
    using assms(1) by (rule hc_with_ctx_apply)
  ultimately show ?thesis
    using assms(3,4) by (simp add: open_step_def hc_write_def enc_fd_byref_Ok)
qed

lemma open_step_outcomes:
  assumes run: "open_step os tgt attempt ptr s = (r, s')"
    and att: "io_ok True (attempt (st_ctx s))"
      "\<And>fe w'. attempt (st_ctx s) (st_world s) = (Ok fe, w') \<Longrightarrow> opened_entry fe"
    and ptr: "in_bounds tgt (st_mem s) ptr 4" "unat ptr mod 4 = 0"
  shows "r = Ok () \<and> granted tgt ptr s s' \<or>
    (\<forall>x. r \<noteq> Ok x) \<and> res_ok True r \<and> st_ctx s' = st_ctx s"
proof -
  obtain r1 w where o1: "attempt (st_ctx s) (st_world s) = (r1, w)" by force
  have m: "hc_with_ctx attempt s = (r1, s\<lparr>st_world := w\<rparr>)" using o1 by (rule hc_with_ctx_apply)
  show ?thesis
  proof (cases r1)
    case (Ok fe)
    show ?thesis
    proof (cases "next_free_fd (fds (st_ctx s)) 3")
      case None
      then have "hc_insert_entry os fe (s\<lparr>st_world := w\<rparr>) =
          (Err WASI_EMFILE, s\<lparr>st_world := drop_fd_entry os fe w\<rparr>)"
        by (simp add: hc_insert_entry_def insert_fd_entry_def)
      then show ?thesis using run m Ok by (auto simp: open_step_def)
    next
      case (Some fd)
      have "opened_entry fe" using att(2) o1 Ok by simp
      moreover have "(r, s') = (Ok (), s\<lparr>st_world := w,
          st_ctx := (st_ctx s)\<lparr>fds := hm_insert fd fe (fds (st_ctx s))\<rparr>,
          st_mem := overwrite (st_mem s) (unat ptr) (ne_bytes tgt 4 (enc_fd tgt fd))\<rparr>)"
        using open_step_Ok [of attempt s, OF o1 [unfolded Ok] Some ptr, of os] run by simp
      ultimately show ?thesis
        using lowest_free_next [OF Some] stored_overwrite [OF ptr(1)] grantable_opened [of fe]
        unfolding granted_def by (intro disjI1 conjI exI [of _ fd] exI [of _ "cap_of fe"]) simp_all
    qed
  next
    case (Err e)
    have "res_ok True r1" using att(1) o1 by (metis io_ok_def fst_conv)
    then show ?thesis
      using run m Err ptr by (auto simp: open_step_def hc_write_def enc_fd_byref_Ok)
  qed (use run m in \<open>auto simp: open_step_def\<close>)
qed

text \<open>
  C10. If there is room for the number it returns, \<^verbatim>\<open>path_open\<close> either reports success, and then
  exactly one capability of an open file was granted, under the lowest free number, and this
  number is stored where the guest asked; or it does not, and the context is as it was.
\<close>

theorem path_open_grants_one:
  assumes "supported tgt"
    and "path_open os lc tgt dirfd dirflags path_ptr path_len oflags rb ri fdflags ptr s = (out, s')"
    and "in_bounds tgt (st_mem s) ptr 4" "unat ptr mod 4 = 0"
  shows "out = Ret (enc_errno tgt WASI_ESUCCESS) \<and>
      (\<exists>fd c. lowest_free (caps_of (st_ctx s)) fd \<and> grantable c \<and>
        caps_of (st_ctx s') = (caps_of (st_ctx s))(fd \<mapsto> c) \<and>
        slice_at (st_mem s') (unat ptr) 4 = ne_bytes tgt 4 (enc_fd tgt fd)) \<or>
    out \<noteq> Ret (enc_errno tgt WASI_ESUCCESS) \<and> st_ctx s' = st_ctx s"
proof -
  let ?step = "\<lambda>path. open_step os tgt (\<lambda>ctx. impl_path_open os lc ctx (dec_fd tgt dirfd)
         (dec_lookupflags tgt dirflags) path (dec_oflags tgt oflags) (open_read (dec_rights tgt rb))
         (open_write (dec_rights tgt rb)) WASI_RIGHT_PATH_OPEN (dec_rights tgt rb OR dec_rights tgt ri)
         (dec_fdflags tgt fdflags)) ptr"
  let ?m = "hc_bind (dec_path tgt path_ptr path_len) ?step"
  have success: "return_enc_errno tgt WASI_ESUCCESS = Ret (enc_errno tgt WASI_ESUCCESS)"
    by (simp add: return_enc_errno_def enc_scalar_def strerror_Panic_iff wasi_const to_le_0)
  obtain r where r: "?m s = (r, s')"
    using assms(2) by (auto simp: path_open_step hostcall_def split: prod.splits res.splits)
  have "r = Ok () \<and> granted tgt ptr s s' \<or> (\<forall>x. r \<noteq> Ok x) \<and> res_ok True r \<and> st_ctx s' = st_ctx s"
  proof (cases "fst (dec_path tgt path_ptr path_len s)")
    case (Ok path)
    then have "?step path s = (r, s')" using r by (simp add: dec_path_def hc_bind_def)
    then show ?thesis
      by (rule open_step_outcomes)
        (auto simp: assms short_path_def dest: path_open_opened intro!: io_ok_path_open)
  next
    case (Err e)
    have "res_ok True (fst (dec_path tgt path_ptr path_len s))"
      using confinedD [OF harmless_dec_path [OF assms(1), of True "{}" "\<lambda>_. True"], of s] by (simp add: untouched_def)
    then show ?thesis using r Err by (auto simp: dec_path_def hc_bind_def)
  next
    case Panic
    then show ?thesis using r by (auto simp: dec_path_def hc_bind_def)
  qed
  moreover have "out = (case r of Ok _ \<Rightarrow> return_enc_errno tgt WASI_ESUCCESS
      | Err e \<Rightarrow> return_enc_errno tgt e | Panic \<Rightarrow> Panicked)"
    using assms(2) r by (cases r) (simp_all add: path_open_step hostcall_def)
  ultimately show ?thesis
    using success return_err_not_success
    by (cases r) (auto simp: granted_def stored_fd_def)
qed

text \<open>A platform on which every name opens as a directory; the path \<^verbatim>\<open>a\<close> is at address 0.\<close>

definition door_os :: "unit os" where
  "door_os = dir_os\<lparr>sys_try_clone := \<lambda>_ w. (Inr 8, w), sys_openat := \<lambda>_ _ _ _ w. (Inr 9, w)\<rparr>"

definition door_entry :: fd_entry where
  "door_entry = new_entry (File 7) (WASI_FILETYPE_DIRECTORY, RIGHTS_DIRECTORY_BASE,
     RIGHTS_DIRECTORY_INHERITING)"

definition door_store :: "unit store" where
  "door_store = \<lparr>st_ctx = \<lparr>fds = [(3, door_entry)], args = [], env = []\<rparr>,
     st_mem = 97 # replicate 31 0, st_world = ()\<rparr>"

lemma door_simps [simp]:
  "sys_try_clone door_os f w = (Inr 8, w)" "sys_openat door_os d p fl m w = (Inr 9, w)"
  "sys_close door_os d w = w" "sys_metadata door_os f w = (Inr \<lparr>md_file_type = Ft_dir, md_len = 0\<rparr>, w)"
  "sys_fcntl_getfl door_os f w = (Inr 2, w)"
  "fo_descriptor (fe_object door_entry) = File 7"
  by (simp_all add: door_os_def dir_os_def idle_defs door_entry_def new_entry_def)

lemma door_path_get:
  assumes "get_fd_entry ctx 3 base inh = Ok door_entry"
  shows "path_get door_os lc ctx 3 0 [97] base inh nf w = (Ok (8, [97]), w)"
proof -
  have "path_loop door_os lc 0 nf
      \<lparr>dir_stack = [8], path_stack = [join_path ([] @ [[97]])], symlink_expansions = 0\<rparr> w =
      (Ok (8, [97]), close_dirs door_os [] w)"
    by (rule path_loop_plain) (simp_all add: clean_letters)
  then show ?thesis using assms by (simp add: path_get_def close_dirs_def io_bind_def)
qed

lemma door_opens:
  assumes "get_fd_entry ctx 3 (open_needed_base lc (open_all_flags lc rd wr fl) WASI_RIGHT_PATH_OPEN)
      (open_needed_inheriting lc (open_all_flags lc rd wr fl OR nix_from_fdflags lc ff) ni) = Ok door_entry"
  shows "\<exists>fe w'. impl_path_open door_os lc ctx 3 0 [97] fl rd wr WASI_RIGHT_PATH_OPEN ni ff w = (Ok fe, w')"
proof -
  have "\<exists>fe. fdentry_from door_os lc 9 w = (Ok fe, w)"
    using good_dir_from [of door_os w 9 lc] by (auto simp: good_dir_def)
  then show ?thesis
    using door_path_get [OF assms, of lc]
    by (auto simp: impl_path_open_def Let_def with_file_def open_entry_def determine_type_rights_def
        io_map_def io_on_fail_def io_bind_def from_std_or_def)
qed

lemma door_rights:
  "get_fd_entry (st_ctx door_store) 3
     (open_needed_base linux_consts (open_all_flags linux_consts True False 0) WASI_RIGHT_PATH_OPEN)
     (open_needed_inheriting linux_consts (open_all_flags linux_consts True False 0 OR
        nix_from_fdflags linux_consts 0) 2) = Ok door_entry"
  by (simp add: get_fd_entry_Ok door_store_def door_entry_def new_entry_def open_needed_base_def
      open_needed_inheriting_def open_all_flags_def open_access_def nix_from_oflags_def
      nix_from_fdflags_def contains_def intersects_def linux_consts_def host_O_RSYNC_def rights_values wasi_const)

lemma path_open_grants_one_witness:
  "\<exists>s'. path_open door_os linux_consts tgt_le 3 0 0 1 0 2 0 0 16 door_store = (Ret 0, s') \<and>
     slice_at (st_mem s') 16 4 = [4, 0, 0, 0] \<and> caps_of (st_ctx s') 4 \<noteq> None"
proof -
  have path: "dec_path tgt_le 0 1 door_store = (Ok [97], door_store)"
    by (simp add: dec_path_def dec_slice_of_u8 door_store_def in_bounds_def slice_at_def)
  have rd: "open_read 2" "\<not> open_write 2"
    by (simp_all add: open_read_def open_write_def wasi_const)
  obtain fe w where fe: "impl_path_open door_os linux_consts (st_ctx door_store) 3 0 [97] 0 True False
      WASI_RIGHT_PATH_OPEN 2 0 () = (Ok fe, w)"
    using door_opens [OF door_rights] by blast
  obtain s' where s': "path_open door_os linux_consts tgt_le 3 0 0 1 0 2 0 0 16 door_store =
      (Ret (enc_errno tgt_le WASI_ESUCCESS), s')"
  proof -
    have "next_free_fd (fds (st_ctx door_store)) 3 = Some 4"
      by (simp add: door_store_def next_free_fd.simps hm_contains_key_def checked_add_def)
    then obtain s' where "open_step door_os tgt_le (\<lambda>ctx. impl_path_open door_os linux_consts
        ctx 3 0 [97] 0 True False WASI_RIGHT_PATH_OPEN 2 0) 16 door_store = (Ok (), s')"
      using open_step_Ok [where os = door_os and s = door_store and ptr = 16 and tgt = tgt_le and fd = 4
          and attempt = "\<lambda>ctx. impl_path_open door_os linux_consts ctx 3 0 [97] 0 True False
            WASI_RIGHT_PATH_OPEN 2 0"] fe
      by (simp add: door_store_def in_bounds_def)
    then show ?thesis
      using path rd that [of s']
      by (simp add: path_open_step dec_scalar_def hostcall_def return_enc_errno_def)
  qed
  have "supported tgt_le" by (simp add: supported_def)
  then obtain fd c where fd: "lowest_free (caps_of (st_ctx door_store)) fd"
      "caps_of (st_ctx s') = (caps_of (st_ctx door_store))(fd \<mapsto> c)"
      "slice_at (st_mem s') 16 4 = ne_bytes tgt_le 4 (enc_fd tgt_le fd)"
    using path_open_grants_one [OF _ s'] by (auto simp: door_store_def in_bounds_def)
  have keys: "caps_of (st_ctx door_store) k \<noteq> None \<longleftrightarrow> k = 3" for k
    by (simp add: caps_of_apply door_store_def)
  have "\<not> 4 < unat fd"
  proof
    assume "4 < unat fd"
    then have "caps_of (st_ctx door_store) 4 \<noteq> None"
      using fd(1) [unfolded lowest_free_def, THEN conjunct2, THEN conjunct2, rule_format, of 4] by simp
    then show False using keys [of 4] by simp
  qed
  moreover have "fd \<noteq> 3" "3 \<le> unat fd" using fd(1) keys [of fd] by (simp_all add: lowest_free_def)
  moreover have "unat fd = 3 \<Longrightarrow> fd = 3" by (simp add: word_unat_eq_iff)
  ultimately have "unat fd = 4" by linarith
  then have "fd = 4" by (simp add: word_unat_eq_iff)
  moreover have "le_bytes 4 (4 :: u32) = [4, 0, 0, 0]" by code_simp
  ultimately show ?thesis using fd s' by (simp add: ne_bytes_def enc_scalar_def wasi_const)
qed

section \<open>The rights that are asked for\<close>

lemma get_fd_entry_covered:
  assumes "hm_get (fds ctx) fd = Some fe" "ni AND NOT (fe_rights_inheriting fe) = 0"
  shows "get_fd_entry ctx fd nb (ni OR x) = get_fd_entry ctx fd nb x"
proof -
  have "(ni OR x) AND NOT (fe_rights_inheriting fe) = x AND NOT (fe_rights_inheriting fe)"
    using assms(2) by (simp add: bit.conj_disj_distrib2)
  then show ?thesis using assms(1) by (simp add: get_fd_entry_def validate_rights_cases)
qed

lemma impl_path_open_covered:
  assumes "hm_get (fds ctx) fd = Some fe" "ni AND NOT (fe_rights_inheriting fe) = 0"
  shows "impl_path_open os lc ctx fd fl path oflags rd wr nb ni ff =
    impl_path_open os lc ctx fd fl path oflags rd wr nb 0 ff"
proof -
  have "get_fd_entry ctx fd b (open_needed_inheriting lc flags ni) =
      get_fd_entry ctx fd b (open_needed_inheriting lc flags 0)" for b flags
    using get_fd_entry_covered [OF assms] by (simp add: open_needed_inheriting_def or.assoc)
  then show ?thesis by (simp add: impl_path_open_def path_get_def Let_def)
qed

text \<open>
  C33. The rights a guest asks for do not limit the descriptor it gets: as long as the directory
  passes them on, two calls of \<^verbatim>\<open>path_open\<close> that differ in the requested base and inheriting rights
  only, and need the same access mode, do the same and install the same entry.
\<close>

theorem path_open_ignores_requested_rights:
  assumes "hm_get (fds (st_ctx s)) (dec_fd tgt dirfd) = Some fe"
    and "(dec_rights tgt rb OR dec_rights tgt ri) AND NOT (fe_rights_inheriting fe) = 0"
    and "(dec_rights tgt rb' OR dec_rights tgt ri') AND NOT (fe_rights_inheriting fe) = 0"
    and "open_read (dec_rights tgt rb) = open_read (dec_rights tgt rb')"
    and "open_write (dec_rights tgt rb) = open_write (dec_rights tgt rb')"
  shows "path_open os lc tgt dirfd fl p n oflags rb ri ff out s =
    path_open os lc tgt dirfd fl p n oflags rb' ri' ff out s"
proof -
  have "open_step os tgt (\<lambda>ctx. impl_path_open os lc ctx (dec_fd tgt dirfd) l path o1 rd wr nb ni d) out s =
      open_step os tgt (\<lambda>ctx. impl_path_open os lc ctx (dec_fd tgt dirfd) l path o1 rd wr nb 0 d) out s"
    if "ni AND NOT (fe_rights_inheriting fe) = 0" for ni l path o1 rd wr nb d
    by (simp add: open_step_def hc_with_ctx_def impl_path_open_covered [OF assms(1) that])
  note drop = this [OF assms(2)] this [OF assms(3)]
  obtain r where "dec_path tgt p n s = (r, s)" by (simp add: dec_path_def)
  then show ?thesis
    unfolding path_open_step hostcall_def using drop assms(4,5)
    by (cases r) (simp_all add: hc_bind_def)
qed

lemma path_open_ignores_requested_rights_witness:
  "path_open door_os linux_consts tgt_le 3 0 0 1 0 2 0 0 16 door_store =
   path_open door_os linux_consts tgt_le 3 0 0 1 0 0x200001E 0xFF 0 16 door_store"
  by (rule path_open_ignores_requested_rights [of _ _ _ door_entry])
    (simp_all add: door_store_def dec_scalar_def door_entry_def new_entry_def rights_values
      open_read_def open_write_def wasi_const)

end
