(* ===== verification/Call_Behaviour.thy ===== *)
theory Call_Behaviour
  imports Opening
begin

text \<open>
  What single calls do: when a poll returns, how the strings of the context are laid out for the
  guest, how it finds its preopened directories, and calls that do something else than their
  names say.
\<close>

section \<open>Polling\<close>

text \<open>The state of the platform after a poll was interrupted \<open>n\<close> times in a row.\<close>

primrec interrupted ::
  "('w, 'z) os_scheme \<Rightarrow> (int \<times> u16) list \<Rightarrow> int \<Rightarrow> nat \<Rightarrow> 'w \<Rightarrow> 'w option" where
  "interrupted os poll_fds timeout 0 w = Some w"
| "interrupted os poll_fds timeout (Suc n) w = (case sys_poll os poll_fds timeout w of
     (Inr _, w') \<Rightarrow> None
   | (Inl _, w') \<Rightarrow>
       if sys_errno_last os w' = EINTR then interrupted os poll_fds timeout n w' else None)"

definition interrupted_forever ::
  "('w, 'z) os_scheme \<Rightarrow> (int \<times> u16) list \<Rightarrow> int \<Rightarrow> 'w \<Rightarrow> bool" where
  "interrupted_forever os poll_fds timeout w \<longleftrightarrow>
     (\<forall>n. interrupted os poll_fds timeout n w \<noteq> None)"

lemma poll_wait_None_interrupted:
  "poll_wait os poll_fds timeout w = None \<Longrightarrow> interrupted os poll_fds timeout n w \<noteq> None"
proof (induction n arbitrary: w)
  case (Suc n)
  obtain r w' where r: "sys_poll os poll_fds timeout w = (r, w')" by force
  then show ?case
    using Suc by (cases r) (auto simp: poll_wait.simps [of os poll_fds timeout w] split: if_splits)
qed simp

lemma poll_wait_Some_answered:
  assumes "poll_wait os poll_fds timeout w = Some y"
  shows "\<exists>n. interrupted os poll_fds timeout n w = None"
  using assms
proof (rule poll_wait.raw_induct [rotated, where P =
      "\<lambda>os poll_fds timeout w y. \<exists>n. interrupted os poll_fds timeout n w = None"])
  fix wait os poll_fds timeout w y
  assume IH: "\<And>os poll_fds timeout w y. wait os poll_fds timeout w = Some y \<Longrightarrow>
      \<exists>n. interrupted os poll_fds timeout n w = None"
    and body: "(case sys_poll os poll_fds timeout w of
        (Inl _, w') \<Rightarrow> if sys_errno_last os w' = EINTR then wait os poll_fds timeout w'
          else Some (Err (last_error os w'), w')
      | (Inr ready, w') \<Rightarrow> Some (Ok ready, w')) = Some y"
  obtain r w' where r: "sys_poll os poll_fds timeout w = (r, w')" by force
  show "\<exists>n. interrupted os poll_fds timeout n w = None"
  proof (cases "\<exists>e. r = Inl e \<and> sys_errno_last os w' = EINTR")
    case True
    then have "wait os poll_fds timeout w' = Some y" using body r by auto
    from IH [OF this] obtain n where "interrupted os poll_fds timeout n w' = None" by (elim exE)
    then show ?thesis using True r by (auto intro!: exI [of _ "Suc n"])
  next
    case False
    then show ?thesis using r by (cases r) (auto intro!: exI [of _ "1"])
  qed
qed

lemma poll_wait_None_iff:
  "poll_wait os poll_fds timeout w = None \<longleftrightarrow> interrupted_forever os poll_fds timeout w"
  using poll_wait_None_interrupted [of os poll_fds timeout w]
    poll_wait_Some_answered [of os poll_fds timeout w]
  by (cases "poll_wait os poll_fds timeout w") (auto simp: interrupted_forever_def)

text \<open>
  What \<open>poll_oneoff\<close> asks the platform for: the descriptors with the flags to wait for, and the
  timeout; nothing if no subscription is a usable one.
\<close>

definition poll_request ::
  "('w, 'z) os_scheme \<Rightarrow> 'y libc_misc_scheme \<Rightarrow> 'w \<Rightarrow> subscription res list \<Rightarrow>
     ((int \<times> u16) list \<times> int) option" where
  "poll_request os lc w subs =
     (let clocks = List.map_filter (clock_event os w) subs;
          fd_events = List.map_filter fd_event subs
      in if fd_events = [] \<and> clocks = [] then None
      else Some (map (\<lambda>ev. (fev_fd ev, poll_flags lc ev)) fd_events,
        case min_by_delay clocks of None \<Rightarrow> - 1 | Some t \<Rightarrow> int (min (ce_delay t) C_INT_MAX)))"

lemma min_by_delay_None [simp]: "min_by_delay es = None \<longleftrightarrow> es = []"
  by (cases es) (auto split: option.splits)

lemma impl_poll_oneoff_None:
  "impl_poll_oneoff os lc tgt subs w = None \<longleftrightarrow>
     (\<exists>poll_fds timeout. poll_request os lc w subs = Some (poll_fds, timeout) \<and>
        interrupted_forever os poll_fds timeout w)"
  unfolding impl_poll_oneoff_def poll_request_def Let_def poll_wait_None_iff [symmetric]
  by (auto split: if_splits option.splits prod.splits res.splits)

lemma poll_start_world: "poll_start tgt input output n nevents s = (r, s') \<Longrightarrow> st_world s' = st_world s"
  by (auto simp: poll_start_def hc_bind_def hc_write_def hc_read_def hc_res_def
      split: prod.splits res.splits)

lemma poll_oneoff_None:
  "poll_oneoff os lc tgt input output n nevents s = None \<longleftrightarrow>
     (\<exists>subs out s1 poll_fds timeout.
        poll_start tgt input output n nevents s = (Ok (subs, out), s1) \<and>
        poll_request os lc (st_world s) subs = Some (poll_fds, timeout) \<and>
        interrupted_forever os poll_fds timeout (st_world s))"
proof -
  obtain r s1 where r: "poll_start tgt input output n nevents s = (r, s1)" by force
  have "poll_oneoff os lc tgt input output n nevents s = None \<longleftrightarrow>
      (\<exists>subs out. r = Ok (subs, out) \<and> impl_poll_oneoff os lc tgt subs (st_world s1) = None)"
    using r unfolding poll_oneoff_def poll_start_def [symmetric]
    by (cases r) (auto split: prod.splits option.splits)
  then show ?thesis
    using r poll_start_world [OF r] by (auto simp: impl_poll_oneoff_None)
qed

text \<open>
  C9. A call of a guest does not return exactly if it is a \<^verbatim>\<open>poll_oneoff\<close> whose arguments decode to
  at least one usable subscription, and the platform interrupts the very poll they ask for, from
  the state of the call on, forever.  Every other call returns, whatever its arguments and the
  platform.
\<close>

theorem every_call_returns:
  "run os lc tgt c s = None \<longleftrightarrow>
     (\<exists>input output n nevents subs out s1 poll_fds timeout.
        c = Poll_oneoff input output n nevents \<and>
        poll_start tgt input output n nevents s = (Ok (subs, out), s1) \<and>
        poll_request os lc (st_world s) subs = Some (poll_fds, timeout) \<and>
        interrupted_forever os poll_fds timeout (st_world s))"
proof (cases "\<exists>input output n nevents. c = Poll_oneoff input output n nevents")
  case True
  then show ?thesis by (auto simp: poll_oneoff_None)
next
  case False
  then show ?thesis by (cases c) auto
qed

text \<open>Both sides occur: a platform that interrupts every poll, asked to wait for a clock.\<close>

definition eintr_os :: "unit os" where
  "eintr_os = idle_os\<lparr>sys_errno_last := \<lambda>_. EINTR\<rparr>"

lemma eintr_forever: "interrupted_forever eintr_os poll_fds timeout w"
proof -
  have "interrupted eintr_os poll_fds timeout n w = Some ()" for n
    by (induction n) (simp_all add: eintr_os_def idle_defs)
  then show ?thesis by (simp add: interrupted_forever_def)
qed

definition clock_store :: "unit store" where
  "clock_store = \<lparr>st_ctx = \<lparr>fds = [], args = [], env = []\<rparr>, st_mem = replicate 128 0, st_world = ()\<rparr>"

lemma zeros:
  "le_bytes n (0 :: 'a::len word) = replicate n 0" "of_le (replicate n 0) = (0 :: 'a word)"
  by (induction n) simp_all

lemma slice_zeros: "slice_at (replicate k (x :: u8)) a n = replicate (min n (k - a)) x"
  by (simp add: slice_at_def)

lemma clock_write: "enc_pointee L_u32 tgt_le (replicate 128 0) 100 0 = Ok (replicate 128 0)"
  by (simp add: enc_pointee_eq layout_simps in_bounds_def overwrite_def ne_bytes_def zeros
      replicate_add [symmetric])

lemma clock_slices:
  "dec_slice_of L_subscription tgt_le (replicate 128 0) 0 1 = Ok [\<lparr>su_userdata32 = 0, su_type32 = 0,
     su_pad32 = 0, su_u32 = replicate 40 0\<rparr>]"
  "dec_slice_of_mut L_event tgt_le (replicate 128 0) 64 1 = Ok (64, 1)"
  "dec_slice_of L_subscription tgt_le (replicate 128 0) 0 0 = Ok []"
  "dec_slice_of_mut L_event tgt_le (replicate 128 0) 64 0 = Ok (64, 0)"
  by (simp_all add: dec_slice_of_def dec_slice_of_mut_def check_slice_of_def dec_usize_def
      usize_try_from_def usize_checked_mul_def dec_ptr_eq dec_ptr_mut_eq in_bounds_def layout_simps
      slice_elems_def slice_zeros of_ne_def zeros)

lemma clock_start:
  "poll_start tgt_le 0 64 1 100 clock_store =
     (Ok ([Ok \<lparr>su_userdata = 0, su_type = 0, su_u = U_clock \<lparr>sc_identifier = 0, sc_clock_id = 0,
       sc_timeout = 0, sc_precision = 0, sc_flags = 0\<rparr>\<rparr>], (64, 1)), clock_store)"
  "poll_start tgt_le 0 64 0 100 clock_store = (Ok ([], (64, 0)), clock_store)"
  by (simp_all add: poll_start_def clock_store_def hc_bind_def hc_write_def hc_read_def hc_res_def
      clock_write clock_slices dec_subscription_def dec_scalar_def u_clock32_def slice_zeros zeros of_ne_def
      wasi_const)

lemma clock_request:
  "poll_request eintr_os linux_consts (st_world clock_store) [Ok \<lparr>su_userdata = 0, su_type = 0,
     su_u = U_clock \<lparr>sc_identifier = 0, sc_clock_id = 0, sc_timeout = 0, sc_precision = 0,
       sc_flags = 0\<rparr>\<rparr>] = Some ([], 0)"
  by (simp add: poll_request_def clock_event_def fd_event_def wasi_const
      wasi_clock_to_relative_ns_delay_def map_filter_simps)

lemma every_call_returns_witness:
  "run eintr_os linux_consts tgt_le (Poll_oneoff 0 64 1 100) clock_store = None \<and>
   run eintr_os linux_consts tgt_le (Poll_oneoff 0 64 0 100) clock_store \<noteq> None"
proof
  show "run eintr_os linux_consts tgt_le (Poll_oneoff 0 64 1 100) clock_store = None"
    unfolding every_call_returns
    by (intro exI conjI, rule refl, rule clock_start, rule clock_request, rule eintr_forever)
  show "run eintr_os linux_consts tgt_le (Poll_oneoff 0 64 0 100) clock_store \<noteq> None"
    unfolding every_call_returns by (simp add: clock_start poll_request_def map_filter_simps)
qed

section \<open>Arguments\<close>

text \<open>The addresses of the strings stored one after the other, each with its NUL.\<close>

fun string_ptrs :: "nat \<Rightarrow> bytes list \<Rightarrow> u32 list" where
  "string_ptrs a [] = []"
| "string_ptrs a (s # ss) = of_nat a # string_ptrs (a + length s + 1) ss"

definition block :: "bytes list \<Rightarrow> bytes" where
  "block ss = concat (map with_nul ss)"

lemma block_simps [simp]: "block [] = []" "block (s # ss) = s @ 0 # block ss"
  by (simp_all add: block_def with_nul_def)

lemma length_string_ptrs [simp]: "length (string_ptrs a ss) = length ss"
  by (induction a ss rule: string_ptrs.induct) simp_all

lemma store_strings_layout:
  assumes "supported tgt" "length mem < 2 ^ 32"
  shows "unat buf + unat off + length (block ss) \<le> length mem \<Longrightarrow>
    store_strings tgt ss buf off ptrs mem =
      (Ok (ptrs @ string_ptrs (unat buf + unat off) ss), overwrite mem (unat buf + unat off) (block ss))"
  using assms(2)
proof (induction ss arbitrary: off ptrs mem)
  case (Cons s ss)
  let ?a = "unat buf + unat off" and ?l = "length s + 1"
  have a: "unat (buf + off) = ?a" and small: "?a < 2 ^ 32"
    using Cons.prems unat_add_lem [of buf off] by simp_all
  have usize: "2 ^ 32 \<le> (2 :: nat) ^ usize_bits tgt"
    using assms(1) by (intro power_increasing) (auto simp: supported_def)
  have l: "unat (of_nat ?l :: u32) = ?l"
    using Cons.prems by (intro of_nat_inverse) (simp_all add: with_nul_def)
  have off: "unat (off + of_nat ?l) = unat off + ?l"
    using Cons.prems l unat_add_lem [of off "of_nat ?l :: u32"] by (simp add: with_nul_def)
  have enc: "enc_slice_of L_u8 tgt mem (with_nul s) (buf + off) = Ok (overwrite mem ?a (with_nul s))"
    using Cons.prems usize a by (simp add: enc_slice_of_u8 in_bounds_def with_nul_def)
  have len: "length (overwrite mem ?a (with_nul s)) = length mem"
    using Cons.prems by (intro length_overwrite) (simp add: with_nul_def)
  have "plain_add tgt buf off = Ok (buf + off)" using small by (simp add: plain_add_def)
  moreover have "u32_try_from (length (with_nul s)) = Some (of_nat ?l)"
    using Cons.prems by (simp add: u32_try_from_def with_nul_def)
  moreover have "checked_add off (of_nat ?l) = Some (off + of_nat ?l)"
    using Cons.prems l by (simp add: checked_add_def with_nul_def)
  ultimately have "store_strings tgt (s # ss) buf off ptrs mem =
      store_strings tgt ss buf (off + of_nat ?l) (ptrs @ [buf + off]) (overwrite mem ?a (with_nul s))"
    using enc by simp
  also have "\<dots> = (Ok ((ptrs @ [buf + off]) @ string_ptrs (?a + ?l) ss),
      overwrite (overwrite mem ?a (with_nul s)) (?a + ?l) (block ss))"
    using Cons.IH [of "off + of_nat ?l" "overwrite mem ?a (with_nul s)" "ptrs @ [buf + off]"]
      Cons.prems len off by (simp add: add.assoc)
  also have "overwrite (overwrite mem ?a (with_nul s)) (?a + ?l) (block ss) =
      overwrite mem ?a (block (s # ss))"
    using overwrite_append [of ?a "with_nul s" "block ss" mem] Cons.prems
    by (simp add: with_nul_def)
  finally show ?case by (simp add: a [symmetric] add.assoc)
qed simp

text \<open>Storing the addresses; each is as wide as an address of the guest.\<close>

lemma enc_slice_u32:
  assumes "unat ptr mod 4 = 0" "in_bounds tgt mem ptr (4 * length xs)"
  shows "enc_slice_of L_u32 tgt mem xs ptr =
    Ok (overwrite mem (unat ptr) (concat (map (ne_bytes tgt 4) xs)))"
proof -
  have "to_mem L_u32 tgt = ne_bytes tgt 4" by (simp add: L_u32_def fun_eq_iff)
  moreover have "usize_checked_mul tgt 4 (length xs) = Some (4 * length xs)"
    using assms(2) by (simp add: usize_checked_mul_def in_bounds_def)
  ultimately show ?thesis
    using assms by (simp add: enc_slice_of_def L_u32_def dec_ptr_mut_eq) (simp add: dec_ptr_eq)
qed

lemma length_concat_ne_bytes [simp]: "length (concat (map (ne_bytes tgt n) xs)) = n * length xs"
  by (induction xs) simp_all

text \<open>
  C26. \<^verbatim>\<open>args_get\<close> stores the arguments one after the other, each with a NUL, and an array of their
  addresses, in the order of the arguments, and touches no other byte.
\<close>

theorem args_get_lays_out:
  assumes "supported tgt" "length (st_mem s) < 2 ^ 32"
    and "unat argv_buf + length (concat (map (\<lambda>a. a @ [0]) (args (st_ctx s)))) \<le> length (st_mem s)"
    and "unat argv_ptr + 4 * length (args (st_ctx s)) \<le> length (st_mem s)" "unat argv_ptr mod 4 = 0"
    and "unat argv_ptr + 4 * length (args (st_ctx s)) \<le> unat argv_buf \<or>
      unat argv_buf + length (concat (map (\<lambda>a. a @ [0]) (args (st_ctx s)))) \<le> unat argv_ptr"
  shows "\<exists>mem. args_get tgt argv_ptr argv_buf s =
      (return_enc_errno tgt WASI_ESUCCESS, s\<lparr>st_mem := mem\<rparr>) \<and>
    slice_at mem (unat argv_buf) (length (concat (map (\<lambda>a. a @ [0]) (args (st_ctx s))))) =
      concat (map (\<lambda>a. a @ [0]) (args (st_ctx s))) \<and>
    slice_at mem (unat argv_ptr) (4 * length (args (st_ctx s))) =
      concat (map (ne_bytes tgt 4) (string_ptrs (unat argv_buf) (args (st_ctx s)))) \<and>
    (\<forall>a n. (a + n \<le> unat argv_buf \<or>
        unat argv_buf + length (concat (map (\<lambda>a. a @ [0]) (args (st_ctx s)))) \<le> a) \<and>
      (a + n \<le> unat argv_ptr \<or> unat argv_ptr + 4 * length (args (st_ctx s)) \<le> a) \<and>
      a + n \<le> length (st_mem s) \<longrightarrow> slice_at mem a n = slice_at (st_mem s) a n)"
proof -
  have blk: "concat (map (\<lambda>a. a @ [0]) ss) = block ss" for ss :: "bytes list"
    by (simp add: block_def with_nul_def [abs_def])
  let ?ss = "args (st_ctx s)"
  let ?m1 = "overwrite (st_mem s) (unat argv_buf) (block ?ss)"
  let ?ptrs = "concat (map (ne_bytes tgt 4) (string_ptrs (unat argv_buf) ?ss))"
  let ?m2 = "overwrite ?m1 (unat argv_ptr) ?ptrs"
  note fit = assms(3,6) [unfolded blk]
  have len: "length ?m1 = length (st_mem s)" using fit(1) by (rule length_overwrite)
  have "2 ^ 32 \<le> (2 :: nat) ^ usize_bits tgt"
    using assms(1) by (intro power_increasing) (auto simp: supported_def)
  then have "in_bounds tgt ?m1 argv_ptr (4 * length ?ss)"
    using assms(2,4) len by (simp add: in_bounds_def)
  then have ptrs: "enc_slice_of L_u32 tgt ?m1 (string_ptrs (unat argv_buf) ?ss) argv_ptr = Ok ?m2"
    using assms(5) by (intro enc_slice_u32) simp_all
  have store: "store_strings tgt ?ss argv_buf 0 [] (st_mem s) =
      (Ok (string_ptrs (unat argv_buf) ?ss), ?m1)"
    using store_strings_layout [OF assms(1,2), of argv_buf 0 ?ss "[]"] fit(1) by simp
  have "args_get tgt argv_ptr argv_buf s = (return_enc_errno tgt WASI_ESUCCESS, s\<lparr>st_mem := ?m2\<rparr>)"
    unfolding args_get_def
    by (rule hostcall_Ok, rule hc_step, simp add: hc_store_strings_def store)
      (simp add: hc_write_def ptrs)
  moreover have "slice_at ?m2 (unat argv_buf) (length (block ?ss)) = block ?ss"
    using fit assms(4) len by (subst slice_overwrite_disjoint) auto
  moreover have "slice_at ?m2 (unat argv_ptr) (4 * length ?ss) = ?ptrs"
    using assms(4) len by simp
  moreover have "slice_at ?m2 a n = slice_at (st_mem s) a n"
    if "a + n \<le> unat argv_buf \<or> unat argv_buf + length (block ?ss) \<le> a"
      "a + n \<le> unat argv_ptr \<or> unat argv_ptr + 4 * length ?ss \<le> a" "a + n \<le> length (st_mem s)" for a n
    using that fit(1) assms(4) len by (simp add: slice_overwrite_disjoint)
  ultimately show ?thesis unfolding blk by (intro exI [of _ ?m2] conjI allI impI) simp_all
qed

definition greeting_store :: "unit store" where
  "greeting_store = \<lparr>st_ctx = \<lparr>fds = [], args = [[104, 105], [33]], env = []\<rparr>,
     st_mem = replicate 32 7, st_world = ()\<rparr>"

lemma args_get_lays_out_witness:
  "\<exists>mem. args_get tgt_le 8 20 greeting_store =
      (return_enc_errno tgt_le WASI_ESUCCESS, greeting_store\<lparr>st_mem := mem\<rparr>) \<and>
    slice_at mem 20 5 = [104, 105, 0, 33, 0] \<and>
    slice_at mem 8 8 = [20, 0, 0, 0, 23, 0, 0, 0] \<and> slice_at mem 25 7 = replicate 7 7"
proof -
  have "supported tgt_le" by (simp add: supported_def)
  then obtain mem where "args_get tgt_le 8 20 greeting_store =
      (return_enc_errno tgt_le WASI_ESUCCESS, greeting_store\<lparr>st_mem := mem\<rparr>)"
    "slice_at mem 20 (Suc (Suc (Suc (Suc (Suc 0))))) = [104, 105, 0, 33, 0]"
    "slice_at mem 8 8 = concat (map (ne_bytes tgt_le 4) [20, 23 :: u32])"
    "slice_at mem 25 7 = slice_at (st_mem greeting_store) 25 7"
    using args_get_lays_out [of tgt_le greeting_store 20 8] by (auto simp: greeting_store_def)
  moreover have "ne_bytes tgt_le 4 (20 :: u32) = [20, 0, 0, 0]" "ne_bytes tgt_le 4 (23 :: u32) = [23, 0, 0, 0]"
    by code_simp+
  moreover have "slice_at (st_mem greeting_store) 25 7 = replicate 7 7" by code_simp
  moreover have "slice_at mem 20 5 = [104, 105, 0, 33, 0]"
    using \<open>slice_at mem 20 (Suc (Suc (Suc (Suc (Suc 0))))) = _\<close> by (simp add: eval_nat_numeral)
  ultimately show ?thesis by (intro exI [of _ mem]) simp
qed

section \<open>Preopened directories\<close>

lemma enc_prestat_byref_Ok:
  assumes "in_bounds tgt mem ptr 8" "unat ptr mod 4 = 0" "k < 2 ^ 32"
  shows "enc_prestat_byref tgt mem ptr \<lparr>pr_type = WASI_PREOPENTYPE_DIR, pr_name_len = k\<rparr> =
    Ok (overwrite mem (unat ptr) (to_mem L_prestat tgt
      \<lparr>pr_type32 = WASI_PREOPENTYPE_DIR, pr_name_len32 = of_nat k\<rparr>))"
  using assms
  by (simp add: enc_prestat_byref_def enc_prestat_def enc_usize_cases enc_pointee_eq)
    (simp add: L_prestat_def)

lemma dec_prestat_byref_of:
  assumes "in_bounds tgt mem ptr 8" "unat ptr mod 4 = 0" "supported tgt"
    and "slice_at mem (unat ptr) 8 = to_mem L_prestat tgt \<lparr>pr_type32 = WASI_PREOPENTYPE_DIR, pr_name_len32 = n\<rparr>"
  shows "dec_prestat_byref tgt mem ptr =
    Ok \<lparr>pr_type = WASI_PREOPENTYPE_DIR, pr_name_len = unat (from_le tgt n)\<rparr>"
proof -
  have "dec_pointee L_prestat tgt mem ptr =
      Ok (of_mem L_prestat tgt (slice_at mem (unat ptr) 8))"
    using assms(1,2) by (simp add: dec_pointee_eq) (simp add: L_prestat_def)
  then show ?thesis
    using assms(3,4) by (simp add: dec_prestat_byref_def dec_prestat_def pod_prestat.of_to_mem)
qed

text \<open>
  C25. A guest finds its preopened directories with two calls: \<^verbatim>\<open>fd_prestat_get\<close> stores what decodes to
  a directory with the length of its guest path, and \<^verbatim>\<open>fd_prestat_dir_name\<close> with that length stores
  exactly the path; with a shorter one it reports \<^verbatim>\<open>ENAMETOOLONG\<close> and stores nothing.  On a host that
  is not little-endian the stored length is the one with its bytes swapped, because \<^verbatim>\<open>enc_usize\<close> does
  not convert.
\<close>

theorem preopen_discovery:
  assumes "supported tgt"
    and "preopen_name (st_ctx s) (dec_fd tgt fd) = Ok path" "length path < 2 ^ 32"
    and "in_bounds tgt (st_mem s) ptr 8" "unat ptr mod 4 = 0"
  shows "\<exists>s'. fd_prestat_get tgt fd ptr s = (return_enc_errno tgt WASI_ESUCCESS, s') \<and>
    dec_prestat_byref tgt (st_mem s') ptr =
      Ok \<lparr>pr_type = WASI_PREOPENTYPE_DIR, pr_name_len =
        (if big_endian tgt then unat (swap_bytes (of_nat (length path) :: u32)) else length path)\<rparr> \<and>
    (\<forall>buf n. in_bounds tgt (st_mem s) buf (length path) \<and> length path \<le> unat (dec_u32 tgt n) \<longrightarrow>
      fd_prestat_dir_name tgt fd buf n s' = (return_enc_errno tgt WASI_ESUCCESS,
        s'\<lparr>st_mem := overwrite (st_mem s') (unat buf) path\<rparr>)) \<and>
    (\<forall>buf n. unat (dec_u32 tgt n) < length path \<longrightarrow>
      fd_prestat_dir_name tgt fd buf n s' = (return_enc_errno tgt WASI_ENAMETOOLONG, s'))"
proof -
  let ?p = "\<lparr>pr_type32 = WASI_PREOPENTYPE_DIR, pr_name_len32 = of_nat (length path) :: u32\<rparr>"
  let ?mem = "overwrite (st_mem s) (unat ptr) (to_mem L_prestat tgt ?p)"
  let ?s = "s\<lparr>st_mem := ?mem\<rparr>"
  have size: "length (to_mem L_prestat tgt ?p) = 8"
    using pod_prestat.to_mem_length [of tgt ?p] by (simp add: L_prestat_def)
  have fits: "unat ptr + 8 \<le> length (st_mem s)" using assms(4) by (simp add: in_bounds_def)
  have len: "length ?mem = length (st_mem s)" using fits size by (intro length_overwrite) simp
  have nlen: "unat (of_nat (length path) :: u32) = length path"
    using assms(3) by (intro of_nat_inverse) simp_all
  have "fd_prestat_get tgt fd ptr s = (return_enc_errno tgt WASI_ESUCCESS, ?s)"
    unfolding fd_prestat_get_def
    by (rule hostcall_Ok, rule hc_step, simp add: assms(2))
      (simp add: hc_write_def enc_prestat_byref_Ok [OF assms(4,5,3)])
  moreover have "dec_prestat_byref tgt ?mem ptr =
      Ok \<lparr>pr_type = WASI_PREOPENTYPE_DIR, pr_name_len =
        (if big_endian tgt then unat (swap_bytes (of_nat (length path) :: u32)) else length path)\<rparr>"
    using dec_prestat_byref_of [of tgt ?mem ptr "of_nat (length path)"] assms size fits len nlen
    by (simp add: in_bounds_def from_le_def)
  moreover have "fd_prestat_dir_name tgt fd buf n ?s = (return_enc_errno tgt WASI_ESUCCESS,
      ?s\<lparr>st_mem := overwrite ?mem (unat buf) path\<rparr>)"
    if "in_bounds tgt (st_mem s) buf (length path)" "length path \<le> unat (dec_u32 tgt n)" for buf n
    unfolding fd_prestat_dir_name_def
  proof (rule hostcall_Ok, rule hc_step, simp add: assms(2), rule hc_step, simp add: assms(1))
    have "enc_slice_of L_u8 tgt ?mem path buf = Ok (overwrite ?mem (unat buf) path)"
      using that(1) len by (simp add: enc_slice_of_u8 in_bounds_def)
    then show "(if unat (from_le tgt n) < length path then hc_res (Err WASI_ENAMETOOLONG)
        else hc_write (\<lambda>mem. enc_slice_of L_u8 tgt mem path buf)) ?s =
      (Ok (), ?s\<lparr>st_mem := overwrite ?mem (unat buf) path\<rparr>)"
      using that(2) by (simp add: hc_write_def dec_u32_def)
  qed
  moreover have "fd_prestat_dir_name tgt fd buf n ?s = (return_enc_errno tgt WASI_ENAMETOOLONG, ?s)"
    if "unat (dec_u32 tgt n) < length path" for buf n
    unfolding fd_prestat_dir_name_def
    by (rule hostcall_Err, rule hc_step, simp add: assms(2), rule hc_step, simp add: assms(1))
      (use that in \<open>simp add: dec_u32_def\<close>)
  ultimately show ?thesis by (intro exI [of _ ?s]) simp
qed

definition preopen_store :: "unit store" where
  "preopen_store = \<lparr>st_ctx = \<lparr>fds = [(3, door_entry\<lparr>fe_preopen_path := Some [46]\<rparr>)], args = [], env = []\<rparr>,
     st_mem = replicate 16 0, st_world = ()\<rparr>"

lemma preopen_discovery_witness:
  "\<exists>s'. fd_prestat_get tgt_le 3 0 preopen_store = (return_enc_errno tgt_le WASI_ESUCCESS, s') \<and>
     dec_prestat_byref tgt_le (st_mem s') 0 = Ok \<lparr>pr_type = WASI_PREOPENTYPE_DIR, pr_name_len = 1\<rparr> \<and>
     fd_prestat_dir_name tgt_le 3 8 0 s' = (return_enc_errno tgt_le WASI_ENAMETOOLONG, s')"
proof -
  have "preopen_name (st_ctx preopen_store) (dec_fd tgt_le 3) = Ok [46]"
    by (simp add: preopen_name_def get_fd_entry_Ok preopen_store_def door_entry_def new_entry_def
        dec_scalar_def get_fd_entry_def validate_rights_cases path_from_host_def rights_values wasi_const)
  moreover have "supported tgt_le" by (simp add: supported_def)
  moreover have "in_bounds tgt_le (st_mem preopen_store) 0 8"
    by (simp add: preopen_store_def in_bounds_def)
  ultimately have "\<exists>s'. fd_prestat_get tgt_le 3 0 preopen_store = (return_enc_errno tgt_le WASI_ESUCCESS, s') \<and>
    dec_prestat_byref tgt_le (st_mem s') 0 =
      Ok \<lparr>pr_type = WASI_PREOPENTYPE_DIR, pr_name_len = (if big_endian tgt_le
          then unat (swap_bytes (of_nat (length [46 :: u8]) :: u32)) else length [46 :: u8])\<rparr> \<and>
    (\<forall>buf n. in_bounds tgt_le (st_mem preopen_store) buf (length [46 :: u8]) \<and> length [46 :: u8] \<le> unat (dec_u32 tgt_le n) \<longrightarrow>
      fd_prestat_dir_name tgt_le 3 buf n s' = (return_enc_errno tgt_le WASI_ESUCCESS,
        s'\<lparr>st_mem := overwrite (st_mem s') (unat buf) [46]\<rparr>)) \<and>
    (\<forall>buf n. unat (dec_u32 tgt_le n) < length [46 :: u8] \<longrightarrow>
      fd_prestat_dir_name tgt_le 3 buf n s' = (return_enc_errno tgt_le WASI_ENAMETOOLONG, s'))"
    by (intro preopen_discovery) simp_all
  then obtain s' where s': "fd_prestat_get tgt_le 3 0 preopen_store = (return_enc_errno tgt_le WASI_ESUCCESS, s')"
      "dec_prestat_byref tgt_le (st_mem s') 0 = Ok \<lparr>pr_type = WASI_PREOPENTYPE_DIR, pr_name_len = (if big_endian tgt_le
          then unat (swap_bytes (of_nat (length [46 :: u8]) :: u32)) else length [46 :: u8])\<rparr>"
      "\<forall>buf n. unat (dec_u32 tgt_le n) < length [46 :: u8] \<longrightarrow>
        fd_prestat_dir_name tgt_le 3 buf n s' = (return_enc_errno tgt_le WASI_ENAMETOOLONG, s')"
    by (elim exE conjE)
  have "fd_prestat_dir_name tgt_le 3 8 0 s' = (return_enc_errno tgt_le WASI_ENAMETOOLONG, s')"
    by (rule s'(3) [rule_format]) (simp add: dec_u32_def)
  then show ?thesis using s'(1,2) by (intro exI [of _ s']) simp
qed

section \<open>Positions\<close>

text \<open>
  \<^verbatim>\<open>fd_tell\<close> is \<^verbatim>\<open>fd_seek\<close> by nothing from the current position: with the same results, the same
  effects and the same right, on every input.
\<close>

theorem fd_tell_is_seek: "fd_tell os tgt fd ptr s = fd_seek os tgt fd 0 WASI_WHENCE_CUR ptr s"
proof -
  have dec: "dec_filedelta tgt 0 = 0" "dec_whence tgt WASI_WHENCE_CUR = WASI_WHENCE_CUR"
    by (simp_all add: dec_scalar_def wasi_const from_le_0)
  have "hc_res (if trace_enabled tgt then whence_to_str WASI_WHENCE_CUR else Ok []) s =
      (Ok (if trace_enabled tgt then ''__WASI_WHENCE_CUR'' else []), s)"
    by (simp add: whence_to_str_def)
  moreover have "impl_fd_seek os fe 0 WASI_WHENCE_CUR = impl_fd_tell os fe" for fe
    by (simp add: impl_fd_seek_def impl_fd_tell_def)
  ultimately show ?thesis
    by (simp add: fd_tell_def fd_seek_def hostcall_def dec)
qed

section \<open>Calls that do something else\<close>

text \<open>
  C32. A successful \<^verbatim>\<open>fd_renumber\<close> takes out of the table the descriptor whose number is the number
  the \<^emph>\<open>host\<close> has for \<^verbatim>\<open>from\<close>, whichever descriptor of the guest that is, a preopened directory
  too; \<^verbatim>\<open>from\<close> itself stays, unless its number happens to be the same.
\<close>

theorem fd_renumber_removes_host_number:
  assumes "hm_get (fds (st_ctx s)) (dec_fd tgt from) = Some fe" "fe_preopen_path fe = None"
    and "hm_get (fds (st_ctx s)) (dec_fd tgt to) = Some fe'" "fe_preopen_path fe' = None"
    and "fo_descriptor (fe_object fe) = File h" "fo_descriptor (fe_object fe') = File h'"
    and "sys_dup2 os h h' (st_world s) = (Inr x, w)"
  shows "fst (fd_renumber os tgt from to s) = return_enc_errno tgt WASI_ESUCCESS \<and>
    hm_get (fds (st_ctx (snd (fd_renumber os tgt from to s)))) k =
      (if k = of_int h then None else hm_get (fds (st_ctx s)) k)"
proof -
  have "from_nix (sys_dup2 os h h') (st_world s) = (Ok x, w)"
    using assms(7) by (simp add: from_nix_def)
  then show ?thesis
    using assms(1-6)
    by (simp add: fd_renumber_def impl_fd_renumber_def hostcall_def Let_def delete_conv')
qed

text \<open>Descriptors 4 and 5 are the host's 3 and 8; 3 is a preopened directory.\<close>

definition renumber_store :: "unit store" where
  "renumber_store = preopen_store\<lparr>st_ctx := \<lparr>fds =
     [(3, door_entry\<lparr>fe_preopen_path := Some [46]\<rparr>),
      (4, new_entry (File 3) (WASI_FILETYPE_REGULAR_FILE, 3, 0)),
      (5, new_entry (File 8) (WASI_FILETYPE_REGULAR_FILE, 3, 0))], args = [], env = []\<rparr>\<rparr>"

lemma fd_renumber_removes_host_number_witness:
  "\<exists>ctx. st_ctx (snd (fd_renumber (idle_os\<lparr>sys_dup2 := \<lambda>_ d w. (Inr d, w)\<rparr>) tgt_le 4 5 renumber_store)) = ctx \<and>
     hm_get (fds ctx) 3 = None \<and> hm_get (fds ctx) 4 \<noteq> None"
proof -
  let ?os = "idle_os\<lparr>sys_dup2 := \<lambda>_ d w. (Inr d, w)\<rparr> :: unit os"
  have "hm_get (fds (st_ctx (snd (fd_renumber ?os tgt_le 4 5 renumber_store)))) k =
      (if k = of_int 3 then None else hm_get (fds (st_ctx renumber_store)) k)" for k
    by (rule fd_renumber_removes_host_number [where h = 3 and h' = 8 and x = 8 and
          fe = "new_entry (File 3) (WASI_FILETYPE_REGULAR_FILE, 3, 0)" and
          fe' = "new_entry (File 8) (WASI_FILETYPE_REGULAR_FILE, 3, 0)", THEN conjunct2])
      (simp_all add: renumber_store_def dec_scalar_def new_entry_def)
  from this [of 3] this [of 4] show ?thesis by (simp add: renumber_store_def)
qed

text \<open>
  C31. Asked not to follow links (lookup flags 0), \<^verbatim>\<open>path_filestat_get\<close> of a plain name reports what
  the platform reports for that name \<^emph>\<open>following\<close> links (flags 0 of \<^verbatim>\<open>fstatat\<close>), wherever a link of
  that name leads: the path resolution has left the last component as it is.
\<close>

theorem path_filestat_get_follows_links:
  assumes "dec_path tgt path_ptr path_len s = (Ok n, s)" "clean_name n" "0 \<notin> set n"
    and "get_fd_entry (st_ctx s) (dec_fd tgt fd) WASI_RIGHT_PATH_FILESTAT_GET 0 = Ok fe"
    and "fo_descriptor (fe_object fe) = File f" "sys_try_clone os f (st_world s) = (Inr d, w)"
    and "sys_fstatat os d n 0 w = (Inr st, w')" "filestat_from_nix lc st = Ok stat"
    and "in_bounds tgt (st_mem s) ptr 56" "unat ptr mod 8 = 0"
  shows "path_filestat_get os lc tgt fd 0 path_ptr path_len ptr s =
    (return_enc_errno tgt WASI_ESUCCESS, s\<lparr>st_world := sys_close os d w',
       st_mem := overwrite (st_mem s) (unat ptr) (to_mem L_filestat tgt (enc_filestat tgt stat))\<rparr>)"
proof -
  have flags: "dec_lookupflags tgt 0 = 0"
    by (simp add: dec_scalar_def from_le_0)
  have "path_loop os lc 0 False
      \<lparr>dir_stack = [d], path_stack = [join_path ([] @ [n])], symlink_expansions = 0\<rparr> w =
      (Ok (d, n), close_dirs os [] w)"
    by (rule path_loop_plain) (simp_all add: assms(2))
  then have get: "path_get os lc (st_ctx s) (dec_fd tgt fd) 0 n WASI_RIGHT_PATH_FILESTAT_GET 0 False
      (st_world s) = (Ok (d, n), w)"
    using assms(3-6) by (simp add: path_get_def close_dirs_def)
  have "from_nix (sys_fstatat os d n 0) w = (Ok st, w')"
    using assms(7) by (simp add: from_nix_def)
  then have impl: "impl_path_filestat_get os lc (st_ctx s) (dec_fd tgt fd) 0 n (st_world s) =
      (Ok stat, sys_close os d w')"
    using get assms(8) by (simp add: impl_path_filestat_get_def with_file_def)
  show ?thesis
    unfolding path_filestat_get_def flags
  proof (rule hostcall_Ok, rule hc_step, rule assms(1), rule hc_step)
    show "hc_with_ctx (\<lambda>ctx. impl_path_filestat_get os lc ctx (dec_fd tgt fd) 0 n) s =
        (Ok stat, s\<lparr>st_world := sys_close os d w'\<rparr>)"
      using impl by (rule hc_with_ctx_apply)
    show "hc_write (\<lambda>mem. enc_filestat_byref tgt mem ptr stat) (s\<lparr>st_world := sys_close os d w'\<rparr>) =
        (Ok (), s\<lparr>st_world := sys_close os d w',
          st_mem := overwrite (st_mem s) (unat ptr) (to_mem L_filestat tgt (enc_filestat tgt stat))\<rparr>)"
      using assms(9,10)
      by (simp add: hc_write_def enc_filestat_byref_def enc_pointee_eq) (simp add: L_filestat_def)
  qed
qed

text \<open>A platform on which the status of any name, following links, is that of inode 5.\<close>

definition link_os :: "unit os" where
  "link_os = door_os\<lparr>sys_fstatat := \<lambda>_ _ flags w.
     (if flags = 0 then Inr \<lparr>nst_dev = 1, nst_ino = 5, nst_mode = 0x81A4, nst_nlink = 1, nst_size = 0,
        nst_atime = 0, nst_mtime = 0, nst_ctime = 0\<rparr> else Inl (Some ENOENT), w)\<rparr>"

definition link_store :: "unit store" where
  "link_store = door_store\<lparr>st_mem := 97 # replicate 63 0\<rparr>"

lemma path_filestat_get_follows_links_witness:
  "\<exists>stat. st_ino stat = 5 \<and> path_filestat_get link_os linux_consts tgt_le 3 0 0 1 8 link_store =
    (return_enc_errno tgt_le WASI_ESUCCESS, link_store\<lparr>st_mem := overwrite (97 # replicate 63 0) 8
      (to_mem L_filestat tgt_le (enc_filestat tgt_le stat))\<rparr>)"
proof -
  let ?st = "\<lparr>nst_dev = 1, nst_ino = 5, nst_mode = 0x81A4, nst_nlink = 1, nst_size = 0,
        nst_atime = 0, nst_mtime = 0, nst_ctime = 0\<rparr>"
  have path: "dec_path tgt_le 0 1 link_store = (Ok [97], link_store)"
    by (simp add: dec_path_def dec_slice_of_u8 link_store_def in_bounds_def slice_at_def)
  have entry: "get_fd_entry (st_ctx link_store) (dec_fd tgt_le 3) WASI_RIGHT_PATH_FILESTAT_GET 0 = Ok door_entry"
    by (simp add: get_fd_entry_Ok link_store_def door_store_def door_entry_def new_entry_def
        dec_scalar_def rights_values wasi_const)
  obtain stat where stat: "filestat_from_nix linux_consts ?st = Ok stat" "st_ino stat = 5"
    by (simp add: filestat_from_nix_def u64_try_from_def)
  have "path_filestat_get link_os linux_consts tgt_le 3 0 0 1 8 link_store =
    (return_enc_errno tgt_le WASI_ESUCCESS, link_store\<lparr>st_world := sys_close link_os 8 (),
       st_mem := overwrite (st_mem link_store) (unat (8 :: u32))
         (to_mem L_filestat tgt_le (enc_filestat tgt_le stat))\<rparr>)"
    by (rule path_filestat_get_follows_links [OF path _ _ entry _ _ _ stat(1)])
      (simp_all add: clean_letters link_os_def link_store_def in_bounds_def)
  then show ?thesis using stat(2) by (intro exI [of _ stat]) (simp add: link_store_def door_store_def)
qed

end
