(* ===== verification/Winx_Error.thy ===== *)
theory Winx_Error
  imports Host_Os
begin

text \<open>
  \<^verbatim>\<open>winx/src/winerror.rs\<close>: the errors of the Windows API as an enumeration.  The codes are
  constants of the crate \<^verbatim>\<open>winapi\<close>, which is a parameter of the model: a record \<open>win_codes\<close>.
\<close>

section \<open>Error codes of the platform\<close>

record win_codes =
  win_ERROR_SUCCESS :: u32
  win_ERROR_FILE_NOT_FOUND :: u32
  win_ERROR_PATH_NOT_FOUND :: u32
  win_ERROR_TOO_MANY_OPEN_FILES :: u32
  win_ERROR_ACCESS_DENIED :: u32
  win_ERROR_INVALID_HANDLE :: u32
  win_ERROR_NOT_ENOUGH_MEMORY :: u32
  win_ERROR_BAD_ENVIRONMENT :: u32
  win_ERROR_OUTOFMEMORY :: u32
  win_ERROR_NOT_READY :: u32
  win_ERROR_NOT_SUPPORTED :: u32
  win_ERROR_FILE_EXISTS :: u32
  win_ERROR_BROKEN_PIPE :: u32
  win_ERROR_BUFFER_OVERFLOW :: u32
  win_ERROR_DIR_NOT_EMPTY :: u32
  win_ERROR_LABEL_TOO_LONG :: u32
  win_ERROR_BUSY :: u32
  win_ERROR_INVALID_NAME :: u32
  win_ERROR_SHARING_VIOLATION :: u32

text \<open>The values Windows documents.\<close>

definition windows_codes :: win_codes where
  "windows_codes = \<lparr>win_ERROR_SUCCESS = 0,
     win_ERROR_FILE_NOT_FOUND = 2,
     win_ERROR_PATH_NOT_FOUND = 3,
     win_ERROR_TOO_MANY_OPEN_FILES = 4,
     win_ERROR_ACCESS_DENIED = 5,
     win_ERROR_INVALID_HANDLE = 6,
     win_ERROR_NOT_ENOUGH_MEMORY = 8,
     win_ERROR_BAD_ENVIRONMENT = 10,
     win_ERROR_OUTOFMEMORY = 14,
     win_ERROR_NOT_READY = 21,
     win_ERROR_NOT_SUPPORTED = 50,
     win_ERROR_FILE_EXISTS = 80,
     win_ERROR_BROKEN_PIPE = 109,
     win_ERROR_BUFFER_OVERFLOW = 111,
     win_ERROR_DIR_NOT_EMPTY = 145,
     win_ERROR_LABEL_TOO_LONG = 154,
     win_ERROR_BUSY = 170,
     win_ERROR_INVALID_NAME = 123,
     win_ERROR_SHARING_VIOLATION = 32\<rparr>"

section \<open>The enumeration\<close>

datatype (plugins only: code size) win_error =
    UnknownError
  | ERROR_SUCCESS
  | ERROR_FILE_NOT_FOUND
  | ERROR_PATH_NOT_FOUND
  | ERROR_TOO_MANY_OPEN_FILES
  | ERROR_ACCESS_DENIED
  | ERROR_INVALID_HANDLE
  | ERROR_NOT_ENOUGH_MEMORY
  | ERROR_BAD_ENVIRONMENT
  | ERROR_OUTOFMEMORY
  | ERROR_NOT_READY
  | ERROR_NOT_SUPPORTED
  | ERROR_FILE_EXISTS
  | ERROR_BROKEN_PIPE
  | ERROR_BUFFER_OVERFLOW
  | ERROR_DIR_NOT_EMPTY
  | ERROR_LABEL_TOO_LONG
  | ERROR_BUSY
  | ERROR_INVALID_NAME
  | ERROR_SHARING_VIOLATION

text \<open>The code of a variant (\<^verbatim>\<open>#[repr(u32)]\<close>).\<close>

definition win_repr :: "'z win_codes_scheme \<Rightarrow> win_error \<Rightarrow> u32" where
  "win_repr c err = (case err of
     UnknownError \<Rightarrow> - 1
   | ERROR_SUCCESS \<Rightarrow> win_ERROR_SUCCESS c
   | ERROR_FILE_NOT_FOUND \<Rightarrow> win_ERROR_FILE_NOT_FOUND c
   | ERROR_PATH_NOT_FOUND \<Rightarrow> win_ERROR_PATH_NOT_FOUND c
   | ERROR_TOO_MANY_OPEN_FILES \<Rightarrow> win_ERROR_TOO_MANY_OPEN_FILES c
   | ERROR_ACCESS_DENIED \<Rightarrow> win_ERROR_ACCESS_DENIED c
   | ERROR_INVALID_HANDLE \<Rightarrow> win_ERROR_INVALID_HANDLE c
   | ERROR_NOT_ENOUGH_MEMORY \<Rightarrow> win_ERROR_NOT_ENOUGH_MEMORY c
   | ERROR_BAD_ENVIRONMENT \<Rightarrow> win_ERROR_BAD_ENVIRONMENT c
   | ERROR_OUTOFMEMORY \<Rightarrow> win_ERROR_OUTOFMEMORY c
   | ERROR_NOT_READY \<Rightarrow> win_ERROR_NOT_READY c
   | ERROR_NOT_SUPPORTED \<Rightarrow> win_ERROR_NOT_SUPPORTED c
   | ERROR_FILE_EXISTS \<Rightarrow> win_ERROR_FILE_EXISTS c
   | ERROR_BROKEN_PIPE \<Rightarrow> win_ERROR_BROKEN_PIPE c
   | ERROR_BUFFER_OVERFLOW \<Rightarrow> win_ERROR_BUFFER_OVERFLOW c
   | ERROR_DIR_NOT_EMPTY \<Rightarrow> win_ERROR_DIR_NOT_EMPTY c
   | ERROR_LABEL_TOO_LONG \<Rightarrow> win_ERROR_LABEL_TOO_LONG c
   | ERROR_BUSY \<Rightarrow> win_ERROR_BUSY c
   | ERROR_INVALID_NAME \<Rightarrow> win_ERROR_INVALID_NAME c
   | ERROR_SHARING_VIOLATION \<Rightarrow> win_ERROR_SHARING_VIOLATION c)"

definition win_desc :: "win_error \<Rightarrow> string" where
  "win_desc err = (case err of
     UnknownError \<Rightarrow> '' Unknown error occurred.''
   | ERROR_SUCCESS \<Rightarrow> '' The operation completed successfully.''
   | ERROR_FILE_NOT_FOUND \<Rightarrow> '' The system cannot find the file specified.''
   | ERROR_PATH_NOT_FOUND \<Rightarrow> '' The system cannot find the path specified.''
   | ERROR_TOO_MANY_OPEN_FILES \<Rightarrow> '' The system cannot open the file.''
   | ERROR_ACCESS_DENIED \<Rightarrow> '' Access is denied.''
   | ERROR_INVALID_HANDLE \<Rightarrow> '' The handle is invalid.''
   | ERROR_NOT_ENOUGH_MEMORY \<Rightarrow> '' Not enough storage is available to process this command.''
   | ERROR_BAD_ENVIRONMENT \<Rightarrow> '' The environment is incorrect.''
   | ERROR_OUTOFMEMORY \<Rightarrow> '' Not enough storage is available to complete this operation.''
   | ERROR_NOT_READY \<Rightarrow> '' The device is not ready.''
   | ERROR_NOT_SUPPORTED \<Rightarrow> '' The request is not supported.''
   | ERROR_FILE_EXISTS \<Rightarrow> '' The file exists.''
   | ERROR_BROKEN_PIPE \<Rightarrow> '' The pipe has been ended.''
   | ERROR_BUFFER_OVERFLOW \<Rightarrow> '' The file name is too long.''
   | ERROR_DIR_NOT_EMPTY \<Rightarrow> '' The directory is not empty.''
   | ERROR_LABEL_TOO_LONG \<Rightarrow> '' The volume label you entered exceeds the label character limit of the destination file system.''
   | ERROR_BUSY \<Rightarrow> '' The requested resource is in use.''
   | ERROR_INVALID_NAME \<Rightarrow> '' The file name, directory name, or volume label syntax is incorrect.''
   | ERROR_SHARING_VIOLATION \<Rightarrow> '' The process cannot access the file because it is being used by another process.'')"

text \<open>The arms of the match are tried in order.\<close>

definition win_from_u32 :: "'z win_codes_scheme \<Rightarrow> u32 \<Rightarrow> win_error" where
  "win_from_u32 c err =
     (if err = win_ERROR_SUCCESS c then ERROR_SUCCESS
      else if err = win_ERROR_FILE_NOT_FOUND c then ERROR_FILE_NOT_FOUND
      else if err = win_ERROR_PATH_NOT_FOUND c then ERROR_PATH_NOT_FOUND
      else if err = win_ERROR_TOO_MANY_OPEN_FILES c then ERROR_TOO_MANY_OPEN_FILES
      else if err = win_ERROR_ACCESS_DENIED c then ERROR_ACCESS_DENIED
      else if err = win_ERROR_INVALID_HANDLE c then ERROR_INVALID_HANDLE
      else if err = win_ERROR_NOT_ENOUGH_MEMORY c then ERROR_NOT_ENOUGH_MEMORY
      else if err = win_ERROR_BAD_ENVIRONMENT c then ERROR_BAD_ENVIRONMENT
      else if err = win_ERROR_OUTOFMEMORY c then ERROR_OUTOFMEMORY
      else if err = win_ERROR_NOT_READY c then ERROR_NOT_READY
      else if err = win_ERROR_NOT_SUPPORTED c then ERROR_NOT_SUPPORTED
      else if err = win_ERROR_FILE_EXISTS c then ERROR_FILE_EXISTS
      else if err = win_ERROR_BROKEN_PIPE c then ERROR_BROKEN_PIPE
      else if err = win_ERROR_BUFFER_OVERFLOW c then ERROR_BUFFER_OVERFLOW
      else if err = win_ERROR_DIR_NOT_EMPTY c then ERROR_DIR_NOT_EMPTY
      else if err = win_ERROR_LABEL_TOO_LONG c then ERROR_LABEL_TOO_LONG
      else if err = win_ERROR_BUSY c then ERROR_BUSY
      else if err = win_ERROR_INVALID_NAME c then ERROR_INVALID_NAME
      else if err = win_ERROR_SHARING_VIOLATION c then ERROR_SHARING_VIOLATION
      else UnknownError)"

text \<open>\<^verbatim>\<open>Debug\<close> prints the name of the variant; \<^verbatim>\<open>Display\<close> adds the description.\<close>

definition win_name :: "win_error \<Rightarrow> string" where
  "win_name err = (case err of
     UnknownError \<Rightarrow> ''UnknownError''
   | ERROR_SUCCESS \<Rightarrow> ''ERROR_SUCCESS''
   | ERROR_FILE_NOT_FOUND \<Rightarrow> ''ERROR_FILE_NOT_FOUND''
   | ERROR_PATH_NOT_FOUND \<Rightarrow> ''ERROR_PATH_NOT_FOUND''
   | ERROR_TOO_MANY_OPEN_FILES \<Rightarrow> ''ERROR_TOO_MANY_OPEN_FILES''
   | ERROR_ACCESS_DENIED \<Rightarrow> ''ERROR_ACCESS_DENIED''
   | ERROR_INVALID_HANDLE \<Rightarrow> ''ERROR_INVALID_HANDLE''
   | ERROR_NOT_ENOUGH_MEMORY \<Rightarrow> ''ERROR_NOT_ENOUGH_MEMORY''
   | ERROR_BAD_ENVIRONMENT \<Rightarrow> ''ERROR_BAD_ENVIRONMENT''
   | ERROR_OUTOFMEMORY \<Rightarrow> ''ERROR_OUTOFMEMORY''
   | ERROR_NOT_READY \<Rightarrow> ''ERROR_NOT_READY''
   | ERROR_NOT_SUPPORTED \<Rightarrow> ''ERROR_NOT_SUPPORTED''
   | ERROR_FILE_EXISTS \<Rightarrow> ''ERROR_FILE_EXISTS''
   | ERROR_BROKEN_PIPE \<Rightarrow> ''ERROR_BROKEN_PIPE''
   | ERROR_BUFFER_OVERFLOW \<Rightarrow> ''ERROR_BUFFER_OVERFLOW''
   | ERROR_DIR_NOT_EMPTY \<Rightarrow> ''ERROR_DIR_NOT_EMPTY''
   | ERROR_LABEL_TOO_LONG \<Rightarrow> ''ERROR_LABEL_TOO_LONG''
   | ERROR_BUSY \<Rightarrow> ''ERROR_BUSY''
   | ERROR_INVALID_NAME \<Rightarrow> ''ERROR_INVALID_NAME''
   | ERROR_SHARING_VIOLATION \<Rightarrow> ''ERROR_SHARING_VIOLATION'')"

definition win_fmt :: "win_error \<Rightarrow> string" where
  "win_fmt err = win_name err @ '': '' @ win_desc err"

text \<open>\<^verbatim>\<open>From<WinError> for io::Error\<close>: the code as a signed number.\<close>

definition win_io_error :: "'z win_codes_scheme \<Rightarrow> win_error \<Rightarrow> io_error" where
  "win_io_error c err = Some (sint (win_repr c err))"

end
