(* ===== verification/Win_Path.thy ===== *)
theory Win_Path
  imports Utf8_Path
begin

text \<open>
  Strings and paths of the standard library on Windows: the conversion of a \<^verbatim>\<open>str\<close> to 16-bit units
  and back (\<^verbatim>\<open>encode_wide\<close>, \<^verbatim>\<open>String::from_utf16\<close>), prefixes, \<^verbatim>\<open>Path::is_absolute\<close>,
  \<^verbatim>\<open>PathBuf::push\<close> and the first component of a path.  An \<^verbatim>\<open>OsStr\<close> is the list of its 16-bit units;
  the path functions look at ASCII units only and are defined for units of any width, so that they
  apply to the bytes of a \<^verbatim>\<open>str\<close> as well.
\<close>

section \<open>UTF-16\<close>

text \<open>The characters of a valid byte string, as numbers.\<close>

definition utf8_value :: "bytes \<Rightarrow> nat" where
  "utf8_value bs = (case map unat bs of
     [b0] \<Rightarrow> b0
   | [b0, b1] \<Rightarrow> (b0 - 0xC0) * 64 + (b1 - 0x80)
   | [b0, b1, b2] \<Rightarrow> (b0 - 0xE0) * 4096 + (b1 - 0x80) * 64 + (b2 - 0x80)
   | [b0, b1, b2, b3] \<Rightarrow>
       (b0 - 0xF0) * 262144 + (b1 - 0x80) * 4096 + (b2 - 0x80) * 64 + (b3 - 0x80)
   | _ \<Rightarrow> 0)"

function utf8_decode :: "bytes \<Rightarrow> nat list" where
  "utf8_decode bs = (case utf8_char bs of
     None \<Rightarrow> []
   | Some n \<Rightarrow> utf8_value (take n bs) # utf8_decode (drop n bs))"
  by pat_completeness auto
termination
  by (relation "measure length") (auto dest: utf8_char_pos)

declare utf8_decode.simps [simp del]

definition utf8_encode_char :: "nat \<Rightarrow> bytes" where
  "utf8_encode_char c = map of_nat
     (if c < 0x80 then [c]
      else if c < 0x800 then [0xC0 + c div 64, 0x80 + c mod 64]
      else if c < 0x10000 then [0xE0 + c div 4096, 0x80 + c div 64 mod 64, 0x80 + c mod 64]
      else [0xF0 + c div 262144, 0x80 + c div 4096 mod 64, 0x80 + c div 64 mod 64, 0x80 + c mod 64])"

definition utf16_encode_char :: "nat \<Rightarrow> u16 list" where
  "utf16_encode_char c = map of_nat
     (if c < 0x10000 then [c]
      else [0xD800 + (c - 0x10000) div 1024, 0xDC00 + (c - 0x10000) mod 1024])"

text \<open>\<^verbatim>\<open>OsStrExt::encode_wide\<close> of a \<^verbatim>\<open>str\<close>.\<close>

definition encode_wide :: "bytes \<Rightarrow> u16 list" where
  "encode_wide s = concat (map utf16_encode_char (utf8_decode s))"

definition is_surrogate :: "nat \<Rightarrow> bool" where
  "is_surrogate u \<longleftrightarrow> 0xD800 \<le> u \<and> u \<le> 0xDFFF"

text \<open>\<^verbatim>\<open>String::from_utf16\<close> fails on a surrogate without its partner.\<close>

fun utf16_decode :: "u16 list \<Rightarrow> nat list option" where
  "utf16_decode [] = Some []"
| "utf16_decode (u # us) =
     (if \<not> is_surrogate (unat u) then map_option ((#) (unat u)) (utf16_decode us)
      else if 0xDC00 \<le> unat u then None
      else (case us of
        [] \<Rightarrow> None
      | v # vs \<Rightarrow>
          if 0xDC00 \<le> unat v \<and> unat v \<le> 0xDFFF
          then map_option ((#) (0x10000 + (unat u - 0xD800) * 1024 + (unat v - 0xDC00)))
                 (utf16_decode vs)
          else None))"

definition from_utf16 :: "u16 list \<Rightarrow> bytes option" where
  "from_utf16 us = map_option (\<lambda>cs. concat (map utf8_encode_char cs)) (utf16_decode us)"

section \<open>Prefixes\<close>

definition is_sep :: "'a::len word \<Rightarrow> bool" where
  "is_sep b \<longleftrightarrow> b = 47 \<or> b = 92"

definition is_verbatim_sep :: "'a::len word \<Rightarrow> bool" where
  "is_verbatim_sep b \<longleftrightarrow> b = 92"

definition is_letter :: "'a::len word \<Rightarrow> bool" where
  "is_letter b \<longleftrightarrow> 65 \<le> unat b \<and> unat b \<le> 90 \<or> 97 \<le> unat b \<and> unat b \<le> 122"

definition to_upper :: "'a::len word \<Rightarrow> 'a word" where
  "to_upper b = (if 97 \<le> unat b \<and> unat b \<le> 122 then b - 32 else b)"

datatype 'a win_prefix =
    Verbatim "'a list" | VerbatimUNC "'a list" "'a list" | VerbatimDisk 'a
  | DeviceNS "'a list" | UNC "'a list" "'a list" | Disk 'a

definition until :: "('a \<Rightarrow> bool) \<Rightarrow> 'a list \<Rightarrow> 'a list" where
  "until P p = takeWhile (\<lambda>b. \<not> P b) p"

definition parse_two_comps ::
  "('a::len word \<Rightarrow> bool) \<Rightarrow> 'a word list \<Rightarrow> ('a word list \<times> 'a word list) option" where
  "parse_two_comps f path =
     (if \<not> list_ex f path then None
      else let first = until f path in Some (first, until f (drop (length first + 1) path)))"

definition starts_with :: "'a list \<Rightarrow> 'a list \<Rightarrow> bool" where
  "starts_with p q \<longleftrightarrow> take (length q) p = q"

definition parse_prefix :: "'a::len word list \<Rightarrow> 'a word win_prefix option" where
  "parse_prefix path =
     (if starts_with path [92, 92] then
        let path = drop 2 path in
        if starts_with path [63, 92] then
          let path = drop 2 path in
          if starts_with path [85, 78, 67, 92] then
            let path = drop 4 path in
            (case parse_two_comps is_verbatim_sep path of
               Some (server, share) \<Rightarrow> Some (VerbatimUNC server share)
             | None \<Rightarrow> Some (VerbatimUNC path []))
          else
            let first = until is_verbatim_sep path in
            if list_ex is_verbatim_sep path \<and> length first = 2 \<and> path ! 1 = 58 \<and> is_letter (path ! 0)
            then Some (VerbatimDisk (to_upper (path ! 0)))
            else Some (Verbatim first)
        else if starts_with path [46, 92] then
          Some (DeviceNS (until is_verbatim_sep (drop 2 path)))
        else (case parse_two_comps is_sep path of
          Some (server, share) \<Rightarrow> if server \<noteq> [] \<and> share \<noteq> [] then Some (UNC server share) else None
        | None \<Rightarrow> None)
      else if 1 < length path \<and> path ! 1 = 58 \<and> is_letter (path ! 0) then
        Some (Disk (to_upper (path ! 0)))
      else None)"

definition prefix_len :: "'a win_prefix \<Rightarrow> nat" where
  "prefix_len p = (case p of
     Verbatim x \<Rightarrow> 4 + length x
   | VerbatimUNC x y \<Rightarrow> 8 + length x + (if y \<noteq> [] then 1 + length y else 0)
   | VerbatimDisk _ \<Rightarrow> 6
   | UNC x y \<Rightarrow> 2 + length x + (if y \<noteq> [] then 1 + length y else 0)
   | DeviceNS x \<Rightarrow> 4 + length x
   | Disk _ \<Rightarrow> 2)"

definition is_drive :: "'a win_prefix \<Rightarrow> bool" where
  "is_drive p = (case p of Disk _ \<Rightarrow> True | _ \<Rightarrow> False)"

definition has_physical_root :: "'a::len word list \<Rightarrow> bool" where
  "has_physical_root path =
     (case drop (case parse_prefix path of None \<Rightarrow> 0 | Some p \<Rightarrow> prefix_len p) path of
        [] \<Rightarrow> False | b # _ \<Rightarrow> is_sep b)"

text \<open>Every prefix but a drive has an implicit root.\<close>

definition has_root :: "'a::len word list \<Rightarrow> bool" where
  "has_root path \<longleftrightarrow> has_physical_root path \<or>
     (case parse_prefix path of None \<Rightarrow> False | Some p \<Rightarrow> \<not> is_drive p)"

definition is_absolute :: "'a::len word list \<Rightarrow> bool" where
  "is_absolute path \<longleftrightarrow> has_root path \<and> parse_prefix path \<noteq> None"

definition path_push :: "'a::len word list \<Rightarrow> 'a word list \<Rightarrow> 'a word list" where
  "path_push self path =
     (let drive_only = (case parse_prefix self of
            None \<Rightarrow> False | Some p \<Rightarrow> prefix_len p = length self \<and> is_drive p);
          need_sep = (self \<noteq> [] \<and> \<not> is_sep (last self) \<and> \<not> drive_only)
      in if is_absolute path \<or> parse_prefix path \<noteq> None then path
         else if has_root path then
           take (case parse_prefix self of None \<Rightarrow> 0 | Some p \<Rightarrow> prefix_len p) self @ path
         else (if need_sep then self @ [92] else self) @ path)"

section \<open>Components\<close>

datatype win_component = W_absolute | W_CurDir | W_ParentDir | W_Normal bytes

definition wseg :: "bytes \<Rightarrow> bytes" where
  "wseg p = until is_sep p"

definition after_wseg :: "bytes \<Rightarrow> bytes" where
  "after_wseg p = drop (Suc (length (wseg p))) p"

lemma after_wseg_less: "p \<noteq> [] \<Longrightarrow> length (after_wseg p) < length p"
  by (cases p) (auto simp: after_wseg_def)

function wtrim_left :: "bytes \<Rightarrow> bytes" where
  "wtrim_left p =
     (if p \<noteq> [] \<and> (wseg p = [] \<or> wseg p = [DOT]) then wtrim_left (after_wseg p) else p)"
  by pat_completeness auto
termination
  by (relation "measure length") (auto simp: after_wseg_less)

declare wtrim_left.simps [simp del]

definition wrest_path :: "bytes \<Rightarrow> bytes" where
  "wrest_path p = rev (wtrim_left (rev (wtrim_left p)))"

text \<open>
  The first component and what is left of the path.  A path with a prefix or a root is rejected by
  its caller whatever follows, so that the rest is left out.
\<close>

definition win_path_next :: "bytes \<Rightarrow> (win_component \<times> bytes) option" where
  "win_path_next p =
     (if p = [] then None
      else if parse_prefix p \<noteq> None \<or> has_physical_root p then Some (W_absolute, [])
      else if wseg p = [DOT] then Some (W_CurDir, wrest_path (tl p))
      else if wseg p = [DOT, DOT] then Some (W_ParentDir, wrest_path (after_wseg p))
      else Some (W_Normal (wseg p), wrest_path (after_wseg p)))"

section \<open>From UTF-8 to UTF-16 and back\<close>

lemma numeral_eq_4: "(4 :: nat) = Suc (Suc (Suc (Suc 0)))"
  by simp

lemma horner:
  assumes "x < (64 :: nat)"
  shows "(y * 64 + x) div 64 = y" "(y * 64 + x) mod 64 = x"
  using assms by simp_all

lemma div_64_powers:
  "n div 4096 = n div 64 div (64 :: nat)" "n div 262144 = n div 64 div 64 div (64 :: nat)"
  by (simp_all add: div_mult2_eq [symmetric])

text \<open>
  A well-formed character is encoded as the bytes it was read from, and is no surrogate; by the
  number of its bytes.
\<close>

definition encodes_back :: "bytes \<Rightarrow> bool" where
  "encodes_back bs \<longleftrightarrow> utf8_encode_char (utf8_value bs) = bs \<and>
     \<not> is_surrogate (utf8_value bs) \<and> utf8_value bs < 0x110000"

lemma is_cont_value: "is_cont b \<Longrightarrow> unat b - 0x80 < 64 \<and> of_nat (0x80 + (unat b - 0x80)) = b"
  by (auto simp: is_cont_def in_range_def)

lemma encodes_back_1: "unat b0 < 0x80 \<Longrightarrow> encodes_back [b0]"
  by (simp add: encodes_back_def utf8_value_def utf8_encode_char_def is_surrogate_def)

lemma encodes_back_2:
  assumes "in_range b0 0xC2 0xDF" "is_cont b1"
  shows "encodes_back [b0, b1]"
proof -
  define x0 x1 where x: "x0 = unat b0 - 0xC0" "x1 = unat b1 - 0x80"
  have b: "2 \<le> x0" "x0 < 32" "x1 < 64" "of_nat (0xC0 + x0) = b0" "of_nat (0x80 + x1) = b1"
    using assms is_cont_value [of b1] by (auto simp: x in_range_def)
  have "128 \<le> x0 * 64 + x1" "x0 * 64 + x1 < 2048" using b(1-3) by linarith+
  moreover have "utf8_value [b0, b1] = x0 * 64 + x1" by (simp add: utf8_value_def x)
  ultimately show ?thesis
    using b(4,5) horner [OF b(3), of x0]
    by (simp add: encodes_back_def utf8_encode_char_def is_surrogate_def)
qed

lemma encodes_back_3:
  assumes "in_range b0 0xE0 0xEF" "is_cont b1" "is_cont b2"
    and "unat b0 = 0xE0 \<Longrightarrow> 0xA0 \<le> unat b1" "unat b0 = 0xED \<Longrightarrow> unat b1 \<le> 0x9F"
  shows "encodes_back [b0, b1, b2]"
proof -
  define x0 x1 x2 where x: "x0 = unat b0 - 0xE0" "x1 = unat b1 - 0x80" "x2 = unat b2 - 0x80"
  have b: "x0 < 16" "x1 < 64" "x2 < 64" "of_nat (0xE0 + x0) = b0" "of_nat (0x80 + x1) = b1"
      "of_nat (0x80 + x2) = b2"
    using assms(1) is_cont_value [OF assms(2)] is_cont_value [OF assms(3)] by (auto simp: x in_range_def)
  have low: "32 \<le> x1" if "x0 = 0"
    using assms(1,4) that by (simp add: x in_range_def)
  have high: "x1 < 32" if "x0 = 13"
  proof -
    have "unat b0 = 0xED" using assms(1) that by (simp add: x in_range_def)
    then show ?thesis using assms(5) by (simp add: x)
  qed
  let ?c = "(x0 * 64 + x1) * 64 + x2"
  have v: "utf8_value [b0, b1, b2] = ?c" by (simp add: utf8_value_def x algebra_simps)
  have c: "2048 \<le> ?c" "?c < 65536" "\<not> is_surrogate ?c"
    using b(1-3) low high by (cases "x0 = 0"; cases "x0 = 13"; simp add: is_surrogate_def; linarith)+
  have "?c div 4096 = x0" "?c div 64 mod 64 = x1" "?c mod 64 = x2"
    by (simp_all only: div_64_powers horner [OF b(3)] horner [OF b(2)])
  then show ?thesis
    unfolding encodes_back_def v using b(4-6) c by (simp add: utf8_encode_char_def)
qed

lemma encodes_back_4:
  assumes "in_range b0 0xF0 0xF4" "is_cont b1" "is_cont b2" "is_cont b3"
    and "unat b0 = 0xF0 \<Longrightarrow> 0x90 \<le> unat b1" "unat b0 = 0xF4 \<Longrightarrow> unat b1 \<le> 0x8F"
  shows "encodes_back [b0, b1, b2, b3]"
proof -
  define x0 x1 x2 x3 where x: "x0 = unat b0 - 0xF0" "x1 = unat b1 - 0x80" "x2 = unat b2 - 0x80"
    "x3 = unat b3 - 0x80"
  have b: "x0 < 5" "x1 < 64" "x2 < 64" "x3 < 64" "of_nat (0xF0 + x0) = b0" "of_nat (0x80 + x1) = b1"
      "of_nat (0x80 + x2) = b2" "of_nat (0x80 + x3) = b3"
    using assms(1) is_cont_value [OF assms(2)] is_cont_value [OF assms(3)] is_cont_value [OF assms(4)]
    by (auto simp: x in_range_def)
  have low: "16 \<le> x1" if "x0 = 0"
    using assms(1,5) that by (simp add: x in_range_def)
  have high: "x1 < 16" if "x0 = 4"
  proof -
    have "unat b0 = 0xF4" using assms(1) that by (simp add: x in_range_def)
    then show ?thesis using assms(6) by (simp add: x)
  qed
  let ?c = "((x0 * 64 + x1) * 64 + x2) * 64 + x3"
  have v: "utf8_value [b0, b1, b2, b3] = ?c" by (simp add: utf8_value_def x algebra_simps)
  have "x0 = 0 \<or> x0 = 4 \<or> 1 \<le> x0 \<and> x0 \<le> 3" using b(1) by linarith
  then have c: "65536 \<le> ?c" "?c < 0x110000"
    using low high b(2-4) by (elim disjE; simp)+
  have "?c div 262144 = x0" "?c div 4096 mod 64 = x1" "?c div 64 mod 64 = x2" "?c mod 64 = x3"
    by (simp_all only: div_64_powers horner [OF b(4)] horner [OF b(3)] horner [OF b(2)])
  moreover have "\<not> ?c < 0x80" "\<not> ?c < 0x800" "\<not> ?c < 0x10000" using c(1) by linarith+
  ultimately have "utf8_encode_char ?c = map of_nat [0xF0 + x0, 0x80 + x1, 0x80 + x2, 0x80 + x3]"
    unfolding utf8_encode_char_def by (simp only: if_False)
  moreover have "\<not> is_surrogate ?c" using c(1) by (simp add: is_surrogate_def)
  ultimately show ?thesis
    unfolding encodes_back_def v using b(5-8) c(2) by simp
qed

lemma utf8_value_encode:
  assumes "utf8_char bs = Some n"
  shows "utf8_encode_char (utf8_value (take n bs)) = take n bs \<and>
    \<not> is_surrogate (utf8_value (take n bs)) \<and> utf8_value (take n bs) < 0x110000"
proof -
  obtain b0 r0 where bs: "bs = b0 # r0" using utf8_char_pos [OF assms] by (cases bs) auto
  consider (one) "unat b0 < 0x80" "n = 1"
    | (two) b1 r1 where "r0 = b1 # r1" "in_range b0 0xC2 0xDF" "is_cont b1" "n = 2"
    | (three) b1 b2 r2 where "r0 = b1 # b2 # r2" "in_range b0 0xE0 0xEF" "is_cont b1" "is_cont b2" "n = 3"
        "unat b0 = 0xE0 \<Longrightarrow> 0xA0 \<le> unat b1" "unat b0 = 0xED \<Longrightarrow> unat b1 \<le> 0x9F"
    | (four) b1 b2 b3 r3 where "r0 = b1 # b2 # b3 # r3" "in_range b0 0xF0 0xF4" "is_cont b1"
        "is_cont b2" "is_cont b3" "n = 4" "unat b0 = 0xF0 \<Longrightarrow> 0x90 \<le> unat b1"
        "unat b0 = 0xF4 \<Longrightarrow> unat b1 \<le> 0x8F"
    using assms unfolding bs
    by (auto simp: utf8_char_def in_range_def is_cont_def split: list.splits if_splits)
  then have "encodes_back (take n bs)"
  proof cases
    case one
    then show ?thesis using bs encodes_back_1 by simp
  next
    case two
    then show ?thesis using bs encodes_back_2 by (simp add: numeral_2_eq_2)
  next
    case three
    then show ?thesis using bs encodes_back_3 by (simp add: numeral_3_eq_3)
  next
    case four
    then show ?thesis using bs encodes_back_4 by (simp add: numeral_eq_4)
  qed
  then show ?thesis by (simp add: encodes_back_def)
qed

lemma utf16_decode_char:
  assumes "\<not> is_surrogate c" "c < 0x110000"
  shows "utf16_decode (utf16_encode_char c @ us) = map_option ((#) c) (utf16_decode us)"
proof (cases "c < 0x10000")
  case True
  then have "unat (of_nat c :: u16) = c" by (intro of_nat_inverse) simp_all
  then show ?thesis using True assms(1) by (simp add: utf16_encode_char_def)
next
  case False
  define h l where hl: "h = (c - 0x10000) div 1024" "l = (c - 0x10000) mod 1024"
  have "h * 1024 + l = c - 0x10000" by (simp add: hl)
  then have c: "c = 0x10000 + h * 1024 + l" using False by linarith
  have b: "h < 1024" "l < 1024" using assms(2) False by (simp_all add: hl less_mult_imp_div_less)
  obtain u v :: u16 where uv: "u = of_nat (0xD800 + h)" "v = of_nat (0xDC00 + l)" by blast
  have n: "unat u = 0xD800 + h" "unat v = 0xDC00 + l"
    unfolding uv using b by (intro of_nat_inverse; simp)+
  have e: "utf16_encode_char c = [u, v]"
    using False by (simp add: utf16_encode_char_def hl uv)
  have s: "is_surrogate (unat u)" "\<not> 0xDC00 \<le> unat u" "0xDC00 \<le> unat v" "unat v \<le> 0xDFFF"
    using b n by (simp_all add: is_surrogate_def)
  have "0x10000 + (unat u - 0xD800) * 1024 + (unat v - 0xDC00) = c" using n c by simp
  then show ?thesis using s by (simp add: e)
qed

lemma utf16_decode_encode_wide: "utf16_decode (encode_wide s) = Some (utf8_decode s)"
proof (induction s rule: utf8_decode.induct)
  case (1 s)
  show ?case
  proof (cases "utf8_char s")
    case None
    then show ?thesis by (simp add: encode_wide_def utf8_decode.simps [of s])
  next
    case (Some n)
    then show ?thesis
      using 1 [OF Some] utf8_value_encode [OF Some]
      by (simp add: encode_wide_def utf8_decode.simps [of s] utf16_decode_char)
  qed
qed

text \<open>What comes back is the part of the bytes that is well-formed: all of a \<^verbatim>\<open>str\<close>.\<close>

lemma utf8_encode_decode:
  "\<exists>rest. s = concat (map utf8_encode_char (utf8_decode s)) @ rest \<and> (valid_utf8 s \<longrightarrow> rest = [])"
proof (induction s rule: utf8_decode.induct)
  case (1 s)
  show ?case
  proof (cases "utf8_char s")
    case None
    then show ?thesis by (simp add: utf8_decode.simps [of s] valid_utf8.simps [of s])
  next
    case (Some n)
    obtain rest where rest: "drop n s = concat (map utf8_encode_char (utf8_decode (drop n s))) @ rest"
        "valid_utf8 (drop n s) \<longrightarrow> rest = []"
      using 1 [OF Some] by (elim exE conjE)
    have "s = take n s @ drop n s" by simp
    then have "s = concat (map utf8_encode_char (utf8_decode s)) @ rest"
      using rest(1) Some utf8_value_encode [OF Some] by (simp add: utf8_decode.simps [of s])
    moreover have "valid_utf8 s \<longrightarrow> rest = []"
      using rest(2) Some utf8_char_pos [OF Some] by (simp add: valid_utf8.simps [of s])
    ultimately show ?thesis by (intro exI [of _ rest]) simp
  qed
qed

lemma from_utf16_encode_wide:
  "\<exists>t rest. from_utf16 (encode_wide s) = Some t \<and> s = t @ rest \<and> (valid_utf8 s \<longrightarrow> rest = [])"
  using utf8_encode_decode [of s] by (simp add: from_utf16_def utf16_decode_encode_wide)

lemma from_utf16_valid: "valid_utf8 s \<Longrightarrow> from_utf16 (encode_wide s) = Some s"
  using from_utf16_encode_wide [of s] by auto

text \<open>A 16-bit unit in the ASCII range is an ASCII byte of the string, at the same place in front.\<close>

lemma utf8_value_ascii:
  assumes "utf8_char s = Some n" "utf8_value (take n s) < 128"
  shows "n = 1 \<and> s \<noteq> [] \<and> utf8_value (take n s) = unat (hd s)"
proof -
  have "take n s = [of_nat (utf8_value (take n s))]"
    using utf8_value_encode [OF assms(1)] assms(2) by (simp add: utf8_encode_char_def)
  moreover have "0 < n" "s \<noteq> []" using utf8_char_pos [OF assms(1)] by simp_all
  moreover have "n \<le> length s" using utf8_char_append [OF assms(1), of "[]"] by simp
  ultimately have n: "n = 1" by (metis length_take min.absorb2 length_Cons list.size(3) One_nat_def)
  then show ?thesis using \<open>s \<noteq> []\<close> by (cases s) (simp_all add: utf8_value_def)
qed

lemma utf16_char_ascii:
  assumes "u \<in> set (utf16_encode_char c)" "unat u < 128" "c < 0x110000"
  shows "c = unat u \<and> utf16_encode_char c = [u]"
proof (cases "c < 0x10000")
  case True
  then have "unat (of_nat c :: u16) = c" by (intro of_nat_inverse) simp_all
  then show ?thesis using assms(1) True by (simp add: utf16_encode_char_def)
next
  case False
  have "(c - 0x10000) div 1024 < 1024" "(c - 0x10000) mod 1024 < 1024"
    using assms(3) False by (simp_all add: less_mult_imp_div_less)
  then have "unat (of_nat (0xD800 + (c - 0x10000) div 1024) :: u16) = 0xD800 + (c - 0x10000) div 1024"
    "unat (of_nat (0xDC00 + (c - 0x10000) mod 1024) :: u16) = 0xDC00 + (c - 0x10000) mod 1024"
    by (intro of_nat_inverse; simp)+
  moreover have "set (utf16_encode_char c) =
      {of_nat (0xD800 + (c - 0x10000) div 1024), of_nat (0xDC00 + (c - 0x10000) mod 1024)}"
    using False by (simp add: utf16_encode_char_def)
  ultimately have "0xD800 \<le> unat u" using assms(1) by auto
  then show ?thesis using assms(2) by simp
qed

lemma encode_wide_head:
  assumes "encode_wide s = u # us" "unat u < 128"
  shows "\<exists>b r. s = b # r \<and> unat b = unat u \<and> us = encode_wide r"
proof (cases "utf8_char s")
  case None
  then show ?thesis using assms by (simp add: encode_wide_def utf8_decode.simps [of s])
next
  case (Some n)
  let ?c = "utf8_value (take n s)"
  have e: "utf16_encode_char ?c @ encode_wide (drop n s) = u # us"
    using assms(1) Some by (simp add: encode_wide_def utf8_decode.simps [of s])
  moreover have "utf16_encode_char ?c \<noteq> []" by (simp add: utf16_encode_char_def)
  ultimately have "u \<in> set (utf16_encode_char ?c)" by (cases "utf16_encode_char ?c") auto
  then have "?c = unat u \<and> utf16_encode_char ?c = [u]"
    by (rule utf16_char_ascii [OF _ assms(2)]) (use utf8_value_encode [OF Some] in simp)
  then have c: "?c = unat u" "utf16_encode_char ?c = [u]" by (rule conjunct1, rule conjunct2)
  have "n = 1" "s \<noteq> []" "?c = unat (hd s)"
    using utf8_value_ascii [OF Some] c(1) assms(2) by simp_all
  moreover have "us = encode_wide (drop n s)" using e c(2) by simp
  ultimately show ?thesis using c(1) by (cases s) auto
qed

section \<open>Names without prefix and root\<close>

lemma is_sep_unat:
  "is_sep (b :: u8) \<longleftrightarrow> unat b = 47 \<or> unat b = 92"
  "is_sep (u :: u16) \<longleftrightarrow> unat u = 47 \<or> unat u = 92"
  by (simp_all add: is_sep_def word_unat_eq_iff)

lemma colon_unat: "(b :: u8) = 58 \<longleftrightarrow> unat b = 58" "(u :: u16) = 58 \<longleftrightarrow> unat u = 58"
  by (simp_all add: word_unat_eq_iff)

text \<open>What the first two units say: neither a separator in front nor a drive.\<close>

definition plain_start :: "'a::len word list \<Rightarrow> bool" where
  "plain_start p \<longleftrightarrow> p = [] \<or> \<not> is_sep (hd p) \<and> \<not> (1 < length p \<and> p ! 1 = 58 \<and> is_letter (p ! 0))"

lemma no_sep_prefix:
  assumes "p \<noteq> [] \<Longrightarrow> \<not> is_sep (hd p)"
  shows "parse_prefix p = None \<longleftrightarrow> plain_start p"
proof (cases p)
  case Nil
  then show ?thesis by (simp add: parse_prefix_def plain_start_def starts_with_def)
next
  case (Cons b r)
  have "\<not> is_sep b" using assms Cons by simp
  then have "\<not> starts_with p [92, 92]" by (simp add: starts_with_def is_sep_def Cons)
  then show ?thesis using \<open>\<not> is_sep b\<close> by (simp add: parse_prefix_def plain_start_def Cons)
qed

lemma plain_start_relative:
  assumes "plain_start p"
  shows "parse_prefix p = None" "\<not> has_root p" "\<not> is_absolute p"
proof -
  have hd: "\<not> is_sep (hd p)" if "p \<noteq> []" using assms that by (simp add: plain_start_def)
  show p: "parse_prefix p = None" using no_sep_prefix [OF hd] assms by simp
  then have "\<not> has_physical_root p"
    using hd by (cases p) (simp_all add: has_physical_root_def)
  then show "\<not> has_root p" using p by (simp add: has_root_def)
  show "\<not> is_absolute p" using p by (simp add: is_absolute_def)
qed

lemma rooted_or_plain:
  assumes "parse_prefix p = None" "\<not> has_physical_root p"
  shows "plain_start p"
proof -
  have hd: "\<not> is_sep (hd p)" if "p \<noteq> []"
    using assms that by (cases p) (simp_all add: has_physical_root_def)
  show ?thesis using no_sep_prefix [OF hd] assms(1) by simp
qed

text \<open>The conversion keeps it.\<close>

lemma plain_start_wide:
  assumes "plain_start s"
  shows "plain_start (encode_wide s)"
proof (cases "encode_wide s")
  case (Cons u us)
  have "\<not> is_sep u"
  proof
    assume sep: "is_sep u"
    then obtain b r where "s = b # r" "unat b = unat u"
      using encode_wide_head [OF Cons] by (auto simp: is_sep_unat)
    then show False using assms sep by (simp add: plain_start_def is_sep_unat)
  qed
  moreover have "\<not> (is_letter u \<and> us \<noteq> [] \<and> hd us = 58)"
  proof
    assume a: "is_letter u \<and> us \<noteq> [] \<and> hd us = 58"
    then obtain b r where b: "s = b # r" "unat b = unat u" "us = encode_wide r"
      using encode_wide_head [OF Cons] by (auto simp: is_letter_def)
    obtain v vs where v: "encode_wide r = v # vs" "v = 58"
      using a b(3) list.collapse [of us] by metis
    then obtain b2 r2 where "r = b2 # r2" "unat b2 = 58"
      using encode_wide_head [OF v(1)] by auto
    then have "s ! 1 = 58" "is_letter (s ! 0)" "1 < length s"
      using b(1,2) a by (simp_all add: colon_unat is_letter_def)
    then show False using assms by (auto simp: plain_start_def)
  qed
  ultimately show ?thesis
    by (cases us) (auto simp: plain_start_def Cons)
qed (simp add: plain_start_def)

text \<open>A name as a component: no separator in it, not a drive, neither \<^verbatim>\<open>.\<close> nor \<^verbatim>\<open>..\<close>.\<close>

definition win_plain :: "bytes \<Rightarrow> bool" where
  "win_plain n \<longleftrightarrow> n \<noteq> [] \<and> n \<noteq> [DOT] \<and> n \<noteq> [DOT, DOT] \<and> list_all (\<lambda>b. \<not> is_sep b) n \<and> plain_start n"

lemma win_plain_slash: "win_plain n \<Longrightarrow> plain_start (n @ [SLASH])"
  by (cases n; cases "tl n") (auto simp: win_plain_def plain_start_def)

lemma plain_wseg:
  assumes "plain_start p" "p \<noteq> []"
  shows "wseg p \<noteq> []" "plain_start (wseg p)" "list_all (\<lambda>b. \<not> is_sep b) (wseg p)"
proof -
  obtain b r where p: "p = b # r" "\<not> is_sep b" using assms by (cases p) (auto simp: plain_start_def)
  then show "wseg p \<noteq> []" by (simp add: wseg_def until_def)
  show "plain_start (wseg p)"
    using p assms(1) by (cases r) (auto simp: plain_start_def wseg_def until_def)
  show "list_all (\<lambda>b. \<not> is_sep b) (wseg p)"
    by (auto simp: wseg_def until_def list_all_iff dest: set_takeWhileD)
qed

lemma win_path_next_Normal:
  assumes "win_path_next p = Some (W_Normal n, t)"
  shows "win_plain n \<and> n = wseg p \<and> t = wrest_path (after_wseg p)"
proof -
  have "p \<noteq> []" "plain_start p" "n = wseg p" "t = wrest_path (after_wseg p)" "n \<noteq> [DOT]" "n \<noteq> [DOT, DOT]"
    using assms rooted_or_plain by (auto simp: win_path_next_def split: if_splits)
  then show ?thesis using plain_wseg by (simp add: win_plain_def)
qed

section \<open>What is left of a path\<close>

lemma wseg_cases:
  "after_wseg p = [] \<and> p = wseg p \<or> (\<exists>b. is_sep b \<and> p = wseg p @ b # after_wseg p)"
proof (cases "dropWhile (\<lambda>b. \<not> is_sep b) p")
  case Nil
  then have "wseg p = p" by (simp add: wseg_def until_def dropWhile_eq_Nil_conv)
  then show ?thesis by (simp add: after_wseg_def)
next
  case (Cons b r)
  have "is_sep b" using hd_dropWhile [of "\<lambda>b. \<not> is_sep b" p] Cons by simp
  moreover have p: "p = wseg p @ b # r"
    using takeWhile_dropWhile_id [of "\<lambda>b. \<not> is_sep b" p] Cons by (simp add: wseg_def until_def)
  moreover have "after_wseg p = r"
    unfolding after_wseg_def by (subst p) (simp add: Suc_le_eq)
  ultimately show ?thesis by auto
qed

lemma wtrim_left_length: "length (wtrim_left p) \<le> length p"
proof (induction p rule: wtrim_left.induct)
  case (1 p)
  then show ?case using after_wseg_less [of p] by (subst wtrim_left.simps) auto
qed

lemma wrest_path_length: "length (wrest_path p) \<le> length p"
  using wtrim_left_length [of "rev (wtrim_left p)"] wtrim_left_length [of p]
  by (simp add: wrest_path_def)

lemma wrest_path_sep:
  assumes "is_sep b"
  shows "wrest_path (b # p) = wrest_path p"
proof -
  have "wseg (b # p) = []" using assms by (simp add: wseg_def until_def)
  then have "wtrim_left (b # p) = wtrim_left p"
    by (subst wtrim_left.simps) (simp add: after_wseg_def)
  then show ?thesis by (simp add: wrest_path_def)
qed

lemma after_dot: "wseg p = [DOT] \<Longrightarrow> wrest_path (tl p) = wrest_path (after_wseg p)"
  using wseg_cases [of p]
proof (elim disjE exE conjE)
  fix b assume b: "wseg p = [DOT]" "is_sep b" "p = wseg p @ b # after_wseg p"
  then have "p = DOT # b # after_wseg p" by simp
  then have "tl p = b # after_wseg p" by (metis list.sel(3))
  then show ?thesis using wrest_path_sep [OF b(2)] by simp
next
  assume "wseg p = [DOT]" "after_wseg p = []" "p = wseg p"
  then have "tl p = []" by (metis list.sel(3))
  then show ?thesis using \<open>after_wseg p = []\<close> by simp
qed

lemma win_path_next_rest:
  assumes "win_path_next p = Some (c, t)" "t \<noteq> []"
  shows "t = wrest_path (after_wseg p) \<and> wseg p \<noteq> []"
proof -
  have "p \<noteq> []" "plain_start p"
    using assms rooted_or_plain by (auto simp: win_path_next_def split: if_splits)
  then show ?thesis
    using assms plain_wseg(1) after_dot by (auto simp: win_path_next_def split: if_splits)
qed

text \<open>The separator and at least one byte of the component are gone.\<close>

lemma win_path_next_shorter:
  assumes "win_path_next p = Some (c, t)" "t \<noteq> []"
  shows "length t + 2 \<le> length p"
proof -
  have t: "t = wrest_path (after_wseg p)" "wseg p \<noteq> []" using win_path_next_rest [OF assms] by simp_all
  then have "after_wseg p \<noteq> []" using assms(2) wrest_path_length [of "[]"] by auto
  then obtain b where "p = wseg p @ b # after_wseg p" using wseg_cases [of p] by blast
  then have "length p = length (wseg p @ b # after_wseg p)" by (rule arg_cong)
  then have "length p = length (wseg p) + 1 + length (after_wseg p)" by simp
  moreover have "0 < length (wseg p)" using t(2) by (simp only: length_greater_0_conv not_False_eq_True)
  ultimately have "length (after_wseg p) + 2 \<le> length p" by linarith
  then show ?thesis using wrest_path_length [of "after_wseg p"] unfolding t(1) by linarith
qed

lemma win_path_next_Nil [simp]: "win_path_next [] = None"
  by (simp add: win_path_next_def)

section \<open>Cutting a valid string\<close>

lemma valid_wcut:
  assumes "valid_utf8 p"
  shows "valid_utf8 (wseg p) \<and> valid_utf8 (after_wseg p)"
  using wseg_cases [of p]
proof (elim disjE exE conjE)
  fix b assume b: "is_sep b" "p = wseg p @ b # after_wseg p"
  then have "unat b < 128" by (auto simp: is_sep_unat)
  then show ?thesis using valid_utf8_cut [of "wseg p" b "after_wseg p"] assms b(2) by simp
qed (use assms in simp)

lemma valid_rev_wcut:
  assumes "valid_utf8 (rev p)"
  shows "valid_utf8 (rev (after_wseg p))"
  using wseg_cases [of p]
proof (elim disjE exE conjE)
  fix b assume b: "is_sep b" "p = wseg p @ b # after_wseg p"
  then have "rev p = rev (after_wseg p) @ b # rev (wseg p)"
    by (metis rev_append rev.simps(2) append.assoc append_Cons append_Nil)
  moreover have "unat b < 128" using b(1) by (auto simp: is_sep_unat)
  ultimately show ?thesis using valid_utf8_cut [of "rev (after_wseg p)" b "rev (wseg p)"] assms by simp
qed simp

lemma valid_wtrim_left: "valid_utf8 p \<Longrightarrow> valid_utf8 (wtrim_left p)"
proof (induction p rule: wtrim_left.induct)
  case (1 p)
  then show ?case by (subst wtrim_left.simps) (auto dest: valid_wcut)
qed

lemma valid_rev_wtrim_left: "valid_utf8 (rev p) \<Longrightarrow> valid_utf8 (rev (wtrim_left p))"
proof (induction p rule: wtrim_left.induct)
  case (1 p)
  then show ?case by (subst wtrim_left.simps) (auto dest: valid_rev_wcut)
qed

lemma valid_wrest_path: "valid_utf8 p \<Longrightarrow> valid_utf8 (wrest_path p)"
  using valid_wtrim_left [of p] valid_rev_wtrim_left [of "rev (wtrim_left p)"]
  by (simp add: wrest_path_def)

lemma valid_win_path_next:
  assumes "win_path_next p = Some (c, t)" "valid_utf8 p"
  shows "valid_utf8 t \<and> (\<forall>n. c = W_Normal n \<longrightarrow> valid_utf8 n)"
proof (cases "t = []")
  case True
  then show ?thesis using win_path_next_Normal assms valid_wcut by fastforce
next
  case False
  then show ?thesis
    using win_path_next_rest [OF assms(1)] win_path_next_Normal [of p] assms valid_wcut [OF assms(2)]
      valid_wrest_path by auto
qed

end
