(* ===== verification/Winx_File.thy ===== *)
theory Winx_File
  imports Winx_Error Win_Path
begin

text \<open>
  \<^verbatim>\<open>winx/src/file.rs\<close>: file types, flags and access rights of the Windows API, and opening a path
  relative to a directory handle.  The constants of the crate \<^verbatim>\<open>winapi\<close> are a record \<open>winapi\<close>, its
  functions a record \<open>win_os\<close>; a handle is an integer.  A function of the crate returns \<open>Inl\<close> of an
  error or \<open>Inr\<close> of a value, inside \<open>Ok\<close>; only an index out of range makes it panic.
\<close>

section \<open>Constants of the platform\<close>

record winapi = win_codes +
  winapi_FILE_TYPE_CHAR :: u32
  winapi_FILE_TYPE_DISK :: u32
  winapi_FILE_TYPE_PIPE :: u32
  winapi_FILE_TYPE_UNKNOWN :: u32
  winapi_FILE_SHARE_READ :: u32
  winapi_FILE_SHARE_WRITE :: u32
  winapi_FILE_SHARE_DELETE :: u32
  winapi_WCREATE_NEW :: u32
  winapi_WCREATE_ALWAYS :: u32
  winapi_WOPEN_EXISTING :: u32
  winapi_WOPEN_ALWAYS :: u32
  winapi_WTRUNCATE_EXISTING :: u32
  winapi_FILE_ATTRIBUTE_ARCHIVE :: u32
  winapi_FILE_ATTRIBUTE_COMPRESSED :: u32
  winapi_FILE_ATTRIBUTE_DEVICE :: u32
  winapi_FILE_ATTRIBUTE_DIRECTORY :: u32
  winapi_FILE_ATTRIBUTE_ENCRYPTED :: u32
  winapi_FILE_ATTRIBUTE_HIDDEN :: u32
  winapi_FILE_ATTRIBUTE_INTEGRITY_STREAM :: u32
  winapi_FILE_ATTRIBUTE_NORMAL :: u32
  winapi_FILE_ATTRIBUTE_NOT_CONTENT_INDEXED :: u32
  winapi_FILE_ATTRIBUTE_NO_SCRUB_DATA :: u32
  winapi_FILE_ATTRIBUTE_OFFLINE :: u32
  winapi_FILE_ATTRIBUTE_READONLY :: u32
  winapi_FILE_ATTRIBUTE_RECALL_ON_DATA_ACCESS :: u32
  winapi_FILE_ATTRIBUTE_RECALL_ON_OPEN :: u32
  winapi_FILE_ATTRIBUTE_REPARSE_POINT :: u32
  winapi_FILE_ATTRIBUTE_SPARSE_FILE :: u32
  winapi_FILE_ATTRIBUTE_SYSTEM :: u32
  winapi_FILE_ATTRIBUTE_TEMPORARY :: u32
  winapi_FILE_ATTRIBUTE_VIRTUAL :: u32
  winapi_FILE_FLAG_BACKUP_SEMANTICS :: u32
  winapi_FILE_FLAG_DELETE_ON_CLOSE :: u32
  winapi_FILE_FLAG_NO_BUFFERING :: u32
  winapi_FILE_FLAG_OPEN_NO_RECALL :: u32
  winapi_FILE_FLAG_OPEN_REPARSE_POINT :: u32
  winapi_FILE_FLAG_OVERLAPPED :: u32
  winapi_FILE_FLAG_POSIX_SEMANTICS :: u32
  winapi_FILE_FLAG_RANDOM_ACCESS :: u32
  winapi_FILE_FLAG_SESSION_AWARE :: u32
  winapi_FILE_FLAG_SEQUENTIAL_SCAN :: u32
  winapi_FILE_FLAG_WRITE_THROUGH :: u32
  winapi_FILE_READ_DATA :: u32
  winapi_FILE_LIST_DIRECTORY :: u32
  winapi_FILE_WRITE_DATA :: u32
  winapi_FILE_ADD_FILE :: u32
  winapi_FILE_APPEND_DATA :: u32
  winapi_FILE_ADD_SUBDIRECTORY :: u32
  winapi_FILE_CREATE_PIPE_INSTANCE :: u32
  winapi_FILE_READ_EA :: u32
  winapi_FILE_WRITE_EA :: u32
  winapi_FILE_EXECUTE :: u32
  winapi_FILE_TRAVERSE :: u32
  winapi_FILE_DELETE_CHILD :: u32
  winapi_FILE_READ_ATTRIBUTES :: u32
  winapi_FILE_WRITE_ATTRIBUTES :: u32
  winapi_DELETE :: u32
  winapi_READ_CONTROL :: u32
  winapi_SYNCHRONIZE :: u32
  winapi_WRITE_DAC :: u32
  winapi_WRITE_OWNER :: u32
  winapi_ACCESS_SYSTEM_SECURITY :: u32
  winapi_MAXIMUM_ALLOWED :: u32
  winapi_GENERIC_ALL :: u32
  winapi_GENERIC_EXECUTE :: u32
  winapi_GENERIC_WRITE :: u32
  winapi_GENERIC_READ :: u32
  winapi_SE_FILE_OBJECT :: u32
  winapi_DACL_SECURITY_INFORMATION :: u32
  winapi_INVALID_HANDLE_VALUE :: raw_fd

text \<open>The values Windows documents.\<close>

definition windows_consts :: winapi where
  "windows_consts = win_codes.extend windows_codes (winapi.fields
     2
     1
     3
     0
     1
     2
     4
     1
     2
     3
     4
     5
     0x20
     0x800
     0x40
     0x10
     0x4000
     2
     0x8000
     0x80
     0x2000
     0x20000
     0x1000
     1
     0x400000
     0x40000
     0x400
     0x200
     4
     0x100
     0x10000
     0x2000000
     0x4000000
     0x20000000
     0x100000
     0x200000
     0x40000000
     0x1000000
     0x10000000
     0x800000
     0x8000000
     0x80000000
     1
     1
     2
     2
     4
     4
     4
     8
     0x10
     0x20
     0x20
     0x40
     0x80
     0x100
     0x10000
     0x20000
     0x100000
     0x40000
     0x80000
     0x1000000
     0x2000000
     0x10000000
     0x20000000
     0x40000000
     0x80000000
     1
     4
     (- 1))"

section \<open>File types\<close>

datatype file_type = FileType u32

definition file_type_bits :: "file_type \<Rightarrow> u32" where
  "file_type_bits t = (case t of FileType n \<Rightarrow> n)"

definition is_char :: "'z winapi_scheme \<Rightarrow> file_type \<Rightarrow> bool" where
  "is_char c t \<longleftrightarrow> file_type_bits t = winapi_FILE_TYPE_CHAR c"

definition is_disk :: "'z winapi_scheme \<Rightarrow> file_type \<Rightarrow> bool" where
  "is_disk c t \<longleftrightarrow> file_type_bits t = winapi_FILE_TYPE_DISK c"

definition is_pipe :: "'z winapi_scheme \<Rightarrow> file_type \<Rightarrow> bool" where
  "is_pipe c t \<longleftrightarrow> file_type_bits t = winapi_FILE_TYPE_PIPE c"

definition is_unknown :: "'z winapi_scheme \<Rightarrow> file_type \<Rightarrow> bool" where
  "is_unknown c t \<longleftrightarrow> file_type_bits t = winapi_FILE_TYPE_UNKNOWN c"

section \<open>Sets of flags\<close>

text \<open>A type made by \<^verbatim>\<open>bitflags!\<close> is the list of its constants; \<open>all_flags\<close> is its \<^verbatim>\<open>all()\<close>.\<close>

definition all_flags :: "(string \<times> u32) list \<Rightarrow> u32" where
  "all_flags consts = foldr (\<lambda>(_, b) acc. b OR acc) consts 0"

text \<open>What others may do with a file while it is open.\<close>

definition ShareMode_ALL :: "'z winapi_scheme \<Rightarrow> u32" where
  "ShareMode_ALL c =
     winapi_FILE_SHARE_READ c OR
     winapi_FILE_SHARE_WRITE c OR
     winapi_FILE_SHARE_DELETE c"

definition ShareMode :: "'z winapi_scheme \<Rightarrow> (string \<times> u32) list" where
  "ShareMode c =
     [(''NO_SHARE'', 0x0),
      (''FILE_SHARE_READ'', winapi_FILE_SHARE_READ c),
      (''FILE_SHARE_WRITE'', winapi_FILE_SHARE_WRITE c),
      (''FILE_SHARE_DELETE'', winapi_FILE_SHARE_DELETE c),
      (''ALL'', ShareMode_ALL c)]"

text \<open>Attributes of a file and flags of an open.\<close>

definition FlagsAndAttributes :: "'z winapi_scheme \<Rightarrow> (string \<times> u32) list" where
  "FlagsAndAttributes c =
     [(''FILE_ATTRIBUTE_ARCHIVE'', winapi_FILE_ATTRIBUTE_ARCHIVE c),
      (''FILE_ATTRIBUTE_COMPRESSED'', winapi_FILE_ATTRIBUTE_COMPRESSED c),
      (''FILE_ATTRIBUTE_DEVICE'', winapi_FILE_ATTRIBUTE_DEVICE c),
      (''FILE_ATTRIBUTE_DIRECTORY'', winapi_FILE_ATTRIBUTE_DIRECTORY c),
      (''FILE_ATTRIBUTE_ENCRYPTED'', winapi_FILE_ATTRIBUTE_ENCRYPTED c),
      (''FILE_ATTRIBUTE_HIDDEN'', winapi_FILE_ATTRIBUTE_HIDDEN c),
      (''FILE_ATTRIBUTE_INTEGRITY_STREAM'', winapi_FILE_ATTRIBUTE_INTEGRITY_STREAM c),
      (''FILE_ATTRIBUTE_NORMAL'', winapi_FILE_ATTRIBUTE_NORMAL c),
      (''FILE_ATTRIBUTE_NOT_CONTENT_INDEXED'', winapi_FILE_ATTRIBUTE_NOT_CONTENT_INDEXED c),
      (''FILE_ATTRIBUTE_NO_SCRUB_DATA'', winapi_FILE_ATTRIBUTE_NO_SCRUB_DATA c),
      (''FILE_ATTRIBUTE_OFFLINE'', winapi_FILE_ATTRIBUTE_OFFLINE c),
      (''FILE_ATTRIBUTE_READONLY'', winapi_FILE_ATTRIBUTE_READONLY c),
      (''FILE_ATTRIBUTE_RECALL_ON_DATA_ACCESS'', winapi_FILE_ATTRIBUTE_RECALL_ON_DATA_ACCESS c),
      (''FILE_ATTRIBUTE_RECALL_ON_OPEN'', winapi_FILE_ATTRIBUTE_RECALL_ON_OPEN c),
      (''FILE_ATTRIBUTE_REPARSE_POINT'', winapi_FILE_ATTRIBUTE_REPARSE_POINT c),
      (''FILE_ATTRIBUTE_SPARSE_FILE'', winapi_FILE_ATTRIBUTE_SPARSE_FILE c),
      (''FILE_ATTRIBUTE_SYSTEM'', winapi_FILE_ATTRIBUTE_SYSTEM c),
      (''FILE_ATTRIBUTE_TEMPORARY'', winapi_FILE_ATTRIBUTE_TEMPORARY c),
      (''FILE_ATTRIBUTE_VIRTUAL'', winapi_FILE_ATTRIBUTE_VIRTUAL c),
      (''FILE_FLAG_BACKUP_SEMANTICS'', winapi_FILE_FLAG_BACKUP_SEMANTICS c),
      (''FILE_FLAG_DELETE_ON_CLOSE'', winapi_FILE_FLAG_DELETE_ON_CLOSE c),
      (''FILE_FLAG_NO_BUFFERING'', winapi_FILE_FLAG_NO_BUFFERING c),
      (''FILE_FLAG_OPEN_NO_RECALL'', winapi_FILE_FLAG_OPEN_NO_RECALL c),
      (''FILE_FLAG_OPEN_REPARSE_POINT'', winapi_FILE_FLAG_OPEN_REPARSE_POINT c),
      (''FILE_FLAG_OVERLAPPED'', winapi_FILE_FLAG_OVERLAPPED c),
      (''FILE_FLAG_POSIX_SEMANTICS'', winapi_FILE_FLAG_POSIX_SEMANTICS c),
      (''FILE_FLAG_RANDOM_ACCESS'', winapi_FILE_FLAG_RANDOM_ACCESS c),
      (''FILE_FLAG_SESSION_AWARE'', winapi_FILE_FLAG_SESSION_AWARE c),
      (''FILE_FLAG_SEQUENTIAL_SCAN'', winapi_FILE_FLAG_SEQUENTIAL_SCAN c),
      (''FILE_FLAG_WRITE_THROUGH'', winapi_FILE_FLAG_WRITE_THROUGH c)]"

text \<open>The access mask, with the generic rights as unions.\<close>

definition AccessRight_FILE_GENERIC_READ :: "'z winapi_scheme \<Rightarrow> u32" where
  "AccessRight_FILE_GENERIC_READ c =
     winapi_FILE_READ_ATTRIBUTES c OR
     winapi_FILE_READ_DATA c OR
     winapi_FILE_READ_EA c OR
     winapi_READ_CONTROL c OR
     winapi_SYNCHRONIZE c"

definition AccessRight_FILE_GENERIC_WRITE :: "'z winapi_scheme \<Rightarrow> u32" where
  "AccessRight_FILE_GENERIC_WRITE c =
     winapi_FILE_WRITE_ATTRIBUTES c OR
     winapi_FILE_WRITE_DATA c OR
     winapi_FILE_WRITE_EA c OR
     winapi_READ_CONTROL c OR
     winapi_SYNCHRONIZE c"

definition AccessRight_FILE_GENERIC_EXECUTE :: "'z winapi_scheme \<Rightarrow> u32" where
  "AccessRight_FILE_GENERIC_EXECUTE c =
     winapi_FILE_EXECUTE c OR
     winapi_FILE_READ_ATTRIBUTES c OR
     winapi_READ_CONTROL c OR
     winapi_SYNCHRONIZE c"

definition AccessRight_FILE_GENERIC_ALL :: "'z winapi_scheme \<Rightarrow> u32" where
  "AccessRight_FILE_GENERIC_ALL c =
     AccessRight_FILE_GENERIC_READ c OR
     AccessRight_FILE_GENERIC_WRITE c OR
     AccessRight_FILE_GENERIC_EXECUTE c"

definition AccessRight :: "'z winapi_scheme \<Rightarrow> (string \<times> u32) list" where
  "AccessRight c =
     [(''FILE_READ_DATA'', winapi_FILE_READ_DATA c),
      (''FILE_LIST_DIRECTORY'', winapi_FILE_LIST_DIRECTORY c),
      (''FILE_WRITE_DATA'', winapi_FILE_WRITE_DATA c),
      (''FILE_ADD_FILE'', winapi_FILE_ADD_FILE c),
      (''FILE_APPEND_DATA'', winapi_FILE_APPEND_DATA c),
      (''FILE_ADD_SUBDIRECTORY'', winapi_FILE_ADD_SUBDIRECTORY c),
      (''FILE_CREATE_PIPE_INSTANCE'', winapi_FILE_CREATE_PIPE_INSTANCE c),
      (''FILE_READ_EA'', winapi_FILE_READ_EA c),
      (''FILE_WRITE_EA'', winapi_FILE_WRITE_EA c),
      (''FILE_EXECUTE'', winapi_FILE_EXECUTE c),
      (''FILE_TRAVERSE'', winapi_FILE_TRAVERSE c),
      (''FILE_DELETE_CHILD'', winapi_FILE_DELETE_CHILD c),
      (''FILE_READ_ATTRIBUTES'', winapi_FILE_READ_ATTRIBUTES c),
      (''FILE_WRITE_ATTRIBUTES'', winapi_FILE_WRITE_ATTRIBUTES c),
      (''DELETE'', winapi_DELETE c),
      (''READ_CONTROL'', winapi_READ_CONTROL c),
      (''SYNCHRONIZE'', winapi_SYNCHRONIZE c),
      (''WRITE_DAC'', winapi_WRITE_DAC c),
      (''WRITE_OWNER'', winapi_WRITE_OWNER c),
      (''ACCESS_SYSTEM_SECURITY'', winapi_ACCESS_SYSTEM_SECURITY c),
      (''MAXIMUM_ALLOWED'', winapi_MAXIMUM_ALLOWED c),
      (''RESERVED1'', 0x4000000),
      (''RESERVED2'', 0x8000000),
      (''GENERIC_ALL'', winapi_GENERIC_ALL c),
      (''GENERIC_EXECUTE'', winapi_GENERIC_EXECUTE c),
      (''GENERIC_WRITE'', winapi_GENERIC_WRITE c),
      (''GENERIC_READ'', winapi_GENERIC_READ c),
      (''FILE_GENERIC_READ'', AccessRight_FILE_GENERIC_READ c),
      (''FILE_GENERIC_WRITE'', AccessRight_FILE_GENERIC_WRITE c),
      (''FILE_GENERIC_EXECUTE'', AccessRight_FILE_GENERIC_EXECUTE c),
      (''FILE_GENERIC_ALL'', AccessRight_FILE_GENERIC_ALL c)]"

section \<open>What an open does if the file exists or not\<close>

datatype creation_disposition =
  NO_DISPOSITION | CREATE_NEW | CREATE_ALWAYS | OPEN_EXISTING | OPEN_ALWAYS | TRUNCATE_EXISTING

definition disposition_code :: "'z winapi_scheme \<Rightarrow> creation_disposition \<Rightarrow> u32" where
  "disposition_code c d = (case d of
     NO_DISPOSITION \<Rightarrow> 0
   | CREATE_NEW \<Rightarrow> winapi_WCREATE_NEW c
   | CREATE_ALWAYS \<Rightarrow> winapi_WCREATE_ALWAYS c
   | OPEN_EXISTING \<Rightarrow> winapi_WOPEN_EXISTING c
   | OPEN_ALWAYS \<Rightarrow> winapi_WOPEN_ALWAYS c
   | TRUNCATE_EXISTING \<Rightarrow> winapi_WTRUNCATE_EXISTING c)"

definition disposition_from_u32 :: "'z winapi_scheme \<Rightarrow> u32 \<Rightarrow> creation_disposition" where
  "disposition_from_u32 c disp =
     (if disp = winapi_WCREATE_NEW c then CREATE_NEW
      else if disp = winapi_WCREATE_ALWAYS c then CREATE_ALWAYS
      else if disp = winapi_WOPEN_EXISTING c then OPEN_EXISTING
      else if disp = winapi_WOPEN_ALWAYS c then OPEN_ALWAYS
      else if disp = winapi_WTRUNCATE_EXISTING c then TRUNCATE_EXISTING
      else NO_DISPOSITION)"

section \<open>The calls\<close>

text \<open>
  \<^verbatim>\<open>GetSecurityInfo\<close> returns its code and the access control list it stored, \<^verbatim>\<open>GetAce\<close> whether it
  succeeded and the mask of the entry it found, \<^verbatim>\<open>GetFinalPathNameByHandleW\<close> the length and what it
  stored in the buffer.  \<open>sys_win_open\<close> is \<^verbatim>\<open>OpenOptions::open\<close>; a standard stream has a handle.
\<close>

record open_options =
  oo_create :: bool
  oo_write :: bool
  oo_read :: bool
  oo_attributes :: u32

datatype seek_from = FromStart u64 | FromCurrent i64

record 'w win_os = "'w std_os" +
  sys_GetLastError :: "'w \<Rightarrow> u32"
  sys_GetFileType :: "raw_fd \<Rightarrow> 'w \<Rightarrow> u32 \<times> 'w"
  sys_GetSecurityInfo :: "raw_fd \<Rightarrow> u32 \<Rightarrow> u32 \<Rightarrow> 'w \<Rightarrow> (u32 \<times> int) \<times> 'w"
  sys_IsValidAcl :: "int \<Rightarrow> 'w \<Rightarrow> bool \<times> 'w"
  sys_GetAce :: "int \<Rightarrow> u32 \<Rightarrow> 'w \<Rightarrow> (bool \<times> u32) \<times> 'w"
  sys_GetFinalPathNameByHandleW :: "raw_fd \<Rightarrow> u32 \<Rightarrow> u32 \<Rightarrow> 'w \<Rightarrow> (u32 \<times> u16 list) \<times> 'w"
  sys_CreateFileW :: "u16 list \<Rightarrow> u32 \<Rightarrow> u32 \<Rightarrow> u32 \<Rightarrow> u32 \<Rightarrow> 'w \<Rightarrow> raw_fd \<times> 'w"
  sys_win_open :: "open_options \<Rightarrow> bytes \<Rightarrow> ('w, io_error, raw_fd) call"
  sys_seek :: "raw_fd \<Rightarrow> seek_from \<Rightarrow> ('w, io_error, u64) call"
  sys_seek_read :: "raw_fd \<Rightarrow> nat \<Rightarrow> u64 \<Rightarrow> ('w, io_error, bytes) call"
  sys_seek_write :: "raw_fd \<Rightarrow> bytes \<Rightarrow> u64 \<Rightarrow> ('w, io_error, usize) call"
  sys_stdin_handle :: raw_fd
  sys_stdout_handle :: raw_fd
  sys_stderr_handle :: raw_fd

type_synonym ('w, 'a) winx = "('w, win_error + 'a) io"

definition winx_ok :: "'a \<Rightarrow> ('w, 'a) winx" where
  "winx_ok x = io_res (Ok (Inr x))"

definition winx_err :: "win_error \<Rightarrow> ('w, 'a) winx" where
  "winx_err e = io_res (Ok (Inl e))"

text \<open>The operator \<^verbatim>\<open>?\<close> on the results of the crate.\<close>

definition winx_bind :: "('w, 'a) winx \<Rightarrow> ('a \<Rightarrow> ('w, 'b) winx) \<Rightarrow> ('w, 'b) winx" where
  "winx_bind m f = io_bind m (\<lambda>r. case r of Inl e \<Rightarrow> winx_err e | Inr x \<Rightarrow> f x)"

definition win_last :: "'z winapi_scheme \<Rightarrow> ('w, 'y) win_os_scheme \<Rightarrow> 'w \<Rightarrow> win_error" where
  "win_last c os w = win_from_u32 c (sys_GetLastError os w)"

definition winx_last :: "'z winapi_scheme \<Rightarrow> ('w, 'y) win_os_scheme \<Rightarrow> ('w, 'a) winx" where
  "winx_last c os w = winx_err (win_last c os w) w"

definition get_file_type ::
  "'z winapi_scheme \<Rightarrow> ('w, 'y) win_os_scheme \<Rightarrow> raw_fd \<Rightarrow> ('w, file_type) winx" where
  "get_file_type c os handle =
     io_bind (io_call (sys_GetFileType os handle)) (\<lambda>n w.
       let file_type = FileType n; err = win_last c os w in
       if is_unknown c file_type \<and> err \<noteq> ERROR_SUCCESS then winx_err err w
       else winx_ok file_type w)"

definition get_file_access_rights ::
  "'z winapi_scheme \<Rightarrow> ('w, 'y) win_os_scheme \<Rightarrow> raw_fd \<Rightarrow> ('w, u32) winx" where
  "get_file_access_rights c os handle =
     io_bind (io_call (sys_GetSecurityInfo os handle (winapi_SE_FILE_OBJECT c)
         (winapi_DACL_SECURITY_INFORMATION c))) (\<lambda>(code, dacl).
       let err = win_from_u32 c code in
       if err \<noteq> ERROR_SUCCESS then winx_err err
       else io_bind (io_call (sys_IsValidAcl os dacl)) (\<lambda>valid.
         if \<not> valid then winx_last c os
         else io_bind (io_call (sys_GetAce os dacl 0)) (\<lambda>(found, mask).
           if \<not> found then winx_last c os else winx_ok mask)))"

section \<open>Paths\<close>

definition WIDE_MAX_PATH :: u32 where
  "WIDE_MAX_PATH = 0x7fff"

definition str_to_wide :: "u16 list \<Rightarrow> u16 list" where
  "str_to_wide s = s @ [0]"

definition get_path_by_handle ::
  "'z winapi_scheme \<Rightarrow> ('w, 'y) win_os_scheme \<Rightarrow> raw_fd \<Rightarrow> ('w, u16 list) winx" where
  "get_path_by_handle c os handle =
     io_bind (io_call (sys_GetFinalPathNameByHandleW os handle WIDE_MAX_PATH 0)) (\<lambda>(read_len, stored).
       if read_len = 0 then winx_last c os
       else if read_len > WIDE_MAX_PATH then winx_err ERROR_BUFFER_OVERFLOW
       else winx_ok (take (unat read_len) (stored @ replicate (unat WIDE_MAX_PATH - length stored) 0)))"

definition strip_extended_prefix :: "u16 list \<Rightarrow> u16 list res" where
  "strip_extended_prefix path =
     (let path = str_to_wide path in
      if length path < 4 then Panic
      else if take 4 path = [92, 92, 63, 92] then Ok (drop 4 path) else Ok path)"

text \<open>The path below a directory, or the path itself if it is absolute.\<close>

definition winx_out_path ::
  "'z winapi_scheme \<Rightarrow> ('w, 'y) win_os_scheme \<Rightarrow> raw_fd \<Rightarrow> u16 list \<Rightarrow> ('w, u16 list) winx" where
  "winx_out_path c os dir_handle path =
     (if is_absolute path then winx_ok path
      else winx_bind (get_path_by_handle c os dir_handle) (\<lambda>dir_path.
        winx_ok (path_push dir_path path)))"

definition winx_openat ::
  "'z winapi_scheme \<Rightarrow> ('w, 'y) win_os_scheme \<Rightarrow> raw_fd \<Rightarrow> u16 list \<Rightarrow> u32 \<Rightarrow> creation_disposition \<Rightarrow>
     u32 \<Rightarrow> ('w, raw_fd) winx" where
  "winx_openat c os dir_handle path rights disposition flags_attrs =
     winx_bind (winx_out_path c os dir_handle path) (\<lambda>out_path.
     io_bind (io_res (strip_extended_prefix out_path)) (\<lambda>raw_out_path.
     io_bind (io_call (sys_CreateFileW os (str_to_wide raw_out_path) rights (ShareMode_ALL c)
         (disposition_code c disposition) flags_attrs)) (\<lambda>handle.
       if handle = winapi_INVALID_HANDLE_VALUE c then winx_last c os else winx_ok handle)))"

end
