(* ===== verification/Windows_Host.thy ===== *)
theory Windows_Host
  imports Winx_File Fd_Entry
begin

text \<open>
  \<^verbatim>\<open>src/sys/windows/host_impl.rs\<close>, \<^verbatim>\<open>fdentry_impl.rs\<close> and \<^verbatim>\<open>mod.rs\<close>: the conversions of the Windows
  backend, the type and rights of a handle, and the two opens of the module.
\<close>

section \<open>Errors\<close>

text \<open>
  The arms of the match, in order.  \<^verbatim>\<open>ERROR_DEV_NOT_EXIST\<close> is no variant of \<^verbatim>\<open>WinError\<close>, so that the
  pattern is a variable: it matches whatever reaches it, and no later arm is reached.
\<close>

definition errno_from_win :: "win_error \<Rightarrow> wasi_errno_t" where
  "errno_from_win err =
     (if err = ERROR_SUCCESS then WASI_ESUCCESS
      else if err = ERROR_BAD_ENVIRONMENT then WASI_E2BIG
      else if err = ERROR_FILE_NOT_FOUND \<or> err = ERROR_PATH_NOT_FOUND then WASI_ENOENT
      else if err = ERROR_TOO_MANY_OPEN_FILES then WASI_ENFILE
      else if err = ERROR_ACCESS_DENIED \<or> err = ERROR_SHARING_VIOLATION then WASI_EACCES
      else if err = ERROR_INVALID_HANDLE \<or> err = ERROR_INVALID_NAME then WASI_EBADF
      else if err = ERROR_NOT_ENOUGH_MEMORY \<or> err = ERROR_OUTOFMEMORY then WASI_ENOMEM
      else if err = ERROR_DIR_NOT_EMPTY then WASI_ENOTEMPTY
      else WASI_ENODEV)"

text \<open>\<^verbatim>\<open>sys::errno_from_host\<close> on Windows; the argument is converted to an unsigned number.\<close>

definition win_errno_from_host :: "'z winapi_scheme \<Rightarrow> int \<Rightarrow> wasi_errno_t" where
  "win_errno_from_host c err = errno_from_win (win_from_u32 c (of_int err))"

text \<open>\<^verbatim>\<open>.map_err(errno_from_win)\<close> on the results of \<^verbatim>\<open>winx\<close>.\<close>

definition from_win :: "('w, 'a) winx \<Rightarrow> ('w, 'a) io" where
  "from_win m = io_bind m (\<lambda>r. io_res (case r of Inl e \<Rightarrow> Err (errno_from_win e) | Inr x \<Rightarrow> Ok x))"

text \<open>\<^verbatim>\<open>.map_err(|err| err.raw_os_error().map_or(e, errno_from_host))\<close>\<close>

definition from_win_std_or ::
  "'z winapi_scheme \<Rightarrow> wasi_errno_t \<Rightarrow> ('w, io_error, 'a) call \<Rightarrow> ('w, 'a) io" where
  "from_win_std_or c e m = (\<lambda>w. case m w of
     (Inr x, w') \<Rightarrow> (Ok x, w')
   | (Inl None, w') \<Rightarrow> (Err e, w')
   | (Inl (Some n), w') \<Rightarrow> (Err (win_errno_from_host c n), w'))"

section \<open>Flags\<close>

text \<open>Access rights and flags of an open, as pairs.\<close>

definition win_from_fdflags :: "'z winapi_scheme \<Rightarrow> wasi_fdflags_t \<Rightarrow> u32 \<times> u32" where
  "win_from_fdflags c fdflags =
     ((if fdflags AND WASI_FDFLAG_APPEND \<noteq> 0 then winapi_FILE_APPEND_DATA c else 0) OR
      (if fdflags AND WASI_FDFLAG_DSYNC \<noteq> 0 \<or> fdflags AND WASI_FDFLAG_RSYNC \<noteq> 0 \<or>
          fdflags AND WASI_FDFLAG_SYNC \<noteq> 0 then winapi_SYNCHRONIZE c else 0),
      if fdflags AND WASI_FDFLAG_NONBLOCK \<noteq> 0 then winapi_FILE_FLAG_OVERLAPPED c else 0)"

definition fdflags_from_win :: "'z winapi_scheme \<Rightarrow> u32 \<Rightarrow> wasi_fdflags_t" where
  "fdflags_from_win c rights =
     (if contains rights (winapi_FILE_APPEND_DATA c) then WASI_FDFLAG_APPEND else 0) OR
     (if contains rights (winapi_SYNCHRONIZE c)
      then WASI_FDFLAG_DSYNC OR WASI_FDFLAG_RSYNC OR WASI_FDFLAG_SYNC else 0)"

definition win_from_oflags ::
  "'z winapi_scheme \<Rightarrow> wasi_oflags_t \<Rightarrow> creation_disposition \<times> u32" where
  "win_from_oflags c oflags =
     (if oflags AND WASI_O_CREAT \<noteq> 0 \<and> oflags AND WASI_O_EXCL \<noteq> 0 then CREATE_NEW
      else if oflags AND WASI_O_CREAT \<noteq> 0 then CREATE_ALWAYS
      else if oflags AND WASI_O_TRUNC \<noteq> 0 then TRUNCATE_EXISTING
      else OPEN_EXISTING,
      if oflags AND WASI_O_DIRECTORY \<noteq> 0 then winapi_FILE_FLAG_BACKUP_SEMANTICS c
      else winapi_FILE_ATTRIBUTE_NORMAL c)"

text \<open>\<^verbatim>\<open>AccessRight::from_bits_truncate\<close>\<close>

definition access_right :: "'z winapi_scheme \<Rightarrow> u32 \<Rightarrow> u32" where
  "access_right c bits = bits AND all_flags (AccessRight c)"

text \<open>The \<^verbatim>\<open>OsStr\<close> is a list of 16-bit units.\<close>

definition win_path_from_host :: "u16 list \<Rightarrow> bytes res" where
  "win_path_from_host s = ok_or (from_utf16 s) WASI_EILSEQ"

section \<open>Handles\<close>

fun as_raw_handle :: "('w, 'y) win_os_scheme \<Rightarrow> descriptor \<Rightarrow> raw_fd" where
  "as_raw_handle os (File f) = f"
| "as_raw_handle os Stdin = sys_stdin_handle os"
| "as_raw_handle os Stdout = sys_stdout_handle os"
| "as_raw_handle os Stderr = sys_stderr_handle os"

definition win_determine_type_rights ::
  "'z winapi_scheme \<Rightarrow> ('w, 'y) win_os_scheme \<Rightarrow> raw_fd \<Rightarrow>
     ('w, wasi_filetype_t \<times> wasi_rights_t \<times> wasi_rights_t) io" where
  "win_determine_type_rights c os handle =
     io_bind (from_win (get_file_type c os handle)) (\<lambda>file_type.
       if is_char c file_type then
         io_res (Ok (WASI_FILETYPE_CHARACTER_DEVICE, RIGHTS_TTY_BASE, RIGHTS_TTY_BASE))
       else if is_disk c file_type then (\<lambda>w.
         case sys_metadata os handle w of
           (Inl _, w') \<Rightarrow> (Err WASI_EINVAL, w')
         | (Inr meta, w') \<Rightarrow>
             (if md_file_type meta = Ft_dir
              then Ok (WASI_FILETYPE_DIRECTORY, RIGHTS_DIRECTORY_BASE, RIGHTS_DIRECTORY_INHERITING)
              else if md_file_type meta = Ft_file
              then Ok (WASI_FILETYPE_REGULAR_FILE, RIGHTS_REGULAR_FILE_BASE, RIGHTS_REGULAR_FILE_INHERITING)
              else Err WASI_EINVAL, w'))
       else if is_pipe c file_type then
         io_res (Ok (WASI_FILETYPE_SOCKET_STREAM, RIGHTS_SOCKET_BASE, RIGHTS_SOCKET_INHERITING))
       else io_res (Err WASI_EINVAL))"

text \<open>The access rights of a directory or regular file add to its rights.\<close>

definition win_determine_type_and_access_rights ::
  "'z winapi_scheme \<Rightarrow> ('w, 'y) win_os_scheme \<Rightarrow> raw_fd \<Rightarrow>
     ('w, wasi_filetype_t \<times> wasi_rights_t \<times> wasi_rights_t) io" where
  "win_determine_type_and_access_rights c os handle =
     io_bind (win_determine_type_rights c os handle) (\<lambda>(file_type, base, inheriting).
       if file_type = WASI_FILETYPE_DIRECTORY \<or> file_type = WASI_FILETYPE_REGULAR_FILE then
         io_bind (from_win (get_file_access_rights c os handle)) (\<lambda>bits.
           let rights = access_right c bits in
           io_res (Ok (file_type,
             base OR (if contains rights (AccessRight_FILE_GENERIC_READ c) then WASI_RIGHT_FD_READ else 0)
               OR (if contains rights (AccessRight_FILE_GENERIC_WRITE c) then WASI_RIGHT_FD_WRITE else 0),
             inheriting)))
       else io_res (Ok (file_type, base, inheriting)))"

text \<open>\<^verbatim>\<open>FdEntry::from\<close> of \<^verbatim>\<open>src/fdentry.rs\<close> over this backend; without an entry the file is closed.\<close>

definition win_fdentry_from ::
  "'z winapi_scheme \<Rightarrow> ('w, 'y) win_os_scheme \<Rightarrow> raw_fd \<Rightarrow> ('w, fd_entry) io" where
  "win_fdentry_from c os file =
     io_on_fail (io_map (new_entry (File file)) (win_determine_type_and_access_rights c os file))
       (sys_close os file)"

section \<open>Opening for the context\<close>

definition win_dev_null :: "'z winapi_scheme \<Rightarrow> ('w, 'y) win_os_scheme \<Rightarrow> ('w, raw_fd) io" where
  "win_dev_null c os = from_win_std_or c WASI_EIO (sys_open os [78, 85, 76])"

definition win_preopen_dir ::
  "'z winapi_scheme \<Rightarrow> ('w, 'y) win_os_scheme \<Rightarrow> bytes \<Rightarrow> ('w, raw_fd) io" where
  "win_preopen_dir c os path = from_win_std_or c WASI_EIO
     (sys_win_open os \<lparr>oo_create = False, oo_write = True, oo_read = True,
        oo_attributes = winapi_FILE_FLAG_BACKUP_SEMANTICS c\<rparr> path)"

end
