(* ===== verification/Windows_Fs.thy ===== *)
theory Windows_Fs
  imports Windows_Host Path_Get
begin

text \<open>
  \<^verbatim>\<open>src/sys/windows/hostcalls_impl\<close>: path resolution, reading and writing at an offset, the status
  of a descriptor and opening; the other functions are \<^verbatim>\<open>unimplemented!\<close> and panic.
\<close>

section \<open>Path resolution\<close>

text \<open>
  The stacks of the loop; a step goes on with new stacks or returns with the directories that are
  closed on the way out.
\<close>

record win_state =
  w_dirs :: "raw_fd list"
  w_paths :: "bytes list"

datatype win_outcome = W_next win_state | W_finish "(raw_fd \<times> bytes) res" "raw_fd list"

definition win_push_tail :: "bool \<Rightarrow> bytes \<Rightarrow> bytes list \<Rightarrow> bytes list res" where
  "win_push_tail slash tail ps =
     (if win_path_next tail \<noteq> None
      then map_ok (\<lambda>t. (if slash then t @ [SLASH] else t) # ps) (win_path_from_host (encode_wide tail))
      else Ok ps)"

definition win_found :: "win_state \<Rightarrow> bytes \<Rightarrow> win_outcome" where
  "win_found st head = (case w_dirs st of
     [] \<Rightarrow> W_finish (Err WASI_ENOTCAPABLE) [] | d # ds \<Rightarrow> W_finish (Ok (d, head)) ds)"

text \<open>A directory on the way, or the last component.\<close>

definition win_normal_step ::
  "'z winapi_scheme \<Rightarrow> ('w, 'y) win_os_scheme \<Rightarrow> bool \<Rightarrow> bool \<Rightarrow> win_state \<Rightarrow> bytes \<Rightarrow> 'w \<Rightarrow>
     win_outcome \<times> 'w" where
  "win_normal_step c os needs_final_component slash st head w =
     (if w_paths st \<noteq> [] \<or> slash \<and> \<not> needs_final_component then
        (case w_dirs st of
           [] \<Rightarrow> (W_finish (Err WASI_ENOTCAPABLE) [], w)
         | d # ds \<Rightarrow>
           (case from_win (winx_openat c os d (encode_wide head) (AccessRight_FILE_GENERIC_READ c)
                OPEN_EXISTING (winapi_FILE_FLAG_BACKUP_SEMANTICS c)) w of
              (Ok new_dir, w') \<Rightarrow> (W_next (st\<lparr>w_dirs := new_dir # d # ds\<rparr>), w')
            | (Err e, w') \<Rightarrow> (W_finish (Err e) (d # ds), w')
            | (Panic, w') \<Rightarrow> (W_finish Panic (d # ds), w')))
      else (win_found st head, w))"

definition win_path_step ::
  "'z winapi_scheme \<Rightarrow> ('w, 'y) win_os_scheme \<Rightarrow> bool \<Rightarrow> win_state \<Rightarrow> 'w \<Rightarrow> win_outcome \<times> 'w" where
  "win_path_step c os needs_final_component st w =
     (case w_paths st of
        [] \<Rightarrow> (win_found st [DOT], w)
      | cur_path # ps \<Rightarrow>
        (case win_path_next cur_path of
           None \<Rightarrow> (W_finish (Err WASI_ENOENT) (w_dirs st), w)
         | Some (head, tail) \<Rightarrow>
           let slash = ends_with_slash cur_path in
           (case win_push_tail slash tail ps of
              Err e \<Rightarrow> (W_finish (Err e) (w_dirs st), w)
            | Panic \<Rightarrow> (W_finish Panic (w_dirs st), w)
            | Ok ps' \<Rightarrow>
              let st' = st\<lparr>w_paths := ps'\<rparr> in
              (case head of
                 W_absolute \<Rightarrow> (W_finish (Err WASI_ENOTCAPABLE) (w_dirs st), w)
               | W_CurDir \<Rightarrow> (W_next st', w)
               | W_ParentDir \<Rightarrow>
                   (case w_dirs st of
                      [] \<Rightarrow> (W_finish (Err WASI_ENOTCAPABLE) [], w)
                    | d # ds \<Rightarrow>
                        if ds = [] then (W_finish (Err WASI_ENOTCAPABLE) [], sys_close os d w)
                        else (W_next (st'\<lparr>w_dirs := ds\<rparr>), sys_close os d w))
               | W_Normal name \<Rightarrow>
                   (case win_path_from_host (encode_wide name) of
                      Err e \<Rightarrow> (W_finish (Err e) (w_dirs st), w)
                    | Panic \<Rightarrow> (W_finish Panic (w_dirs st), w)
                    | Ok head \<Rightarrow>
                        win_normal_step c os needs_final_component slash st'
                          (if slash then head @ [SLASH] else head) w)))))"

section \<open>Progress of the loop\<close>

lemma win_path_from_host_wide: "win_path_from_host (encode_wide s) = Ok t \<Longrightarrow> length t \<le> length s"
  using from_utf16_encode_wide [of s] by (auto simp: win_path_from_host_def)

lemma win_path_from_host_valid [simp]:
  "valid_utf8 s \<Longrightarrow> win_path_from_host (encode_wide s) = Ok s"
  by (simp add: win_path_from_host_def from_utf16_valid)

abbreviation total_length :: "bytes list \<Rightarrow> nat" where
  "total_length ps \<equiv> sum_list (map length ps)"

text \<open>What is pushed is shorter than the path it comes from.\<close>

lemma win_push_tail_shorter:
  assumes "win_push_tail slash tail ps = Ok ps'" "win_path_next p = Some (c, tail)"
  shows "total_length ps' < length p + total_length ps"
proof (cases "win_path_next tail")
  case None
  then have "ps' = ps" using assms(1) by (simp add: win_push_tail_def)
  moreover have "p \<noteq> []" using assms(2) by auto
  ultimately show ?thesis by simp
next
  case (Some x)
  then obtain t where t: "win_path_from_host (encode_wide tail) = Ok t"
      "ps' = (if slash then t @ [SLASH] else t) # ps"
    using assms(1) by (auto simp: win_push_tail_def map_ok_Ok_iff)
  have "tail \<noteq> []" using Some by auto
  from win_path_next_shorter [OF assms(2) this] win_path_from_host_wide [OF t(1)]
  show ?thesis by (auto simp: t(2))
qed

lemma win_normal_step_W_next:
  assumes "win_normal_step c os nf slash st head w = (W_next st', w')"
  obtains d ds nd where "w_dirs st = d # ds" "st' = st\<lparr>w_dirs := nd # d # ds\<rparr>"
    "from_win (winx_openat c os d (encode_wide head) (AccessRight_FILE_GENERIC_READ c)
       OPEN_EXISTING (winapi_FILE_FLAG_BACKUP_SEMANTICS c)) w = (Ok nd, w')"
  using assms that
  by (auto simp: win_normal_step_def win_found_def split: if_splits list.splits prod.splits res.splits)

lemma win_path_step_W_next:
  assumes "win_path_step c os nf st w = (W_next st', w')"
  obtains p ps tail ps' head where "w_paths st = p # ps" "win_path_next p = Some (head, tail)"
    "win_push_tail (ends_with_slash p) tail ps = Ok ps'" "w_paths st' = ps'"
    "head = W_CurDir \<and> w_dirs st' = w_dirs st \<and> w' = w \<or>
     head = W_ParentDir \<and> (\<exists>d. w_dirs st = d # w_dirs st' \<and> w_dirs st' \<noteq> [] \<and> w' = sys_close os d w) \<or>
     (\<exists>n h d ds nd. head = W_Normal n \<and> win_path_from_host (encode_wide n) = Ok h \<and>
        w_dirs st = d # ds \<and> w_dirs st' = nd # d # ds \<and>
        from_win (winx_openat c os d
            (encode_wide (if ends_with_slash p then h @ [SLASH] else h))
            (AccessRight_FILE_GENERIC_READ c) OPEN_EXISTING
            (winapi_FILE_FLAG_BACKUP_SEMANTICS c)) w = (Ok nd, w'))"
proof -
  obtain p ps where p: "w_paths st = p # ps"
    using assms by (cases "w_paths st") (auto simp: win_path_step_def win_found_def split: list.splits)
  obtain head tail where n: "win_path_next p = Some (head, tail)"
    using assms p by (cases "win_path_next p") (auto simp: win_path_step_def)
  obtain ps' where t: "win_push_tail (ends_with_slash p) tail ps = Ok ps'"
    using assms p n by (cases "win_push_tail (ends_with_slash p) tail ps") (auto simp: win_path_step_def Let_def)
  show ?thesis
  proof (cases head)
    case W_absolute
    then show ?thesis using assms p n t by (simp add: win_path_step_def)
  next
    case W_CurDir
    then show ?thesis using assms p n t that [OF p n t] by (auto simp: win_path_step_def)
  next
    case W_ParentDir
    then show ?thesis using assms p n t that [OF p n t]
      by (auto simp: win_path_step_def split: list.splits if_splits)
  next
    case (W_Normal name)
    obtain h where h: "win_path_from_host (encode_wide name) = Ok h"
      using assms p n t W_Normal
      by (cases "win_path_from_host (encode_wide name)") (auto simp: win_path_step_def)
    have "win_normal_step c os nf (ends_with_slash p) (st\<lparr>w_paths := ps'\<rparr>)
        (if ends_with_slash p then h @ [SLASH] else h) w = (W_next st', w')"
      using assms p n t W_Normal h by (simp add: win_path_step_def Let_def)
    then show ?thesis
    proof (cases rule: win_normal_step_W_next)
      case (1 d ds nd)
      then show ?thesis using W_Normal h by (intro that [OF p n t]) auto
    qed
  qed
qed

lemma win_path_step_progress:
  assumes "win_path_step c os nf st w = (W_next st', w')"
  shows "total_length (w_paths st') < total_length (w_paths st)"
  using assms
proof (cases rule: win_path_step_W_next)
  case (1 p ps tail ps' head)
  then show ?thesis using win_push_tail_shorter [OF 1(3,2)] by simp
qed

section \<open>The loop and the function\<close>

definition win_close_dirs :: "('w, 'y) win_os_scheme \<Rightarrow> raw_fd list \<Rightarrow> 'w \<Rightarrow> 'w" where
  "win_close_dirs os ds = fold (sys_close os) (rev ds)"

function win_path_loop ::
  "'z winapi_scheme \<Rightarrow> ('w, 'y) win_os_scheme \<Rightarrow> bool \<Rightarrow> win_state \<Rightarrow> ('w, raw_fd \<times> bytes) io" where
  "win_path_loop c os needs_final_component st w =
     (case win_path_step c os needs_final_component st w of
        (W_next st', w') \<Rightarrow> win_path_loop c os needs_final_component st' w'
      | (W_finish r ds, w') \<Rightarrow> (r, win_close_dirs os ds w'))"
  by pat_completeness auto
termination
  by (relation "measure (\<lambda>(c, os, nf, st, w). total_length (w_paths st))")
    (auto dest!: sym win_path_step_progress)

declare win_path_loop.simps [simp del]

definition win_path_get ::
  "'z winapi_scheme \<Rightarrow> ('w, 'y) win_os_scheme \<Rightarrow> wasi_ctx \<Rightarrow> wasi_fd_t \<Rightarrow> wasi_lookupflags_t \<Rightarrow> bytes \<Rightarrow>
     wasi_rights_t \<Rightarrow> wasi_rights_t \<Rightarrow> bool \<Rightarrow> ('w, raw_fd \<times> bytes) io" where
  "win_path_get c os ctx dirfd dirflags path needed_base needed_inheriting needs_final_component =
     (if 0 \<in> set path then io_res (Err WASI_EILSEQ)
      else io_bind (io_res (get_fd_entry ctx dirfd needed_base needed_inheriting)) (\<lambda>dirfe.
        case fo_descriptor (fe_object dirfe) of
          File f \<Rightarrow>
            io_bind (from_win_std_or c WASI_EBADF (sys_try_clone os f)) (\<lambda>d.
              win_path_loop c os needs_final_component \<lparr>w_dirs = [d], w_paths = [path]\<rparr>)
        | _ \<Rightarrow> io_res (Err WASI_EBADF)))"

section \<open>Reading and writing at an offset\<close>

text \<open>The operator \<^verbatim>\<open>?\<close> on results of the standard library.\<close>

definition std_bind :: "('w, 'e, 'a) call \<Rightarrow> ('a \<Rightarrow> ('w, 'e, 'b) call) \<Rightarrow> ('w, 'e, 'b) call" where
  "std_bind m f = (\<lambda>w. case m w of (Inl e, w') \<Rightarrow> (Inl e, w') | (Inr x, w') \<Rightarrow> f x w')"

definition std_ok :: "'a \<Rightarrow> ('w, 'e, 'a) call" where
  "std_ok x = (\<lambda>w. (Inr x, w))"

definition win_read_at ::
  "('w, 'y) win_os_scheme \<Rightarrow> raw_fd \<Rightarrow> usize \<Rightarrow> u64 \<Rightarrow> ('w, io_error, bytes) call" where
  "win_read_at os file buf_len offset =
     std_bind (sys_seek os file (FromCurrent 0)) (\<lambda>cur_pos.
     std_bind (sys_seek_read os file buf_len offset) (\<lambda>nread.
     std_bind (sys_seek os file (FromStart cur_pos)) (\<lambda>_. std_ok nread)))"

definition win_write_at ::
  "('w, 'y) win_os_scheme \<Rightarrow> raw_fd \<Rightarrow> bytes \<Rightarrow> u64 \<Rightarrow> ('w, io_error, usize) call" where
  "win_write_at os file buf offset =
     std_bind (sys_seek os file (FromCurrent 0)) (\<lambda>cur_pos.
     std_bind (sys_seek_write os file buf offset) (\<lambda>nwritten.
     std_bind (sys_seek os file (FromStart cur_pos)) (\<lambda>_. std_ok nwritten)))"

definition win_fd_pread ::
  "'z winapi_scheme \<Rightarrow> ('w, 'y) win_os_scheme \<Rightarrow> raw_fd \<Rightarrow> usize \<Rightarrow> wasi_filesize_t \<Rightarrow> ('w, bytes) io" where
  "win_fd_pread c os file buf_len offset =
     from_win_std_or c WASI_EIO (win_read_at os file buf_len offset)"

definition win_fd_pwrite ::
  "'z winapi_scheme \<Rightarrow> ('w, 'y) win_os_scheme \<Rightarrow> raw_fd \<Rightarrow> bytes \<Rightarrow> wasi_filesize_t \<Rightarrow> ('w, usize) io" where
  "win_fd_pwrite c os file buf offset =
     from_win_std_or c WASI_EIO (win_write_at os file buf offset)"

section \<open>Status and opening\<close>

definition win_fd_fdstat_get ::
  "'z winapi_scheme \<Rightarrow> ('w, 'y) win_os_scheme \<Rightarrow> fd_entry \<Rightarrow> ('w, wasi_fdflags_t) io" where
  "win_fd_fdstat_get c os fe =
     io_map (\<lambda>bits. fdflags_from_win c (access_right c bits))
       (from_win (get_file_access_rights c os (as_raw_handle os (fo_descriptor (fe_object fe)))))"

definition win_open_rights :: "'z winapi_scheme \<Rightarrow> bool \<Rightarrow> bool \<Rightarrow> u32" where
  "win_open_rights c read write = winapi_READ_CONTROL c
     OR (if read then AccessRight_FILE_GENERIC_READ c else 0)
     OR (if write then AccessRight_FILE_GENERIC_WRITE c else 0)"

definition win_needed_base :: "creation_disposition \<Rightarrow> wasi_rights_t \<Rightarrow> wasi_rights_t" where
  "win_needed_base disp needed_base =
     (if disp = CREATE_NEW then needed_base OR WASI_RIGHT_PATH_CREATE_FILE
      else if disp = CREATE_ALWAYS then needed_base OR WASI_RIGHT_PATH_CREATE_FILE
      else if disp = TRUNCATE_EXISTING then needed_base OR WASI_RIGHT_PATH_FILESTAT_SET_SIZE
      else needed_base)"

definition win_needed_inheriting ::
  "'z winapi_scheme \<Rightarrow> u32 \<Rightarrow> wasi_rights_t \<Rightarrow> wasi_rights_t" where
  "win_needed_inheriting c rights needed_inheriting =
     (if contains rights (winapi_SYNCHRONIZE c)
      then needed_inheriting OR WASI_RIGHT_FD_DATASYNC OR WASI_RIGHT_FD_SYNC
      else needed_inheriting)"

text \<open>The entry of a file just opened; a file whose type is not determined is closed.\<close>

definition win_open_entry ::
  "'z winapi_scheme \<Rightarrow> ('w, 'y) win_os_scheme \<Rightarrow> raw_fd \<Rightarrow> ('w, fd_entry) io" where
  "win_open_entry c os file =
     io_bind (io_on_fail (win_determine_type_rights c os file) (sys_close os file))
       (\<lambda>(_, max_base, max_inheriting).
         io_map (\<lambda>fe. fe\<lparr>fe_rights_base := fe_rights_base fe AND max_base,
              fe_rights_inheriting := fe_rights_inheriting fe AND max_inheriting\<rparr>)
           (win_fdentry_from c os file))"

definition win_path_open ::
  "'z winapi_scheme \<Rightarrow> ('w, 'y) win_os_scheme \<Rightarrow> wasi_ctx \<Rightarrow> wasi_fd_t \<Rightarrow> wasi_lookupflags_t \<Rightarrow> bytes \<Rightarrow>
     wasi_oflags_t \<Rightarrow> bool \<Rightarrow> bool \<Rightarrow> wasi_rights_t \<Rightarrow> wasi_rights_t \<Rightarrow> wasi_fdflags_t \<Rightarrow>
     ('w, fd_entry) io" where
  "win_path_open c os ctx dirfd dirflags path oflags read write needed_base needed_inheriting fdflags =
     (let (disp, attrs0) = win_from_oflags c oflags;
          needed_base = win_needed_base disp needed_base;
          (fd_rights, fd_attrs) = win_from_fdflags c fdflags;
          rights = win_open_rights c read write OR fd_rights;
          attrs = attrs0 OR fd_attrs;
          needed_inheriting = win_needed_inheriting c rights needed_inheriting
      in io_bind (win_path_get c os ctx dirfd dirflags path needed_base needed_inheriting
             (\<not> contains attrs (winapi_FILE_FLAG_BACKUP_SEMANTICS c))) (\<lambda>(dir, path).
           with_file os dir (
             io_bind (from_win (winx_openat c os dir (encode_wide path) rights disp attrs))
               (win_open_entry c os))))"

section \<open>Functions not implemented\<close>

text \<open>\<^verbatim>\<open>unimplemented!\<close> panics and calls nothing.\<close>

definition win_fd_renumber ::
  "wasi_ctx \<Rightarrow> wasi_fd_t \<Rightarrow> wasi_fd_t \<Rightarrow> ('w, unit) io"
  where
  "win_fd_renumber wasi_ctx from_fd to_fd = io_res Panic"

definition win_fd_seek ::
  "fd_entry \<Rightarrow> wasi_filedelta_t \<Rightarrow> wasi_whence_t \<Rightarrow> ('w, u64) io"
  where
  "win_fd_seek fd_entry offset whence = io_res Panic"

definition win_fd_tell :: "fd_entry \<Rightarrow> ('w, u64) io" where
  "win_fd_tell fd_entry = io_res Panic"

definition win_fd_fdstat_set_flags ::
  "fd_entry \<Rightarrow> wasi_fdflags_t \<Rightarrow> ('w, unit) io"
  where
  "win_fd_fdstat_set_flags fd_entry fdflags = io_res Panic"

definition win_fd_advise ::
  "fd_entry \<Rightarrow> wasi_advice_t \<Rightarrow> wasi_filesize_t \<Rightarrow> wasi_filesize_t \<Rightarrow> ('w, unit) io"
  where
  "win_fd_advise fd_entry advice offset len = io_res Panic"

definition win_path_create_directory ::
  "wasi_ctx \<Rightarrow> wasi_fd_t \<Rightarrow> bytes \<Rightarrow> ('w, unit) io"
  where
  "win_path_create_directory ctx dirfd path = io_res Panic"

definition win_path_link ::
  "wasi_ctx \<Rightarrow> wasi_fd_t \<Rightarrow> wasi_fd_t \<Rightarrow> bytes \<Rightarrow> bytes \<Rightarrow> wasi_rights_t \<Rightarrow> wasi_rights_t \<Rightarrow>
     ('w, unit) io"
  where
  "win_path_link ctx old_dirfd new_dirfd old_path new_path source_rights target_rights = io_res Panic"

definition win_fd_readdir ::
  "fd_entry \<Rightarrow> usize \<Rightarrow> wasi_dircookie_t \<Rightarrow> ('w, usize) io"
  where
  "win_fd_readdir fd_entry host_buf_len cookie = io_res Panic"

definition win_path_readlink ::
  "wasi_ctx \<Rightarrow> wasi_fd_t \<Rightarrow> bytes \<Rightarrow> wasi_rights_t \<Rightarrow> usize \<Rightarrow> ('w, usize) io"
  where
  "win_path_readlink wasi_ctx dirfd path rights buf_len = io_res Panic"

definition win_path_rename ::
  "wasi_ctx \<Rightarrow> wasi_fd_t \<Rightarrow> bytes \<Rightarrow> wasi_rights_t \<Rightarrow> wasi_fd_t \<Rightarrow> bytes \<Rightarrow> wasi_rights_t \<Rightarrow>
     ('w, unit) io"
  where
  "win_path_rename wasi_ctx old_dirfd old_path old_rights new_dirfd new_path new_rights = io_res Panic"

definition win_fd_filestat_get :: "fd_entry \<Rightarrow> ('w, filestat) io" where
  "win_fd_filestat_get fd_entry = io_res Panic"

definition win_fd_filestat_set_times ::
  "fd_entry \<Rightarrow> wasi_timestamp_t \<Rightarrow> wasi_timestamp_t \<Rightarrow> wasi_fstflags_t \<Rightarrow> ('w, unit) io"
  where
  "win_fd_filestat_set_times fd_entry atim mtim fst_flags = io_res Panic"

definition win_fd_filestat_set_size ::
  "fd_entry \<Rightarrow> wasi_filesize_t \<Rightarrow> ('w, unit) io"
  where
  "win_fd_filestat_set_size fd_entry new_size = io_res Panic"

definition win_path_filestat_get ::
  "wasi_ctx \<Rightarrow> wasi_fd_t \<Rightarrow> wasi_lookupflags_t \<Rightarrow> bytes \<Rightarrow> ('w, filestat) io"
  where
  "win_path_filestat_get wasi_ctx dirfd dirflags path = io_res Panic"

definition win_path_filestat_set_times ::
  "wasi_ctx \<Rightarrow> wasi_fd_t \<Rightarrow> wasi_lookupflags_t \<Rightarrow> bytes \<Rightarrow> wasi_rights_t \<Rightarrow> wasi_timestamp_t \<Rightarrow>
     wasi_timestamp_t \<Rightarrow> wasi_fstflags_t \<Rightarrow> ('w, unit) io"
  where
  "win_path_filestat_set_times wasi_ctx dirfd dirflags path rights atim mtim fst_flags = io_res Panic"

definition win_path_symlink ::
  "wasi_ctx \<Rightarrow> wasi_fd_t \<Rightarrow> wasi_rights_t \<Rightarrow> bytes \<Rightarrow> bytes \<Rightarrow> ('w, unit) io"
  where
  "win_path_symlink wasi_ctx dirfd rights old_path new_path = io_res Panic"

definition win_path_unlink_file ::
  "wasi_ctx \<Rightarrow> wasi_fd_t \<Rightarrow> bytes \<Rightarrow> wasi_rights_t \<Rightarrow> ('w, unit) io"
  where
  "win_path_unlink_file wasi_ctx dirfd path rights = io_res Panic"

definition win_path_remove_directory ::
  "wasi_ctx \<Rightarrow> wasi_fd_t \<Rightarrow> bytes \<Rightarrow> wasi_rights_t \<Rightarrow> ('w, unit) io"
  where
  "win_path_remove_directory wasi_ctx dirfd path rights = io_res Panic"

definition win_clock_res_get :: "wasi_clockid_t \<Rightarrow> ('w, wasi_timestamp_t) io" where
  "win_clock_res_get clock_id = io_res Panic"

definition win_clock_time_get :: "wasi_clockid_t \<Rightarrow> ('w, wasi_timestamp_t) io" where
  "win_clock_time_get clock_id = io_res Panic"

definition win_poll_oneoff :: "subscription res list \<Rightarrow> nat \<Rightarrow> ('w, u32) io" where
  "win_poll_oneoff input output_slice_len = io_res Panic"

end
