(* ===== verification/Windows_Laws.thy ===== *)
theory Windows_Laws
  imports Windows_Fs
begin

text \<open>
  What the Windows backend guarantees: path resolution goes down by plain names and owns the handles
  it opens, opening leaks none, an access at an offset leaves the cursor alone; and two ways in which
  opening fails where it should not.
\<close>

section \<open>Names that reach the platform\<close>

definition win_component_name :: "bytes \<Rightarrow> bool" where
  "win_component_name h \<longleftrightarrow>
     (\<exists>n. win_plain n \<and> valid_utf8 n \<and> (h = n \<or> h = n @ [SLASH]))"

lemma win_component_plain_start: "win_component_name h \<Longrightarrow> plain_start h"
  using win_plain_slash by (auto simp: win_component_name_def win_plain_def)

text \<open>Such a name is neither absolute nor rooted, so that it is appended to the directory's path.\<close>

lemma path_push_component:
  assumes "win_component_name h"
  shows "path_push dir (encode_wide h) =
    (if dir \<noteq> [] \<and> \<not> is_sep (last dir) \<and>
        (case parse_prefix dir of None \<Rightarrow> True | Some p \<Rightarrow> \<not> (prefix_len p = length dir \<and> is_drive p))
     then dir @ [92] else dir) @ encode_wide h"
  using plain_start_relative [OF plain_start_wide [OF win_component_plain_start [OF assms]]]
  by (auto simp: path_push_def Let_def split: option.splits)

lemma verbatim_no_drive:
  "parse_prefix ([92, 92, 63, 92] @ q) = Some p \<Longrightarrow> \<not> is_drive p"
  by (auto simp: parse_prefix_def starts_with_def is_drive_def Let_def split: if_splits option.splits)

lemma valid_utf8_slash: "valid_utf8 s \<Longrightarrow> valid_utf8 (s @ [SLASH])"
  by (rule valid_utf8_append) simp_all

lemma win_push_tail_Ok:
  assumes "valid_utf8 tail"
  shows "win_push_tail slash tail ps =
    Ok (if win_path_next tail = None then ps else (if slash then tail @ [SLASH] else tail) # ps)"
  using assms by (simp add: win_push_tail_def del: not_None_eq)

section \<open>Invariants of the loop\<close>

abbreviation win_enter ::
  "'z winapi_scheme \<Rightarrow> ('w, 'y) win_os_scheme \<Rightarrow> raw_fd \<Rightarrow> bytes \<Rightarrow> ('w, raw_fd) io" where
  "win_enter c os d h \<equiv> from_win (winx_openat c os d (encode_wide h)
     (AccessRight_FILE_GENERIC_READ c) OPEN_EXISTING (winapi_FILE_FLAG_BACKUP_SEMANTICS c))"

lemma win_normal_step_W_finish:
  assumes "win_normal_step c os nf slash st head w = (W_finish r rest, w')"
  obtains (found) d where "w_dirs st = d # rest" "r = Ok (d, head)" "w' = w"
  | (empty) "w_dirs st = rest" "\<forall>x. r \<noteq> Ok x" "w' = w"
  | (failed) d ds q where "w_dirs st = d # ds" "rest = d # ds" "\<forall>x. r \<noteq> Ok x"
      "win_enter c os d head w = (q, w')" "\<forall>x. q \<noteq> Ok x"
  using assms
  by (auto simp: win_normal_step_def win_found_def split: if_splits list.splits prod.splits res.splits)

text \<open>
  The interface of an invariant of the open directories and the platform: closing the last one,
  entering a component and failing to enter it keep it.
\<close>

locale win_path_inv =
  fixes c :: "'z winapi_scheme" and os :: "('w, 'y) win_os_scheme"
    and Inv :: "raw_fd list \<Rightarrow> 'w \<Rightarrow> bool"
  assumes inv_close: "Inv (d # ds) w \<Longrightarrow> Inv ds (sys_close os d w)"
    and inv_enter: "Inv (d # ds) w \<Longrightarrow> win_component_name h \<Longrightarrow>
      win_enter c os d h w = (Ok nd, w') \<Longrightarrow> Inv (nd # d # ds) w'"
    and inv_fail: "Inv (d # ds) w \<Longrightarrow> win_component_name h \<Longrightarrow>
      win_enter c os d h w = (r, w') \<Longrightarrow> \<forall>x. r \<noteq> Ok x \<Longrightarrow> Inv (d # ds) w'"
begin

definition good :: "win_state \<Rightarrow> 'w \<Rightarrow> bool" where
  "good st w \<longleftrightarrow> Inv (w_dirs st) w \<and> list_all valid_utf8 (w_paths st)"

lemma tail_valid:
  assumes "win_push_tail (ends_with_slash p) tail ps = Ok ps'" "win_path_next p = Some (head, tail)"
    and "list_all valid_utf8 (p # ps)"
  shows "list_all valid_utf8 ps'"
proof -
  have "valid_utf8 tail" using valid_win_path_next [OF assms(2)] assms(3) by simp
  then show ?thesis
    using assms(1,3) valid_utf8_slash by (auto simp: win_push_tail_Ok split: if_splits)
qed

lemma head_component:
  assumes "win_path_next p = Some (W_Normal n, tail)" "valid_utf8 p"
  shows "win_path_from_host (encode_wide n) = Ok n"
    "win_component_name (if ends_with_slash p then n @ [SLASH] else n)"
  using win_path_next_Normal [OF assms(1)] valid_win_path_next [OF assms]
  by (auto simp: win_component_name_def)

lemma step_good:
  assumes "win_path_step c os nf st w = (W_next st', w')" "good st w"
  shows "good st' w'"
  using assms(1)
proof (cases rule: win_path_step_W_next)
  case (1 p ps tail ps' head)
  have tails: "list_all valid_utf8 (w_paths st')"
    using tail_valid [OF 1(3,2)] assms(2) 1(1,4) by (simp add: good_def)
  have p: "valid_utf8 p" using assms(2) 1(1) by (simp add: good_def)
  from 1(5) show ?thesis
  proof (elim disjE exE conjE)
    fix n h d ds nd
    assume n: "head = W_Normal n" "win_path_from_host (encode_wide n) = Ok h" "w_dirs st = d # ds"
        "w_dirs st' = nd # d # ds"
        "win_enter c os d (if ends_with_slash p then h @ [SLASH] else h) w = (Ok nd, w')"
    have "h = n" "win_component_name (if ends_with_slash p then h @ [SLASH] else h)"
      using head_component [of p n tail] 1(2) n(1,2) p by (simp_all split: if_splits)
    then show ?thesis
      using inv_enter [OF _ _ n(5)] n(3,4) assms(2) tails by (simp add: good_def)
  qed (use assms(2) tails inv_close in \<open>simp_all add: good_def\<close>)
qed

lemma finish_good:
  assumes "win_path_step c os nf st w = (W_finish r rest, w')" "good st w"
  shows "case r of Ok (d, h) \<Rightarrow> Inv (d # rest) w' \<and> (h = [DOT] \<or> win_component_name h)
     | _ \<Rightarrow> Inv rest w'"
proof (cases "w_paths st")
  case Nil
  then show ?thesis
    using assms by (auto simp: win_path_step_def win_found_def good_def split: list.splits)
next
  case (Cons p ps)
  have p: "valid_utf8 p" using assms(2) Cons by (simp add: good_def)
  show ?thesis
  proof (cases "win_path_next p")
    case None
    then show ?thesis using assms Cons by (auto simp: win_path_step_def good_def)
  next
    case (Some ht)
    obtain head tail where n: "win_path_next p = Some (head, tail)" using Some by (cases ht) auto
    have "valid_utf8 tail" using valid_win_path_next [OF n p] by simp
    then obtain ps' where t: "win_push_tail (ends_with_slash p) tail ps = Ok ps'"
      using win_push_tail_Ok by blast
    note defs = win_path_step_def Let_def good_def
    show ?thesis
    proof (cases head)
      case W_absolute
      then show ?thesis using assms Cons n t by (auto simp: defs)
    next
      case W_CurDir
      then show ?thesis using assms Cons n t by (simp add: defs)
    next
      case W_ParentDir
      then show ?thesis using assms Cons n t inv_close
        by (auto simp: defs split: list.splits if_splits)
    next
      case (W_Normal name)
      note h = head_component [OF n [unfolded W_Normal] p]
      let ?h = "if ends_with_slash p then name @ [SLASH] else name"
      have "win_normal_step c os nf (ends_with_slash p) (st\<lparr>w_paths := ps'\<rparr>) ?h w = (W_finish r rest, w')"
        using assms(1) Cons n t W_Normal h(1) by (simp add: win_path_step_def Let_def)
      then show ?thesis
      proof (cases rule: win_normal_step_W_finish)
        case (found d)
        then show ?thesis using assms(2) h(2) by (simp add: good_def)
      next
        case empty
        then show ?thesis using assms(2) by (cases r) (auto simp: good_def)
      next
        case (failed d ds q)
        then have "Inv rest w'" using inv_fail [OF _ h(2) failed(4,5)] assms(2) by (simp add: good_def)
        then show ?thesis using failed(3) by (cases r) auto
      qed
    qed
  qed
qed

lemma loop_inv:
  "win_path_loop c os nf st w = (r, w') \<Longrightarrow> good st w \<Longrightarrow>
     \<exists>rest w1. w' = win_close_dirs os rest w1 \<and>
       (case r of Ok (d, h) \<Rightarrow> Inv (d # rest) w1 \<and> (h = [DOT] \<or> win_component_name h)
        | _ \<Rightarrow> Inv rest w1)"
proof (induction "total_length (w_paths st)" arbitrary: st w rule: less_induct)
  case less
  obtain out w2 where step: "win_path_step c os nf st w = (out, w2)" by force
  show ?case
  proof (cases out)
    case (W_next st')
    then have loop: "win_path_loop c os nf st' w2 = (r, w')"
      using less.prems(1) step by (subst (asm) win_path_loop.simps) simp
    have step': "win_path_step c os nf st w = (W_next st', w2)" using step W_next by simp
    show ?thesis
      by (rule less.hyps [OF win_path_step_progress [OF step'] loop step_good [OF step' less.prems(2)]])
  next
    case (W_finish r' rest)
    then have "r' = r" "w' = win_close_dirs os rest w2"
      using less.prems(1) step by (subst (asm) win_path_loop.simps, simp)+
    moreover have "win_path_step c os nf st w = (W_finish r' rest, w2)" using step W_finish by simp
    ultimately show ?thesis using finish_good [OF _ less.prems(2)] by blast
  qed
qed

lemma loop_result:
  assumes "win_path_loop c os nf \<lparr>w_dirs = [d0], w_paths = [path]\<rparr> w = (r, w')" "Inv [d0] w"
    and "valid_utf8 path"
  shows "\<exists>rest w1. w' = win_close_dirs os rest w1 \<and>
       (case r of Ok (d, h) \<Rightarrow> Inv (d # rest) w1 \<and> (h = [DOT] \<or> win_component_name h)
        | _ \<Rightarrow> Inv rest w1)"
  using loop_inv [OF assms(1)] assms(2,3) by (simp add: good_def)

end

section \<open>The stacks a call can reach\<close>

inductive win_stack_from ::
  "'z winapi_scheme \<Rightarrow> ('w, 'y) win_os_scheme \<Rightarrow> raw_fd \<Rightarrow> 'w \<Rightarrow> raw_fd list \<Rightarrow> 'w \<Rightarrow> bool"
  for c os d0 w0 where
  start: "win_stack_from c os d0 w0 [d0] w0"
| close: "win_stack_from c os d0 w0 (d # ds) w \<Longrightarrow> win_stack_from c os d0 w0 ds (sys_close os d w)"
| enter: "win_stack_from c os d0 w0 (d # ds) w \<Longrightarrow> win_component_name h \<Longrightarrow>
    win_enter c os d h w = (Ok nd, w') \<Longrightarrow> win_stack_from c os d0 w0 (nd # d # ds) w'"
| failed: "win_stack_from c os d0 w0 (d # ds) w \<Longrightarrow> win_component_name h \<Longrightarrow>
    win_enter c os d h w = (r, w') \<Longrightarrow> \<forall>x. r \<noteq> Ok x \<Longrightarrow> win_stack_from c os d0 w0 (d # ds) w'"

interpretation win_stack: win_path_inv c os "win_stack_from c os d0 w0" for c os d0 w0
  by unfold_locales (fact win_stack_from.close, fact win_stack_from.enter, fact win_stack_from.failed)

lemma win_path_get_stack:
  assumes "win_path_get c os ctx dirfd fl path nb ni nf w = (r, w')" "valid_utf8 path"
  obtains (early) "\<forall>x. r \<noteq> Ok x" "w' = w"
  | (clone_failed) f e where "sys_try_clone os f w = (Inl e, w')" "\<forall>x. r \<noteq> Ok x"
  | (resolved) f d0 w0 rest w1 fe where "sys_try_clone os f w = (Inr d0, w0)"
      "get_fd_entry ctx dirfd nb ni = Ok fe" "fo_descriptor (fe_object fe) = File f"
      "w' = win_close_dirs os rest w1"
      "case r of
         Ok (d, h) \<Rightarrow> win_stack_from c os d0 w0 (d # rest) w1 \<and> (h = [DOT] \<or> win_component_name h)
       | _ \<Rightarrow> win_stack_from c os d0 w0 rest w1"
proof -
  consider "\<forall>x. r \<noteq> Ok x" "w' = w"
    | fe f where "get_fd_entry ctx dirfd nb ni = Ok fe" "fo_descriptor (fe_object fe) = File f"
      "0 \<notin> set path"
    using assms
    by (auto simp: win_path_get_def io_bind_def split: if_splits res.splits descriptor.splits)
  then show ?thesis
  proof cases
    case 1
    then show ?thesis by (rule early)
  next
    case 2
    obtain q w0 where clone: "sys_try_clone os f w = (q, w0)" by force
    show ?thesis
    proof (cases q)
      case (Inl e)
      then have "w' = w0" "\<forall>x. r \<noteq> Ok x"
        using assms(1) 2 clone
        by (auto simp: win_path_get_def from_win_std_or_def io_bind_def split: option.splits)
      then show ?thesis using clone_failed clone Inl by simp
    next
      case (Inr d0)
      have "win_path_loop c os nf \<lparr>w_dirs = [d0], w_paths = [path]\<rparr> w0 = (r, w')"
        using assms(1) 2 clone Inr by (simp add: win_path_get_def from_win_std_or_def io_bind_def)
      from win_stack.loop_result [OF this win_stack_from.start assms(2)]
      show ?thesis
      proof (elim exE conjE)
        fix rest w1
        assume "w' = win_close_dirs os rest w1" "case r of
           Ok (d, h) \<Rightarrow> win_stack_from c os d0 w0 (d # rest) w1 \<and> (h = [DOT] \<or> win_component_name h)
         | _ \<Rightarrow> win_stack_from c os d0 w0 rest w1"
        from resolved [OF _ 2(1,2) this] clone Inr show ?thesis by simp
      qed
    qed
  qed
qed

section \<open>Open handles\<close>

text \<open>Steps that leave a quantity of the platform as it is.\<close>

definition keeps_own :: "('w \<Rightarrow> 'b) \<Rightarrow> ('w, 'a) io \<Rightarrow> bool" where
  "keeps_own own m \<longleftrightarrow> (\<forall>w r w'. m w = (r, w') \<longrightarrow> own w' = own w)"

named_theorems keeps

lemma keeps_ownD: "keeps_own own m \<Longrightarrow> m w = (r, w') \<Longrightarrow> own w' = own w"
  unfolding keeps_own_def by blast

lemma own_res [keeps]: "keeps_own own (io_res r)"
  by (simp add: keeps_own_def)

lemma own_bind [keeps]:
  assumes "keeps_own own m" "\<And>x. keeps_own own (f x)"
  shows "keeps_own own (io_bind m f)"
proof -
  have "own w' = own w" if "io_bind m f w = (r, w')" for w r w'
  proof -
    obtain q w1 where m: "m w = (q, w1)" by force
    then have "own w1 = own w" by (rule keeps_ownD [OF assms(1)])
    moreover have "own w' = own w1"
      using that m keeps_ownD [OF assms(2)] by (cases q) auto
    ultimately show ?thesis by simp
  qed
  then show ?thesis by (simp add: keeps_own_def)
qed

lemma own_call: "\<forall>w. own (snd (call w)) = own w \<Longrightarrow> keeps_own own (io_call call)"
  unfolding keeps_own_def io_call_def by (metis prod.case_eq_if prod.sel(2))

lemma keeps_winx [keeps]:
  "keeps_own own (winx_ok x)" "keeps_own own (winx_err e)" "keeps_own own (winx_last c os)"
  by (simp_all add: keeps_own_def winx_ok_def winx_err_def winx_last_def)

lemma keeps_from_win [keeps]: "keeps_own own m \<Longrightarrow> keeps_own own (from_win m)"
  unfolding from_win_def by (intro keeps)

text \<open>
  What the platform documents of open handles: a duplication and a successful \<^verbatim>\<open>CreateFileW\<close> add the
  handle they return, closing removes it, no other call changes them.
\<close>

definition win_counts :: "'z winapi_scheme \<Rightarrow> ('w, 'y) win_os_scheme \<Rightarrow> ('w \<Rightarrow> raw_fd multiset) \<Rightarrow> bool" where
  "win_counts c os own \<longleftrightarrow>
     (\<forall>f w. own (snd (sys_try_clone os f w)) =
        (case fst (sys_try_clone os f w) of Inr d \<Rightarrow> add_mset d (own w) | Inl _ \<Rightarrow> own w)) \<and>
     (\<forall>p ri sh di fl w. own (snd (sys_CreateFileW os p ri sh di fl w)) =
        (let h = fst (sys_CreateFileW os p ri sh di fl w)
         in if h = winapi_INVALID_HANDLE_VALUE c then own w else add_mset h (own w))) \<and>
     (\<forall>d n k w. own (snd (sys_GetFinalPathNameByHandleW os d n k w)) = own w) \<and>
     (\<forall>d w. own (snd (sys_GetFileType os d w)) = own w) \<and>
     (\<forall>d n k w. own (snd (sys_GetSecurityInfo os d n k w)) = own w) \<and>
     (\<forall>a w. own (snd (sys_IsValidAcl os a w)) = own w) \<and>
     (\<forall>a n w. own (snd (sys_GetAce os a n w)) = own w) \<and>
     (\<forall>d w. own (snd (sys_metadata os d w)) = own w) \<and>
     (\<forall>d w. own (sys_close os d w) = own w - {#d#})"

lemma win_counts_calls:
  assumes "win_counts c os own"
  shows "keeps_own own (io_call (sys_GetFinalPathNameByHandleW os d n k))"
    "keeps_own own (io_call (sys_GetFileType os d))"
    "keeps_own own (io_call (sys_GetSecurityInfo os d n k))"
    "keeps_own own (io_call (sys_IsValidAcl os a))"
    "keeps_own own (io_call (sys_GetAce os a m))"
  using assms by (simp_all add: win_counts_def own_call)

lemma win_counts_create:
  assumes "win_counts c os own" "sys_CreateFileW os p ri sh di fl w = (h, w')"
  shows "own w' = (if h = winapi_INVALID_HANDLE_VALUE c then own w else add_mset h (own w))"
proof -
  have "own (snd (sys_CreateFileW os p ri sh di fl w)) =
        (let h = fst (sys_CreateFileW os p ri sh di fl w)
         in if h = winapi_INVALID_HANDLE_VALUE c then own w else add_mset h (own w))"
    using assms(1) by (simp add: win_counts_def)
  then show ?thesis using assms(2) by (simp add: Let_def)
qed

lemma win_counts_clone:
  assumes "win_counts c os own" "sys_try_clone os f w = (r, w')"
  shows "own w' = (case r of Inr d \<Rightarrow> add_mset d (own w) | Inl _ \<Rightarrow> own w)"
proof -
  have "own (snd (sys_try_clone os f w)) =
      (case fst (sys_try_clone os f w) of Inr d \<Rightarrow> add_mset d (own w) | Inl _ \<Rightarrow> own w)"
    using assms(1) by (simp add: win_counts_def)
  then show ?thesis using assms(2) by simp
qed

lemma win_counts_metadata:
  assumes "win_counts c os own" "sys_metadata os d w = (r, w')"
  shows "own w' = own w"
proof -
  have "own (snd (sys_metadata os d w)) = own w" using assms(1) by (simp add: win_counts_def)
  then show ?thesis using assms(2) by simp
qed

lemma win_counts_close: "win_counts c os own \<Longrightarrow> own (sys_close os d w) = own w - {#d#}"
  by (simp add: win_counts_def)

lemma keeps_winx_bind [keeps]:
  assumes "keeps_own own m" "\<And>x. keeps_own own (f x)"
  shows "keeps_own own (winx_bind m f)"
  unfolding winx_bind_def using assms(2)
  by (intro keeps assms(1)) (simp split: sum.split add: keeps_winx)

lemma keeps_winx_last [keeps]: "keeps_own own (winx_last c os)"
  by (simp add: keeps_own_def winx_last_def winx_err_def)

lemma keeps_out_path:
  assumes "win_counts c os own"
  shows "keeps_own own (winx_out_path c os d p)"
proof -
  have "keeps_own own (get_path_by_handle c os d)"
    unfolding get_path_by_handle_def
    by (intro keeps win_counts_calls [OF assms]) (auto intro: keeps split: prod.split)
  then show ?thesis unfolding winx_out_path_def by (auto intro!: keeps)
qed

lemma counts_winx_openat:
  assumes "win_counts c os own" "winx_openat c os d p ri di fl w = (r, w')"
  shows "own w' = (case r of Ok (Inr h) \<Rightarrow> add_mset h (own w) | _ \<Rightarrow> own w)"
proof -
  obtain q w1 where q: "winx_out_path c os d p w = (q, w1)" by force
  have w1: "own w1 = own w" by (rule keeps_ownD [OF keeps_out_path [OF assms(1)] q])
  show ?thesis
  proof (cases "\<exists>x. q = Ok (Inr x) \<and> (\<exists>raw. strip_extended_prefix x = Ok raw)")
    case True
    then obtain x raw where x: "q = Ok (Inr x)" "strip_extended_prefix x = Ok raw" by blast
    obtain h w2 where h: "sys_CreateFileW os (str_to_wide raw) ri (ShareMode_ALL c)
        (disposition_code c di) fl w1 = (h, w2)" by force
    show ?thesis
      using assms(2) q x h win_counts_create [OF assms(1) h] w1
      by (auto simp: winx_openat_def winx_bind_def io_bind_def io_call_def winx_last_def winx_ok_def
          winx_err_def split: if_splits)
  next
    case False
    then show ?thesis
      using assms(2) q w1
      by (auto simp: winx_openat_def winx_bind_def io_bind_def winx_err_def
          split: res.splits sum.splits)
  qed
qed

lemma counts_win_openat:
  assumes "win_counts c os own" "from_win (winx_openat c os d p ri di fl) w = (r, w')"
  shows "own w' = (case r of Ok h \<Rightarrow> add_mset h (own w) | _ \<Rightarrow> own w)"
proof -
  obtain q where q: "winx_openat c os d p ri di fl w = (q, w')"
      "r = (case q of Ok (Inr h) \<Rightarrow> Ok h | Ok (Inl e) \<Rightarrow> Err (errno_from_win e) | Err e \<Rightarrow> Err e | Panic \<Rightarrow> Panic)"
    using assms(2) by (auto simp: from_win_def io_bind_def split: prod.splits res.splits sum.splits)
  show ?thesis using counts_winx_openat [OF assms(1) q(1)] q(2) by (auto split: res.splits sum.splits)
qed

lemma counts_win_stack:
  assumes "win_counts c os own" "own w0 = add_mset d0 base" "win_stack_from c os d0 w0 ds w"
  shows "own w = base + mset ds"
  using assms(3)
proof (induction rule: win_stack_from.induct)
  case (close d ds w)
  then show ?case using win_counts_close [OF assms(1)] by simp
next
  case (enter d ds w h nd w')
  then show ?case using counts_win_openat [OF assms(1) enter(3)] by simp
next
  case (failed d ds w h r w')
  then show ?case using counts_win_openat [OF assms(1) failed(3)] by (cases r) auto
qed (simp add: assms(2))

lemma counts_win_close_dirs:
  "win_counts c os own \<Longrightarrow> own (win_close_dirs os ds w) = own w - mset ds"
  by (induction ds arbitrary: w) (simp_all add: win_close_dirs_def win_counts_close)

lemma win_path_get_counts:
  assumes "win_counts c os own" "valid_utf8 path"
    and "win_path_get c os ctx dirfd fl path nb ni nf w = (r, w')"
  shows "own w' = (case r of Ok (d, _) \<Rightarrow> add_mset d (own w) | _ \<Rightarrow> own w)"
  using assms(3,2)
proof (cases rule: win_path_get_stack)
  case early
  then show ?thesis by (cases r) auto
next
  case (clone_failed f e)
  then have "own w' = own w" using win_counts_clone [OF assms(1) clone_failed(1)] by simp
  then show ?thesis using clone_failed(2) by (cases r) auto
next
  case (resolved f d0 w0 rest w1 fe)
  have "own w0 = add_mset d0 (own w)" using win_counts_clone [OF assms(1) resolved(1)] by simp
  then show ?thesis
    using counts_win_stack [OF assms(1)] counts_win_close_dirs [OF assms(1), of rest w1] resolved(4,5)
    by (auto split: res.splits)
qed

lemma keeps_determine_type_rights:
  assumes "win_counts c os own"
  shows "keeps_own own (win_determine_type_rights c os d)"
proof -
  have f: "keeps_own own (get_file_type c os d)"
    unfolding get_file_type_def
    by (intro keeps win_counts_calls [OF assms])
      (auto simp: keeps_own_def Let_def winx_err_def winx_ok_def)
  have m: "keeps_own own (\<lambda>w. case sys_metadata os d w of
       (Inl _, w') \<Rightarrow> (Err WASI_EINVAL, w')
     | (Inr meta, w') \<Rightarrow> (g meta, w'))"
    for g :: "metadata \<Rightarrow> (wasi_filetype_t \<times> wasi_rights_t \<times> wasi_rights_t) res"
    by (auto simp: keeps_own_def split: prod.splits sum.splits dest: win_counts_metadata [OF assms])
  show ?thesis
    unfolding win_determine_type_rights_def
    by (intro keeps f) (auto intro!: keeps m)
qed

lemma keeps_determine_access:
  assumes "win_counts c os own"
  shows "keeps_own own (win_determine_type_and_access_rights c os d)"
proof -
  have "keeps_own own (get_file_access_rights c os d)"
    unfolding get_file_access_rights_def
    by (intro keeps win_counts_calls [OF assms])
      (auto simp: Let_def intro!: keeps win_counts_calls [OF assms] split: prod.split)
  then show ?thesis
    unfolding win_determine_type_and_access_rights_def
    by (intro keeps keeps_determine_type_rights [OF assms]) (auto simp: Let_def intro!: keeps split: prod.split)
qed

text \<open>The entry made for a file owns it; when there is none, the file is closed.\<close>

lemma win_open_entry_counts:
  assumes "win_counts c os own" "win_open_entry c os file w = (r, w')"
  shows "case r of Ok fe \<Rightarrow> own w' = own w \<and> fo_descriptor (fe_object fe) = File file
    | _ \<Rightarrow> own w' = own w - {#file#}"
proof -
  obtain q w1 where q: "win_determine_type_rights c os file w = (q, w1)" by force
  obtain q2 w2 where q2: "win_determine_type_and_access_rights c os file w1 = (q2, w2)" by force
  have o: "own w1 = own w" "own w2 = own w"
    using keeps_ownD [OF keeps_determine_type_rights [OF assms(1)] q]
      keeps_ownD [OF keeps_determine_access [OF assms(1)] q2] by simp_all
  show ?thesis
  proof (cases q)
    case (Ok x)
    then show ?thesis
      using assms(2) q q2 o win_counts_close [OF assms(1)]
      by (cases q2) (auto simp: win_open_entry_def win_fdentry_from_def io_bind_def io_map_def
          io_on_fail_def new_entry_def split: prod.splits)
  qed (use assms(2) q o win_counts_close [OF assms(1)] in
      \<open>auto simp: win_open_entry_def io_bind_def io_on_fail_def\<close>)
qed

text \<open>
  C21. Opening a path leaks no handle: on success the platform has exactly one handle more, which the
  new entry owns; on any error or panic it has the same ones.
\<close>

theorem win_path_open_leaks_nothing:
  assumes "win_counts c os own" "valid_utf8 path"
    and "win_path_open c os ctx dirfd dirflags path oflags rd wr nb ni fdflags w = (r, w')"
  shows "case r of
      Ok fe \<Rightarrow> \<exists>file. fo_descriptor (fe_object fe) = File file \<and> own w' = add_mset file (own w)
    | _ \<Rightarrow> own w' = own w"
proof -
  obtain disp attrs0 where ofl: "win_from_oflags c oflags = (disp, attrs0)" by force
  obtain fr fa where fd: "win_from_fdflags c fdflags = (fr, fa)" by force
  let ?rights = "win_open_rights c rd wr OR fr" and ?attrs = "attrs0 OR fa"
  obtain q w1 where q: "win_path_get c os ctx dirfd dirflags path (win_needed_base disp nb)
      (win_needed_inheriting c ?rights ni)
      (\<not> contains ?attrs (winapi_FILE_FLAG_BACKUP_SEMANTICS c)) w = (q, w1)" by force
  note unfolds = win_path_open_def ofl fd Let_def prod.case
  show ?thesis
  proof (cases q)
    case (Ok dh)
    obtain d h where dh: "dh = (d, h)" by force
    obtain q2 w2 where q2: "from_win (winx_openat c os d (encode_wide h) ?rights disp ?attrs) w1 = (q2, w2)"
      by force
    have w1: "own w1 = add_mset d (own w)" using win_path_get_counts [OF assms(1,2) q] Ok dh by simp
    note w2 = counts_win_openat [OF assms(1) q2]
    have r: "(r, w') = with_file os d (\<lambda>w. io_bind (\<lambda>_. (q2, w2)) (win_open_entry c os) w) w1"
      using assms(3) q Ok dh q2 unfolding unfolds by (simp add: with_file_def io_bind_def)
    show ?thesis
    proof (cases q2)
      case (Ok nh)
      obtain r3 w3 where r3: "win_open_entry c os nh w2 = (r3, w3)" by force
      have "r = r3" "w' = sys_close os d w3"
        using r r3 Ok by (simp_all add: with_file_def)
      then show ?thesis
        using win_open_entry_counts [OF assms(1) r3] w2 w1 Ok win_counts_close [OF assms(1), of d w3]
        by (auto split: res.splits)
    qed (use r w1 w2 win_counts_close [OF assms(1), of d w2] in
        \<open>auto simp: with_file_def io_bind_def\<close>)
  qed (use assms(3) q win_path_get_counts [OF assms(1,2) q] in \<open>auto simp: unfolds\<close>)
qed

section \<open>Where an open goes\<close>

lemma strip_verbatim [simp]:
  "strip_extended_prefix ([92, 92, 63, 92] @ q) = Ok (q @ [0])"
  by (simp add: strip_extended_prefix_def str_to_wide_def)

text \<open>
  C22. A component is opened below the directory: the path given to the platform is that of the
  directory without its \<^verbatim>\<open>\\?\\\<close> prefix, a separator and the component, whatever characters the
  component has; and the handle or the last error is returned.
\<close>

theorem win_component_opened_below:
  assumes "win_component_name h" "get_path_by_handle c os d w = (Ok (Inr ([92, 92, 63, 92] @ q)), w1)"
    and "q \<noteq> []" "\<not> is_sep (last q)"
  shows "winx_openat c os d (encode_wide h) rights disp attrs w =
    (case sys_CreateFileW os (q @ [92] @ encode_wide h @ [0, 0]) rights (ShareMode_ALL c)
        (disposition_code c disp) attrs w1 of
       (handle, w2) \<Rightarrow>
         if handle = winapi_INVALID_HANDLE_VALUE c then (Ok (Inl (win_last c os w2)), w2)
         else (Ok (Inr handle), w2))"
proof -
  let ?dir = "[92, 92, 63, 92] @ q"
  have rel: "\<not> is_absolute (encode_wide h)"
    using plain_start_relative [OF plain_start_wide [OF win_component_plain_start [OF assms(1)]]] by simp
  have "last ?dir = last q" using assms(3) by simp
  then have push: "path_push ?dir (encode_wide h) = [92, 92, 63, 92] @ (q @ [92] @ encode_wide h)"
    using path_push_component [OF assms(1), of ?dir] assms(4) verbatim_no_drive [of q]
    by (auto split: option.splits)
  have out: "winx_out_path c os d (encode_wide h) w =
      (Ok (Inr ([92, 92, 63, 92] @ (q @ [92] @ encode_wide h))), w1)"
    using assms(2) rel push by (simp add: winx_out_path_def winx_bind_def io_bind_def winx_ok_def)
  have "strip_extended_prefix ([92, 92, 63, 92] @ (q @ [92] @ encode_wide h)) =
      Ok (q @ [92] @ encode_wide h @ [0])"
    by (subst strip_verbatim) simp
  then show ?thesis
    using out
    by (simp add: winx_openat_def winx_bind_def io_bind_def io_call_def str_to_wide_def winx_last_def
        winx_err_def winx_ok_def split: prod.split)
qed

section \<open>Confinement\<close>

text \<open>
  A property of handles that the platform keeps: opening a component below a handle that has it gives
  a fresh handle that has it.  Opening follows links, so that \<open>P\<close> can say that a directory lies below
  the preopened one only if no link leads out of it.
\<close>

definition win_keeps_inside ::
  "'z winapi_scheme \<Rightarrow> ('w, 'y) win_os_scheme \<Rightarrow> ('w \<Rightarrow> raw_fd \<Rightarrow> bool) \<Rightarrow> bool" where
  "win_keeps_inside c os P \<longleftrightarrow>
     (\<forall>d h w nd w'. P w d \<longrightarrow> win_component_name h \<longrightarrow> win_enter c os d h w = (Ok nd, w') \<longrightarrow>
        \<not> P w nd \<and> P w' nd \<and> (\<forall>x. P w x \<longrightarrow> P w' x)) \<and>
     (\<forall>d h w r w'. win_enter c os d h w = (r, w') \<longrightarrow> (\<forall>x. r \<noteq> Ok x) \<longrightarrow> (\<forall>x. P w x \<longrightarrow> P w' x)) \<and>
     (\<forall>d w x. x \<noteq> d \<longrightarrow> P w x \<longrightarrow> P (sys_close os d w) x)"

lemma win_keeps_enter:
  "win_keeps_inside c os P \<Longrightarrow> P w d \<Longrightarrow> win_component_name h \<Longrightarrow> win_enter c os d h w = (Ok nd, w') \<Longrightarrow>
     \<not> P w nd \<and> P w' nd \<and> (\<forall>x. P w x \<longrightarrow> P w' x)"
  unfolding win_keeps_inside_def by blast

lemma win_keeps_failed:
  "win_keeps_inside c os P \<Longrightarrow> win_enter c os d h w = (r, w') \<Longrightarrow> \<forall>x. r \<noteq> Ok x \<Longrightarrow> P w x \<Longrightarrow> P w' x"
  unfolding win_keeps_inside_def by blast

lemma win_keeps_close:
  "win_keeps_inside c os P \<Longrightarrow> x \<noteq> d \<Longrightarrow> P w x \<Longrightarrow> P (sys_close os d w) x"
  unfolding win_keeps_inside_def by blast

lemma win_inside_stack:
  assumes "win_keeps_inside c os P" "P w0 d0" "win_stack_from c os d0 w0 ds w"
  shows "distinct ds \<and> list_all (P w) ds"
  using assms(3)
proof (induction rule: win_stack_from.induct)
  case (close d ds w)
  then have "d \<notin> set ds" "distinct ds" "list_all (P w) ds" by simp_all
  then have "P (sys_close os d w) x" if "x \<in> set ds" for x
    using that by (intro win_keeps_close [OF assms(1)]) (auto simp: list_all_iff)
  then show ?case using \<open>distinct ds\<close> by (simp add: list_all_iff)
next
  case (enter d ds w h nd w')
  then have "\<not> P w nd" "P w' nd" "\<forall>x. P w x \<longrightarrow> P w' x"
    using win_keeps_enter [OF assms(1) _ enter(2,3)] by simp_all
  then show ?case using enter(4) by (auto simp: list_all_iff)
next
  case (failed d ds w h r w')
  then show ?case using win_keeps_failed [OF assms(1) failed(3,4)] by (simp add: list_all_iff)
qed (simp add: assms(2))

lemma win_inside_close_dirs:
  assumes "win_keeps_inside c os P" "P w x" "x \<notin> set ds"
  shows "P (win_close_dirs os ds w) x"
  using assms(2,3)
proof (induction ds arbitrary: w rule: rev_induct)
  case (snoc d ds)
  have "P (sys_close os d w) x" using snoc.prems by (intro win_keeps_close [OF assms(1)]) auto
  then show ?case using snoc.IH snoc.prems(2) by (simp add: win_close_dirs_def)
qed (simp add: win_close_dirs_def)

text \<open>
  C20. On Windows too, the directory a path resolves to is reached from the guest's directory by
  opening plain components only, and the name left to open is a component or \<^verbatim>\<open>.\<close>: it has no drive,
  no root, no separator but one at its end, and is not \<^verbatim>\<open>..\<close>.
\<close>

theorem win_path_get_confined:
  assumes "win_keeps_inside c os P" "valid_utf8 path"
    and "\<And>fe f d0 w0. get_fd_entry ctx dirfd nb ni = Ok fe \<Longrightarrow>
      fo_descriptor (fe_object fe) = File f \<Longrightarrow> sys_try_clone os f w = (Inr d0, w0) \<Longrightarrow> P w0 d0"
    and "win_path_get c os ctx dirfd dirflags path nb ni nf w = (Ok (d, h), w')"
  shows "P w' d \<and> (h = [DOT] \<or> win_component_name h)"
  using assms(4,2)
proof (cases rule: win_path_get_stack)
  case (resolved f d0 w0 rest w1 fe)
  have s: "win_stack_from c os d0 w0 (d # rest) w1" "h = [DOT] \<or> win_component_name h"
    using resolved(5) by simp_all
  have "P w0 d0" using assms(3) resolved(1-3) by blast
  from win_inside_stack [OF assms(1) this s(1)] have "P w1 d" "d \<notin> set rest" by auto
  then show ?thesis
    using win_inside_close_dirs [OF assms(1)] s(2) resolved(4) by auto
qed simp_all

section \<open>Access at an offset\<close>

text \<open>
  The cursor of a handle as \<^verbatim>\<open>Seek\<close> and \<^verbatim>\<open>FileExt\<close> document it: reading and writing at an offset
  move the cursor of that file only, seeking to a position sets it.
\<close>

definition seeks_cursor :: "('w, 'y) win_os_scheme \<Rightarrow> ('w \<Rightarrow> raw_fd \<Rightarrow> u64) \<Rightarrow> bool" where
  "seeks_cursor os cur \<longleftrightarrow>
     (\<forall>f w p w'. sys_seek os f (FromCurrent 0) w = (Inr p, w') \<longrightarrow> p = cur w f \<and> cur w' = cur w) \<and>
     (\<forall>f p w q w'. sys_seek os f (FromStart p) w = (Inr q, w') \<longrightarrow> cur w' = (cur w)(f := p)) \<and>
     (\<forall>f n off w r w'. sys_seek_read os f n off w = (r, w') \<longrightarrow> (\<exists>p. cur w' = (cur w)(f := p))) \<and>
     (\<forall>f bs off w r w'. sys_seek_write os f bs off w = (r, w') \<longrightarrow> (\<exists>p. cur w' = (cur w)(f := p)))"

lemma seeks_current:
  "seeks_cursor os cur \<Longrightarrow> sys_seek os f (FromCurrent 0) w = (Inr p, w') \<Longrightarrow> p = cur w f \<and> cur w' = cur w"
  unfolding seeks_cursor_def by metis

lemma seeks_start:
  "seeks_cursor os cur \<Longrightarrow> sys_seek os f (FromStart p) w = (Inr q, w') \<Longrightarrow> cur w' = (cur w)(f := p)"
  unfolding seeks_cursor_def by metis

lemma seeks_read:
  "seeks_cursor os cur \<Longrightarrow> sys_seek_read os f n off w = (r, w') \<Longrightarrow> \<exists>p. cur w' = (cur w)(f := p)"
  unfolding seeks_cursor_def by metis

lemma seeks_write:
  "seeks_cursor os cur \<Longrightarrow> sys_seek_write os f bs off w = (r, w') \<Longrightarrow> \<exists>p. cur w' = (cur w)(f := p)"
  unfolding seeks_cursor_def by metis

lemma std_bind_Inr:
  "std_bind m f w = (Inr y, w') \<longleftrightarrow> (\<exists>x w1. m w = (Inr x, w1) \<and> f x w1 = (Inr y, w'))"
  by (auto simp: std_bind_def split: prod.splits sum.splits)

lemma from_win_std_or_Ok: "from_win_std_or c e m w = (Ok x, w') \<longleftrightarrow> m w = (Inr x, w')"
  by (auto simp: from_win_std_or_def split: prod.splits sum.splits option.splits)

text \<open>Moving the cursor away and back leaves every cursor as it was.\<close>

lemma cursor_restored:
  assumes "seeks_cursor os cur" "sys_seek os f (FromCurrent 0) w = (Inr p, w1)"
    and "\<exists>p. cur w2 = (cur w1)(f := p)" "sys_seek os f (FromStart p) w2 = (Inr q, w3)"
  shows "cur w1 = cur w \<and> cur w3 = cur w"
  using seeks_current [OF assms(1,2)] seeks_start [OF assms(1,4)] assms(3) by auto

text \<open>
  C23. Reading or writing at an offset, if it succeeds, leaves the cursor of every file where it was,
  and returns what one read or write at that offset gave.  If the access itself fails, nothing is
  restored: the call fails in the state the access left behind.
\<close>

theorem win_positioned_access_keeps_cursor:
  assumes "seeks_cursor os cur"
  shows "(win_fd_pread c os f n off w = (Ok bs, w') \<longrightarrow> cur w' = cur w \<and>
      (\<exists>w1 w2. cur w1 = cur w \<and> sys_seek_read os f n off w1 = (Inr bs, w2))) \<and>
    (win_fd_pwrite c os f out off w = (Ok k, w') \<longrightarrow> cur w' = cur w \<and>
      (\<exists>w1 w2. cur w1 = cur w \<and> sys_seek_write os f out off w1 = (Inr k, w2))) \<and>
    (\<forall>p w1 e w2. sys_seek os f (FromCurrent 0) w = (Inr p, w1) \<longrightarrow>
      (sys_seek_read os f n off w1 = (Inl e, w2) \<longrightarrow>
         (\<exists>x. win_fd_pread c os f n off w = (Err x, w2))) \<and>
      (sys_seek_write os f out off w1 = (Inl e, w2) \<longrightarrow>
         (\<exists>x. win_fd_pwrite c os f out off w = (Err x, w2))))"
proof (intro conjI impI allI)
  assume "win_fd_pread c os f n off w = (Ok bs, w')"
  then obtain p w1 w2 q where r: "sys_seek os f (FromCurrent 0) w = (Inr p, w1)"
      "sys_seek_read os f n off w1 = (Inr bs, w2)" "sys_seek os f (FromStart p) w2 = (Inr q, w')"
    by (auto simp: win_fd_pread_def from_win_std_or_Ok win_read_at_def std_bind_Inr std_ok_def)
  from cursor_restored [OF assms r(1) seeks_read [OF assms r(2)] r(3)]
  show "cur w' = cur w" "\<exists>w1 w2. cur w1 = cur w \<and> sys_seek_read os f n off w1 = (Inr bs, w2)"
    using r(2) by auto
next
  assume "win_fd_pwrite c os f out off w = (Ok k, w')"
  then obtain p w1 w2 q where r: "sys_seek os f (FromCurrent 0) w = (Inr p, w1)"
      "sys_seek_write os f out off w1 = (Inr k, w2)" "sys_seek os f (FromStart p) w2 = (Inr q, w')"
    by (auto simp: win_fd_pwrite_def from_win_std_or_Ok win_write_at_def std_bind_Inr std_ok_def)
  from cursor_restored [OF assms r(1) seeks_write [OF assms r(2)] r(3)]
  show "cur w' = cur w" "\<exists>w1 w2. cur w1 = cur w \<and> sys_seek_write os f out off w1 = (Inr k, w2)"
    using r(2) by auto
next
  fix p w1 e w2
  assume p: "sys_seek os f (FromCurrent 0) w = (Inr p, w1)"
  show "\<exists>x. win_fd_pread c os f n off w = (Err x, w2)" if "sys_seek_read os f n off w1 = (Inl e, w2)"
    using p that by (auto simp: win_fd_pread_def win_read_at_def std_bind_def from_win_std_or_def
        split: option.splits)
  show "\<exists>x. win_fd_pwrite c os f out off w = (Err x, w2)" if "sys_seek_write os f out off w1 = (Inl e, w2)"
    using p that by (auto simp: win_fd_pwrite_def win_write_at_def std_bind_def from_win_std_or_def
        split: option.splits)
qed

section \<open>Opens that fail\<close>

text \<open>
  C36. The errors after the ninth arm of the translation are all reported as \<^verbatim>\<open>ENODEV\<close>: creating a
  file exclusively where one exists, for instance, is not answered with \<^verbatim>\<open>EEXIST\<close>.
\<close>

theorem win_path_open_reports_enodev:
  assumes "win_from_oflags c oflags = (disp, attrs0)" "win_from_fdflags c fdflags = (fr, fa)"
    and "win_path_get c os ctx dirfd dirflags path (win_needed_base disp nb)
      (win_needed_inheriting c (win_open_rights c rd wr OR fr) ni)
      (\<not> contains (attrs0 OR fa) (winapi_FILE_FLAG_BACKUP_SEMANTICS c)) w = (Ok (d, h), w1)"
    and "winx_openat c os d (encode_wide h) (win_open_rights c rd wr OR fr) disp (attrs0 OR fa) w1 =
      (Ok (Inl err), w2)"
    and "err \<in> {ERROR_FILE_EXISTS, ERROR_NOT_READY, ERROR_BUSY, ERROR_NOT_SUPPORTED,
      ERROR_BROKEN_PIPE, ERROR_BUFFER_OVERFLOW, ERROR_LABEL_TOO_LONG, UnknownError}"
  shows "win_path_open c os ctx dirfd dirflags path oflags rd wr nb ni fdflags w =
    (Err WASI_ENODEV, sys_close os d w2)"
proof -
  have "errno_from_win err = WASI_ENODEV" using assms(5) by (auto simp: errno_from_win_def)
  then show ?thesis
    using assms(1-4)
    by (simp add: win_path_open_def Let_def with_file_def from_win_def io_bind_def)
qed

text \<open>Both generic rights contain \<^verbatim>\<open>SYNCHRONIZE\<close>.\<close>

lemma open_rights_synchronize:
  assumes "rd \<or> wr"
  shows "contains (win_open_rights c rd wr OR x) (winapi_SYNCHRONIZE c)"
proof -
  have "bit (win_open_rights c rd wr) n" if "bit (winapi_SYNCHRONIZE c) n" for n
    using assms that
    by (auto simp: win_open_rights_def AccessRight_FILE_GENERIC_READ_def
        AccessRight_FILE_GENERIC_WRITE_def bit_or_iff)
  then show ?thesis
    unfolding contains_def by (intro bit_eqI) (auto simp: bit_and_iff bit_or_iff)
qed

lemma missing_right:
  fixes r :: "'a::len word"
  assumes "have_rights AND r = 0" "r \<noteq> 0"
  shows "NOT have_rights AND (x OR r) \<noteq> 0"
proof
  assume zero: "NOT have_rights AND (x OR r) = 0"
  obtain n where n: "bit r n" using assms(2) bit_eqI [of r 0] by auto
  have "\<not> bit (have_rights AND r) n" using assms(1) by simp
  then have "\<not> bit have_rights n" using n by (simp add: bit_and_iff)
  then have "bit (NOT have_rights AND (x OR r)) n"
    using n bit_imp_possible_bit [OF n] by (simp add: bit_and_iff bit_or_iff bit_not_iff)
  then show False using zero by simp
qed

text \<open>
  C37. Opening for reading or writing needs a directory that may inherit \<^verbatim>\<open>FD_SYNC\<close>: the access
  rights of the open contain \<^verbatim>\<open>SYNCHRONIZE\<close>, which is taken for a synchronous open.
\<close>

theorem win_path_open_needs_sync:
  assumes "rd \<or> wr" "0 \<notin> set path"
    and "hm_get (fds ctx) dirfd = Some fe" "fe_rights_inheriting fe AND WASI_RIGHT_FD_SYNC = 0"
  shows "win_path_open c os ctx dirfd dirflags path oflags rd wr nb ni fdflags w =
    (Err WASI_ENOTCAPABLE, w)"
proof -
  obtain disp attrs0 where ofl: "win_from_oflags c oflags = (disp, attrs0)" by force
  obtain fr fa where fd: "win_from_fdflags c fdflags = (fr, fa)" by force
  have "NOT (fe_rights_inheriting fe) AND
      win_needed_inheriting c (win_open_rights c rd wr OR fr) ni \<noteq> 0"
  proof -
    have "WASI_RIGHT_FD_SYNC \<noteq> 0" by (simp add: wasi_const)
    from missing_right [OF assms(4) this, of "ni OR WASI_RIGHT_FD_DATASYNC"]
    show ?thesis
      by (simp add: win_needed_inheriting_def or.assoc open_rights_synchronize [OF assms(1)])
  qed
  then have "get_fd_entry ctx dirfd b (win_needed_inheriting c (win_open_rights c rd wr OR fr) ni) =
      Err WASI_ENOTCAPABLE" for b
    using assms(3) by (simp add: get_fd_entry_def validate_rights_def)
  then show ?thesis
    using ofl fd assms(2) by (simp add: win_path_open_def Let_def win_path_get_def io_bind_def)
qed

end
