(* ===== verification/Windows_Examples.thy ===== *)
theory Windows_Examples
  imports Windows_Laws Example_Os
begin

text \<open>
  Example platforms for the Windows backend, on which its properties are applied: one where every
  open succeeds, one with a cursor for each handle, one where every file exists.
\<close>

definition idle_win_os :: "'w win_os" where
  "idle_win_os = std_os.extend idle_std_os (win_os.fields
     (\<lambda>_. 0)
     (\<lambda>_ w. (1, w))
     (\<lambda>_ _ _ w. ((0, 1), w))
     (\<lambda>_ w. (True, w))
     (\<lambda>_ _ w. ((True, 0x1FF), w))
     (\<lambda>_ _ _ w. ((6, [92, 92, 63, 92, 67, 58, 92, 100]), w))
     (\<lambda>_ _ _ _ _ w. (- 1, w))
     (\<lambda>_ _ w. (Inl (Some 5), w))
     (\<lambda>_ _ w. (Inl (Some 5), w))
     (\<lambda>_ _ _ w. (Inl (Some 5), w))
     (\<lambda>_ _ _ w. (Inl (Some 5), w))
     10 11 12)"

definition house_os :: "raw_fd list win_os" where
  "house_os = idle_win_os\<lparr>
     sys_close := \<lambda>d w. remove1 d w,
     sys_try_clone := \<lambda>_ w. (Inr (fresh w), fresh w # w),
     sys_metadata := \<lambda>_ w. (Inr \<lparr>md_file_type = Ft_dir, md_len = 0\<rparr>, w),
     sys_GetFinalPathNameByHandleW := \<lambda>_ _ _ w. ((8, [92, 92, 63, 92, 67, 58, 92, 100]), w),
     sys_CreateFileW := \<lambda>p _ _ _ _ w. (fresh w, fresh w # w)\<rparr>"

lemma windows_invalid [simp]: "winapi_INVALID_HANDLE_VALUE windows_consts = - 1"
  by (simp add: windows_consts_def winapi.defs win_codes.defs windows_codes_def)

lemma house_path [simp]:
  "get_path_by_handle c house_os d w = (Ok (Inr [92, 92, 63, 92, 67, 58, 92, 100]), w)"
  by (simp add: get_path_by_handle_def house_os_def idle_win_os_def io_bind_def io_call_def
      WIDE_MAX_PATH_def winx_ok_def std_os.defs win_os.defs)

lemma house_calls [simp]:
  "sys_try_clone house_os f w = (Inr (fresh w), fresh w # w)"
  "sys_close house_os d w = remove1 d w"
  "sys_CreateFileW house_os p ri sh di fl w = (fresh w, fresh w # w)"
  by (simp_all add: house_os_def)

lemma fresh_pos: "0 < fresh w"
  by (induction w) auto

lemma fresh_valid [simp]: "fresh w \<noteq> - 1"
  using fresh_pos [of w] by simp

lemma house_enter:
  assumes "win_component_name h"
  shows "from_win (winx_openat windows_consts house_os d (encode_wide h) ri di fl) w = (Ok (fresh w), fresh w # w)"
  using win_component_opened_below [OF assms, of windows_consts house_os d w "[67, 58, 92, 100]" w]
  by (simp add: from_win_def io_bind_def is_sep_def)

lemma plain_letters [simp]: "win_component_name [97]" "win_component_name [98]"
proof -
  have "win_plain [97]" "valid_utf8 [97]" "win_plain [98]" "valid_utf8 [98]" by code_simp+
  then show "win_component_name [97]" "win_component_name [98]"
    unfolding win_component_name_def by blast+
qed

lemma letters_path [simp]:
  "win_path_next [97, 47, 98] = Some (W_Normal [97], [98])" "win_path_next [98] = Some (W_Normal [98], [])"
  "ends_with_slash [97, 47, 98] = False" "ends_with_slash [98] = False"
  "valid_utf8 [97]" "valid_utf8 [98]" "valid_utf8 [97, 47, 98]"
  by code_simp+

lemmas win_get_simps = win_path_get_def from_win_std_or_def io_bind_def win_path_loop.simps
  win_path_step_def win_push_tail_Ok win_normal_step_def win_found_def win_close_dirs_def

lemma house_get:
  "win_path_get windows_consts house_os desk_ctx 3 0 [97, 47, 98] 0 0 True [] = (Ok (2, [98]), [2])"
  by (simp add: win_get_simps house_enter)

lemma house_counts: "win_counts windows_consts house_os mset"
  by (simp add: win_counts_def house_os_def idle_win_os_def idle_std_os_def std_os.defs win_os.defs)

lemma house_keeps: "win_keeps_inside windows_consts house_os (\<lambda>w d. d \<in> set w)"
proof -
  have ok: "win_enter windows_consts house_os d h w = (r, w') \<Longrightarrow>
      r = Ok (fresh w) \<and> w' = fresh w # w \<or> (\<forall>x. r \<noteq> Ok x) \<and> w' = w" for d h w r w'
    by (auto simp: from_win_def io_bind_def winx_openat_def winx_bind_def winx_out_path_def winx_ok_def
        winx_err_def io_call_def split: if_splits res.splits)
  show ?thesis unfolding win_keeps_inside_def by (auto dest!: ok)
qed

lemma win_path_open_leaks_nothing_witness:
  "win_counts windows_consts house_os mset \<and>
    (case win_path_open windows_consts house_os desk_ctx 3 0 [97, 47, 98] 0 False False 0 0 0 [] of
       (Ok fe, w') \<Rightarrow> \<exists>file. fo_descriptor (fe_object fe) = File file \<and> mset w' = {#file#}
     | (_, w') \<Rightarrow> mset w' = {#})"
proof -
  obtain r w' where o: "win_path_open windows_consts house_os desk_ctx 3 0 [97, 47, 98] 0 False False
      0 0 0 [] = (r, w')" by force
  show ?thesis
    using win_path_open_leaks_nothing [OF house_counts _ o] house_counts o by (cases r) auto
qed

lemma win_component_opened_below_witness:
  "winx_openat windows_consts house_os 1 (encode_wide [97]) 0 OPEN_EXISTING 0 [1] = (Ok (Inr 2), [2, 1])"
  using win_component_opened_below [of "[97]" windows_consts house_os 1 "[1]" "[67, 58, 92, 100]" "[1]"]
  by (simp add: is_sep_def)

lemma win_path_get_confined_witness:
  "win_path_get windows_consts house_os desk_ctx 3 0 [97, 47, 98] 0 0 True [] = (Ok (2, [98]), [2]) \<and>
     2 \<in> set [2 :: raw_fd] \<and> ([98] = [DOT] \<or> win_component_name [98])"
  using win_path_get_confined [OF house_keeps _ _ house_get] house_get by auto

text \<open>
  A platform with a cursor for each handle; an access at an offset moves it behind the data, and one
  of more than two bytes fails where it was moved to.
\<close>

definition cursor_os :: "(raw_fd \<Rightarrow> u64) win_os" where
  "cursor_os = idle_win_os\<lparr>
     sys_seek := \<lambda>f s w. (case s of FromStart p \<Rightarrow> (Inr p, w(f := p)) | FromCurrent d \<Rightarrow> (Inr (w f), w)),
     sys_seek_read := \<lambda>f n off w. (if n \<le> 2 then (Inr (replicate n 7), w(f := off + of_nat n))
       else (Inl None, w(f := off))),
     sys_seek_write := \<lambda>f bs off w. (Inr (length bs), w(f := off + of_nat (length bs)))\<rparr>"

lemma cursor_seeks: "seeks_cursor cursor_os (\<lambda>w. w)"
  by (auto simp: seeks_cursor_def cursor_os_def)

lemma win_positioned_access_keeps_cursor_witness:
  "win_fd_pread windows_consts cursor_os 5 2 9 (\<lambda>_. 0) = (Ok [7, 7], \<lambda>_. 0) \<and>
   win_fd_pwrite windows_consts cursor_os 5 [1, 2, 3] 9 (\<lambda>_. 0) = (Ok 3, \<lambda>_. 0) \<and>
   (\<exists>w1 w2. sys_seek_read cursor_os 5 2 9 w1 = (Inr [7, 7], w2)) \<and>
   (\<exists>w1 w2. sys_seek_write cursor_os 5 [1, 2, 3] 9 w1 = (Inr 3, w2)) \<and>
   (\<exists>x. win_fd_pread windows_consts cursor_os 5 3 9 (\<lambda>_. 0) = (Err x, (\<lambda>_. 0)(5 := 9)))"
proof -
  have e: "win_fd_pread windows_consts cursor_os 5 2 9 (\<lambda>_. 0) = (Ok [7, 7], \<lambda>_. 0)"
    "win_fd_pwrite windows_consts cursor_os 5 [1, 2, 3] 9 (\<lambda>_. 0) = (Ok 3, \<lambda>_. 0)"
    by (simp_all add: win_fd_pread_def win_fd_pwrite_def win_read_at_def win_write_at_def std_bind_def
        std_ok_def from_win_std_or_def cursor_os_def numeral_2_eq_2 fun_eq_iff)
  have f: "sys_seek cursor_os 5 (FromCurrent 0) (\<lambda>_. 0) = (Inr 0, \<lambda>_. 0)"
    "sys_seek_read cursor_os 5 3 9 (\<lambda>_. 0) = (Inl None, (\<lambda>_. 0)(5 := 9))"
    by (simp_all add: cursor_os_def)
  have "\<exists>x. win_fd_pread windows_consts cursor_os 5 3 9 (\<lambda>_. 0) = (Err x, (\<lambda>_. 0)(5 := 9))"
    using win_positioned_access_keeps_cursor [OF cursor_seeks, of windows_consts 5 3 9 "\<lambda>_. 0" "[]"
        "\<lambda>_. 0" "[]" 0] f by blast
  then show ?thesis
    using win_positioned_access_keeps_cursor [OF cursor_seeks, of windows_consts 5 2 9 "\<lambda>_. 0" "[7, 7]"
        "\<lambda>_. 0" "[1, 2, 3]" 3] e by blast
qed

text \<open>A directory in which every file exists already.\<close>

definition taken_os :: "raw_fd list win_os" where
  "taken_os = house_os\<lparr>sys_CreateFileW := \<lambda>_ _ _ _ _ w. (- 1, w), sys_GetLastError := \<lambda>_. 80\<rparr>"

lemma taken_create: "winx_openat windows_consts taken_os 1 (encode_wide [98]) ri di fl w =
    (Ok (Inl ERROR_FILE_EXISTS), w)"
proof -
  have "get_path_by_handle windows_consts taken_os 1 w = (Ok (Inr [92, 92, 63, 92, 67, 58, 92, 100]), w)"
    by (simp add: get_path_by_handle_def taken_os_def house_os_def idle_win_os_def io_bind_def
        io_call_def WIDE_MAX_PATH_def winx_ok_def std_os.defs win_os.defs)
  moreover have "win_last windows_consts taken_os w = ERROR_FILE_EXISTS"
    by (simp add: win_last_def taken_os_def win_from_u32_def windows_consts_def windows_codes_def
        winapi.defs win_codes.defs)
  moreover have "sys_CreateFileW taken_os p a b cc dd w = (- 1, w)" for p a b cc dd
    by (simp add: taken_os_def)
  ultimately show ?thesis
    using win_component_opened_below [of "[98]" windows_consts taken_os 1 w "[67, 58, 92, 100]" w]
    by (simp add: is_sep_def)
qed

definition taken_ctx :: wasi_ctx where
  "taken_ctx = \<lparr>fds = [(3, new_entry (File 7) (WASI_FILETYPE_DIRECTORY, WASI_RIGHT_PATH_CREATE_FILE, 0))],
     args = [], env = []\<rparr>"

lemma win_path_open_reports_enodev_witness:
  "win_path_open windows_consts taken_os taken_ctx 3 0 [98] (WASI_O_CREAT OR WASI_O_EXCL) False False
     0 0 0 [] = (Err WASI_ENODEV, [])"
proof -
  have t: "sys_try_clone taken_os f w = (Inr (fresh w), fresh w # w)" "sys_close taken_os d w = remove1 d w"
    for f d w by (simp_all add: taken_os_def)
  have f: "win_from_oflags windows_consts (WASI_O_CREAT OR WASI_O_EXCL) = (CREATE_NEW, 128)"
    "win_from_fdflags windows_consts 0 = (0, 0)"
    "win_needed_inheriting windows_consts (win_open_rights windows_consts False False OR 0) 0 = 0"
    "\<not> contains (128 OR 0) (winapi_FILE_FLAG_BACKUP_SEMANTICS windows_consts)"
    by code_simp+
  have g: "get_fd_entry taken_ctx 3 (win_needed_base CREATE_NEW 0) 0 =
      Ok (new_entry (File 7) (WASI_FILETYPE_DIRECTORY, WASI_RIGHT_PATH_CREATE_FILE, 0))"
    by (simp add: get_fd_entry_def taken_ctx_def validate_rights_def new_entry_def win_needed_base_def)
  have get: "win_path_get windows_consts taken_os taken_ctx 3 0 [98] (win_needed_base CREATE_NEW 0)
      (win_needed_inheriting windows_consts (win_open_rights windows_consts False False OR 0) 0)
      (\<not> contains (128 OR 0) (winapi_FILE_FLAG_BACKUP_SEMANTICS windows_consts)) [] = (Ok (1, [98]), [1])"
    unfolding f(3) using f(4) by (simp add: g t win_get_simps new_entry_def)
  have "win_path_open windows_consts taken_os taken_ctx 3 0 [98] (WASI_O_CREAT OR WASI_O_EXCL) False False
     0 0 0 [] = (Err WASI_ENODEV, sys_close taken_os 1 [1])"
    by (rule win_path_open_reports_enodev [OF f(1,2) get taken_create]) simp
  then show ?thesis by (simp add: t)
qed

lemma win_path_open_needs_sync_witness:
  "win_path_open windows_consts house_os desk_ctx 3 0 [97] 0 True False 0 0 0 [] =
     (Err WASI_ENOTCAPABLE, [])"
  by (rule win_path_open_needs_sync [where fe = desk_entry])
    (simp_all add: desk_ctx_def desk_entry_def new_entry_def)

end
