(* ===== verification/Spec2Isabelle.thy ===== *)
theory Spec2Isabelle
  imports Guest_Runs Abi_Laws Data_Transfer Call_Behaviour Windows_Examples
begin

text \<open>
  A verification library for \<^verbatim>\<open>wasi-common\<close>, the implementation of the WASI hostcalls that a
  WebAssembly runtime links.  A guest calls the functions of \<^verbatim>\<open>src/hostcalls\<close> with 32-bit
  pointers into its linear memory; they decode their arguments with \<^verbatim>\<open>src/memory.rs\<close>, look a
  descriptor up in the context of \<^verbatim>\<open>src/ctx.rs\<close> and check its rights, resolve paths below a
  preopened directory, ask the platform through \<^verbatim>\<open>src/sys\<close>, and encode the results into the memory.
  The state of a hostcall is a \<open>store\<close>: the context, the guest's memory and the state of the platform.

  \<^bold>\<open>Parameters.\<close>  The standard library's files, \<^verbatim>\<open>nix\<close>, \<^verbatim>\<open>libc\<close> and the Windows API are records of
  functions on an arbitrary state (\<open>os\<close>, \<open>win_os\<close>), their constants records \<open>libc\<close> and \<open>winapi\<close>;
  what a theorem needs of them is a named hypothesis that states their documentation.  The
  configuration of a build (width of pointers, byte order, tracing) is a \<open>target\<close>.  A panic is a
  result of its own (\<open>Panic\<close>, \<open>Panicked\<close>), and so is a read outside a slice.

  \<^bold>\<open>Theories and the code they model.\<close>
  \<^item> \<open>Prelude\<close>, \<open>Hash_Map\<close>, \<open>Utf8_Path\<close>, \<open>Win_Path\<close>: results with panics, words and bytes; the
    standard library's hash map, UTF-8 and UTF-16 strings, and paths of both platforms.
  \<^item> \<open>Wasi_Types\<close>, \<open>C_Layout\<close>, \<open>Wasm32_Abi\<close>, \<open>Host_Abi\<close>: \<^verbatim>\<open>src/host.rs\<close> and \<^verbatim>\<open>src/wasm32.rs\<close>: the
    types and constants the code uses, and all declarations with their layout tests.
  \<^item> \<open>Guest_Memory\<close>: \<^verbatim>\<open>src/memory.rs\<close>.  The locale \<open>pod\<close> is what a type stored in guest memory owes.
  \<^item> \<open>Host_Os\<close>, \<open>Nix_Host\<close>: the Unix platform, \<^verbatim>\<open>src/sys/unix/host_impl.rs\<close> and \<^verbatim>\<open>src/sys/mod.rs\<close>.
  \<^item> \<open>Fd_Entry\<close>, \<open>Wasi_Ctx\<close>: \<^verbatim>\<open>src/fdentry.rs\<close>, \<^verbatim>\<open>src/sys/unix/fdentry_impl.rs\<close>, \<^verbatim>\<open>src/ctx.rs\<close> and
    \<^verbatim>\<open>src/sys/unix/mod.rs\<close>: entries and their rights, the builder, the table of descriptors.
  \<^item> \<open>Path_Get\<close>, \<open>Unix_Fs\<close>: \<^verbatim>\<open>src/sys/unix/hostcalls_impl\<close> (\<^verbatim>\<open>fs_helpers.rs\<close> and \<^verbatim>\<open>fs.rs\<close>).
  \<^item> \<open>Hostcall_Base\<close>, \<open>Hostcalls_Fs\<close>, \<open>Hostcalls_Path\<close>, \<open>Hostcalls_Misc\<close>: \<^verbatim>\<open>src/hostcalls\<close> and
    \<^verbatim>\<open>src/sys/unix/hostcalls_impl/misc.rs\<close>, one definition for each hostcall.
  \<^item> \<open>Wasi_System\<close>: the calls as one datatype, their dispatch, and the steps of a running guest.
  \<^item> \<open>Winx_Error\<close>, \<open>Winx_File\<close>: \<^verbatim>\<open>winx/src/winerror.rs\<close> and \<^verbatim>\<open>winx/src/file.rs\<close>.
  \<^item> \<open>Windows_Host\<close>, \<open>Windows_Fs\<close>: \<^verbatim>\<open>src/sys/windows\<close>: its conversions, and its functions as
    \<^verbatim>\<open>win_<name>\<close>; most are unimplemented there and panic.  The hostcalls are composed with the Unix
    functions; those of Windows stand beside them, with the signatures the hostcalls expect.
  \<^item> \<open>Example_Os\<close>, \<open>Windows_Examples\<close>: platforms on which the theorems are applied.

  \<^bold>\<open>What the lemmas show.\<close>
  \<^item> Memory: round trips of the codec, little-endian storage, bounds of decoded buffers
    (\<open>Guest_Memory\<close>); the codec reads and stores every field where the declarations put it, the
    layout tests pass, both files agree on the constants (\<open>Abi_Laws\<close>).
  \<^item> Table of descriptors: numbering, the check of rights, the builder (\<open>Wasi_Ctx\<close>).
  \<^item> Path resolution: no descriptor leaks, the result lies below the preopened directory unless the
    run hands the platform a name with a separator after it (\<open>resolution_meets\<close> says what one run
    comes across), rejected paths, trailing separators, cycles of links (\<open>Path_Get\<close>); the locale
    \<open>path_inv\<close> is the interface of an invariant of its loop.  It panics only on names that reach
    \<^verbatim>\<open>PATH_MAX\<close>, and then it does (\<open>Unix_Laws\<close>).
  \<^item> Every hostcall: memory size and context are kept, numbers returned are defined ones, no call
    with short paths and representable times panics on a platform that behaves (\<open>Unix_Laws\<close>, \<open>Hostcall_Laws\<close>, \<open>Path_Laws\<close>, \<open>Table_Laws\<close>,
    \<open>Misc_Laws\<close>); along a run of a guest, rights only shrink (\<open>Guest_Runs\<close>).
  \<^item> Mediation: without its right a call returns an error and touches nothing but the place of its
    result (\<open>Mediation\<close>); the table refines a machine
    of capabilities (\<open>Capabilities\<close>, locale \<open>simulation\<close>).
  \<^item> Data: reads fill the guest's buffers, writes pass their bytes (\<open>Data_Transfer\<close>); opening grants
    one entry (\<open>Opening\<close>); arguments, preopened directories, termination of calls, and calls that do
    not do what their names say (\<open>Call_Behaviour\<close>).
  \<^item> Windows: path resolution goes down by plain names, a component is opened below its directory, no
    handle leaks, successful access at an offset keeps the cursor, and opens that fail (\<open>Windows_Laws\<close>).

  \<^bold>\<open>Bounds.\<close>  The loop of \<^verbatim>\<open>path_get\<close> ends because the number of links still to be expanded (128 at
  most, after which the code gives up) or the length of the paths to process decreases; the one on
  Windows because the paths get shorter.  An interrupted poll is repeated without a bound: \<open>poll_wait\<close> is a
  partial function, and every other loop is total; which calls do not return is stated exactly in
  \<open>Call_Behaviour\<close>.

  \<^bold>\<open>Not modelled.\<close>  \<^verbatim>\<open>wasi-common-cbindgen\<close>, a macro on the syntax of the crate; the build script and
  the tests; tracing, but for the calls of \<^verbatim>\<open>strerror\<close> and \<^verbatim>\<open>whence_to_str\<close> in it, which may panic; the
  conversion of directory entries of platforms other than Linux; the order in which a hash map is
  iterated, a parameter.  Integers that are never computed with, such as handles, are unbounded.
\<close>

end
